(* ===== verification/Prelude.thy ===== *)
theory Prelude
  imports Main "HOL-Library.Word" "HOL-Library.Sublist"
begin

text \<open>
  Shared vocabulary of the development: the outcome type of C code that may run into
  undefined behaviour, the decimal printing that \<^verbatim>\<open>printf\<close> performs, and the
  generic list lemmas that the component theories use.
\<close>

named_theorems cstr_simps \<open>computation rules of the C string routines\<close>
named_theorems cstr_dest \<open>what a successful C string routine says about its input\<close>

section \<open>Outcomes of C code\<close>

text \<open>
  A routine either returns a value, or it performs an access that the C standard leaves
  undefined (a null dereference, a write past a buffer, a use after free). The second
  outcome is a value of the model, so that a theorem can say that it is never reached.
\<close>

datatype 'a outcome = Ret 'a | Undefined

fun bind_outcome :: "'a outcome \<Rightarrow> ('a \<Rightarrow> 'b outcome) \<Rightarrow> 'b outcome" where
  "bind_outcome (Ret x) f = f x"
| "bind_outcome Undefined f = Undefined"

lemma bind_outcome_Ret_iff:
  "bind_outcome m f = Ret y \<longleftrightarrow> (\<exists>x. m = Ret x \<and> f x = Ret y)"
  by (cases m) auto

lemma bind_outcome_defined [intro]:
  "m \<noteq> Undefined \<Longrightarrow> (\<And>x. m = Ret x \<Longrightarrow> f x \<noteq> Undefined) \<Longrightarrow> bind_outcome m f \<noteq> Undefined"
  by (cases m) auto

lemma bind_outcome_undefinedD:
  "bind_outcome m f = Undefined \<Longrightarrow> m = Undefined \<or> (\<exists>x. m = Ret x \<and> f x = Undefined)"
  by (cases m) auto

section \<open>Decimal numbers\<close>

definition digit_char :: "nat \<Rightarrow> char" where
  "digit_char d = ''0123456789'' ! d"

fun show_nat :: "nat \<Rightarrow> string" where
  "show_nat n = (if n < 10 then [digit_char n] else show_nat (n div 10) @ [digit_char (n mod 10)])"

declare show_nat.simps [simp del]

definition show_int :: "int \<Rightarrow> string" where
  "show_int i = (if i < 0 then CHR ''-'' # show_nat (nat (- i)) else show_nat (nat i))"

definition digit_value :: "char \<Rightarrow> nat" where
  "digit_value c = of_char c - 48"

definition read_nat :: "string \<Rightarrow> nat" where
  "read_nat s = foldl (\<lambda>acc c. 10 * acc + digit_value c) 0 s"

lemma digit_value_char: "d < 10 \<Longrightarrow> digit_value (digit_char d) = d"
  by (auto simp: digit_value_def digit_char_def less_Suc_eq numeral_eq_Suc)

lemma digit_char_set: "d < 10 \<Longrightarrow> digit_char d \<in> set ''0123456789''"
  unfolding digit_char_def by (rule nth_mem) simp

lemma set_show_nat: "set (show_nat n) \<subseteq> set ''0123456789''"
proof (induction n rule: show_nat.induct)
  case (1 n)
  show ?case
  proof (cases "n < 10")
    case True
    then show ?thesis using digit_char_set [of n] by (subst show_nat.simps) simp
  next
    case False
    then have "set (show_nat (n div 10)) \<subseteq> set ''0123456789''" by (rule "1.IH")
    moreover have "digit_char (n mod 10) \<in> set ''0123456789''"
      by (rule digit_char_set) simp
    ultimately show ?thesis using False by (subst show_nat.simps) auto
  qed
qed

lemma show_nat_nonempty [simp]: "show_nat n \<noteq> []"
  by (subst show_nat.simps) simp

lemma read_show_nat: "read_nat (show_nat n) = n"
proof (induction n rule: show_nat.induct)
  case (1 n)
  show ?case
  proof (cases "n < 10")
    case True
    then show ?thesis by (subst show_nat.simps) (simp add: read_nat_def digit_value_char)
  next
    case False
    with "1.IH" have "foldl (\<lambda>acc c. 10 * acc + digit_value c) 0 (show_nat (n div 10)) = n div 10"
      by (simp add: read_nat_def)
    with False show ?thesis
      by (subst show_nat.simps) (simp add: read_nat_def digit_value_char)
  qed
qed

lemma length_show_nat_le:
  "n < 10 ^ k \<Longrightarrow> 0 < k \<Longrightarrow> length (show_nat n) \<le> k"
proof (induction n arbitrary: k rule: show_nat.induct)
  case (1 n)
  show ?case
  proof (cases "n < 10")
    case True
    with "1.prems" show ?thesis by (subst show_nat.simps) simp
  next
    case False
    then obtain j where k: "k = Suc j" "0 < j"
      using "1.prems" by (cases k; cases "k - 1") auto
    with "1.prems" have "n div 10 < 10 ^ j" by (simp add: less_mult_imp_div_less mult.commute)
    with "1.IH" [OF False] k have "length (show_nat (n div 10)) \<le> j" by blast
    with False k show ?thesis by (subst show_nat.simps) simp
  qed
qed

lemma show_nat_drop_last_digit:
  "10 \<le> n \<Longrightarrow> butlast (show_nat n) = show_nat (n div 10)"
  by (subst show_nat.simps) simp

lemma length_show_nat_ge:
  "10 ^ k \<le> n \<Longrightarrow> k < length (show_nat n)"
proof (induction k arbitrary: n)
  case 0
  then show ?case by simp
next
  case (Suc k)
  then have "10 \<le> n" and "10 ^ k \<le> n div 10"
    by (auto simp: less_eq_div_iff_mult_less_eq mult.commute intro: order_trans [rotated])
  with Suc.IH [of "n div 10"] show ?case by (subst show_nat.simps) simp
qed

lemma unat_bound: "unat (w :: 'a::len word) < 2 ^ LENGTH('a)"
  by (rule unsigned_less)

section \<open>Lists\<close>

lemma takeWhile_append_stop:
  "\<forall>x \<in> set xs. P x \<Longrightarrow> \<not> P y \<Longrightarrow> takeWhile P (xs @ y # ys) = xs"
  by (induction xs) auto

lemma dropWhile_append_stop:
  "\<forall>x \<in> set xs. P x \<Longrightarrow> \<not> P y \<Longrightarrow> dropWhile P (xs @ y # ys) = y # ys"
  by (induction xs) auto

lemma sublist_split_at:
  assumes "sublist k (xs @ d # ys)" and "d \<notin> set k"
  shows "sublist k xs \<or> sublist k ys"
proof -
  from assms(1) obtain p s where eq: "p @ k @ s = xs @ d # ys"
    by (auto simp: sublist_def)
  then consider (left) u where "p @ k = xs @ u" "u @ s = d # ys" "u = []"
    | (right) u where "p = xs @ d # u" "ys = u @ k @ s"
    | (inside) u where "xs = (p @ k) @ u"
    using assms(2) by (fastforce simp: append_eq_append_conv2 append_eq_Cons_conv Cons_eq_append_conv)
  then show ?thesis
  proof cases
    case left
    then show ?thesis by (metis append_Nil2 sublist_append_rightI sublist_order.order_refl sublist_appendI)
  next
    case right
    then show ?thesis by (auto simp: sublist_def)
  next
    case inside
    then show ?thesis by (auto simp: sublist_def)
  qed
qed

section \<open>Text codecs\<close>

text \<open>
  The program names objects and stores records as text. The interface of such a text form:
  decoding an encoded value gives it back.
\<close>

locale codec =
  fixes enc :: "'a \<Rightarrow> 'b" and dec :: "'b \<Rightarrow> 'a option" and valid :: "'a \<Rightarrow> bool"
  assumes dec_enc: "valid a \<Longrightarrow> dec (enc a) = Some a"
begin

lemma enc_inj: "valid a \<Longrightarrow> valid b \<Longrightarrow> enc a = enc b \<Longrightarrow> a = b"
  using dec_enc by (metis option.inject)

lemma enc_inj_on: "inj_on enc (Collect valid)"
  by (auto intro!: inj_onI enc_inj)

lemma distinct_enc: "distinct xs \<Longrightarrow> (\<forall>x \<in> set xs. valid x) \<Longrightarrow> distinct (map enc xs)"
  by (auto simp: distinct_map intro: inj_on_subset [OF enc_inj_on])

end

interpretation decimal: codec show_nat "\<lambda>s. Some (read_nat s)" "\<lambda>_. True"
  by unfold_locales (simp add: read_show_nat)

section \<open>Calls of a service\<close>

text \<open>
  What the documentation of a service says of its calls, over what it keeps: a query changes nothing, and
  its answer, if any, is right; a change that fails changes nothing.
\<close>

definition query_call :: "('x \<Rightarrow> 's) \<Rightarrow> ('k \<Rightarrow> 'x \<Rightarrow> 'r option \<times> 'x) \<Rightarrow> ('s \<Rightarrow> 'k \<Rightarrow> 'r \<Rightarrow> bool) \<Rightarrow> bool" where
  "query_call view f ans \<longleftrightarrow>
     (\<forall>k x r x'. f k x = (r, x') \<longrightarrow> view x' = view x \<and> (\<forall>v. r = Some v \<longrightarrow> ans (view x) k v))"

definition change_call :: "('x \<Rightarrow> 's) \<Rightarrow> ('k \<Rightarrow> 'x \<Rightarrow> bool \<times> 'x) \<Rightarrow> ('s \<Rightarrow> 'k \<Rightarrow> 's) \<Rightarrow> bool" where
  "change_call view f effect \<longleftrightarrow>
     (\<forall>k x r x'. f k x = (r, x') \<longrightarrow> view x' = (if r then effect (view x) k else view x))"

lemma query_callD:
  "query_call view f ans \<Longrightarrow> f k x = (r, x') \<Longrightarrow> view x' = view x"
  "query_call view f ans \<Longrightarrow> f k x = (Some v, x') \<Longrightarrow> ans (view x) k v"
  by (auto simp: query_call_def)

lemma change_callD:
  "change_call view f effect \<Longrightarrow> f k x = (r, x') \<Longrightarrow> view x' = (if r then effect (view x) k else view x)"
  by (simp add: change_call_def)

lemma change_call_snd:
  "change_call view f effect \<Longrightarrow> view (snd (f k x)) = (if fst (f k x) then effect (view x) k else view x)"
  by (cases "f k x") (auto dest: change_callD)

end
