(* ===== verification/JobQueue.thy ===== *)
theory JobQueue
  imports Prelude
begin

text \<open>
  The asynchronous job queue of \<^verbatim>\<open>src/Xen_Job_Helper.c\<close>: callers enqueue jobs on a
  linked list, one worker thread takes them off and runs them, and the provider's load and
  unload functions start and cancel the worker. The threads interleave between the
  operations on the two mutexes and the condition variable; each step below is what one
  thread does between two such operations. \<^verbatim>\<open>submitted\<close> and \<^verbatim>\<open>finished\<close> are
  history variables that no step reads.
\<close>

section \<open>The work item list\<close>

fun append_last :: "'j \<Rightarrow> 'j list \<Rightarrow> 'j list" where
  "append_last job [] = []"
| "append_last job [lastitem] = [lastitem, job]"
| "append_last job (item # next # rest) = item # append_last job (next # rest)"

definition workitem_push :: "'j \<Rightarrow> 'j list \<Rightarrow> 'j list" where
  "workitem_push job items = (if items = [] then [job] else append_last job items)"

definition workitem_take :: "'j list \<Rightarrow> ('j \<times> 'j list) option" where
  "workitem_take items = (case items of [] \<Rightarrow> None | item # next \<Rightarrow> Some (item, next))"

locale fifo =
  fixes enq :: "'j \<Rightarrow> 'q \<Rightarrow> 'q" and deq :: "'q \<Rightarrow> ('j \<times> 'q) option" and items :: "'q \<Rightarrow> 'j list"
  assumes items_enq: "items (enq j q) = items q @ [j]"
    and deq_None: "deq q = None \<longleftrightarrow> items q = []"
    and deq_Some: "deq q = Some (j, q') \<Longrightarrow> items q = j # items q'"
begin

lemma enq_not_empty: "deq (enq j q) \<noteq> None"
  by (simp add: deq_None items_enq)

lemma deq_conserves: "deq q = Some (j, q') \<Longrightarrow> pre @ j # items q' = pre @ items q"
  by (simp add: deq_Some)

end

lemma append_last_append: "items \<noteq> [] \<Longrightarrow> append_last job items = items @ [job]"
  by (induction job items rule: append_last.induct) auto

interpretation lq: fifo workitem_push workitem_take "\<lambda>q. q"
  by unfold_locales (auto simp: workitem_push_def workitem_take_def append_last_append split: list.splits)

section \<open>The threads\<close>

datatype thread = TWorker | TMain | TCaller nat

datatype 'j worker_pc =
    WOff | WLockCond | WLockList | WTake | WCheck "'j option" | WWait | WWoken
  | WRun 'j | WDone | WDead

datatype 'j caller_pc = EIdle | ELockList 'j | EPush 'j | ELockCond | ESignal | EUnlock

datatype main_pc = MIdle | MInitLock | MCreate | MUninitLock | MCancel | MJoin | MCrash

record 'j job_sys =
  queue :: "'j list"
  working :: bool
  handle :: bool
  list_mutex :: "thread option"
  cond_mutex :: "thread option"
  cancelled :: bool
  wpc :: "'j worker_pc"
  epc :: "nat \<Rightarrow> 'j caller_pc"
  mpc :: main_pc
  submitted :: "'j list"
  finished :: "('j \<times> bool) list"

definition jobs_init :: "'j job_sys" where
  "jobs_init = \<lparr>queue = [], working = False, handle = False, list_mutex = None, cond_mutex = None,
     cancelled = False, wpc = WOff, epc = (\<lambda>_. EIdle), mpc = MIdle, submitted = [], finished = []\<rparr>"

definition jobs_running :: "'j job_sys \<Rightarrow> bool" where
  "jobs_running s \<longleftrightarrow> queue s \<noteq> [] \<or> working s"

text \<open>
  The worker: \<^verbatim>\<open>job_worker_thread_func\<close> with \<^verbatim>\<open>_workitem_dequeue\<close> inlined.
  Waiting on the condition variable gives the mutex back; a cancelled wait takes the mutex
  again and ends the thread, which then still owns it. \<^verbatim>\<open>ok\<close> is whether the call
  context and the Xen session of the job could be set up: the callback runs only then, and
  the job is freed in either case.
\<close>

fun worker_step :: "bool \<Rightarrow> 'j job_sys \<Rightarrow> 'j job_sys option" where
  "worker_step ok s =
     (case wpc s of
        WOff \<Rightarrow> None
      | WLockCond \<Rightarrow>
          if cond_mutex s = None
          then Some (s\<lparr>cond_mutex := Some TWorker, wpc := WLockList\<rparr>) else None
      | WLockList \<Rightarrow>
          if list_mutex s = None
          then Some (s\<lparr>list_mutex := Some TWorker, wpc := WTake\<rparr>) else None
      | WTake \<Rightarrow>
          (case workitem_take (queue s) of
             None \<Rightarrow> Some (s\<lparr>list_mutex := None, wpc := WCheck None\<rparr>)
           | Some (job, next) \<Rightarrow>
               Some (s\<lparr>working := True, queue := next, list_mutex := None, wpc := WCheck (Some job)\<rparr>))
      | WCheck None \<Rightarrow> Some (s\<lparr>working := False, cond_mutex := None, wpc := WWait\<rparr>)
      | WCheck (Some job) \<Rightarrow> Some (s\<lparr>cond_mutex := None, wpc := WRun job\<rparr>)
      | WWait \<Rightarrow>
          if cancelled s \<and> cond_mutex s = None
          then Some (s\<lparr>cond_mutex := Some TWorker, wpc := WDead\<rparr>) else None
      | WWoken \<Rightarrow>
          if cond_mutex s = None
          then Some (s\<lparr>cond_mutex := Some TWorker, wpc := WLockList\<rparr>) else None
      | WRun job \<Rightarrow> Some (s\<lparr>finished := finished s @ [(job, ok)], wpc := WDone\<rparr>)
      | WDone \<Rightarrow> Some (s\<lparr>working := False, wpc := WLockCond\<rparr>)
      | WDead \<Rightarrow> None)"

definition wake_up :: "'j job_sys \<Rightarrow> 'j job_sys" where
  "wake_up s = (if wpc s = WWait then s\<lparr>wpc := WWoken\<rparr> else s)"

text \<open>A caller in \<^verbatim>\<open>_workitem_enqueue\<close>.\<close>

fun caller_step :: "nat \<Rightarrow> 'j job_sys \<Rightarrow> 'j job_sys option" where
  "caller_step c s =
     (case epc s c of
        EIdle \<Rightarrow> None
      | ELockList job \<Rightarrow>
          if list_mutex s = None
          then Some (s\<lparr>list_mutex := Some (TCaller c), epc := (epc s)(c := EPush job)\<rparr>) else None
      | EPush job \<Rightarrow>
          Some (s\<lparr>queue := workitem_push job (queue s), submitted := submitted s @ [job],
                  list_mutex := None, epc := (epc s)(c := ELockCond)\<rparr>)
      | ELockCond \<Rightarrow>
          if cond_mutex s = None
          then Some (s\<lparr>cond_mutex := Some (TCaller c), epc := (epc s)(c := ESignal)\<rparr>) else None
      | ESignal \<Rightarrow> Some ((wake_up s)\<lparr>epc := (epc s)(c := EUnlock)\<rparr>)
      | EUnlock \<Rightarrow> Some (s\<lparr>cond_mutex := None, epc := (epc s)(c := EIdle)\<rparr>))"

text \<open>
  The provider's load and unload: \<^verbatim>\<open>jobs_initialize\<close> creates the worker when its
  handle is still zero (\<^verbatim>\<open>err\<close>: the creation fails), \<^verbatim>\<open>jobs_uninitialize\<close>
  cancels and joins it when no job is running. The handle is never set back. Cancelling a
  thread that was not created, or was joined before, is undefined (\<^verbatim>\<open>MCrash\<close>).
\<close>

fun main_step :: "bool \<Rightarrow> 'j job_sys \<Rightarrow> 'j job_sys option" where
  "main_step err s =
     (case mpc s of
        MIdle \<Rightarrow> None
      | MInitLock \<Rightarrow>
          if list_mutex s = None
          then Some (s\<lparr>list_mutex := Some TMain, mpc := MCreate\<rparr>) else None
      | MCreate \<Rightarrow>
          if \<not> handle s \<and> \<not> err
          then Some (s\<lparr>handle := True, wpc := WLockCond, list_mutex := None, mpc := MIdle\<rparr>)
          else Some (s\<lparr>list_mutex := None, mpc := MIdle\<rparr>)
      | MUninitLock \<Rightarrow>
          if list_mutex s = None
          then Some (s\<lparr>list_mutex := Some TMain, mpc := MCancel\<rparr>) else None
      | MCancel \<Rightarrow>
          if \<not> jobs_running s
          then (if wpc s = WOff \<or> wpc s = WDead then Some (s\<lparr>mpc := MCrash\<rparr>)
                else Some (s\<lparr>cancelled := True, mpc := MJoin\<rparr>))
          else Some (s\<lparr>list_mutex := None, mpc := MIdle\<rparr>)
      | MJoin \<Rightarrow>
          if wpc s = WDead
          then Some (s\<lparr>list_mutex := None, mpc := MIdle\<rparr>) else None
      | MCrash \<Rightarrow> None)"

text \<open>An event names the thread that moves, or the call it makes.\<close>

datatype 'j event =
    Work bool | Spurious | Submit nat 'j | Call nat | Load | Unload | Main bool

fun job_step :: "'j event \<Rightarrow> 'j job_sys \<Rightarrow> 'j job_sys option" where
  "job_step (Work ok) s = worker_step ok s"
| "job_step Spurious s = (if wpc s = WWait then Some (wake_up s) else None)"
| "job_step (Submit c job) s =
     (if epc s c = EIdle then Some (s\<lparr>epc := (epc s)(c := ELockList job)\<rparr>) else None)"
| "job_step (Call c) s = caller_step c s"
| "job_step Load s = (if mpc s = MIdle then Some (s\<lparr>mpc := MInitLock\<rparr>) else None)"
| "job_step Unload s = (if mpc s = MIdle then Some (s\<lparr>mpc := MUninitLock\<rparr>) else None)"
| "job_step (Main err) s = main_step err s"

inductive job_reach :: "'j job_sys \<Rightarrow> bool" where
  start: "job_reach jobs_init"
| step: "job_reach s \<Longrightarrow> job_step e s = Some s' \<Longrightarrow> job_reach s'"

fun job_run :: "'j event list \<Rightarrow> 'j job_sys \<Rightarrow> 'j job_sys option" where
  "job_run [] s = Some s"
| "job_run (e # es) s = (case job_step e s of None \<Rightarrow> None | Some s' \<Rightarrow> job_run es s')"

lemma job_run_reach: "job_reach s \<Longrightarrow> job_run es s = Some s' \<Longrightarrow> job_reach s'"
  by (induction es arbitrary: s) (auto split: option.splits intro: job_reach.step)

section \<open>The invariant\<close>

text \<open>Who is inside which critical section.\<close>

fun worker_owns_list :: "'j worker_pc \<Rightarrow> bool" where
  "worker_owns_list WTake = True" | "worker_owns_list _ = False"

fun worker_owns_cond :: "'j worker_pc \<Rightarrow> bool" where
  "worker_owns_cond WLockList = True" | "worker_owns_cond WTake = True"
| "worker_owns_cond (WCheck _) = True" | "worker_owns_cond WDead = True"
| "worker_owns_cond _ = False"

fun caller_owns_list :: "'j caller_pc \<Rightarrow> bool" where
  "caller_owns_list (EPush _) = True" | "caller_owns_list _ = False"

fun caller_owns_cond :: "'j caller_pc \<Rightarrow> bool" where
  "caller_owns_cond ESignal = True" | "caller_owns_cond EUnlock = True"
| "caller_owns_cond _ = False"

definition main_owns_list :: "main_pc \<Rightarrow> bool" where
  "main_owns_list m \<longleftrightarrow> m \<in> {MCreate, MCancel, MJoin, MCrash}"

definition locks_agree :: "'j job_sys \<Rightarrow> bool" where
  "locks_agree s \<longleftrightarrow>
     (worker_owns_list (wpc s) \<longleftrightarrow> list_mutex s = Some TWorker) \<and>
     (main_owns_list (mpc s) \<longleftrightarrow> list_mutex s = Some TMain) \<and>
     (\<forall>c. caller_owns_list (epc s c) \<longleftrightarrow> list_mutex s = Some (TCaller c)) \<and>
     (worker_owns_cond (wpc s) \<longleftrightarrow> cond_mutex s = Some TWorker) \<and>
     cond_mutex s \<noteq> Some TMain \<and>
     (\<forall>c. caller_owns_cond (epc s c) \<longleftrightarrow> cond_mutex s = Some (TCaller c))"

fun held :: "'j worker_pc \<Rightarrow> 'j list" where
  "held (WCheck (Some job)) = [job]" | "held (WRun job) = [job]" | "held _ = []"

fun settled :: "'j worker_pc \<Rightarrow> bool" where
  "settled WWait = True" | "settled WWoken = True" | "settled WOff = True" | "settled WDead = True"
| "settled _ = False"

definition queue_inv :: "'j job_sys \<Rightarrow> bool" where
  "queue_inv s \<longleftrightarrow>
     map fst (finished s) @ held (wpc s) @ queue s = submitted s \<and>
     (held (wpc s) \<noteq> [] \<longrightarrow> working s) \<and>
     (settled (wpc s) \<longrightarrow> \<not> working s) \<and>
     (handle s \<longleftrightarrow> wpc s \<noteq> WOff)"

text \<open>
  A worker that is about to wait has seen an empty list, so every job that has been added
  since is followed by a caller that has not signalled yet.
\<close>

fun about_to_wait :: "'j worker_pc \<Rightarrow> bool" where
  "about_to_wait (WCheck None) = True" | "about_to_wait WWait = True" | "about_to_wait _ = False"

fun will_signal :: "'j caller_pc \<Rightarrow> bool" where
  "will_signal ELockCond = True" | "will_signal ESignal = True" | "will_signal _ = False"

definition signal_inv :: "'j job_sys \<Rightarrow> bool" where
  "signal_inv s \<longleftrightarrow>
     (about_to_wait (wpc s) \<and> queue s \<noteq> [] \<longrightarrow> (\<exists>c. will_signal (epc s c)))"

lemma locks_agree_init: "locks_agree jobs_init"
  by (simp add: locks_agree_def jobs_init_def main_owns_list_def)

lemma worker_step_locks: "worker_step ok s = Some s' \<Longrightarrow> locks_agree s \<Longrightarrow> locks_agree s'"
  by (cases "wpc s"; clarsimp simp: locks_agree_def split: if_splits option.splits)

lemma locks_agree_caller:
  "locks_agree s \<Longrightarrow>
   (caller_owns_list (epc s c) \<longleftrightarrow> list_mutex s = Some (TCaller c)) \<and>
   (caller_owns_cond (epc s c) \<longleftrightarrow> cond_mutex s = Some (TCaller c))"
  by (simp add: locks_agree_def)

lemma caller_step_locks:
  assumes step: "caller_step c s = Some s'" and inv: "locks_agree s"
  shows "locks_agree s'"
  using locks_agree_caller [OF inv, of c] inv step
  by (cases "epc s c"; cases "wpc s"; clarsimp simp: locks_agree_def wake_up_def split: if_splits)

lemma main_step_locks: "main_step err s = Some s' \<Longrightarrow> locks_agree s \<Longrightarrow> queue_inv s \<Longrightarrow> locks_agree s'"
  by (cases "mpc s"; clarsimp simp: locks_agree_def queue_inv_def main_owns_list_def split: if_splits)

lemma wake_up_locks: "locks_agree s \<Longrightarrow> locks_agree (wake_up s)"
  by (cases "wpc s") (simp_all add: locks_agree_def wake_up_def)

lemma submit_locks:
  "locks_agree s \<Longrightarrow> epc s c = EIdle \<Longrightarrow> locks_agree (s\<lparr>epc := (epc s)(c := ELockList job)\<rparr>)"
  using locks_agree_caller [of s c] by (clarsimp simp: locks_agree_def)

lemma job_step_locks: "job_step e s = Some s' \<Longrightarrow> locks_agree s \<Longrightarrow> queue_inv s \<Longrightarrow> locks_agree s'"
proof (cases e)
  case (Submit c job)
  assume "job_step e s = Some s'" "locks_agree s"
  with Submit show ?thesis by (auto simp: submit_locks split: if_splits)
next
  case Load
  assume "job_step e s = Some s'" "locks_agree s"
  with Load show ?thesis by (clarsimp simp: locks_agree_def main_owns_list_def split: if_splits)
next
  case Unload
  assume "job_step e s = Some s'" "locks_agree s"
  with Unload show ?thesis by (clarsimp simp: locks_agree_def main_owns_list_def split: if_splits)
next
  case Spurious
  assume "job_step e s = Some s'" "locks_agree s"
  with Spurious show ?thesis by (auto simp: wake_up_locks split: if_splits)
qed (auto dest: worker_step_locks caller_step_locks main_step_locks
      simp del: worker_step.simps caller_step.simps main_step.simps)

subsection \<open>Every job runs once, in order\<close>

lemma queue_inv_init: "queue_inv jobs_init"
  by (simp add: queue_inv_def jobs_init_def)

lemma worker_step_queue: "worker_step ok s = Some s' \<Longrightarrow> queue_inv s \<Longrightarrow> queue_inv s'"
  by (cases "wpc s"; clarsimp simp: queue_inv_def workitem_take_def split: if_splits option.splits list.splits)

lemma caller_step_queue:
  assumes step: "caller_step c s = Some s'" and inv: "queue_inv s"
  shows "queue_inv s'"
  using inv step
  by (cases "epc s c"; cases "wpc s";
      fastforce simp: queue_inv_def wake_up_def lq.items_enq split: if_splits)

lemma main_step_queue: "main_step err s = Some s' \<Longrightarrow> queue_inv s \<Longrightarrow> queue_inv s'"
  by (cases "mpc s"; clarsimp simp: queue_inv_def split: if_splits)

lemma job_step_queue: "job_step e s = Some s' \<Longrightarrow> queue_inv s \<Longrightarrow> queue_inv s'"
  by (cases e) (auto dest: worker_step_queue caller_step_queue main_step_queue
      simp: queue_inv_def wake_up_def
      simp del: worker_step.simps caller_step.simps main_step.simps split: if_splits)

subsection \<open>No wake-up is lost\<close>

lemma signal_inv_init: "signal_inv jobs_init"
  by (simp add: signal_inv_def jobs_init_def)

lemma worker_step_signal: "worker_step ok s = Some s' \<Longrightarrow> signal_inv s \<Longrightarrow> signal_inv s'"
  by (cases "wpc s"; clarsimp simp: signal_inv_def workitem_take_def split: if_splits option.splits list.splits)

lemma other_caller_signals:
  "\<exists>c. will_signal (f c) \<Longrightarrow> \<not> will_signal (f c0) \<Longrightarrow> \<exists>c. will_signal ((f(c0 := pc)) c)"
  by (metis fun_upd_other)

text \<open>A caller signals only while it owns the condition's mutex, so not between the worker's
  check of the list and its wait.\<close>

lemma caller_step_signal:
  assumes step: "caller_step c s = Some s'" and inv: "signal_inv s" and locks: "locks_agree s"
  shows "signal_inv s'"
proof (cases "epc s c")
  case ESignal
  then have "cond_mutex s = Some (TCaller c)" using locks_agree_caller [OF locks, of c] by simp
  then have "\<not> worker_owns_cond (wpc s)" using locks by (simp add: locks_agree_def)
  then show ?thesis using step ESignal
    by (cases "wpc s") (auto simp: signal_inv_def wake_up_def)
next
  case (EPush job)
  then show ?thesis using step by (auto simp: signal_inv_def)
next
  case ELockCond
  then show ?thesis using step by (auto simp: signal_inv_def split: if_splits)
qed (use step inv other_caller_signals [of "epc s" c] in \<open>clarsimp simp: signal_inv_def split: if_splits\<close>)+

lemma main_step_signal: "main_step err s = Some s' \<Longrightarrow> signal_inv s \<Longrightarrow> signal_inv s'"
  by (cases "mpc s"; clarsimp simp: signal_inv_def split: if_splits)

lemma job_step_signal:
  "job_step e s = Some s' \<Longrightarrow> signal_inv s \<Longrightarrow> locks_agree s \<Longrightarrow> signal_inv s'"
proof (cases e)
  case (Submit c job)
  assume "job_step e s = Some s'" "signal_inv s"
  with Submit other_caller_signals [of "epc s" c] show ?thesis
    by (clarsimp simp: signal_inv_def split: if_splits)
next
  case Spurious
  assume "job_step e s = Some s'"
  with Spurious show ?thesis by (auto simp: signal_inv_def wake_up_def split: if_splits)
next
  case Load
  assume "job_step e s = Some s'" "signal_inv s"
  with Load show ?thesis by (auto simp: signal_inv_def split: if_splits)
next
  case Unload
  assume "job_step e s = Some s'" "signal_inv s"
  with Unload show ?thesis by (auto simp: signal_inv_def split: if_splits)
qed (auto dest: worker_step_signal caller_step_signal main_step_signal
      simp del: worker_step.simps caller_step.simps main_step.simps)

subsection \<open>Reachable states\<close>

definition job_inv :: "'j job_sys \<Rightarrow> bool" where
  "job_inv s \<longleftrightarrow> locks_agree s \<and> queue_inv s \<and> signal_inv s"

lemma job_reach_inv: "job_reach s \<Longrightarrow> job_inv s"
proof (induction rule: job_reach.induct)
  case start
  show ?case by (simp add: job_inv_def locks_agree_init queue_inv_init signal_inv_init)
next
  case (step s e s')
  then show ?case
    unfolding job_inv_def by (blast intro: job_step_locks job_step_queue job_step_signal)
qed

lemma job_reach_locks: "job_reach s \<Longrightarrow> locks_agree s"
  and job_reach_queue: "job_reach s \<Longrightarrow> queue_inv s"
  and job_reach_signal: "job_reach s \<Longrightarrow> signal_inv s"
  using job_reach_inv by (auto simp: job_inv_def)

section \<open>Progress\<close>

text \<open>
  A thread that cannot move waits for a mutex whose owner can: the owner of the list's mutex
  never waits (apart from a joining unload), and the owner of the condition's mutex waits at
  most for the list's.
\<close>

definition can_move :: "'j job_sys \<Rightarrow> bool" where
  "can_move s \<longleftrightarrow> (\<exists>ok s'. worker_step ok s = Some s') \<or> (\<exists>c s'. caller_step c s = Some s') \<or>
     (\<exists>err s'. main_step err s = Some s')"

lemma list_owner_moves:
  assumes inv: "locks_agree s" and own: "list_mutex s = Some t" and main: "mpc s \<noteq> MJoin" "mpc s \<noteq> MCrash"
  shows "can_move s"
proof (cases t)
  case TWorker
  with inv own have "worker_owns_list (wpc s)" by (simp add: locks_agree_def)
  then have "wpc s = WTake" by (cases "wpc s") auto
  then have "\<exists>s'. worker_step False s = Some s'" by (auto split: option.split)
  then show ?thesis by (auto simp only: can_move_def)
next
  case TMain
  with inv own have "main_owns_list (mpc s)" by (simp add: locks_agree_def)
  with main have "\<exists>s'. main_step True s = Some s'" by (auto simp: main_owns_list_def)
  then show ?thesis by (auto simp only: can_move_def)
next
  case (TCaller c)
  with inv own have "caller_owns_list (epc s c)" by (simp add: locks_agree_def)
  then have "\<exists>s'. caller_step c s = Some s'" by (cases "epc s c") auto
  then show ?thesis by (auto simp only: can_move_def)
qed

lemma cond_owner_moves:
  assumes inv: "locks_agree s" and own: "cond_mutex s = Some t" and alive: "wpc s \<noteq> WDead"
    and free: "list_mutex s = None"
  shows "can_move s"
proof (cases t)
  case TWorker
  with inv own have "worker_owns_cond (wpc s)" by (simp add: locks_agree_def)
  with alive free have "\<exists>s'. worker_step False s = Some s'"
    by (cases "wpc s"; auto split: option.split simp: locks_agree_def)
  then show ?thesis by (auto simp only: can_move_def)
next
  case TMain
  with inv own show ?thesis by (simp add: locks_agree_def)
next
  case (TCaller c)
  with inv own have "caller_owns_cond (epc s c)" by (simp add: locks_agree_def)
  then have "\<exists>s'. caller_step c s = Some s'" by (cases "epc s c") auto
  then show ?thesis by (auto simp only: can_move_def)
qed

lemma free_mutexes_move:
  assumes inv: "signal_inv s" "locks_agree s" and free: "list_mutex s = None" "cond_mutex s = None"
    and created: "wpc s \<noteq> WOff" and work: "queue s \<noteq> []"
  shows "can_move s"
proof (cases "wpc s = WWait")
  case True
  with inv work obtain c where "will_signal (epc s c)" by (auto simp: signal_inv_def)
  with free have "\<exists>s'. caller_step c s = Some s'" by (cases "epc s c") auto
  then show ?thesis by (auto simp only: can_move_def)
next
  case False
  have "\<not> worker_owns_cond (wpc s)" using inv free by (simp add: locks_agree_def)
  with False created free have "\<exists>s'. worker_step False s = Some s'"
    by (cases "wpc s"; auto split: option.split)
  then show ?thesis by (auto simp only: can_move_def)
qed

text \<open>One round of the worker on a non-empty list, and the last round that goes to sleep.\<close>

lemma job_run_append: "job_run (es @ fs) s = (case job_run es s of None \<Rightarrow> None | Some s' \<Rightarrow> job_run fs s')"
  by (induction es arbitrary: s) (auto split: option.splits)

lemma worker_round:
  assumes "wpc s = WLockCond" "cond_mutex s = None" "list_mutex s = None" "queue s = j # q"
  shows "job_run (replicate 6 (Work ok)) s =
    Some (s\<lparr>queue := q, working := False, finished := finished s @ [(j, ok)]\<rparr>)"
  using assms by (simp add: numeral_eq_Suc workitem_take_def)

lemma worker_sleeps:
  assumes "wpc s = WLockCond" "cond_mutex s = None" "list_mutex s = None" "queue s = []"
  shows "job_run (replicate 4 (Work ok)) s = Some (s\<lparr>working := False, wpc := WWait\<rparr>)"
  using assms by (simp add: numeral_eq_Suc workitem_take_def)

lemma worker_drains:
  assumes "wpc s = WLockCond" "cond_mutex s = None" "list_mutex s = None"
  shows "job_run (replicate (6 * length (queue s) + 4) (Work ok)) s =
    Some (s\<lparr>queue := [], working := False, wpc := WWait,
            finished := finished s @ map (\<lambda>j. (j, ok)) (queue s)\<rparr>)"
  using assms
proof (induction "queue s" arbitrary: s)
  case Nil
  then show ?case using worker_sleeps [of s ok] by simp
next
  case (Cons j q)
  let ?s = "s\<lparr>queue := q, working := False, finished := finished s @ [(j, ok)]\<rparr>"
  have n: "6 * length (queue s) + 4 = 6 + (6 * length q + 4)" using Cons.hyps(2) by (metis length_Cons mult_Suc_right add.assoc)
  have round: "job_run (replicate 6 (Work ok)) s = Some ?s"
    using Cons by (intro worker_round) auto
  have rest: "job_run (replicate (6 * length (queue ?s) + 4) (Work ok)) ?s =
      Some (?s\<lparr>queue := [], working := False, wpc := WWait,
               finished := finished ?s @ map (\<lambda>j. (j, ok)) (queue ?s)\<rparr>)"
    using Cons by (intro Cons.hyps(1)) auto
  have split: "replicate (6 * length (queue s) + 4) (Work ok) =
      replicate 6 (Work ok) @ replicate (6 * length (queue ?s) + 4) (Work ok)"
    by (simp only: n replicate_add) simp
  have "job_run (replicate (6 * length (queue s) + 4) (Work ok)) s =
      Some (?s\<lparr>queue := [], working := False, wpc := WWait,
               finished := finished ?s @ map (\<lambda>j. (j, ok)) (queue ?s)\<rparr>)"
    unfolding split job_run_append round option.case by (rule rest)
  then show ?case using Cons.hyps(2) [symmetric] by simp
qed

section \<open>After the worker was cancelled\<close>

text \<open>The cancelled worker owns the condition's mutex for ever, and nothing runs again.\<close>

lemma dead_worker_step:
  assumes "job_step e s = Some s'" and "locks_agree s" and "queue_inv s" and "wpc s = WDead"
  shows "wpc s' = WDead \<and> finished s' = finished s"
  using assms
proof (cases e)
  case (Main err)
  with assms show ?thesis
    by (cases "mpc s") (auto simp: queue_inv_def split: if_splits)
next
  case (Call c)
  with assms show ?thesis
    by (cases "epc s c") (auto simp: wake_up_def split: if_splits)
qed (auto simp: wake_up_def split: if_splits)

lemma dead_worker_run:
  assumes "job_run es s = Some s'" and "job_reach s" and "wpc s = WDead"
  shows "wpc s' = WDead \<and> finished s' = finished s"
  using assms
proof (induction es arbitrary: s)
  case Nil
  then show ?case by simp
next
  case (Cons e es)
  then obtain t where t: "job_step e s = Some t" "job_run es t = Some s'"
    by (auto split: option.splits)
  with Cons.prems have "wpc t = WDead \<and> finished t = finished s"
    by (intro dead_worker_step job_reach_locks job_reach_queue)
  with Cons.IH [of t] t Cons.prems(2) show ?case by (auto intro: job_reach.step)
qed

section \<open>What the queue guarantees\<close>


definition busy_run :: "nat event list" where
  "busy_run = [Load, Main False, Main False, Submit 1 7, Submit 2 8, Call 1, Call 1, Work True, Work True,
     Work True, Call 2, Work True, Call 2, Work True]"

definition busy_state :: "nat job_sys" where
  "busy_state = (case job_run busy_run jobs_init of Some s \<Rightarrow> s | None \<Rightarrow> jobs_init)"

lemma busy_state_eval:
  "map fst (finished busy_state) = [7]" "queue busy_state = [8]" "wpc busy_state = WDone"
  "submitted busy_state = [7, 8]"
  by (simp_all add: busy_state_def busy_run_def jobs_init_def workitem_push_def workitem_take_def)

lemma busy_state_reach: "job_reach busy_state"
proof (cases "job_run busy_run jobs_init")
  case None
  then show ?thesis by (simp add: busy_state_def job_reach.start)
next
  case (Some s)
  then show ?thesis using job_run_reach [OF job_reach.start Some] by (simp add: busy_state_def)
qed


text \<open>C37. While a submitted job has not finished, \<^verbatim>\<open>jobs_running\<close> holds, so the provider
  is not unloaded under it; and it does not hold of a sleeping worker with an empty list.\<close>

theorem jobs_running_accurate:
  assumes "job_reach s"
  shows "(map fst (finished s) \<noteq> submitted s \<longrightarrow> jobs_running s) \<and>
    (wpc s = WWait \<and> queue s = [] \<longrightarrow> \<not> jobs_running s)"
  using job_reach_queue [OF assms] by (auto simp: queue_inv_def jobs_running_def)

lemma jobs_running_accurate_witness: "jobs_running busy_state"
  using jobs_running_accurate [OF busy_state_reach] busy_state_eval by simp

text \<open>C31. No wake-up is lost: when the worker waits on the condition variable while the list
  is not empty, some caller has added its job and is still to signal.\<close>

theorem no_lost_wakeup:
  assumes "job_reach s" and "wpc s = WWait" and "queue s \<noteq> []"
  shows "\<exists>c. epc s c = ELockCond \<or> epc s c = ESignal"
proof -
  obtain c where "will_signal (epc s c)"
    using job_reach_signal [OF assms(1)] assms(2,3) by (auto simp: signal_inv_def)
  then show ?thesis by (cases "epc s c") auto
qed

definition waiting_run :: "nat event list" where
  "waiting_run = [Load, Main False, Main False, Work True, Work True, Work True, Work True,
     Submit 1 7, Call 1, Call 1]"

definition waiting_state :: "nat job_sys" where
  "waiting_state = (case job_run waiting_run jobs_init of Some s \<Rightarrow> s | None \<Rightarrow> jobs_init)"

lemma waiting_state_eval: "wpc waiting_state = WWait" "queue waiting_state = [7]"
  by (simp_all add: waiting_state_def waiting_run_def jobs_init_def workitem_push_def workitem_take_def)

lemma waiting_state_reach: "job_reach waiting_state"
proof (cases "job_run waiting_run jobs_init")
  case None
  then show ?thesis by (simp add: waiting_state_def job_reach.start)
next
  case (Some s)
  then show ?thesis using job_run_reach [OF job_reach.start Some] by (simp add: waiting_state_def)
qed

lemma no_lost_wakeup_witness: "\<exists>c. epc waiting_state c = ELockCond \<or> epc waiting_state c = ESignal"
  using no_lost_wakeup [OF waiting_state_reach] waiting_state_eval by simp

text \<open>C34. No deadlock while the provider stays loaded: with a created worker, work to do and
  no unload in progress, some thread inside the queue's code can move.\<close>

theorem queue_no_deadlock:
  assumes "job_reach s" and "handle s" and "queue s \<noteq> []" and "wpc s \<noteq> WDead"
    and "mpc s \<noteq> MJoin" and "mpc s \<noteq> MCrash"
  shows "can_move s"
proof -
  have inv: "locks_agree s" "signal_inv s" using assms(1) job_reach_locks job_reach_signal by auto
  have "wpc s \<noteq> WOff" using job_reach_queue [OF assms(1)] assms(2) by (simp add: queue_inv_def)
  with inv assms show ?thesis
    using list_owner_moves cond_owner_moves free_mutexes_move
    by (cases "list_mutex s"; cases "cond_mutex s") blast+
qed

lemma queue_no_deadlock_witness: "can_move waiting_state"
proof (rule queue_no_deadlock [OF waiting_state_reach])
  show "handle waiting_state" "queue waiting_state \<noteq> []" "wpc waiting_state \<noteq> WDead"
      "mpc waiting_state \<noteq> MJoin" "mpc waiting_state \<noteq> MCrash"
    by (simp_all add: waiting_state_def waiting_run_def jobs_init_def workitem_push_def workitem_take_def)
qed

text \<open>Liveness of the worker: left alone with the mutexes free, it runs every job of the
  list, in order, within six steps each, and then sleeps.\<close>

lemma worker_drains_queue:
  assumes "wpc s = WLockCond" and "cond_mutex s = None" and "list_mutex s = None"
  shows "\<exists>s'. job_run (replicate (6 * length (queue s) + 4) (Work ok)) s = Some s' \<and>
    queue s' = [] \<and> wpc s' = WWait \<and> \<not> jobs_running s' \<and>
    finished s' = finished s @ map (\<lambda>j. (j, ok)) (queue s)"
  using worker_drains [OF assms] by (simp add: jobs_running_def)

lemma worker_drains_queue_witness:
  "\<exists>s'. job_run (replicate 16 (Work True)) (jobs_init\<lparr>wpc := WLockCond, queue := [3::nat, 4]\<rparr>) = Some s' \<and>
    finished s' = [(3, True), (4, True)]"
  using worker_drains_queue [of "jobs_init\<lparr>wpc := WLockCond, queue := [3::nat, 4]\<rparr>" True]
  by (auto simp: jobs_init_def)

text \<open>C38. Unloading ends the service for good: once \<^verbatim>\<open>jobs_uninitialize\<close> has cancelled
  the waiting worker, no later sequence of loads and submissions runs a job.\<close>

theorem no_job_after_uninitialize:
  assumes "job_reach s" and "wpc s = WDead" and "job_run es s = Some s'"
  shows "finished s' = finished s \<and> wpc s' = WDead"
  using dead_worker_run [OF assms(3,1,2)] by simp

definition unload_run :: "nat event list" where
  "unload_run = [Load, Main False, Main False, Work True, Work True, Work True, Work True,
     Unload, Main False, Main False, Work True, Main False]"

definition unloaded_state :: "nat job_sys" where
  "unloaded_state = (case job_run unload_run jobs_init of Some s \<Rightarrow> s | None \<Rightarrow> jobs_init)"

lemma unloaded_state_eval: "wpc unloaded_state = WDead" "finished unloaded_state = []"
  by (simp_all add: unloaded_state_def unload_run_def jobs_init_def workitem_take_def jobs_running_def)

lemma unloaded_state_reach: "job_reach unloaded_state"
proof (cases "job_run unload_run jobs_init")
  case None
  then show ?thesis by (simp add: unloaded_state_def job_reach.start)
next
  case (Some s)
  then show ?thesis using job_run_reach [OF job_reach.start Some] by (simp add: unloaded_state_def)
qed

definition late_run :: "nat event list" where
  "late_run = [Load, Main False, Main False, Submit 1 7, Call 1, Call 1]"

lemma no_job_after_uninitialize_witness:
  "\<exists>s'. job_run late_run unloaded_state = Some s' \<and> submitted s' = [7] \<and> finished s' = []"
proof -
  obtain s' where run: "job_run late_run unloaded_state = Some s'" and sub: "submitted s' = [7]"
    by (simp add: late_run_def unloaded_state_def unload_run_def jobs_init_def workitem_take_def
        workitem_push_def jobs_running_def)
  have "finished s' = finished unloaded_state \<and> wpc s' = WDead"
    by (rule no_job_after_uninitialize [OF unloaded_state_reach unloaded_state_eval(1) run])
  then show ?thesis using run sub unloaded_state_eval(2) by simp
qed

definition join_run :: "nat event list" where
  "join_run = [Load, Main False, Main False, Work True, Unload, Main False, Main False]"


end
