(* ===== verification/CString.thy ===== *)
theory CString
  imports Prelude
begin

text \<open>
  The routines of the C string library that the program calls, on strings without their
  terminating zero byte. A pointer into a string is the suffix it points to; a null
  pointer is \<^verbatim>\<open>None\<close>. \<^verbatim>\<open>strtok_r\<close> returns the token and the text that its save
  pointer leaves for the next call.
\<close>

section \<open>Searching\<close>

definition strchr :: "string \<Rightarrow> char \<Rightarrow> string option" where
  "strchr s c = (case dropWhile (\<lambda>x. x \<noteq> c) s of [] \<Rightarrow> None | y # ys \<Rightarrow> Some (y # ys))"

definition strrchr_split :: "string \<Rightarrow> char \<Rightarrow> (string \<times> string) option" where
  "strrchr_split s c =
     (case dropWhile (\<lambda>x. x \<noteq> c) (rev s) of
        [] \<Rightarrow> None
      | _ # r \<Rightarrow> Some (rev r, rev (takeWhile (\<lambda>x. x \<noteq> c) (rev s))))"

fun strstr :: "string \<Rightarrow> string \<Rightarrow> nat option" where
  "strstr [] k = (if k = [] then Some 0 else None)"
| "strstr (x # xs) k = (if prefix k (x # xs) then Some 0 else map_option Suc (strstr xs k))"

definition contains :: "string \<Rightarrow> string \<Rightarrow> bool" where
  "contains s k \<longleftrightarrow> strstr s k \<noteq> None"

lemma dropWhile_neq_Nil: "dropWhile (\<lambda>x. x \<noteq> c) s = [] \<longleftrightarrow> c \<notin> set s"
  by (auto simp: dropWhile_eq_Nil_conv)

lemma strchr_None [cstr_simps]: "strchr s c = None \<longleftrightarrow> c \<notin> set s"
  unfolding strchr_def dropWhile_neq_Nil [symmetric] by (simp split: list.split del: dropWhile_eq_Nil_conv)

lemma strchr_append [cstr_simps]: "c \<notin> set xs \<Longrightarrow> strchr (xs @ c # ys) c = Some (c # ys)"
  by (induction xs) (auto simp: strchr_def)

lemma strchr_Some [cstr_dest]:
  "strchr s c = Some t \<Longrightarrow> \<exists>p r. s = p @ t \<and> t = c # r \<and> c \<notin> set p"
proof -
  assume a: "strchr s c = Some t"
  then have "c \<in> set s" by (metis option.distinct(1) strchr_None)
  then obtain p r where s: "s = p @ c # r" "c \<notin> set p" by (meson split_list_first)
  with a have "t = c # r" by (simp add: strchr_append)
  with s show ?thesis by blast
qed

lemma strrchr_split_append [cstr_simps]:
  "c \<notin> set ys \<Longrightarrow> strrchr_split (xs @ c # ys) c = Some (xs, ys)"
  using dropWhile_append_stop [of "rev ys" "\<lambda>x. x \<noteq> c" c "rev xs"]
    takeWhile_append_stop [of "rev ys" "\<lambda>x. x \<noteq> c" c "rev xs"]
  by (fastforce simp: strrchr_split_def)

lemma strrchr_split_None [cstr_simps]: "strrchr_split s c = None \<longleftrightarrow> c \<notin> set s"
  unfolding strrchr_split_def set_rev [of s, symmetric] dropWhile_neq_Nil [symmetric]
  by (simp split: list.split del: dropWhile_eq_Nil_conv)

lemma strrchr_split_Some [cstr_dest]:
  "strrchr_split s c = Some (p, r) \<Longrightarrow> s = p @ c # r \<and> c \<notin> set r"
proof -
  assume a: "strrchr_split s c = Some (p, r)"
  then have "c \<in> set s" by (metis option.distinct(1) strrchr_split_None)
  then obtain xs ys where s: "s = xs @ c # ys" "c \<notin> set ys" by (meson split_list_last)
  with a show ?thesis by (simp add: strrchr_split_append)
qed

lemma strstr_Some_drop: "strstr s k = Some i \<Longrightarrow> prefix k (drop i s) \<and> i \<le> length s"
proof (induction s arbitrary: i)
  case Nil
  then show ?case by (simp split: if_splits)
next
  case (Cons x xs)
  then show ?case by (auto split: if_splits)
qed

lemma strstr_None: "strstr s k = None \<longleftrightarrow> \<not> sublist k s"
proof (induction s)
  case Nil
  then show ?case by simp
next
  case (Cons x xs)
  then show ?case by (auto simp: sublist_Cons_right)
qed

lemma contains_iff [cstr_simps]: "contains s k \<longleftrightarrow> sublist k s"
  by (simp add: contains_def strstr_None)

text \<open>The first occurrence: nothing earlier matches, so the search stops exactly there.\<close>

lemma strstr_first:
  "prefix k ys \<Longrightarrow> (\<And>i. i < length xs \<Longrightarrow> \<not> prefix k (drop i (xs @ ys))) \<Longrightarrow>
   strstr (xs @ ys) k = Some (length xs)"
proof (induction xs)
  case Nil
  then show ?case by (cases ys) auto
next
  case (Cons x xs)
  have "\<not> prefix k ((x # xs) @ ys)" using Cons.prems(2) [of 0] by simp
  moreover have "strstr (xs @ ys) k = Some (length xs)"
  proof (rule Cons.IH [OF Cons.prems(1)])
    fix i assume "i < length xs"
    then show "\<not> prefix k (drop i (xs @ ys))" using Cons.prems(2) [of "Suc i"] by simp
  qed
  ultimately show ?case by simp
qed

text \<open>
  A key that does not occur before a separator it does not contain is found right after it.
\<close>

lemma strstr_after_separator:
  assumes "\<not> sublist k xs" and "d \<notin> set k" and "k \<noteq> []"
  shows "strstr (xs @ d # k @ ys) k = Some (Suc (length xs))"
proof -
  have "strstr ((xs @ [d]) @ (k @ ys)) k = Some (length (xs @ [d]))"
  proof (rule strstr_first)
    show "prefix k (k @ ys)" by simp
  next
    fix i assume "i < length (xs @ [d])"
    then have i: "i \<le> length xs" by simp
    show "\<not> prefix k (drop i ((xs @ [d]) @ k @ ys))"
    proof
      assume "prefix k (drop i ((xs @ [d]) @ k @ ys))"
      then obtain z where z: "drop i xs @ d # k @ ys = k @ z"
        using i by (auto simp: prefix_def)
      show False
      proof (cases "length k \<le> length (drop i xs)")
        case True
        with z have "k = take (length k) (drop i xs)"
          by (metis append_eq_conv_conj take_all_iff append_take_drop_id take_append diff_is_0_eq' take0 append_Nil2)
        then have "sublist k xs"
          by (metis sublist_order.order_trans sublist_take sublist_drop)
        with assms(1) show False ..
      next
        case False
        then have "(drop i xs @ d # k @ ys) ! length (drop i xs) = d" and
          "(k @ z) ! length (drop i xs) = k ! length (drop i xs)"
          by (auto simp: nth_append simp del: length_drop)
        with z False have "d \<in> set k" by (metis nth_mem not_le)
        with assms(2) show False ..
      qed
    qed
  qed
  then show ?thesis by simp
qed

section \<open>Tokens\<close>

definition strtok_r :: "string \<Rightarrow> string \<Rightarrow> (string \<times> string) option" where
  "strtok_r delims s =
     (let s' = dropWhile (\<lambda>c. c \<in> set delims) s in
      if s' = [] then None
      else Some (takeWhile (\<lambda>c. c \<notin> set delims) s',
                 drop 1 (dropWhile (\<lambda>c. c \<notin> set delims) s')))"

lemma strtok_r_shorter: "strtok_r d s = Some (t, r) \<Longrightarrow> length r < length s"
proof -
  assume a: "strtok_r d s = Some (t, r)"
  let ?s = "dropWhile (\<lambda>c. c \<in> set d) s"
  have ne: "?s \<noteq> []" and r: "r = drop 1 (dropWhile (\<lambda>c. c \<notin> set d) ?s)"
    using a by (auto simp: strtok_r_def Let_def split: if_splits)
  have "length (dropWhile (\<lambda>c. c \<notin> set d) ?s) \<le> length ?s" by (rule length_dropWhile_le)
  moreover have "length ?s \<le> length s" by (rule length_dropWhile_le)
  moreover have "length ?s > 0" using ne by (simp only: length_greater_0_conv not_False_eq_True)
  ultimately show ?thesis by (simp only: r length_drop)
qed

function tokens :: "string \<Rightarrow> string \<Rightarrow> string list" where
  "tokens d s = (case strtok_r d s of None \<Rightarrow> [] | Some (t, r) \<Rightarrow> t # tokens d r)"
  by pat_completeness auto
termination
  by (relation "measure (\<lambda>(d, s). length s)") (auto dest: strtok_r_shorter)

declare tokens.simps [simp del]

fun join :: "string \<Rightarrow> string list \<Rightarrow> string" where
  "join d [] = []"
| "join d [x] = x"
| "join d (x # y # zs) = x @ d @ join d (y # zs)"

lemma strtok_r_clean:
  assumes "t \<noteq> []" and "\<forall>x \<in> set t. x \<notin> set d"
  shows "c \<in> set d \<Longrightarrow> strtok_r d (t @ c # r) = Some (t, r)"
    and "strtok_r d t = Some (t, [])"
proof -
  have h: "dropWhile (\<lambda>x. x \<in> set d) (t @ z) = t @ z" for z
    using assms by (cases t) auto
  show "strtok_r d (t @ c # r) = Some (t, r)" if "c \<in> set d"
    using assms that by (simp add: strtok_r_def Let_def h takeWhile_append_stop dropWhile_append_stop)
  show "strtok_r d t = Some (t, [])"
    using assms h [of "[]"] by (simp add: strtok_r_def Let_def takeWhile_eq_all_conv
        dropWhile_eq_Nil_conv [THEN iffD2])
qed

lemma tokens_Nil [cstr_simps]: "tokens d [] = []"
  by (subst tokens.simps) (simp add: strtok_r_def)

lemma tokens_join:
  "(\<forall>t \<in> set ts. t \<noteq> [] \<and> c \<notin> set t) \<Longrightarrow> tokens [c] (join [c] ts) = ts"
proof (induction "[c]" ts rule: join.induct)
  case 1
  then show ?case by (simp add: tokens_Nil)
next
  case (2 x)
  then have "strtok_r [c] x = Some (x, [])" by (intro strtok_r_clean) auto
  then show ?case by (subst tokens.simps) (simp add: tokens_Nil)
next
  case (3 x y zs)
  then have "strtok_r [c] (x @ c # join [c] (y # zs)) = Some (x, join [c] (y # zs))"
    by (intro strtok_r_clean) auto
  with 3 show ?case by (subst tokens.simps) simp
qed

lemma tokens_clean: "t \<in> set (tokens d s) \<Longrightarrow> t \<noteq> [] \<and> (\<forall>c \<in> set t. c \<notin> set d)"
proof (induction d s rule: tokens.induct)
  case (1 d s)
  show ?case
  proof (cases "strtok_r d s")
    case None
    with "1.prems" show ?thesis by (subst (asm) tokens.simps) simp
  next
    case (Some p)
    then obtain u r where p: "strtok_r d s = Some (u, r)" by (cases p) auto
    then have u: "u \<noteq> []" "\<forall>c \<in> set u. c \<notin> set d"
      using hd_dropWhile [of "\<lambda>c. c \<in> set d" s]
      by (cases "dropWhile (\<lambda>c. c \<in> set d) s";
          fastforce simp: strtok_r_def Let_def dest: set_takeWhileD split: if_splits)+
    from "1.prems" p have "t = u \<or> t \<in> set (tokens d r)" by (subst (asm) tokens.simps) simp
    with u "1.IH" [OF p refl] show ?thesis by blast
  qed
qed

section \<open>Bounded printing\<close>

text \<open>
  \<^verbatim>\<open>snprintf\<close> into a buffer of \<^verbatim>\<open>n\<close> bytes keeps the first \<^verbatim>\<open>n - 1\<close>
  characters; with \<^verbatim>\<open>n = 0\<close> it writes nothing, and the calls below that can have
  \<^verbatim>\<open>n = 0\<close> print into zeroed memory, which then reads as the empty string.
\<close>

definition snprintf :: "nat \<Rightarrow> string \<Rightarrow> string" where
  "snprintf n s = take (n - 1) s"

lemma snprintf_fits [cstr_simps]: "length s < n \<Longrightarrow> snprintf n s = s"
  by (simp add: snprintf_def)

lemma length_snprintf: "length (snprintf n s) \<le> n - 1"
  by (simp add: snprintf_def)

definition strncat :: "string \<Rightarrow> string \<Rightarrow> nat \<Rightarrow> string" where
  "strncat dst src n = dst @ take n src"

end
