(* ===== verification/StringMap.thy ===== *)
theory StringMap
  imports CString
begin

text \<open>
  The string maps and string sets of \<^verbatim>\<open>src/xen_utils.c\<close> (the section "useful string
  set and string map functions"). A \<^verbatim>\<open>xen_string_string_map\<close> is the list of its
  entries in array order; the null pointer is \<^verbatim>\<open>None\<close>, and a map of size 0 is
  \<^verbatim>\<open>Some []\<close>. A \<^verbatim>\<open>xen_string_set\<close> is the list of its entries, each of which
  may be null.
\<close>

type_synonym string_map = "(string \<times> string) list"
type_synonym string_set = "string option list"

section \<open>The code\<close>

fun scan_map :: "string_map \<Rightarrow> string \<Rightarrow> string option" where
  "scan_map [] key = None"
| "scan_map ((k, v) # m) key = (if key = k then Some v else scan_map m key)"

definition xen_utils_get_from_string_string_map :: "string_map option \<Rightarrow> string \<Rightarrow> string option" where
  "xen_utils_get_from_string_string_map mp key =
     (case mp of
        None \<Rightarrow> None
      | Some m \<Rightarrow> if length m = 0 then None else scan_map m key)"

text \<open>
  The caller's pointer is freed and set to null; a null argument (the outer option) is the
  invalid parameter that the code rejects.
\<close>

definition xen_utils_clear_string_string_map ::
    "string_map option option \<Rightarrow> bool \<times> string_map option option" where
  "xen_utils_clear_string_string_map mp =
     (case mp of None \<Rightarrow> (False, None) | Some _ \<Rightarrow> (True, Some None))"

fun replace_value :: "string \<Rightarrow> string \<Rightarrow> string_map \<Rightarrow> string_map option" where
  "replace_value key val [] = None"
| "replace_value key val ((k, v) # m) =
     (if k = key then Some ((k, val) # m) else map_option (Cons (k, v)) (replace_value key val m))"

text \<open>
  \<^verbatim>\<open>mem\<close> says whether the allocation (of a first map, or to grow an existing one)
  succeeds. Note that a failed \<^verbatim>\<open>realloc\<close> leaves the caller with a null map.
\<close>

definition xen_utils_add_to_string_string_map ::
    "bool \<Rightarrow> string \<Rightarrow> string \<Rightarrow> string_map option \<Rightarrow> bool \<times> string_map option" where
  "xen_utils_add_to_string_string_map mem key val mp =
     (case mp of
        None \<Rightarrow> if mem then (True, Some [(key, val)]) else (False, None)
      | Some m \<Rightarrow>
          (case replace_value key val m of
             Some m' \<Rightarrow> (True, Some m')
           | None \<Rightarrow> if mem then (True, Some (m @ [(key, val)])) else (False, None)))"

abbreviation put_entry :: "string \<Rightarrow> string \<Rightarrow> string_map option \<Rightarrow> string_map option" where
  "put_entry key val m \<equiv> snd (xen_utils_add_to_string_string_map True key val m)"

fun flatten_entries :: "string_map \<Rightarrow> string" where
  "flatten_entries [] = []"
| "flatten_entries [(k, v)] = k @ ''='' @ v"
| "flatten_entries ((k, v) # e # m) = k @ ''='' @ v @ '','' @ flatten_entries (e # m)"

definition flatten_size :: "string_map \<Rightarrow> nat" where
  "flatten_size m = sum_list (map (\<lambda>(k, v). length k + length v + 2) m)"

definition xen_utils_flatten_string_string_map :: "string_map option \<Rightarrow> string option" where
  "xen_utils_flatten_string_string_map mp =
     (case mp of
        None \<Rightarrow> None
      | Some m \<Rightarrow> if length m = 0 then None else Some (flatten_entries m))"

text \<open>
  A value that starts with a double quote loses that quote and its last character, whatever
  that is; a lone quote becomes the empty string.
\<close>

definition strip_quotes :: "string \<Rightarrow> string" where
  "strip_quotes v = (case v of CHR 0x22 # w \<Rightarrow> butlast w | _ \<Rightarrow> v)"

definition convert_token :: "string \<Rightarrow> string_map option \<Rightarrow> string_map option" where
  "convert_token tok mp =
     (case strtok_r ''='' tok of
        None \<Rightarrow> mp
      | Some (key, rest) \<Rightarrow>
          (case strtok_r ''='' rest of
             None \<Rightarrow> mp
           | Some (val, _) \<Rightarrow> put_entry key (strip_quotes val) mp))"

definition xen_utils_convert_string_to_string_map :: "string option \<Rightarrow> string \<Rightarrow> string_map option" where
  "xen_utils_convert_string_to_string_map str delimiter =
     (case str of
        None \<Rightarrow> Some []
      | Some s \<Rightarrow> if s = [] then Some [] else fold convert_token (tokens delimiter s) (Some []))"

text \<open>
  Removal goes through text: the flattened map is cut at the first place where the key's
  text occurs, up to the next comma, and the rest is parsed again.
\<close>

definition cut_key :: "string \<Rightarrow> nat \<Rightarrow> string" where
  "cut_key map_str i =
     (let buflen = length map_str;
          front = (if i = 0 then [] else take (i - 1) map_str)
      in case strchr (drop (i + 1) map_str) CHR '','' of
           Some key_end \<Rightarrow>
             (if 0 < length front
              then snprintf (buflen - 1) (front @ '','' @ drop 1 key_end)
              else snprintf (buflen - 1) (drop 1 key_end))
         | None \<Rightarrow> snprintf (buflen - 1) front)"

definition xen_utils_remove_from_string_string_map ::
    "string \<Rightarrow> string_map option \<Rightarrow> bool \<times> string_map option" where
  "xen_utils_remove_from_string_string_map key_to_remove mp =
     (case xen_utils_flatten_string_string_map mp of
        None \<Rightarrow> (False, mp)
      | Some map_str \<Rightarrow>
          (case strstr map_str key_to_remove of
             None \<Rightarrow> (True, mp)
           | Some i \<Rightarrow>
               (True, xen_utils_convert_string_to_string_map (Some (cut_key map_str i)) '','')))"

text \<open>
  Flattening a set grows the buffer by the entry's length plus one, then appends the entry
  and the delimiter; a write past the buffer's \<^verbatim>\<open>len\<close> bytes is undefined.
\<close>

fun flatten_set_loop :: "string \<Rightarrow> nat \<Rightarrow> nat \<Rightarrow> nat \<Rightarrow> string \<Rightarrow> string_set \<Rightarrow> string outcome" where
  "flatten_set_loop delimiter cnt i len flat_str [] = Ret flat_str"
| "flatten_set_loop delimiter cnt i len flat_str (None # rest) =
     flatten_set_loop delimiter cnt (i + 1) len flat_str rest"
| "flatten_set_loop delimiter cnt i len flat_str (Some s # rest) =
     (if s = [] then flatten_set_loop delimiter cnt (i + 1) len flat_str rest
      else
        let len' = len + (length s + 1);
            f1 = strncat flat_str s (len' - 1);
            f2 = (if i < cnt - 1 then strncat f1 delimiter (len' - 1) else f1)
        in if length f2 < len'
           then flatten_set_loop delimiter cnt (i + 1) len' f2 rest
           else Undefined)"

definition xen_utils_flatten_string_set :: "string_set option \<Rightarrow> string \<Rightarrow> string option outcome" where
  "xen_utils_flatten_string_set st delimiter =
     (case st of
        None \<Rightarrow> Ret None
      | Some xs \<Rightarrow>
          if length xs = 0 then Ret None
          else bind_outcome (flatten_set_loop delimiter (length xs) 0 1 [] xs) (\<lambda>s. Ret (Some s)))"

definition xen_utils_copy_to_string_set :: "string \<Rightarrow> string \<Rightarrow> string_set option" where
  "xen_utils_copy_to_string_set str_to_convert delimiter =
     (if length str_to_convert = 0 then None
      else Some (map Some (filter (\<lambda>t. t \<noteq> []) (tokens delimiter str_to_convert))))"

definition xen_utils_add_to_string_set :: "bool \<Rightarrow> string \<Rightarrow> string_set option \<Rightarrow> bool \<times> string_set option" where
  "xen_utils_add_to_string_set mem str st =
     (case st of
        None \<Rightarrow> if mem then (True, Some [Some str]) else (False, None)
      | Some xs \<Rightarrow> if mem then (True, Some (xs @ [Some str])) else (False, None))"

section \<open>Lookup and update\<close>

definition entries :: "string_map option \<Rightarrow> string_map" where
  "entries mp = (case mp of None \<Rightarrow> [] | Some m \<Rightarrow> m)"

definition distinct_keys :: "string_map option \<Rightarrow> bool" where
  "distinct_keys mp \<longleftrightarrow> distinct (map fst (entries mp))"

lemma entries_simps [simp]: "entries None = []" "entries (Some m) = m"
  by (simp_all add: entries_def)

lemma scan_map_of: "scan_map m key = map_of m key"
  by (induction m key rule: scan_map.induct) auto

lemma get_entries:
  "xen_utils_get_from_string_string_map mp key = map_of (entries mp) key"
  by (auto simp: xen_utils_get_from_string_string_map_def scan_map_of split: option.split)

lemma replace_value_None: "replace_value key val m = None \<longleftrightarrow> key \<notin> fst ` set m"
  by (induction key val m rule: replace_value.induct) auto

lemma replace_value_keys: "replace_value key val m = Some m' \<Longrightarrow> map fst m' = map fst m"
  by (induction m arbitrary: m') (auto split: if_splits)

lemma replace_value_map_of:
  "replace_value key val m = Some m' \<Longrightarrow> map_of m' = (map_of m)(key \<mapsto> val)"
  by (induction m arbitrary: m') (auto simp: fun_upd_twist split: if_splits)

lemma put_entry_map_of: "map_of (entries (put_entry key val mp)) = (map_of (entries mp))(key \<mapsto> val)"
  by (auto simp: xen_utils_add_to_string_string_map_def map_add_def fun_eq_iff replace_value_None
      replace_value_map_of split: option.splits dest: map_of_SomeD intro: rev_image_eqI)

lemma put_entry_distinct: "distinct_keys mp \<Longrightarrow> distinct_keys (put_entry key val mp)"
  by (auto simp: xen_utils_add_to_string_string_map_def distinct_keys_def replace_value_None
      dest: replace_value_keys split: option.splits)

lemma put_entry_fresh:
  "key \<notin> fst ` set m \<Longrightarrow> put_entry key val (Some m) = Some (m @ [(key, val)])"
  using replace_value_None [of key val m]
  by (simp add: xen_utils_add_to_string_string_map_def)

text \<open>The interface that the clients of a string map rely on.\<close>

locale string_store =
  fixes get :: "'m \<Rightarrow> string \<Rightarrow> string option"
    and put :: "string \<Rightarrow> string \<Rightarrow> 'm \<Rightarrow> 'm"
    and wf :: "'m \<Rightarrow> bool"
  assumes get_put: "get (put k v m) = (get m)(k \<mapsto> v)"
    and wf_put: "wf m \<Longrightarrow> wf (put k v m)"
begin

lemma get_puts: "get (fold (\<lambda>(k, v). put k v) kvs m) = get m ++ map_of (rev kvs)"
  by (induction kvs arbitrary: m) (auto simp: get_put map_add_def fun_eq_iff split: option.splits)

lemma get_puts_other:
  "k \<notin> fst ` set kvs \<Longrightarrow> get (fold (\<lambda>(k, v). put k v) kvs m) k = get m k"
  by (induction kvs arbitrary: m) (auto simp: get_put)

lemma wf_puts: "wf m \<Longrightarrow> wf (fold (\<lambda>(k, v). put k v) kvs m)"
  by (induction kvs arbitrary: m) (auto simp: wf_put)

end

interpretation smap: string_store xen_utils_get_from_string_string_map put_entry distinct_keys
  by unfold_locales (auto simp: get_entries put_entry_map_of put_entry_distinct fun_eq_iff)

section \<open>Flattening and parsing\<close>

definition entry_text :: "string \<times> string \<Rightarrow> string" where
  "entry_text e = fst e @ ''='' @ snd e"

definition clean_entry :: "string \<times> string \<Rightarrow> bool" where
  "clean_entry e \<longleftrightarrow> fst e \<noteq> [] \<and> CHR '','' \<notin> set (fst e) \<and> CHR ''='' \<notin> set (fst e) \<and>
     CHR '','' \<notin> set (snd e) \<and> CHR ''='' \<notin> set (snd e) \<and> (snd e \<noteq> [] \<longrightarrow> hd (snd e) \<noteq> CHR 0x22)"

abbreviation has_value :: "string \<times> string \<Rightarrow> bool" where
  "has_value e \<equiv> snd e \<noteq> []"

lemma flatten_entries_join: "flatten_entries m = join '','' (map entry_text m)"
  by (induction m rule: flatten_entries.induct) (simp_all add: entry_text_def)

lemma flatten_fits: "m \<noteq> [] \<Longrightarrow> length (flatten_entries m) < flatten_size m + 1"
  by (induction m rule: flatten_entries.induct) (auto simp: flatten_size_def)

lemma entry_text_clean:
  "clean_entry e \<Longrightarrow> entry_text e \<noteq> [] \<and> CHR '','' \<notin> set (entry_text e)"
  by (auto simp: clean_entry_def entry_text_def)

lemma tokens_flatten:
  "\<forall>e \<in> set m. clean_entry e \<Longrightarrow> tokens '','' (flatten_entries m) = map entry_text m"
  using entry_text_clean by (fastforce simp: flatten_entries_join intro!: tokens_join)

lemma strip_quotes_id: "s \<noteq> [] \<Longrightarrow> hd s \<noteq> CHR 0x22 \<Longrightarrow> strip_quotes s = s"
  by (cases s) (auto simp: strip_quotes_def split: char.splits bool.splits)

lemma convert_token_entry:
  assumes "clean_entry e"
  shows "convert_token (entry_text e) mp =
     (if has_value e then put_entry (fst e) (snd e) mp else mp)"
proof -
  obtain k v where e: "e = (k, v)" by (cases e)
  have k: "strtok_r ''='' (k @ CHR ''='' # v) = Some (k, v)"
    using assms e by (intro strtok_r_clean) (auto simp: clean_entry_def)
  show ?thesis
  proof (cases "v = []")
    case True
    then show ?thesis using k e
      by (simp add: convert_token_def entry_text_def strtok_r_def [of _ "[]"])
  next
    case False
    with assms e have "strtok_r ''='' v = Some (v, [])"
      by (intro strtok_r_clean) (auto simp: clean_entry_def)
    with False assms k e show ?thesis
      by (simp add: convert_token_def entry_text_def clean_entry_def strip_quotes_id)
  qed
qed

lemma fold_convert_entries:
  "\<forall>e \<in> set m. clean_entry e \<Longrightarrow>
   fold convert_token (map entry_text m) mp = fold (\<lambda>(k, v). put_entry k v) (filter has_value m) mp"
  by (induction m arbitrary: mp) (auto simp: convert_token_entry)

lemma fold_put_fresh:
  "distinct (map fst (acc @ m)) \<Longrightarrow>
   fold (\<lambda>(k, v). put_entry k v) m (Some acc) = Some (acc @ m)"
proof (induction m arbitrary: acc)
  case Nil
  then show ?case by simp
next
  case (Cons e m)
  then have "put_entry (fst e) (snd e) (Some acc) = Some (acc @ [e])"
    by (subst put_entry_fresh) auto
  with Cons show ?case by (auto simp: case_prod_beta)
qed

lemma distinct_keys_filter: "distinct (map fst m) \<Longrightarrow> distinct (map fst (filter P m))"
  by (induction m) auto

lemma convert_flatten:
  assumes "\<forall>e \<in> set m. clean_entry e" and "distinct (map fst m)"
  shows "xen_utils_convert_string_to_string_map (Some (flatten_entries m)) '','' =
    Some (filter has_value m)"
proof (cases "flatten_entries m = []")
  case True
  then have "m = []" by (cases m rule: flatten_entries.cases) auto
  then show ?thesis by (simp add: xen_utils_convert_string_to_string_map_def)
next
  case False
  then show ?thesis
    using assms fold_put_fresh [of "[]" "filter has_value m"] distinct_keys_filter [OF assms(2)]
    by (simp add: xen_utils_convert_string_to_string_map_def tokens_flatten fold_convert_entries)
qed

section \<open>Removal\<close>

lemma flatten_entries_append:
  "m1 \<noteq> [] \<Longrightarrow> m2 \<noteq> [] \<Longrightarrow> flatten_entries (m1 @ m2) = flatten_entries m1 @ '','' @ flatten_entries m2"
proof (induction m1 rule: flatten_entries.induct)
  case (2 k v)
  then show ?case by (cases m2) auto
qed auto

lemma sublist_flatten:
  assumes "sublist k (flatten_entries m)" and "k \<noteq> []" and "CHR '','' \<notin> set k" and "CHR ''='' \<notin> set k"
  shows "\<exists>e \<in> set m. sublist k (fst e) \<or> sublist k (snd e)"
  using assms
proof (induction m rule: flatten_entries.induct)
  case 1
  then show ?case by simp
next
  case (2 a b)
  then show ?case using sublist_split_at [of k a "CHR ''=''" b] by auto
next
  case (3 a b e m)
  then have "sublist k a \<or> sublist k (b @ '','' @ flatten_entries (e # m))"
    using sublist_split_at [of k a "CHR ''=''"] by simp
  then have "sublist k a \<or> sublist k b \<or> sublist k (flatten_entries (e # m))"
    using 3 sublist_split_at [of k b "CHR '',''"] by auto
  with 3 show ?case by auto
qed

lemma strstr_flatten:
  assumes "\<forall>e \<in> set m1. \<not> sublist k (fst e) \<and> \<not> sublist k (snd e)"
    and "k \<noteq> []" and "CHR '','' \<notin> set k" and "CHR ''='' \<notin> set k"
  shows "strstr (flatten_entries (m1 @ (k, v) # m2)) k =
    Some (if m1 = [] then 0 else Suc (length (flatten_entries m1)))"
proof -
  obtain z where z: "flatten_entries ((k, v) # m2) = k @ z"
    by (cases m2) auto
  show ?thesis
  proof (cases "m1 = []")
    case True
    with z assms(2) show ?thesis by (cases k) simp_all
  next
    case False
    have "\<not> sublist k (flatten_entries m1)" using sublist_flatten assms by blast
    with False z assms show ?thesis
      by (simp add: flatten_entries_append strstr_after_separator)
  qed
qed

lemma cut_key_flatten:
  assumes "clean_entry (k, v)"
  shows "cut_key (flatten_entries (m1 @ (k, v) # m2))
      (if m1 = [] then 0 else Suc (length (flatten_entries m1))) = flatten_entries (m1 @ m2)"
proof -
  let ?t = "flatten_entries (m1 @ (k, v) # m2)"
  let ?i = "if m1 = [] then 0 else Suc (length (flatten_entries m1))"
  let ?rest = "if m2 = [] then [] else CHR '','' # flatten_entries m2"
  obtain c k' where k: "k = c # k'" using assms by (cases k) (auto simp: clean_entry_def)
  have e: "flatten_entries ((k, v) # m2) = k @ ''='' @ v @ ?rest" by (cases m2) auto
  have d: "drop (?i + 1) ?t = k' @ ''='' @ v @ ?rest"
    using k e by (cases "m1 = []") (simp_all add: flatten_entries_append)
  have front: "(if ?i = 0 then [] else take (?i - 1) ?t) = flatten_entries m1"
    by (simp add: flatten_entries_append)
  have nc: "CHR '','' \<notin> set (k' @ ''='' @ v)" using assms k by (auto simp: clean_entry_def)
  have s: "strchr (drop (?i + 1) ?t) CHR '','' = (if m2 = [] then None else Some ?rest)"
    using nc strchr_append [of "CHR '',''" "k' @ ''='' @ v" "flatten_entries m2"]
    by (simp only: d) (auto simp: strchr_None)
  have len: "length (flatten_entries (m1 @ m2)) + 2 \<le> length ?t"
    using k e by (cases "m1 = []"; cases "m2 = []") (simp_all add: flatten_entries_append)
  have ne: "m1 \<noteq> [] \<Longrightarrow> flatten_entries m1 \<noteq> []"
    by (cases m1 rule: flatten_entries.cases) auto
  from len have fits: "snprintf (length ?t - 1) (flatten_entries (m1 @ m2)) = flatten_entries (m1 @ m2)"
    by (simp add: snprintf_def)
  show ?thesis
    unfolding cut_key_def Let_def front s
    using fits ne by (cases "m1 = []"; cases "m2 = []") (simp_all add: flatten_entries_append)
qed

lemma remove_entry:
  assumes clean: "\<forall>e \<in> set (m1 @ (k, v) # m2). clean_entry e"
    and dist: "distinct (map fst (m1 @ (k, v) # m2))"
    and first: "\<forall>e \<in> set m1. \<not> sublist k (fst e) \<and> \<not> sublist k (snd e)"
  shows "xen_utils_remove_from_string_string_map k (Some (m1 @ (k, v) # m2)) =
    (True, Some (filter has_value (m1 @ m2)))"
proof -
  have kv: "clean_entry (k, v)" using clean by simp
  then have "strstr (flatten_entries (m1 @ (k, v) # m2)) k =
      Some (if m1 = [] then 0 else Suc (length (flatten_entries m1)))"
    by (intro strstr_flatten [OF first]) (auto simp: clean_entry_def)
  moreover have "xen_utils_convert_string_to_string_map (Some (flatten_entries (m1 @ m2))) '','' =
      Some (filter has_value (m1 @ m2))"
    using clean dist by (intro convert_flatten) auto
  ultimately show ?thesis
    by (simp add: xen_utils_remove_from_string_string_map_def
        xen_utils_flatten_string_string_map_def cut_key_flatten [OF kv] del: flatten_entries.simps)
qed

section \<open>String sets\<close>

lemma flatten_set_loop_safe:
  "length delimiter \<le> 1 \<Longrightarrow> length acc < len \<Longrightarrow>
   flatten_set_loop delimiter cnt i len acc xs \<noteq> Undefined"
  by (induction delimiter cnt i len acc xs rule: flatten_set_loop.induct)
    (auto simp: Let_def strncat_def)

lemma flatten_set_loop_join:
  assumes "\<forall>s \<in> set ss. s \<noteq> []" and "length acc < len" and "i + length ss = cnt" and "ss \<noteq> []"
  shows "flatten_set_loop [c] cnt i len acc (map Some ss) = Ret (acc @ join [c] ss)"
  using assms
proof (induction "[c]" ss arbitrary: acc len i rule: join.induct)
  case 1
  then show ?case by simp
next
  case (2 s)
  then show ?case by (auto simp: Let_def strncat_def)
next
  case (3 s y zs)
  then have "flatten_set_loop [c] cnt (i + 1) (len + (length s + 1)) (acc @ s @ [c]) (map Some (y # zs)) =
      Ret ((acc @ s @ [c]) @ join [c] (y # zs))"
    by (intro "3.hyps") auto
  with 3 show ?case by (auto simp: Let_def strncat_def)
qed

lemma flatten_string_set_join:
  assumes "\<forall>s \<in> set ss. s \<noteq> []" and "ss \<noteq> []"
  shows "xen_utils_flatten_string_set (Some (map Some ss)) [c] = Ret (Some (join [c] ss))"
  using assms flatten_set_loop_join [of ss "[]" 1 0 "length ss" c]
  by (simp add: xen_utils_flatten_string_set_def)

lemma copy_join:
  assumes "\<forall>s \<in> set ss. s \<noteq> [] \<and> c \<notin> set s" and "ss \<noteq> []"
  shows "xen_utils_copy_to_string_set (join [c] ss) [c] = Some (map Some ss)"
proof -
  have "join [c] ss \<noteq> []" using assms by (cases "([c], ss)" rule: join.cases) auto
  with assms show ?thesis
    by (simp add: xen_utils_copy_to_string_set_def tokens_join)
qed

section \<open>The text forms as codecs\<close>

definition map_text_valid :: "string_map \<Rightarrow> bool" where
  "map_text_valid m \<longleftrightarrow> distinct (map fst m) \<and> (\<forall>e \<in> set m. clean_entry e \<and> has_value e)"

interpretation map_text: codec flatten_entries
    "\<lambda>t. xen_utils_convert_string_to_string_map (Some t) '',''" map_text_valid
  by unfold_locales (auto simp: map_text_valid_def convert_flatten filter_id_conv)

definition set_text_valid :: "char \<Rightarrow> string list \<Rightarrow> bool" where
  "set_text_valid c ss \<longleftrightarrow> ss \<noteq> [] \<and> (\<forall>s \<in> set ss. s \<noteq> [] \<and> c \<notin> set s)"

definition parse_set :: "char \<Rightarrow> string \<Rightarrow> string list option" where
  "parse_set c t = map_option (map the) (xen_utils_copy_to_string_set t [c])"

interpretation set_text: codec "join [c]" "parse_set c" "set_text_valid c" for c
  by unfold_locales (auto simp: set_text_valid_def parse_set_def copy_join comp_def)

section \<open>What the string maps and sets guarantee\<close>

text \<open>Adding to a string map behaves as a finite map update, on an existing key and on a
  new one, and keeps the keys distinct; when memory runs out the routine reports failure
  and the caller's map is gone.\<close>

lemma add_to_map_spec:
  "case xen_utils_add_to_string_string_map mem key val mp of
     (ok, mp') \<Rightarrow>
       (if ok
        then (\<forall>k. xen_utils_get_from_string_string_map mp' k =
                  (if k = key then Some val else xen_utils_get_from_string_string_map mp k)) \<and>
             (distinct_keys mp \<longrightarrow> distinct_keys mp')
        else \<not> mem \<and> key \<notin> fst ` set (entries mp) \<and> mp' = None)"
proof (cases "fst (xen_utils_add_to_string_string_map mem key val mp)")
  case True
  then have "xen_utils_add_to_string_string_map mem key val mp = (True, put_entry key val mp)"
    by (auto simp: xen_utils_add_to_string_string_map_def split: option.splits if_splits)
  then show ?thesis by (simp add: smap.get_put smap.wf_put)
next
  case False
  then have "xen_utils_add_to_string_string_map mem key val mp = (False, None)" and "\<not> mem"
    and "key \<notin> fst ` set (entries mp)"
    using replace_value_None [of key val "entries mp"]
    by (auto simp: xen_utils_add_to_string_string_map_def split: option.splits if_splits)
  then show ?thesis by simp
qed

lemma add_to_map_spec_witness:
  "distinct_keys (put_entry ''b'' ''3'' (Some [(''a'', ''1''), (''b'', ''2'')]))"
  using add_to_map_spec [where mem = True and key = "''b''" and val = "''3''" and mp = "Some [(''a'', ''1''), (''b'', ''2'')]"]
  by (simp add: xen_utils_add_to_string_string_map_def distinct_keys_def)

text \<open>A failed growth of a string map does not leave its contents unchanged: the entries
  already stored are lost to the caller.\<close>

lemma add_failure_loses_map:
  "xen_utils_add_to_string_string_map False ''b'' ''2'' (Some [(''a'', ''1'')]) = (False, None)"
  by (simp add: xen_utils_add_to_string_string_map_def)

text \<open>C32. A map whose keys and values avoid the separators survives flattening and parsing,
  except that entries with an empty value disappear; the flattened text fits its buffer.\<close>

theorem flatten_convert_roundtrip:
  assumes "m \<noteq> []" and "\<forall>e \<in> set m. clean_entry e" and "distinct (map fst m)"
  shows "xen_utils_convert_string_to_string_map (xen_utils_flatten_string_string_map (Some m)) '','' =
      Some (filter has_value m) \<and>
    length (the (xen_utils_flatten_string_string_map (Some m))) < flatten_size m + 1"
  using assms convert_flatten [of m] flatten_fits [of m]
  by (simp add: xen_utils_flatten_string_string_map_def)

lemma flatten_convert_roundtrip_witness:
  "xen_utils_convert_string_to_string_map
     (xen_utils_flatten_string_string_map (Some [(''sr'', ''x1''), (''uuid'', [])])) '','' =
   Some [(''sr'', ''x1'')]"
  using flatten_convert_roundtrip [of "[(''sr'', ''x1''), (''uuid'', [])]"]
  by (simp add: clean_entry_def)



text \<open>Where the key's text occurs inside an earlier entry, removal deletes that entry and
  keeps the one it was asked to remove.\<close>

lemma remove_hits_substring:
  "xen_utils_remove_from_string_string_map ''uuid''
     (Some [(''a'', ''1''), (''parent_uuid'', ''p''), (''uuid'', ''u'')]) =
   (True, Some [(''a'', ''1''), (''uuid'', ''u'')])"
  by code_simp

text \<open>Flattening a string set with a one-character delimiter never writes past its buffer,
  and the flattened text splits back into the same set.\<close>

lemma string_set_roundtrip:
  assumes "ss \<noteq> []" and "\<forall>s \<in> set ss. s \<noteq> [] \<and> c \<notin> set s"
  shows "bind_outcome (xen_utils_flatten_string_set (Some (map Some ss)) [c])
      (\<lambda>t. Ret (xen_utils_copy_to_string_set (the t) [c])) = Ret (Some (map Some ss))"
proof -
  have "\<forall>s \<in> set ss. s \<noteq> []" using assms(2) by blast
  with assms show ?thesis by (simp add: flatten_string_set_join copy_join)
qed

lemma string_set_roundtrip_witness:
  "bind_outcome (xen_utils_flatten_string_set (Some [Some ''vm1'', Some ''vm2'']) '','')
      (\<lambda>t. Ret (xen_utils_copy_to_string_set (the t) '','')) = Ret (Some [Some ''vm1'', Some ''vm2''])"
  using string_set_roundtrip [of "[''vm1'', ''vm2'']" "CHR '',''"] by simp

text \<open>With any delimiter of at most one character and any entries, null and empty ones
  included, flattening a set stays inside its buffer.\<close>

lemma flatten_set_in_bounds:
  assumes "length delimiter \<le> 1"
  shows "xen_utils_flatten_string_set st delimiter \<noteq> Undefined"
  using assms flatten_set_loop_safe [of delimiter "[]" 1]
  by (auto simp: xen_utils_flatten_string_set_def bind_outcome_Ret_iff split: option.split
      dest!: bind_outcome_undefinedD)

lemma flatten_set_in_bounds_witness:
  "xen_utils_flatten_string_set (Some [Some ''a'', None, Some [], Some ''b'']) '';'' \<noteq> Undefined"
  by (rule flatten_set_in_bounds) simp

end
