(* ===== verification/CmpiUtil.thy ===== *)
theory CmpiUtil
  imports CString
begin

text \<open>
  \<^verbatim>\<open>src/cmpiutil.c\<close>: the comparison of CIM values, object paths and instances, the
  names of return codes and types, the printing of CIM values, and the InstanceID strings
  by which every provider names its objects. The CMPI broker is not part of the program:
  its accessors for object paths and instances are records of functions, and so are the
  library's floating-point printing and its date conversion.
\<close>

section \<open>CMPI data\<close>

datatype cmpi_rc =
    CMPI_RC_OK | CMPI_RC_ERR_FAILED | CMPI_RC_ERR_ACCESS_DENIED | CMPI_RC_ERR_INVALID_NAMESPACE
  | CMPI_RC_ERR_INVALID_PARAMETER | CMPI_RC_ERR_INVALID_CLASS | CMPI_RC_ERR_NOT_FOUND
  | CMPI_RC_ERR_NOT_SUPPORTED | CMPI_RC_ERR_CLASS_HAS_CHILDREN | CMPI_RC_ERR_CLASS_HAS_INSTANCES
  | CMPI_RC_ERR_INVALID_SUPERCLASS | CMPI_RC_ERR_ALREADY_EXISTS | CMPI_RC_ERR_NO_SUCH_PROPERTY
  | CMPI_RC_ERR_TYPE_MISMATCH | CMPI_RC_ERR_QUERY_LANGUAGE_NOT_SUPPORTED
  | CMPI_RC_ERR_INVALID_QUERY | CMPI_RC_ERR_METHOD_NOT_AVAILABLE | CMPI_RC_ERR_METHOD_NOT_FOUND
  | CMPI_RC_ERROR_SYSTEM | CMPI_RC_ERROR | CMPI_RC_other nat

datatype cmpi_type =
    CMPI_null | CMPI_boolean | CMPI_char16 | CMPI_real32 | CMPI_real64
  | CMPI_uint8 | CMPI_uint16 | CMPI_uint32 | CMPI_uint64
  | CMPI_sint8 | CMPI_sint16 | CMPI_sint32 | CMPI_sint64
  | CMPI_instance | CMPI_ref | CMPI_args | CMPI_class | CMPI_filter | CMPI_enumeration
  | CMPI_string | CMPI_chars | CMPI_dateTime | CMPI_ptr | CMPI_charsptr | CMPI_ARRAY
  | CMPI_other nat

text \<open>
  The value union, read at the type its tag names. A string or a date is a pointer, null as
  \<^verbatim>\<open>None\<close>. Floating-point numbers and dates are the parameters \<^verbatim>\<open>'r\<close> and
  \<^verbatim>\<open>'d\<close>; \<^verbatim>\<open>V_opaque\<close> is a value of a type that no routine below looks into.
\<close>

datatype ('r, 'd) cmpi_value =
    V_boolean "8 word" | V_char16 "16 word"
  | V_uint8 "8 word" | V_sint8 "8 word" | V_uint16 "16 word" | V_sint16 "16 word"
  | V_uint32 "32 word" | V_sint32 "32 word" | V_uint64 "64 word" | V_sint64 "64 word"
  | V_real32 'r | V_real64 'r
  | V_string "string option" | V_dateTime "'d option" | V_opaque cmpi_type

fun value_type :: "('r, 'd) cmpi_value \<Rightarrow> cmpi_type" where
  "value_type (V_boolean _) = CMPI_boolean"
| "value_type (V_char16 _) = CMPI_char16"
| "value_type (V_uint8 _) = CMPI_uint8"
| "value_type (V_sint8 _) = CMPI_sint8"
| "value_type (V_uint16 _) = CMPI_uint16"
| "value_type (V_sint16 _) = CMPI_sint16"
| "value_type (V_uint32 _) = CMPI_uint32"
| "value_type (V_sint32 _) = CMPI_sint32"
| "value_type (V_uint64 _) = CMPI_uint64"
| "value_type (V_sint64 _) = CMPI_sint64"
| "value_type (V_real32 _) = CMPI_real32"
| "value_type (V_real64 _) = CMPI_real64"
| "value_type (V_string _) = CMPI_string"
| "value_type (V_dateTime _) = CMPI_dateTime"
| "value_type (V_opaque t) = t"

record ('r, 'd) cmpi_data =
  is_null :: bool
  content :: "('r, 'd) cmpi_value"

record ('r, 'd) cmpi_lib =
  real_eq :: "'r \<Rightarrow> 'r \<Rightarrow> bool"
  real_fmt :: "nat \<Rightarrow> 'r \<Rightarrow> string"
  date_binary :: "'d \<Rightarrow> cmpi_rc \<times> 64 word"
  date_string :: "'d \<Rightarrow> cmpi_rc \<times> string option"

record ('o, 'r, 'd) path_api =
  CMGetNameSpace :: "'o \<Rightarrow> cmpi_rc \<times> string option"
  CMGetClassName :: "'o \<Rightarrow> cmpi_rc \<times> string option"
  CMGetKeyCount :: "'o \<Rightarrow> cmpi_rc \<times> nat"
  CMGetKeyAt :: "'o \<Rightarrow> nat \<Rightarrow> cmpi_rc \<times> string option \<times> ('r, 'd) cmpi_data"
  CMGetKey :: "'o \<Rightarrow> string \<Rightarrow> cmpi_rc \<times> ('r, 'd) cmpi_data"

record ('i, 'o, 'r, 'd) instance_api =
  CMGetObjectPath :: "'i \<Rightarrow> cmpi_rc \<times> 'o option"
  CMGetPropertyCount :: "'i \<Rightarrow> cmpi_rc \<times> nat"
  CMGetPropertyAt :: "'i \<Rightarrow> nat \<Rightarrow> cmpi_rc \<times> string option \<times> ('r, 'd) cmpi_data"
  CMGetProperty :: "'i \<Rightarrow> string \<Rightarrow> cmpi_rc \<times> ('r, 'd) cmpi_data"

section \<open>Creating an instance\<close>

text \<open>
  The caller's status is optional: with a null status pointer, only the null tests decide.
  The result is the instance, or null, and the status as the last call left it.
\<close>

definition CMNewInstance_checked ::
    "(string \<Rightarrow> string \<Rightarrow> cmpi_rc \<times> 'o option) \<Rightarrow> ('o \<Rightarrow> cmpi_rc \<times> 'i option) \<Rightarrow>
     ('i \<Rightarrow> cmpi_rc \<times> 'o option) \<Rightarrow> string \<Rightarrow> string \<Rightarrow> cmpi_rc option \<Rightarrow>
     'i option \<times> cmpi_rc option" where
  "CMNewInstance_checked new_path new_inst get_path ns cn rc =
     (case new_path ns cn of
        (st, op) \<Rightarrow>
          if st \<noteq> CMPI_RC_OK then (None, rc)
          else case op of None \<Rightarrow> (None, rc)
          | Some p \<Rightarrow>
              (case new_inst p of
                 (st2, inst) \<Rightarrow>
                   let rc2 = map_option (\<lambda>_. st2) rc in
                   if rc2 \<noteq> None \<and> rc2 \<noteq> Some CMPI_RC_OK then (None, rc2)
                   else case inst of None \<Rightarrow> (None, rc2)
                   | Some i \<Rightarrow>
                       (case get_path i of
                          (st3, op2) \<Rightarrow>
                            let rc3 = map_option (\<lambda>_. st3) rc2 in
                            if op2 = None \<or> (rc3 \<noteq> None \<and> rc3 \<noteq> Some CMPI_RC_OK)
                            then (None, rc3) else (Some i, rc3))))"

section \<open>Comparisons\<close>

definition CMSameType :: "('r, 'd) cmpi_data \<Rightarrow> ('r, 'd) cmpi_data \<Rightarrow> bool" where
  "CMSameType value1 value2 \<longleftrightarrow> value_type (content value1) = value_type (content value2)"

fun same_content :: "('r, 'd) cmpi_lib \<Rightarrow> ('r, 'd) cmpi_value \<Rightarrow> ('r, 'd) cmpi_value \<Rightarrow> bool" where
  "same_content L (V_string s1) v2 =
     (case v2 of
        V_string s2 \<Rightarrow> (case (s1, s2) of (Some a, Some b) \<Rightarrow> a = b | _ \<Rightarrow> False)
      | _ \<Rightarrow> False)"
| "same_content L (V_dateTime d1) v2 =
     (case v2 of
        V_dateTime d2 \<Rightarrow>
          (case (d1, d2) of
             (Some a, Some b) \<Rightarrow>
               (case date_binary L a of
                  (st1, n1) \<Rightarrow> if st1 \<noteq> CMPI_RC_OK then False
                    else (case date_binary L b of
                      (st2, n2) \<Rightarrow> if st2 \<noteq> CMPI_RC_OK then False else n1 = n2))
           | _ \<Rightarrow> False)
      | _ \<Rightarrow> False)"
| "same_content L (V_boolean a) v2 = (case v2 of V_boolean b \<Rightarrow> a = b | _ \<Rightarrow> False)"
| "same_content L (V_char16 a) v2 = (case v2 of V_char16 b \<Rightarrow> a = b | _ \<Rightarrow> False)"
| "same_content L (V_uint8 a) v2 = (case v2 of V_uint8 b \<Rightarrow> a = b | _ \<Rightarrow> False)"
| "same_content L (V_sint8 a) v2 = (case v2 of V_sint8 b \<Rightarrow> a = b | _ \<Rightarrow> False)"
| "same_content L (V_uint16 a) v2 = (case v2 of V_uint16 b \<Rightarrow> a = b | _ \<Rightarrow> False)"
| "same_content L (V_sint16 a) v2 = (case v2 of V_sint16 b \<Rightarrow> a = b | _ \<Rightarrow> False)"
| "same_content L (V_uint32 a) v2 = (case v2 of V_uint32 b \<Rightarrow> a = b | _ \<Rightarrow> False)"
| "same_content L (V_sint32 a) v2 = (case v2 of V_sint32 b \<Rightarrow> a = b | _ \<Rightarrow> False)"
| "same_content L (V_uint64 a) v2 = (case v2 of V_uint64 b \<Rightarrow> a = b | _ \<Rightarrow> False)"
| "same_content L (V_sint64 a) v2 = (case v2 of V_sint64 b \<Rightarrow> a = b | _ \<Rightarrow> False)"
| "same_content L (V_real32 a) v2 = (case v2 of V_real32 b \<Rightarrow> real_eq L a b | _ \<Rightarrow> False)"
| "same_content L (V_real64 a) v2 = (case v2 of V_real64 b \<Rightarrow> real_eq L a b | _ \<Rightarrow> False)"
| "same_content L (V_opaque t) v2 = False"

definition CMSameValue :: "('r, 'd) cmpi_lib \<Rightarrow> ('r, 'd) cmpi_data \<Rightarrow> ('r, 'd) cmpi_data \<Rightarrow> bool" where
  "CMSameValue L value1 value2 =
     (if \<not> CMSameType value1 value2 then False
      else same_content L (content value1) (content value2))"

text \<open>The test both comparison loops make on a pair of keys or properties.\<close>

definition same_field :: "('r, 'd) cmpi_lib \<Rightarrow> ('r, 'd) cmpi_data \<Rightarrow> ('r, 'd) cmpi_data \<Rightarrow> bool" where
  "same_field L d1 d2 = (\<not> ((is_null d1 \<noteq> is_null d2) \<or> \<not> CMSameValue L d1 d2))"

definition same_field_at ::
    "('r, 'd) cmpi_lib \<Rightarrow> cmpi_rc \<times> string option \<times> ('r, 'd) cmpi_data \<Rightarrow>
     (string \<Rightarrow> cmpi_rc \<times> ('r, 'd) cmpi_data) \<Rightarrow> bool" where
  "same_field_at L at1 lookup2 =
     (case at1 of
        (st1, name, d1) \<Rightarrow>
          if st1 \<noteq> CMPI_RC_OK then False
          else case name of None \<Rightarrow> False
          | Some n \<Rightarrow>
              (case lookup2 n of
                 (st2, d2) \<Rightarrow> if st2 \<noteq> CMPI_RC_OK then False else same_field L d1 d2))"

definition same_text :: "cmpi_rc \<times> string option \<Rightarrow> cmpi_rc \<times> string option \<Rightarrow> bool" where
  "same_text r1 r2 =
     (case r1 of (st1, s1) \<Rightarrow>
        if st1 \<noteq> CMPI_RC_OK then False
        else case s1 of None \<Rightarrow> False
        | Some a \<Rightarrow>
            (case r2 of (st2, s2) \<Rightarrow>
               if st2 \<noteq> CMPI_RC_OK then False
               else case s2 of None \<Rightarrow> False | Some b \<Rightarrow> a = b))"

definition same_count :: "cmpi_rc \<times> nat \<Rightarrow> cmpi_rc \<times> nat \<Rightarrow> bool" where
  "same_count r1 r2 = (fst r1 = CMPI_RC_OK \<and> fst r2 = CMPI_RC_OK \<and> snd r1 = snd r2)"

definition CMSameObject ::
    "('r, 'd) cmpi_lib \<Rightarrow> ('o, 'r, 'd) path_api \<Rightarrow> 'o \<Rightarrow> 'o \<Rightarrow> bool" where
  "CMSameObject L A object1 object2 =
     (if \<not> same_text (CMGetNameSpace A object1) (CMGetNameSpace A object2) then False
      else if \<not> same_text (CMGetClassName A object1) (CMGetClassName A object2) then False
      else if \<not> same_count (CMGetKeyCount A object1) (CMGetKeyCount A object2) then False
      else list_all (\<lambda>i. same_field_at L (CMGetKeyAt A object1 i) (CMGetKey A object2))
             [0..<snd (CMGetKeyCount A object1)])"

definition CMSameInstance ::
    "('r, 'd) cmpi_lib \<Rightarrow> ('o, 'r, 'd) path_api \<Rightarrow> ('i, 'o, 'r, 'd) instance_api \<Rightarrow>
     'i \<Rightarrow> 'i \<Rightarrow> bool" where
  "CMSameInstance L A I instance1 instance2 =
     (case CMGetObjectPath I instance1 of (st1, op1) \<Rightarrow>
        if st1 \<noteq> CMPI_RC_OK then False
        else case op1 of None \<Rightarrow> False | Some path1 \<Rightarrow>
          (case CMGetObjectPath I instance2 of (st2, op2) \<Rightarrow>
             if st2 \<noteq> CMPI_RC_OK then False
             else case op2 of None \<Rightarrow> False | Some path2 \<Rightarrow>
               if \<not> CMSameObject L A path1 path2 then False
               else if \<not> same_count (CMGetPropertyCount I instance1) (CMGetPropertyCount I instance2)
               then False
               else list_all (\<lambda>i. same_field_at L (CMGetPropertyAt I instance1 i)
                                                  (CMGetProperty I instance2))
                      [0..<snd (CMGetPropertyCount I instance1)]))"

section \<open>Names\<close>

fun CMPIrcName :: "cmpi_rc \<Rightarrow> string" where
  "CMPIrcName CMPI_RC_OK = ''CMPI_RC_OK''"
| "CMPIrcName CMPI_RC_ERR_FAILED = ''CMPI_RC_ERR_FAILED''"
| "CMPIrcName CMPI_RC_ERR_ACCESS_DENIED = ''CMPI_RC_ERR_ACCESS_DENIED''"
| "CMPIrcName CMPI_RC_ERR_INVALID_NAMESPACE = ''CMPI_RC_ERR_INVALID_NAMESPACE''"
| "CMPIrcName CMPI_RC_ERR_INVALID_PARAMETER = ''CMPI_RC_ERR_INVALID_PARAMETER''"
| "CMPIrcName CMPI_RC_ERR_INVALID_CLASS = ''CMPI_RC_ERR_INVALID_CLASS''"
| "CMPIrcName CMPI_RC_ERR_NOT_FOUND = ''CMPI_RC_ERR_NOT_FOUND''"
| "CMPIrcName CMPI_RC_ERR_NOT_SUPPORTED = ''CMPI_RC_ERR_NOT_SUPPORTED''"
| "CMPIrcName CMPI_RC_ERR_CLASS_HAS_CHILDREN = ''CMPI_RC_ERR_CLASS_HAS_CHILDREN''"
| "CMPIrcName CMPI_RC_ERR_CLASS_HAS_INSTANCES = ''CMPI_RC_ERR_CLASS_HAS_INSTANCES''"
| "CMPIrcName CMPI_RC_ERR_INVALID_SUPERCLASS = ''CMPI_RC_ERR_INVALID_SUPERCLASS''"
| "CMPIrcName CMPI_RC_ERR_ALREADY_EXISTS = ''CMPI_RC_ERR_ALREADY_EXISTS''"
| "CMPIrcName CMPI_RC_ERR_NO_SUCH_PROPERTY = ''CMPI_RC_ERR_NO_SUCH_PROPERTY''"
| "CMPIrcName CMPI_RC_ERR_TYPE_MISMATCH = ''CMPI_RC_ERR_TYPE_MISMATCH''"
| "CMPIrcName CMPI_RC_ERR_QUERY_LANGUAGE_NOT_SUPPORTED = ''CMPI_RC_ERR_QUERY_LANGUAGE_NOT_SUPPORTED''"
| "CMPIrcName CMPI_RC_ERR_INVALID_QUERY = ''CMPI_RC_ERR_INVALID_QUERY''"
| "CMPIrcName CMPI_RC_ERR_METHOD_NOT_AVAILABLE = ''CMPI_RC_ERR_METHOD_NOT_AVAILABLE''"
| "CMPIrcName CMPI_RC_ERR_METHOD_NOT_FOUND = ''CMPI_RC_ERR_METHOD_NOT_FOUND''"
| "CMPIrcName CMPI_RC_ERROR_SYSTEM = ''CMPI_RC_ERROR_SYSTEM''"
| "CMPIrcName CMPI_RC_ERROR = ''CMPI_RC_ERROR''"
| "CMPIrcName (CMPI_RC_other _) = ''UNKNOWN''"

fun CMPITypeName :: "cmpi_type \<Rightarrow> string" where
  "CMPITypeName CMPI_null = ''CMPI_null''"
| "CMPITypeName CMPI_boolean = ''CMPI_boolean''"
| "CMPITypeName CMPI_char16 = ''CMPI_char16''"
| "CMPITypeName CMPI_real32 = ''CMPI_real32''"
| "CMPITypeName CMPI_real64 = ''CMPI_real64''"
| "CMPITypeName CMPI_uint8 = ''CMPI_uint8''"
| "CMPITypeName CMPI_uint16 = ''CMPI_uint16''"
| "CMPITypeName CMPI_uint32 = ''CMPI_uint32''"
| "CMPITypeName CMPI_uint64 = ''CMPI_uint64''"
| "CMPITypeName CMPI_sint8 = ''CMPI_sint8''"
| "CMPITypeName CMPI_sint16 = ''CMPI_sint16''"
| "CMPITypeName CMPI_sint32 = ''CMPI_sint32''"
| "CMPITypeName CMPI_sint64 = ''CMPI_sint64''"
| "CMPITypeName CMPI_instance = ''CMPI_instance''"
| "CMPITypeName CMPI_ref = ''CMPI_ref''"
| "CMPITypeName CMPI_args = ''CMPI_args''"
| "CMPITypeName CMPI_class = ''CMPI_class''"
| "CMPITypeName CMPI_filter = ''CMPI_filter''"
| "CMPITypeName CMPI_enumeration = ''CMPI_enumeration''"
| "CMPITypeName CMPI_string = ''CMPI_string''"
| "CMPITypeName CMPI_chars = ''CMPI_chars''"
| "CMPITypeName CMPI_dateTime = ''CMPI_dateTime''"
| "CMPITypeName CMPI_ptr = ''CMPI_ptr''"
| "CMPITypeName CMPI_charsptr = ''CMPI_charsptr''"
| "CMPITypeName CMPI_ARRAY = ''CMPI_ARRAY''"
| "CMPITypeName (CMPI_other _) = ''UNKNOWN''"

section \<open>Printing a value\<close>

text \<open>
  Each case prints into a buffer of the size the code allocates. \<^verbatim>\<open>mem\<close> says whether
  the allocation succeeds; every case returns null when it fails.
\<close>

fun value_text :: "('r, 'd) cmpi_lib \<Rightarrow> ('r, 'd) cmpi_value \<Rightarrow> string option" where
  "value_text L (V_char16 c) =
     Some (snprintf 2 (if unat c mod 256 = 0 then [] else [char_of (unat c)]))"
| "value_text L (V_sint8 w) = Some (snprintf 5 (show_int (sint w)))"
| "value_text L (V_uint8 w) = Some (snprintf 4 (show_nat (unat w)))"
| "value_text L (V_sint16 w) = Some (snprintf 7 (show_int (sint w)))"
| "value_text L (V_uint16 w) = Some (snprintf 6 (show_nat (unat w)))"
| "value_text L (V_sint32 w) = Some (snprintf 12 (show_int (sint w)))"
| "value_text L (V_uint32 w) = Some (snprintf 11 (show_nat (unat w)))"
| "value_text L (V_sint64 w) = Some (snprintf 21 (show_int (sint w)))"
| "value_text L (V_uint64 w) = Some (snprintf 20 (show_nat (unat w)))"
| "value_text L (V_string s) = s"
| "value_text L (V_boolean b) = Some (snprintf 6 (if b \<noteq> 0 then ''TRUE'' else ''FALSE''))"
| "value_text L (V_real32 r) = Some (snprintf 20 (real_fmt L 16 r))"
| "value_text L (V_real64 r) = Some (snprintf 36 (real_fmt L 32 r))"
| "value_text L (V_dateTime d) =
     (case d of None \<Rightarrow> None
      | Some dt \<Rightarrow> (case date_string L dt of (st, s) \<Rightarrow> if st \<noteq> CMPI_RC_OK then None else s))"
| "value_text L (V_opaque t) = None"

definition CMPIValueToString :: "('r, 'd) cmpi_lib \<Rightarrow> bool \<Rightarrow> ('r, 'd) cmpi_data \<Rightarrow> string option" where
  "CMPIValueToString L mem data =
     (if is_null data then None
      else if \<not> mem then None
      else value_text L (content data))"

section \<open>InstanceID strings\<close>

definition CMPICreateNewSystemInstanceID :: "nat \<Rightarrow> string \<Rightarrow> string" where
  "CMPICreateNewSystemInstanceID buf_len systemid = snprintf buf_len (''Xen:'' @ systemid)"

definition CMPICreateNewDeviceInstanceID :: "nat \<Rightarrow> string \<Rightarrow> string \<Rightarrow> string" where
  "CMPICreateNewDeviceInstanceID buf_len systemid deviceid =
     snprintf buf_len (''Xen:'' @ systemid @ ''/'' @ deviceid)"

definition CMPIStrncpySystemNameFromID :: "bool \<Rightarrow> string \<Rightarrow> nat \<Rightarrow> string option" where
  "CMPIStrncpySystemNameFromID mem ident buf_len =
     (if \<not> mem then None
      else case strchr ident CHR '':'' of
        None \<Rightarrow> None
      | Some colon \<Rightarrow>
          let begin = drop 1 colon;
              begin' = (case strrchr_split begin CHR ''/'' of None \<Rightarrow> begin | Some (front, _) \<Rightarrow> front)
          in if buf_len \<le> length begin' then None else Some begin')"

definition CMPIStrncpyDeviceNameFromID :: "string option \<Rightarrow> nat \<Rightarrow> string option" where
  "CMPIStrncpyDeviceNameFromID ident buf_len =
     (case ident of
        None \<Rightarrow> None
      | Some s \<Rightarrow>
          (case strrchr_split s CHR ''/'' of
             None \<Rightarrow> None
           | Some (_, dev_name) \<Rightarrow> if buf_len \<le> length dev_name then None else Some dev_name))"

section \<open>Lemmas: what the buffers hold\<close>

lemma length_show_int_le:
  "\<bar>i\<bar> < 10 ^ k \<Longrightarrow> 0 < k \<Longrightarrow> length (show_int i) \<le> Suc k"
  by (auto simp: show_int_def nat_less_iff intro!: length_show_nat_le le_SucI)

lemma snprintf_show_nat: "m < 10 ^ k \<Longrightarrow> 0 < k \<Longrightarrow> snprintf (Suc k) (show_nat m) = show_nat m"
  using length_show_nat_le by (fastforce intro: snprintf_fits)

lemma snprintf_show_int:
  "\<bar>i\<bar> < 10 ^ k \<Longrightarrow> 0 < k \<Longrightarrow> snprintf (Suc (Suc k)) (show_int i) = show_int i"
  using length_show_int_le by (fastforce intro: snprintf_fits)

lemma snprintf_short_by_one:
  assumes "10 ^ k \<le> m" and "m < 10 ^ Suc k" and "0 < k"
  shows "snprintf (Suc k) (show_nat m) = show_nat (m div 10)"
proof -
  have "length (show_nat m) = Suc k"
    using length_show_nat_ge [OF assms(1)] length_show_nat_le [OF assms(2)] by simp
  moreover have "10 \<le> m" using assms(1,3) power_increasing [of 1 k "10::nat"] by simp
  ultimately show ?thesis
    by (simp add: snprintf_def show_nat_drop_last_digit [symmetric] butlast_conv_take)
qed

lemma sint_bound: "\<bar>sint (w :: 'a::len word)\<bar> \<le> 2 ^ (LENGTH('a) - 1)"
  using sint_lt [of w] sint_ge [of w] by simp

lemma text_uint8: "value_text L (V_uint8 w) = Some (show_nat (unat w))"
  using unat_bound [of w] snprintf_show_nat [of "unat w" 3] by simp

lemma text_uint16: "value_text L (V_uint16 w) = Some (show_nat (unat w))"
  using unat_bound [of w] snprintf_show_nat [of "unat w" 5] by simp

lemma text_uint32: "value_text L (V_uint32 w) = Some (show_nat (unat w))"
  using unat_bound [of w] snprintf_show_nat [of "unat w" 10] by simp

lemma text_sint8: "value_text L (V_sint8 w) = Some (show_int (sint w))"
  using sint_bound [of w] snprintf_show_int [of "sint w" 3] by simp

lemma text_sint16: "value_text L (V_sint16 w) = Some (show_int (sint w))"
  using sint_bound [of w] snprintf_show_int [of "sint w" 5] by simp

lemma text_sint32: "value_text L (V_sint32 w) = Some (show_int (sint w))"
  using sint_bound [of w] snprintf_show_int [of "sint w" 10] by simp

lemma text_sint64: "value_text L (V_sint64 w) = Some (show_int (sint w))"
  using sint_bound [of w] snprintf_show_int [of "sint w" 19] by simp

lemma text_uint64:
  "value_text L (V_uint64 w) =
     Some (if unat w < 10 ^ 19 then show_nat (unat w) else show_nat (unat w div 10))"
  using unat_bound [of w] snprintf_show_nat [of "unat w" 19] snprintf_short_by_one [of 19 "unat w"]
  by (simp add: not_less)

lemmas integer_texts = text_uint8 text_uint16 text_uint32 text_uint64
  text_sint8 text_sint16 text_sint32 text_sint64

section \<open>Lemmas: InstanceIDs\<close>

lemma system_name_of_device_id:
  assumes "CHR ''/'' \<notin> set dev" and "length sys < name_len" and "length sys + length dev + 5 < id_len"
  shows "CMPIStrncpySystemNameFromID True (CMPICreateNewDeviceInstanceID id_len sys dev) name_len = Some sys"
  using assms strchr_append [of "CHR '':''" "''Xen''" "sys @ ''/'' @ dev"]
    strrchr_split_append [of "CHR ''/''" dev sys]
  by (simp add: CMPICreateNewDeviceInstanceID_def CMPIStrncpySystemNameFromID_def snprintf_fits)

lemma device_name_of_device_id:
  assumes "CHR ''/'' \<notin> set dev" and "length dev < name_len" and "length sys + length dev + 5 < id_len"
  shows "CMPIStrncpyDeviceNameFromID (Some (CMPICreateNewDeviceInstanceID id_len sys dev)) name_len = Some dev"
  using assms strrchr_split_append [of "CHR ''/''" dev "''Xen:'' @ sys"]
  by (simp add: CMPICreateNewDeviceInstanceID_def CMPIStrncpyDeviceNameFromID_def snprintf_fits)

lemma system_name_of_system_id:
  assumes "CHR ''/'' \<notin> set sys" and "length sys < name_len" and "length sys + 4 < id_len"
  shows "CMPIStrncpySystemNameFromID True (CMPICreateNewSystemInstanceID id_len sys) name_len = Some sys"
  using assms strchr_append [of "CHR '':''" "''Xen''" sys] strrchr_split_None [of sys "CHR ''/''"]
  by (simp add: CMPICreateNewSystemInstanceID_def CMPIStrncpySystemNameFromID_def snprintf_fits)

lemma no_device_in_system_id:
  assumes "CHR ''/'' \<notin> set sys"
  shows "CMPIStrncpyDeviceNameFromID (Some (CMPICreateNewSystemInstanceID id_len sys)) name_len = None"
proof -
  have "CHR ''/'' \<notin> set (take (id_len - 1) (''Xen:'' @ sys))"
    using assms set_take_subset [of "id_len - 1" "''Xen:'' @ sys"] by auto
  then have "strrchr_split (take (id_len - 1) (''Xen:'' @ sys)) CHR ''/'' = None"
    by (simp only: strrchr_split_None) simp
  then show ?thesis
    by (simp add: CMPIStrncpyDeviceNameFromID_def CMPICreateNewSystemInstanceID_def snprintf_def)
qed

text \<open>
  With the buffer sizes of \<^verbatim>\<open>provider_common.h\<close> (128 for an InstanceID, 64 for a
  system name), the two forms of InstanceID are codecs.
\<close>

definition decode_device_id :: "string \<Rightarrow> (string \<times> string) option" where
  "decode_device_id ident =
     (case CMPIStrncpySystemNameFromID True ident 64 of
        None \<Rightarrow> None
      | Some sys \<Rightarrow> map_option (Pair sys) (CMPIStrncpyDeviceNameFromID (Some ident) 64))"

definition device_id_fits :: "string \<times> string \<Rightarrow> bool" where
  "device_id_fits sd \<longleftrightarrow> CHR ''/'' \<notin> set (snd sd) \<and> length (fst sd) < 60 \<and> length (snd sd) < 60"

definition system_id_fits :: "string \<Rightarrow> bool" where
  "system_id_fits sys \<longleftrightarrow> CHR ''/'' \<notin> set sys \<and> length sys < 64"

interpretation device_id: codec "\<lambda>(sys, dev). CMPICreateNewDeviceInstanceID 128 sys dev"
    decode_device_id device_id_fits
  by unfold_locales
    (auto simp: decode_device_id_def device_id_fits_def system_name_of_device_id device_name_of_device_id)

interpretation system_id: codec "CMPICreateNewSystemInstanceID 128"
    "\<lambda>ident. CMPIStrncpySystemNameFromID True ident 64" system_id_fits
  by unfold_locales (auto simp: system_id_fits_def system_name_of_system_id)

section \<open>Lemmas: comparisons\<close>

text \<open>What it means for the broker's accessors to describe a given object path.\<close>

definition reads_path ::
    "('o, 'r, 'd) path_api \<Rightarrow> 'o \<Rightarrow> string \<Rightarrow> string \<Rightarrow> (string \<times> ('r, 'd) cmpi_data) list \<Rightarrow> bool" where
  "reads_path A p ns cn ks \<longleftrightarrow>
     CMGetNameSpace A p = (CMPI_RC_OK, Some ns) \<and> CMGetClassName A p = (CMPI_RC_OK, Some cn) \<and>
     CMGetKeyCount A p = (CMPI_RC_OK, length ks) \<and>
     (\<forall>i < length ks. CMGetKeyAt A p i = (CMPI_RC_OK, Some (fst (ks ! i)), snd (ks ! i))) \<and>
     (\<forall>n. case map_of ks n of
            Some d \<Rightarrow> CMGetKey A p n = (CMPI_RC_OK, d)
          | None \<Rightarrow> fst (CMGetKey A p n) \<noteq> CMPI_RC_OK)"

definition fields_match ::
    "('r, 'd) cmpi_lib \<Rightarrow> (string \<times> ('r, 'd) cmpi_data) list \<Rightarrow> (string \<times> ('r, 'd) cmpi_data) list \<Rightarrow> bool" where
  "fields_match L ks1 ks2 \<longleftrightarrow>
     (\<forall>(n, d) \<in> set ks1. case map_of ks2 n of None \<Rightarrow> False | Some d2 \<Rightarrow> same_field L d d2)"

lemma same_object_reads:
  assumes r1: "reads_path A p1 ns1 cn1 ks1" and r2: "reads_path A p2 ns2 cn2 ks2"
  shows "CMSameObject L A p1 p2 \<longleftrightarrow>
    ns1 = ns2 \<and> cn1 = cn2 \<and> length ks1 = length ks2 \<and> fields_match L ks1 ks2"
proof -
  have key2: "CMGetKey A p2 n = (CMPI_RC_OK, d)" if "map_of ks2 n = Some d" for n d
    using r2 that unfolding reads_path_def by (metis (mono_tags, lifting) option.simps(5))
  have nokey2: "fst (CMGetKey A p2 n) \<noteq> CMPI_RC_OK" if "map_of ks2 n = None" for n
    using r2 that unfolding reads_path_def by (metis (mono_tags, lifting) option.simps(4))
  have at: "same_field_at L (CMGetKeyAt A p1 i) (CMGetKey A p2) \<longleftrightarrow>
      (case map_of ks2 (fst (ks1 ! i)) of None \<Rightarrow> False | Some d2 \<Rightarrow> same_field L (snd (ks1 ! i)) d2)"
    if "i < length ks1" for i
    using r1 that key2 [of "fst (ks1 ! i)"] nokey2 [of "fst (ks1 ! i)"]
    by (cases "map_of ks2 (fst (ks1 ! i))"; cases "CMGetKey A p2 (fst (ks1 ! i))")
      (auto simp: reads_path_def same_field_at_def)
  have "list_all (\<lambda>i. same_field_at L (CMGetKeyAt A p1 i) (CMGetKey A p2)) [0..<length ks1] \<longleftrightarrow>
      fields_match L ks1 ks2"
    by (auto simp: list_all_iff at fields_match_def all_set_conv_all_nth case_prod_beta)
  then show ?thesis
    using r1 r2 by (auto simp: CMSameObject_def same_text_def same_count_def reads_path_def)
qed

lemma same_content_sym:
  assumes "\<And>a b. real_eq L a b = real_eq L b a"
  shows "same_content L v1 v2 = same_content L v2 v1"
  using assms by (cases v1; cases v2) (auto split: option.splits prod.splits)

lemma same_field_sym:
  assumes "\<And>a b. real_eq L a b = real_eq L b a"
  shows "same_field L d1 d2 = same_field L d2 d1"
  using same_content_sym [where L = L, OF assms] by (auto simp: same_field_def CMSameValue_def CMSameType_def)

lemma fields_match_sym:
  assumes sym: "\<And>a b. real_eq L a b = real_eq L b a"
    and d1: "distinct (map fst ks1)" and d2: "distinct (map fst ks2)" and len: "length ks1 = length ks2"
    and m: "fields_match L ks1 ks2"
  shows "fields_match L ks2 ks1"
proof -
  have "set (map fst ks1) \<subseteq> set (map fst ks2)"
    using m by (force simp: fields_match_def split: option.splits dest: map_of_SomeD)
  moreover have "card (set (map fst ks1)) = card (set (map fst ks2))"
    using d1 d2 len by (simp add: distinct_card del: set_map)
  ultimately have names: "set (map fst ks1) = set (map fst ks2)"
    by (intro card_subset_eq) auto
  show ?thesis
    unfolding fields_match_def
  proof (intro ballI, clarify)
    fix n d assume nd: "(n, d) \<in> set ks2"
    then have "n \<in> set (map fst ks1)" using names by force
    then obtain e where e: "(n, e) \<in> set ks1" by auto
    with m d2 nd have "same_field L e d" by (auto simp: fields_match_def dest: map_of_is_SomeI)
    moreover have "map_of ks1 n = Some e" using e d1 by simp
    ultimately show "case map_of ks1 n of None \<Rightarrow> False | Some d2 \<Rightarrow> same_field L d d2"
      using same_field_sym [OF sym] by simp
  qed
qed

section \<open>What the CIM utilities guarantee\<close>

text \<open>Every integer value but one kind prints as its exact decimal text: the buffers of all
  eight integer types hold it, except that an unsigned 64-bit value of twenty digits loses
  its last digit.\<close>

lemma integer_to_string:
  "CMPIValueToString L True \<lparr>is_null = False, content = V_uint8 a\<rparr> = Some (show_nat (unat a)) \<and>
   CMPIValueToString L True \<lparr>is_null = False, content = V_uint16 b\<rparr> = Some (show_nat (unat b)) \<and>
   CMPIValueToString L True \<lparr>is_null = False, content = V_uint32 c\<rparr> = Some (show_nat (unat c)) \<and>
   CMPIValueToString L True \<lparr>is_null = False, content = V_sint8 d\<rparr> = Some (show_int (sint d)) \<and>
   CMPIValueToString L True \<lparr>is_null = False, content = V_sint16 e\<rparr> = Some (show_int (sint e)) \<and>
   CMPIValueToString L True \<lparr>is_null = False, content = V_sint32 f\<rparr> = Some (show_int (sint f)) \<and>
   CMPIValueToString L True \<lparr>is_null = False, content = V_sint64 g\<rparr> = Some (show_int (sint g)) \<and>
   CMPIValueToString L True \<lparr>is_null = False, content = V_uint64 h\<rparr> =
     Some (if unat h < 10 ^ 19 then show_nat (unat h) else show_nat (unat h div 10))"
  by (simp only: CMPIValueToString_def integer_texts cmpi_data.simps if_False if_True simp_thms)

text \<open>Printing a 32-bit real drops its exponent: two numbers with the same mantissa digits
  print alike whatever their exponents. (The conversion writes the mantissa, at least
  eighteen characters of it, then the letter e and the exponent.)\<close>

lemma real32_exponent_lost:
  assumes "real_fmt L 16 r = mant @ CHR ''e'' # expo" and "real_fmt L 16 r' = mant @ CHR ''e'' # expo'"
    and "18 \<le> length mant"
  shows "CMPIValueToString L True \<lparr>is_null = False, content = V_real32 r\<rparr> =
    CMPIValueToString L True \<lparr>is_null = False, content = V_real32 r'\<rparr>"
  using assms by (simp add: CMPIValueToString_def snprintf_def take_Cons')

definition demo_lib :: "(nat, unit) cmpi_lib" where
  "demo_lib = \<lparr>real_eq = (=), real_fmt = (\<lambda>p n. ''1.'' @ replicate p CHR ''5'' @ ''e+'' @ show_nat n),
     date_binary = (\<lambda>_. (CMPI_RC_OK, 0)), date_string = (\<lambda>_. (CMPI_RC_OK, None))\<rparr>"

lemma real32_exponent_lost_witness:
  "CMPIValueToString demo_lib True \<lparr>is_null = False, content = V_real32 10\<rparr> =
    CMPIValueToString demo_lib True \<lparr>is_null = False, content = V_real32 20\<rparr>"
  by (rule real32_exponent_lost [where mant = "''1.'' @ replicate 16 CHR ''5''"
        and expo = "CHR ''+'' # show_nat 10" and expo' = "CHR ''+'' # show_nat 20"])
    (simp_all add: demo_lib_def)

text \<open>A device's InstanceID gives back the system name and the device name it was made of, for
  any system name; two devices never share an InstanceID.\<close>

lemma device_instance_id:
  assumes "device_id_fits (sys, dev)" and "device_id_fits (sys', dev')"
  shows "CMPIStrncpySystemNameFromID True (CMPICreateNewDeviceInstanceID 128 sys dev) 64 = Some sys \<and>
    CMPIStrncpyDeviceNameFromID (Some (CMPICreateNewDeviceInstanceID 128 sys dev)) 64 = Some dev \<and>
    (CMPICreateNewDeviceInstanceID 128 sys dev = CMPICreateNewDeviceInstanceID 128 sys' dev' \<longrightarrow>
     sys = sys' \<and> dev = dev')"
  using assms device_id.enc_inj [OF assms]
  by (auto simp: device_id_fits_def system_name_of_device_id device_name_of_device_id)

lemma device_instance_id_witness:
  "CMPIStrncpyDeviceNameFromID (Some (CMPICreateNewDeviceInstanceID 128 ''vm-1'' ''vif0'')) 64 = Some ''vif0''"
  using device_instance_id [of "''vm-1''" "''vif0''" "''vm-1''" "''vif1''"] by (simp add: device_id_fits_def)

text \<open>A system's InstanceID gives back the system name, carries no device name, and differs
  between systems.\<close>

lemma system_instance_id:
  assumes "system_id_fits sys" and "system_id_fits sys'"
  shows "CMPIStrncpySystemNameFromID True (CMPICreateNewSystemInstanceID 128 sys) 64 = Some sys \<and>
    CMPIStrncpyDeviceNameFromID (Some (CMPICreateNewSystemInstanceID 128 sys)) 64 = None \<and>
    (CMPICreateNewSystemInstanceID 128 sys = CMPICreateNewSystemInstanceID 128 sys' \<longrightarrow> sys = sys')"
  using assms system_id.enc_inj [OF assms]
  by (auto simp: system_id_fits_def system_name_of_system_id no_device_in_system_id)

lemma system_instance_id_witness:
  "CMPIStrncpySystemNameFromID True (CMPICreateNewSystemInstanceID 128 ''vm-1'') 64 = Some ''vm-1''"
  using system_instance_id [of "''vm-1''" "''vm-2''"] by (simp add: system_id_fits_def)

text \<open>The comparison of object paths is symmetric although it walks the keys of the first path
  only: with distinct key names and a symmetric comparison of reals, the order of its
  arguments does not matter.\<close>

lemma same_object_symmetric:
  assumes "reads_path A p1 ns1 cn1 ks1" and "reads_path A p2 ns2 cn2 ks2"
    and "distinct (map fst ks1)" and "distinct (map fst ks2)"
    and "\<And>a b. real_eq L a b = real_eq L b a"
  shows "CMSameObject L A p1 p2 = CMSameObject L A p2 p1"
  using fields_match_sym [OF assms(5)] assms(3,4)
  by (auto simp: same_object_reads [OF assms(1,2)] same_object_reads [OF assms(2,1)])

definition demo_path :: "(string \<times> (nat, unit) cmpi_data) list \<Rightarrow> (unit, nat, unit) path_api" where
  "demo_path ks = \<lparr>CMGetNameSpace = (\<lambda>_. (CMPI_RC_OK, Some ''root/cimv2'')),
     CMGetClassName = (\<lambda>_. (CMPI_RC_OK, Some ''Xen_Job'')), CMGetKeyCount = (\<lambda>_. (CMPI_RC_OK, length ks)),
     CMGetKeyAt = (\<lambda>_ i. (CMPI_RC_OK, Some (fst (ks ! i)), snd (ks ! i))),
     CMGetKey = (\<lambda>_ n. case map_of ks n of
        Some d \<Rightarrow> (CMPI_RC_OK, d)
      | None \<Rightarrow> (CMPI_RC_ERR_NOT_FOUND, \<lparr>is_null = True, content = V_string None\<rparr>))\<rparr>"

lemma demo_path_reads: "reads_path (demo_path ks) () ''root/cimv2'' ''Xen_Job'' ks"
  by (simp add: reads_path_def demo_path_def split: option.split)

lemma same_object_symmetric_witness:
  "CMSameObject demo_lib (demo_path [(''InstanceID'', \<lparr>is_null = False, content = V_uint8 1\<rparr>)]) () () =
   CMSameObject demo_lib (demo_path [(''InstanceID'', \<lparr>is_null = False, content = V_uint8 1\<rparr>)]) () ()"
  by (rule same_object_symmetric [OF demo_path_reads demo_path_reads]) (auto simp: demo_lib_def)

text \<open>The comparison is not reflexive: an object path with a null string (or date) among its
  key values differs from itself, although both sides are null.\<close>

lemma same_object_null_key:
  assumes "reads_path A p ns cn ks" and "(n, \<lparr>is_null = True, content = V_string None\<rparr>) \<in> set ks"
    and "distinct (map fst ks)"
  shows "\<not> CMSameObject L A p p"
  using assms(2,3)
  by (auto simp: same_object_reads [OF assms(1,1)] fields_match_def same_field_def CMSameValue_def
      CMSameType_def intro!: bexI [of _ "(n, \<lparr>is_null = True, content = V_string None\<rparr>)"])

lemma same_object_null_key_witness:
  "\<not> CMSameObject demo_lib (demo_path [(''Name'', \<lparr>is_null = True, content = V_string None\<rparr>)]) () ()"
  by (rule same_object_null_key [OF demo_path_reads]) auto

end
