(* ===== verification/XenText.thy ===== *)
theory XenText
  imports StringMap CmpiUtil
begin

text \<open>
  The text conversions of \<^verbatim>\<open>src/xen_utils.c\<close>: CIM string arrays and string maps, XML
  escapes, WBEM URIs, the records of the transfer plugin, allocation units, error messages
  and times.
\<close>

section \<open>CIM string arrays\<close>

text \<open>
  The size loop skips null elements, the copying loop does not: it copies every element whose
  type is a string. A null character pointer reaching \<^verbatim>\<open>strlen\<close> or
  \<^verbatim>\<open>strcat\<close>, or text longer than the computed size, is undefined.
\<close>

fun array_size :: "('r, 'd) cmpi_data list \<Rightarrow> nat outcome" where
  "array_size [] = Ret 0"
| "array_size (e # arr) =
     (case content e of
        V_string s \<Rightarrow>
          if is_null e then array_size arr
          else (case s of
             None \<Rightarrow> Undefined
           | Some t \<Rightarrow> bind_outcome (array_size arr) (\<lambda>n. Ret (length t + 1 + n)))
      | _ \<Rightarrow> array_size arr)"

fun array_copy :: "nat \<Rightarrow> string \<Rightarrow> ('r, 'd) cmpi_data list \<Rightarrow> string outcome" where
  "array_copy cap flat_map [] = Ret flat_map"
| "array_copy cap flat_map (e # arr) =
     (case content e of
        V_string s \<Rightarrow>
          (case s of
             None \<Rightarrow> Undefined
           | Some t \<Rightarrow>
               let f1 = flat_map @ t in
               if cap < length f1 then Undefined
               else if arr = [] then Ret f1
               else if cap < length f1 + 1 then Undefined
               else array_copy cap (f1 @ '','') arr)
      | _ \<Rightarrow> array_copy cap flat_map arr)"

definition xen_utils_flatten_CMPIArray :: "bool \<Rightarrow> ('r, 'd) cmpi_data list \<Rightarrow> string option outcome" where
  "xen_utils_flatten_CMPIArray mem arr =
     bind_outcome (array_size arr)
       (\<lambda>size. if size = 0 then Ret (Some [])
               else if \<not> mem then Ret None
               else bind_outcome (array_copy size [] arr) (\<lambda>t. Ret (Some t)))"

definition array_entry :: "string \<Rightarrow> string_map option \<Rightarrow> string_map option" where
  "array_entry str mp =
     (case strtok_r ''='' str of
        None \<Rightarrow> mp
      | Some (key, rest) \<Rightarrow>
          (case strtok_r ''='' rest of None \<Rightarrow> mp | Some (val, _) \<Rightarrow> put_entry key val mp))"

fun array_to_map :: "string_map option \<Rightarrow> ('r, 'd) cmpi_data list \<Rightarrow> string_map option outcome" where
  "array_to_map mp [] = Ret mp"
| "array_to_map mp (e # arr) =
     (case content e of
        V_string s \<Rightarrow>
          if is_null e then array_to_map mp arr
          else (case s of None \<Rightarrow> Undefined | Some t \<Rightarrow> array_to_map (array_entry t mp) arr)
      | _ \<Rightarrow> array_to_map mp arr)"

definition xen_utils_convert_CMPIArray_to_string_string_map ::
    "('r, 'd) cmpi_data list \<Rightarrow> string_map option outcome" where
  "xen_utils_convert_CMPIArray_to_string_string_map arr = array_to_map None arr"

definition xen_utils_convert_string_string_map_to_CMPIArray ::
    "string_map option \<Rightarrow> ('r, 'd) cmpi_data list option" where
  "xen_utils_convert_string_string_map_to_CMPIArray xen_map =
     (case xen_map of
        None \<Rightarrow> None
      | Some m \<Rightarrow> Some (map (\<lambda>(k, v). \<lparr>is_null = False,
          content = V_string (Some (snprintf 511 (k @ ''='' @ v)))\<rparr>) m))"

definition xen_utils_convert_string_set_to_CMPIArray ::
    "string_set option \<Rightarrow> ('r, 'd) cmpi_data list option" where
  "xen_utils_convert_string_set_to_CMPIArray st =
     (case st of
        None \<Rightarrow> None
      | Some xs \<Rightarrow> Some (map (\<lambda>x. \<lparr>is_null = (x = None), content = V_string x\<rparr>) xs))"

abbreviation string_elements :: "string list \<Rightarrow> ('r, 'd) cmpi_data list" where
  "string_elements ss \<equiv> map (\<lambda>s. \<lparr>is_null = False, content = V_string (Some s)\<rparr>) ss"

lemma array_size_strings: "array_size (string_elements ss) = Ret (sum_list (map (\<lambda>s. length s + 1) ss))"
  by (induction ss) auto

lemma array_copy_strings:
  "ss \<noteq> [] \<Longrightarrow> length flat + sum_list (map (\<lambda>s. length s + 1) ss) \<le> cap \<Longrightarrow>
   array_copy cap flat (string_elements ss) = Ret (flat @ join '','' ss)"
proof (induction "'',''" ss arbitrary: flat rule: join.induct)
  case (3 x y zs)
  then show ?case using "3.hyps" [of "flat @ x @ '',''"] by (simp add: Let_def)
qed (simp_all add: Let_def)

abbreviation null_string :: "('r, 'd) cmpi_data" where
  "null_string \<equiv> \<lparr>is_null = True, content = V_string None\<rparr>"

lemma array_size_null:
  "array_size (string_elements ss @ [null_string]) = Ret (sum_list (map (\<lambda>s. length s + 1) ss))"
  by (induction ss) auto

lemma array_copy_null: "array_copy n flat (string_elements ss @ [null_string]) = Undefined"
  by (induction ss arbitrary: flat) (auto simp: Let_def)

lemma array_entry_text:
  assumes "clean_entry e"
  shows "array_entry (entry_text e) mp = (if has_value e then put_entry (fst e) (snd e) mp else mp)"
proof -
  obtain k v where e: "e = (k, v)" by (cases e)
  have k: "strtok_r ''='' (k @ CHR ''='' # v) = Some (k, v)"
    using assms e by (intro strtok_r_clean) (auto simp: clean_entry_def)
  show ?thesis
  proof (cases "v = []")
    case True
    then show ?thesis using k e by (simp add: array_entry_def entry_text_def strtok_r_def [of _ "[]"])
  next
    case False
    with assms e have "strtok_r ''='' v = Some (v, [])"
      by (intro strtok_r_clean) (auto simp: clean_entry_def)
    with False k e show ?thesis by (simp add: array_entry_def entry_text_def)
  qed
qed

lemma array_to_map_entries:
  "\<forall>e \<in> set m. clean_entry e \<and> has_value e \<Longrightarrow>
   array_to_map mp (string_elements (map entry_text m)) = Ret (fold (\<lambda>(k, v). put_entry k v) m mp)"
  by (induction m arbitrary: mp) (auto simp: array_entry_text)

lemma fold_put_nonempty:
  "m \<noteq> [] \<Longrightarrow> distinct (map fst m) \<Longrightarrow> fold (\<lambda>(k, v). put_entry k v) m None = Some m"
proof (cases m)
  case (Cons e m')
  assume "distinct (map fst m)"
  with Cons fold_put_fresh [of "[e]" m'] show ?thesis
    by (cases e) (simp add: xen_utils_add_to_string_string_map_def)
qed simp

lemma map_to_array_entries:
  assumes "\<forall>e \<in> set m. length (entry_text e) < 511"
  shows "xen_utils_convert_string_string_map_to_CMPIArray (Some m) =
    Some (string_elements (map entry_text m))"
  using assms
  by (auto simp: xen_utils_convert_string_string_map_to_CMPIArray_def entry_text_def snprintf_fits)

section \<open>XML escapes\<close>

definition XmlEscapes :: "(char \<times> string) list" where
  "XmlEscapes = [(CHR 0x22, ''&quot;''), (CHR 0x26, ''&amp;''), (CHR 0x27, ''&apos;''),
     (CHR 0x3C, ''&lt;''), (CHR 0x3E, ''&gt;'')]"

fun match_escape :: "(char \<times> string) list \<Rightarrow> string \<Rightarrow> (char \<times> string) option" where
  "match_escape [] s = None"
| "match_escape ((c, esc) # es) s =
     (if prefix esc s then Some (c, drop (length esc) s) else match_escape es s)"

text \<open>The next character and the rest; the caller stops at the end of the string.\<close>

definition XmlToAscii :: "char \<Rightarrow> string \<Rightarrow> char \<times> string" where
  "XmlToAscii c rest =
     (if c = CHR ''&''
      then (case match_escape XmlEscapes (c # rest) of Some r \<Rightarrow> r | None \<Rightarrow> (c, rest))
      else (c, rest))"

lemma match_escape_shorter:
  "\<forall>(c, esc) \<in> set es. esc \<noteq> [] \<Longrightarrow> match_escape es s = Some (c, r) \<Longrightarrow> length r < length s"
  by (induction es) (auto simp: prefix_def split: if_splits)

lemma XmlToAscii_rest: "length (snd (XmlToAscii c rest)) \<le> length rest"
  using match_escape_shorter [of XmlEscapes "c # rest"]
  by (fastforce simp: XmlToAscii_def XmlEscapes_def split: option.splits)

function XmlToAsciiStr :: "string \<Rightarrow> string" where
  "XmlToAsciiStr [] = []"
| "XmlToAsciiStr (c # rest) = (case XmlToAscii c rest of (a, r) \<Rightarrow> a # XmlToAsciiStr r)"
  by pat_completeness auto
termination
  by (relation "measure length") (use XmlToAscii_rest in \<open>auto simp: less_Suc_eq_le, metis snd_conv\<close>)

lemma XmlToAsciiStr_fits: "length (XmlToAsciiStr s) \<le> length s"
proof (induction s rule: XmlToAsciiStr.induct)
  case (2 c rest)
  show ?case using "2.IH" XmlToAscii_rest [of c rest]
    by (cases "XmlToAscii c rest") (force)
qed simp

definition xml_escape_char :: "char \<Rightarrow> string" where
  "xml_escape_char c = (case map_of XmlEscapes c of Some esc \<Rightarrow> esc | None \<Rightarrow> [c])"

lemma XmlToAsciiStr_escape: "XmlToAsciiStr (xml_escape_char c @ s) = c # XmlToAsciiStr s"
  by (auto simp: xml_escape_char_def XmlToAscii_def XmlEscapes_def)

section \<open>Allocation units\<close>

definition xen_utils_get_alloc_units :: "string \<Rightarrow> nat" where
  "xen_utils_get_alloc_units allocStr =
     (if contains allocStr ''Kilo'' \<or> contains allocStr ''KB'' \<or> contains allocStr ''2^10'' then 1024
      else if contains allocStr ''Mega'' \<or> contains allocStr ''MB'' \<or> contains allocStr ''2^20''
      then 1024 * 1024
      else if contains allocStr ''Giga'' \<or> contains allocStr ''GB'' \<or> contains allocStr ''2^30''
      then 1024 * 1024 * 1024
      else if contains allocStr ''Byte'' \<or> contains allocStr ''byte'' then 1
      else if contains allocStr ''Count'' \<or> contains allocStr ''count'' then 1
      else 0)"

section \<open>Times\<close>

definition xen_utils_time_t_to_binary :: "64 word \<Rightarrow> 64 word" where
  "xen_utils_time_t_to_binary time = time * 1000000"

definition xen_utils_CMPIDateTime_to_time_t :: "64 word option \<Rightarrow> 64 word" where
  "xen_utils_CMPIDateTime_to_time_t cmpi_time =
     (case cmpi_time of
        None \<Rightarrow> 0
      | Some epoch_time \<Rightarrow> if epoch_time \<noteq> 0 then epoch_time div 1000000 else epoch_time)"

section \<open>Error messages\<close>

record xen_error =
  ok :: bool
  error_description :: "string list option"

fun append_errors :: "string \<Rightarrow> string list \<Rightarrow> string" where
  "append_errors msg [] = msg"
| "append_errors msg [d] = strncat msg d (512 - (length msg + 1))"
| "append_errors msg (d # e # ds) =
     (let msg1 = strncat msg d (512 - (length msg + 1));
          msg2 = strncat msg1 '':'' (512 - (length msg1 + 1))
      in append_errors msg2 (e # ds))"

definition xen_utils_get_xen_error :: "xen_error option \<Rightarrow> string option" where
  "xen_utils_get_xen_error session =
     (case session of
        None \<Rightarrow> None
      | Some s \<Rightarrow>
          if ok s then None
          else (case error_description s of
             None \<Rightarrow> None
           | Some ds \<Rightarrow> Some (append_errors ''XenError:'' ds)))"

definition xen_utils_set_status :: "nat \<Rightarrow> string \<Rightarrow> xen_error option \<Rightarrow> nat \<times> string" where
  "xen_utils_set_status rc default_msg session =
     (rc, if rc \<noteq> 0
          then (case xen_utils_get_xen_error session of Some e \<Rightarrow> e | None \<Rightarrow> default_msg)
          else [])"

lemma append_errors_take:
  "length msg \<le> 511 \<Longrightarrow> append_errors msg ds = take 511 (msg @ join '':'' ds)"
proof (induction msg ds rule: append_errors.induct)
  case (1 msg)
  then show ?case by simp
next
  case (2 msg d)
  then show ?case by (simp add: strncat_def)
next
  case (3 msg d e ds)
  let ?m1 = "strncat msg d (512 - (length msg + 1))"
  let ?m2 = "strncat ?m1 '':'' (512 - (length ?m1 + 1))"
  have m2: "?m2 = take 511 (msg @ d @ '':'')"
    using "3.prems" by (auto simp: strncat_def min_def take_Cons')
  have "length ?m2 \<le> 511" unfolding m2 by simp
  then have "append_errors ?m2 (e # ds) = take 511 (?m2 @ join '':'' (e # ds))"
    by (rule "3.IH" [OF refl refl])
  also have "\<dots> = take 511 (msg @ d @ '':'' @ join '':'' (e # ds))"
    unfolding m2 by (auto simp: min_def take_Cons')
  finally show ?case by (simp add: Let_def)
qed

section \<open>Quoted attribute lists\<close>

text \<open>Both WBEM URIs and transfer records are lists of \<^verbatim>\<open>key="value"\<close> items.\<close>

definition quoted :: "string \<times> string \<Rightarrow> string" where
  "quoted e = fst e @ ''='' @ [CHR 0x22] @ snd e @ [CHR 0x22]"

definition clean_attr :: "char \<Rightarrow> string \<times> string \<Rightarrow> bool" where
  "clean_attr sep e \<longleftrightarrow> fst e \<noteq> [] \<and> sep \<notin> set (fst e) \<and> CHR ''='' \<notin> set (fst e) \<and>
     sep \<notin> set (snd e) \<and> CHR ''='' \<notin> set (snd e)"

lemma convert_token_quoted:
  assumes "clean_attr sep e"
  shows "convert_token (quoted e) mp = put_entry (fst e) (snd e) mp"
proof -
  obtain k v where e: "e = (k, v)" by (cases e)
  have "strtok_r ''='' (k @ CHR ''='' # CHR 0x22 # v @ [CHR 0x22]) = Some (k, CHR 0x22 # v @ [CHR 0x22])"
    using assms e by (intro strtok_r_clean) (auto simp: clean_attr_def)
  moreover have "strtok_r ''='' (CHR 0x22 # v @ [CHR 0x22]) = Some (CHR 0x22 # v @ [CHR 0x22], [])"
    using assms e by (intro strtok_r_clean) (auto simp: clean_attr_def)
  ultimately show ?thesis using e
    by (simp add: convert_token_def quoted_def strip_quotes_def)
qed

lemma convert_quoted:
  assumes "\<forall>e \<in> set kvs. clean_attr sep e" and "distinct (map fst kvs)"
    and "sep \<noteq> CHR ''=''" and "sep \<noteq> CHR 0x22" and "kvs \<noteq> []"
  shows "xen_utils_convert_string_to_string_map (Some (join [sep] (map quoted kvs))) [sep] = Some kvs"
proof -
  have toks: "tokens [sep] (join [sep] (map quoted kvs)) = map quoted kvs"
    using assms by (intro tokens_join) (auto simp: clean_attr_def quoted_def)
  then have ne: "join [sep] (map quoted kvs) \<noteq> []"
    using assms(5) by (auto simp: tokens_Nil)
  have "fold convert_token (map quoted kvs) mp = fold (\<lambda>(k, v). put_entry k v) kvs mp" for mp
    using assms(1) by (induction kvs arbitrary: mp) (auto simp: convert_token_quoted)
  then show ?thesis
    using ne toks fold_put_fresh [of "[]" kvs] assms(2)
    by (simp add: xen_utils_convert_string_to_string_map_def)
qed

section \<open>WBEM URIs\<close>

definition DEFAULT_NS :: string where
  "DEFAULT_NS = ''root/cimv2''"

definition xen_utils_CMPIObjectPath_to_WBEM_URI :: "string \<Rightarrow> string option" where
  "xen_utils_CMPIObjectPath_to_WBEM_URI path_text =
     map_option (\<lambda>i. drop i path_text) (strstr path_text DEFAULT_NS)"

text \<open>The class name and the key list, or none where the code gives up.\<close>

definition wbem_split :: "string \<Rightarrow> (string \<times> string) option" where
  "wbem_split wbem_uri =
     (let classname = (case strtok_r '':'' wbem_uri of
            Some (ns, rest) \<Rightarrow> if ns = DEFAULT_NS then rest else wbem_uri
          | None \<Rightarrow> wbem_uri)
      in if classname = [] then None
         else case strtok_r ''.'' classname of
           None \<Rightarrow> None
         | Some (cn, key_list) \<Rightarrow> if key_list = [] then None else Some (cn, key_list))"

definition xen_utils_WBEM_URI_to_CMPIObjectPath ::
    "(string \<Rightarrow> string \<Rightarrow> 'o option) \<Rightarrow> (string \<Rightarrow> string \<Rightarrow> 'o \<Rightarrow> 'o) \<Rightarrow> string option \<Rightarrow> 'o option" where
  "xen_utils_WBEM_URI_to_CMPIObjectPath new_path add_key wbem_uri_in =
     (case wbem_uri_in of
        None \<Rightarrow> None
      | Some wbem_uri \<Rightarrow>
          (case wbem_split wbem_uri of
             None \<Rightarrow> None
           | Some (classname, key_list) \<Rightarrow>
               (case xen_utils_convert_string_to_string_map (Some key_list) '','' of
                  None \<Rightarrow> None
                | Some mp \<Rightarrow>
                    (case new_path DEFAULT_NS classname of
                       None \<Rightarrow> None
                     | Some obj_path \<Rightarrow> Some (fold (\<lambda>(k, v). add_key k v) mp obj_path)))))"

definition uri_tail :: "string \<Rightarrow> (string \<times> string) list \<Rightarrow> string" where
  "uri_tail cn kvs = cn @ ''.'' @ join '','' (map quoted kvs)"

lemma wbem_split_tail:
  assumes "cn \<noteq> []" and "CHR ''.'' \<notin> set cn" and "kvs \<noteq> []" and "\<forall>e \<in> set kvs. clean_attr CHR '','' e"
    and "w = uri_tail cn kvs \<and> CHR '':'' \<notin> set cn \<or> w = DEFAULT_NS @ '':'' @ uri_tail cn kvs"
  shows "wbem_split w = Some (cn, join '','' (map quoted kvs))"
proof -
  let ?keys = "join '','' (map quoted kvs)"
  have keys: "?keys \<noteq> []"
    using assms(3) by (cases "map quoted kvs" rule: list.exhaust; cases "tl (map quoted kvs)") (auto simp: quoted_def)
  have dot: "strtok_r ''.'' (uri_tail cn kvs) = Some (cn, ?keys)"
    using assms(1,2) strtok_r_clean(1) [of cn "''.''" "CHR ''.''" ?keys] by (auto simp: uri_tail_def)
  have ne: "uri_tail cn kvs \<noteq> []" by (simp add: uri_tail_def)
  from assms(5) show ?thesis
  proof
    assume w: "w = uri_tail cn kvs \<and> CHR '':'' \<notin> set cn"
    have "fst (the (strtok_r '':'' w)) \<noteq> DEFAULT_NS"
    proof -
      obtain c cn' where cn: "cn = c # cn'" using assms(1) by (cases cn) auto
      then have "dropWhile (\<lambda>x. x \<in> set '':'') w = w" using w by (auto simp: uri_tail_def)
      then have "strtok_r '':'' w = Some (takeWhile (\<lambda>x. x \<notin> set '':'') w, drop 1 (dropWhile (\<lambda>x. x \<notin> set '':'') w))"
        using w ne by (simp add: strtok_r_def Let_def)
      moreover have "takeWhile (\<lambda>x. x \<notin> set '':'') w = cn @ CHR ''.'' # takeWhile (\<lambda>x. x \<notin> set '':'') ?keys"
        using w takeWhile_append2 [of cn "\<lambda>x. x \<notin> set '':''" "CHR ''.'' # ?keys"]
        by (fastforce simp: uri_tail_def)
      moreover have "CHR ''.'' \<notin> set DEFAULT_NS" by (simp add: DEFAULT_NS_def)
      ultimately show ?thesis by (metis fst_conv in_set_conv_decomp option.sel)
    qed
    then have sel: "(case strtok_r '':'' w of Some (ns, rest) \<Rightarrow> if ns = DEFAULT_NS then rest else w | None \<Rightarrow> w) = w"
      by (auto split: option.splits)
    show ?thesis unfolding wbem_split_def Let_def sel using w dot keys ne by simp
  next
    assume w: "w = DEFAULT_NS @ '':'' @ uri_tail cn kvs"
    have "strtok_r '':'' w = Some (DEFAULT_NS, uri_tail cn kvs)"
      using strtok_r_clean(1) [of DEFAULT_NS "'':''" "CHR '':''" "uri_tail cn kvs"] w
      by (auto simp: DEFAULT_NS_def)
    then show ?thesis using dot keys ne by (simp add: wbem_split_def)
  qed
qed

section \<open>Transfer records\<close>

definition xen_utils_get_value_from_transfer_record :: "string option \<Rightarrow> string option \<Rightarrow> string option" where
  "xen_utils_get_value_from_transfer_record dict key =
     (case (dict, key) of
        (Some d, Some k) \<Rightarrow>
          if d = [] then None
          else
            let buf = snprintf 128 (k @ ''='') in
            (case strstr d buf of
               None \<Rightarrow> None
             | Some i \<Rightarrow>
                 let v1 = dropWhile (\<lambda>c. c = CHR '' '' \<or> c = CHR '':'') (drop (i + length buf) d);
                     v2 = (case v1 of CHR 0x22 # w \<Rightarrow> w | _ \<Rightarrow> v1)
                 in (case strchr v2 CHR 0x22 of
                       None \<Rightarrow> None
                     | Some _ \<Rightarrow> Some (takeWhile (\<lambda>c. c \<noteq> CHR 0x22) v2)))
      | _ \<Rightarrow> None)"

abbreviation record_value :: "string \<Rightarrow> string \<Rightarrow> string option" where
  "record_value d k \<equiv> xen_utils_get_value_from_transfer_record (Some d) (Some k)"

definition xen_utils_get_uri_from_transfer_record :: "string option \<Rightarrow> string option" where
  "xen_utils_get_uri_from_transfer_record rec =
     (case rec of
        None \<Rightarrow> None
      | Some r \<Rightarrow>
          if r = [] then None
          else (case record_value r ''transfer_mode'' of
             None \<Rightarrow> None
           | Some protocol \<Rightarrow>
               if protocol = ''iscsi''
               then (case record_value r ''ip'' of None \<Rightarrow> None | Some ip \<Rightarrow>
                    (case record_value r ''port'' of None \<Rightarrow> None | Some port \<Rightarrow>
                    (case record_value r ''iscsi_iqn'' of None \<Rightarrow> None | Some iqn \<Rightarrow>
                    (case record_value r ''iscsi_lun'' of None \<Rightarrow> None | Some lun \<Rightarrow>
                      Some (snprintf (5 + 3 + length ip + 1 + length port + 1 + length iqn + length lun + 1)
                              (''iscsi'' @ ''://'' @ ip @ '':'' @ port @ ''/'' @ iqn))))))
               else record_value r ''url_full''))"

definition xen_utils_convert_transfer_record_to_string_map :: "string \<Rightarrow> string_map option" where
  "xen_utils_convert_transfer_record_to_string_map transfer_record =
     (case strstr transfer_record ''<transfer_record '' of
        None \<Rightarrow> None
      | Some i \<Rightarrow>
          if length (drop i transfer_record) \<le> length ''<transfer_record '' then None
          else
            let contents = drop (i + length ''<transfer_record '') transfer_record;
                contents' = (case strstr contents ''></transfer_record>'' of
                    None \<Rightarrow> contents | Some j \<Rightarrow> take j contents)
            in xen_utils_convert_string_to_string_map (Some contents') '' '')"

definition record_text :: "(string \<times> string) list \<Rightarrow> string" where
  "record_text kvs = ''<transfer_record '' @ join '' '' (map quoted kvs) @ ''></transfer_record>''"

lemma strstr_head_fresh:
  "k = c # k' \<Longrightarrow> c \<notin> set xs \<Longrightarrow> strstr (xs @ k @ ys) k = Some (length xs)"
proof (rule strstr_first)
  fix i assume k: "k = c # k'" and c: "c \<notin> set xs" and i: "i < length xs"
  then have "drop i (xs @ k @ ys) = xs ! i # drop (Suc i) xs @ k @ ys"
    by (simp add: Cons_nth_drop_Suc)
  moreover have "xs ! i \<noteq> c" using c i by (metis nth_mem)
  ultimately show "\<not> prefix k (drop i (xs @ k @ ys))" using k by simp
qed simp

lemma set_join: "set (join d ts) \<subseteq> set d \<union> (\<Union>t \<in> set ts. set t)"
  by (induction d ts rule: join.induct) auto

lemma convert_record_text:
  assumes "\<forall>e \<in> set kvs. clean_attr CHR '' '' e \<and> CHR ''>'' \<notin> set (fst e) \<and> CHR ''>'' \<notin> set (snd e)"
    and "distinct (map fst kvs)" and "kvs \<noteq> []"
  shows "xen_utils_convert_transfer_record_to_string_map (record_text kvs) = Some kvs"
proof -
  let ?b = "''<transfer_record ''" and ?c = "join '' '' (map quoted kvs)" and ?e = "''></transfer_record>''"
  have "strstr (record_text kvs) ?b = Some 0" by (simp add: record_text_def)
  moreover have "CHR ''>'' \<notin> set ?c"
    using assms(1) by (fastforce simp: quoted_def dest!: set_rev_mp [OF _ set_join])
  then have "strstr (?c @ ?e) ?e = Some (length ?c)"
    using strstr_head_fresh [of ?e "CHR ''>''" _ ?c "[]"] by simp
  moreover have "xen_utils_convert_string_to_string_map (Some ?c) '' '' = Some kvs"
    using assms by (intro convert_quoted) auto
  ultimately show ?thesis
    by (simp add: xen_utils_convert_transfer_record_to_string_map_def record_text_def Let_def)
qed

section \<open>What the text conversions guarantee\<close>

lemma XmlToAsciiStr_escapes: "XmlToAsciiStr (concat (map xml_escape_char s)) = s"
  by (induction s) (simp_all add: XmlToAsciiStr_escape)

interpretation xml_text: codec "\<lambda>s. concat (map xml_escape_char s)" "\<lambda>t. Some (XmlToAsciiStr t)" "\<lambda>_. True"
  by unfold_locales (simp add: XmlToAsciiStr_escapes)

lemma time_roundtrip:
  assumes "unat t * 1000000 < 2 ^ 64"
  shows "xen_utils_CMPIDateTime_to_time_t (Some (xen_utils_time_t_to_binary t)) = t"
proof -
  have "unat (t * 1000000) = unat t * 1000000" using assms by (simp add: unat_word_ariths)
  then have "unat (t * 1000000 div 1000000) = unat t" by (simp add: unat_div)
  then have d: "t * 1000000 div 1000000 = t" by (simp add: word_unat_eq_iff)
  show ?thesis
  proof (cases "t * 1000000 = 0")
    case True
    then have "t = 0" using d by simp
    then show ?thesis by (simp add: xen_utils_CMPIDateTime_to_time_t_def xen_utils_time_t_to_binary_def)
  next
    case False
    with d show ?thesis
      by (simp add: xen_utils_CMPIDateTime_to_time_t_def xen_utils_time_t_to_binary_def)
  qed
qed

text \<open>Decoding the XML escapes of any text gives the text back, and decoding never produces more
  characters than it reads, so the buffer allocated from the input's length is enough.\<close>

lemma xml_unescape_roundtrip:
  "XmlToAsciiStr (concat (map xml_escape_char s)) = s \<and> length (XmlToAsciiStr t) \<le> length t"
  by (simp add: XmlToAsciiStr_escapes XmlToAsciiStr_fits)

text \<open>A string map turned into a CIM array of key=value strings and back is the same map, for
  clean entries that fit the 510 characters of the conversion buffer.\<close>

lemma map_array_roundtrip:
  assumes "m \<noteq> []" and "distinct (map fst m)"
    and "\<forall>e \<in> set m. clean_entry e \<and> has_value e \<and> length (entry_text e) < 511"
  shows "\<exists>arr. xen_utils_convert_string_string_map_to_CMPIArray (Some m) = Some arr \<and>
    xen_utils_convert_CMPIArray_to_string_string_map arr = Ret (Some m)"
  using assms
  by (simp add: map_to_array_entries xen_utils_convert_CMPIArray_to_string_string_map_def
      array_to_map_entries fold_put_nonempty del: map_map)

lemma map_array_roundtrip_witness:
  "\<exists>arr. xen_utils_convert_string_string_map_to_CMPIArray (Some [(''SRType'', ''nfs''), (''uuid'', ''u1'')]) =
      Some arr \<and>
    xen_utils_convert_CMPIArray_to_string_string_map arr = Ret (Some [(''SRType'', ''nfs''), (''uuid'', ''u1'')])"
  by (rule map_array_roundtrip) (auto simp: clean_entry_def entry_text_def)

text \<open>Flattening an array of non-null strings is memory-safe and joins them with commas; one
  null string among the elements makes the copying loop dereference a null pointer.\<close>

lemma flatten_array_strings:
  "xen_utils_flatten_CMPIArray True (string_elements ss) = Ret (Some (join '','' ss)) \<and>
   xen_utils_flatten_CMPIArray True (string_elements (s # ts) @ [null_string]) = Undefined"
proof
  show "xen_utils_flatten_CMPIArray True (string_elements ss) = Ret (Some (join '','' ss))"
  proof (cases "ss = []")
    case True
    then show ?thesis by (simp add: xen_utils_flatten_CMPIArray_def)
  next
    case False
    then have "sum_list (map (\<lambda>s. length s + 1) ss) \<noteq> 0" by (cases ss) auto
    then show ?thesis
      unfolding xen_utils_flatten_CMPIArray_def array_size_strings
      by (simp add: array_copy_strings [OF False])
  qed
next
  show "xen_utils_flatten_CMPIArray True (string_elements (s # ts) @ [null_string]) = Undefined"
    unfolding xen_utils_flatten_CMPIArray_def array_size_null array_copy_null by simp
qed

text \<open>C35. The WBEM URI of a reference is read back as its class name and keys, with or without the
  leading namespace: the created object path has that class and gets the keys in order.\<close>

theorem wbem_uri_roundtrip:
  assumes "cn \<noteq> []" and "CHR ''.'' \<notin> set cn" and "kvs \<noteq> []" and "distinct (map fst kvs)"
    and "\<forall>e \<in> set kvs. clean_attr CHR '','' e"
    and "w = uri_tail cn kvs \<and> CHR '':'' \<notin> set cn \<or> w = DEFAULT_NS @ '':'' @ uri_tail cn kvs"
  shows "xen_utils_WBEM_URI_to_CMPIObjectPath new_path add_key (Some w) =
    map_option (fold (\<lambda>(k, v). add_key k v) kvs) (new_path DEFAULT_NS cn)"
  using assms convert_quoted [of kvs "CHR '',''"] wbem_split_tail [OF assms(1,2,3,5,6)]
  by (simp add: xen_utils_WBEM_URI_to_CMPIObjectPath_def split: option.split)

lemma wbem_uri_roundtrip_witness:
  "xen_utils_WBEM_URI_to_CMPIObjectPath (\<lambda>ns cn. Some (ns, cn, [])) (\<lambda>k v (ns, cn, ks). (ns, cn, ks @ [(k, v)]))
     (Some (uri_tail ''Xen_DiskImage'' [(''DeviceID'', ''Xen:sr/vdi''), (''SystemName'', ''sr'')])) =
   Some (DEFAULT_NS, ''Xen_DiskImage'', [(''DeviceID'', ''Xen:sr/vdi''), (''SystemName'', ''sr'')])"
  by (subst wbem_uri_roundtrip [where cn = "''Xen_DiskImage''"
        and kvs = "[(''DeviceID'', ''Xen:sr/vdi''), (''SystemName'', ''sr'')]"])
    (auto simp: clean_attr_def)

text \<open>A transfer record written on one line is read into the map of its attributes, empty
  values and values with colons and slashes included.\<close>

lemma transfer_record_to_map:
  assumes "\<forall>e \<in> set kvs. clean_attr CHR '' '' e \<and> CHR ''>'' \<notin> set (fst e) \<and> CHR ''>'' \<notin> set (snd e)"
    and "distinct (map fst kvs)" and "kvs \<noteq> []"
  shows "xen_utils_get_from_string_string_map
      (xen_utils_convert_transfer_record_to_string_map (record_text kvs)) key = map_of kvs key"
  by (simp add: convert_record_text [OF assms] get_entries)

lemma transfer_record_to_map_witness:
  "xen_utils_get_from_string_string_map (xen_utils_convert_transfer_record_to_string_map
     (record_text [(''status'', ''exposed''), (''ip'', ''10.80.238.238''), (''port'', [])])) ''port'' = Some []"
  by (subst transfer_record_to_map) (auto simp: clean_attr_def)

text \<open>The Xen error message is the error descriptions joined by colons behind its prefix, cut at
  511 characters: it never overflows its buffer of 512, whatever the number of descriptions.\<close>

lemma xen_error_message:
  assumes "\<not> ok s" and "error_description s = Some ds"
  shows "xen_utils_get_xen_error (Some s) = Some (take 511 (''XenError:'' @ join '':'' ds))"
  using assms by (simp add: xen_utils_get_xen_error_def append_errors_take)

lemma xen_error_message_witness:
  "xen_utils_get_xen_error (Some \<lparr>ok = False, error_description = Some [''HOST_IS_SLAVE'', ''10.0.0.1'']\<rparr>) =
   Some ''XenError:HOST_IS_SLAVE:10.0.0.1''"
  using xen_error_message [of "\<lparr>ok = False, error_description = Some [''HOST_IS_SLAVE'', ''10.0.0.1'']\<rparr>"]
  by simp

end
