(* ===== verification/Session.thy ===== *)
theory Session
  imports XenText
begin

text \<open>
  Sessions with the Xen daemon (\<^verbatim>\<open>src/xen_utils.c\<close>): the reference count of the
  library, the caller's credentials, login with the redirection of a slave host to its master,
  validation, and release of a session.

  The SDK, curl and the allocator are the fields of \<open>env\<close>, functions of a state of their
  own. The ledger of \<open>world\<close> counts the objects that the code holds: session structures,
  curl handles, SDK session objects and host references. Evaluating \<^verbatim>\<open>error_description[0]\<close>
  of a missing session or of an empty list, as the trace macro does, is undefined; tracing is on in
  the build (\<^verbatim>\<open>-DSBLIM_DEBUG\<close>, level \<^verbatim>\<open>0xff\<close>) but can be lowered by an environment
  variable, so it is a parameter.
\<close>

section \<open>The reference count of the library\<close>

record library =
  ref_count :: "32 word"
  initialised :: bool

definition xen_utils_xen_init :: "library \<Rightarrow> library" where
  "xen_utils_xen_init l =
     (let l1 = (if ref_count l = 0 then l\<lparr>initialised := True\<rparr> else l)
      in l1\<lparr>ref_count := ref_count l1 + 1\<rparr>)"

definition xen_utils_xen_close :: "library \<Rightarrow> library" where
  "xen_utils_xen_close l =
     (let l1 = l\<lparr>ref_count := ref_count l - 1\<rparr>
      in if ref_count l1 = 0 then l1\<lparr>initialised := False\<rparr> else l1)"

section \<open>The caller's credentials\<close>

text \<open>The principal is "user password"; the return code, and the user and password on success.\<close>

definition xen_utils_get_call_context :: "string option \<Rightarrow> (string \<times> string) option" where
  "xen_utils_get_call_context entry =
     (case entry of
        None \<Rightarrow> None
      | Some str \<Rightarrow>
          (case strchr str CHR '' '' of
             None \<Rightarrow> None
           | Some rest \<Rightarrow> Some (takeWhile (\<lambda>c. c \<noteq> CHR '' '') str, drop 1 rest)))"

section \<open>Session objects and the world\<close>

record xen_session = xen_error +
  session_id :: string

record utils_session =
  xen :: "xen_session option"
  host_url :: string
  host :: "string option"
  curl_handle :: bool

record 'w env =
  calloc :: "'w \<Rightarrow> bool \<times> 'w"
  curl_easy_init :: "'w \<Rightarrow> bool \<times> 'w"
  login_with_password :: "bool \<Rightarrow> string \<Rightarrow> string \<Rightarrow> string \<Rightarrow> 'w \<Rightarrow> xen_session option \<times> 'w"
  get_this_host :: "xen_session \<Rightarrow> 'w \<Rightarrow> string option \<times> xen_session \<times> 'w"
  session_logout :: "xen_session \<Rightarrow> 'w \<Rightarrow> 'w"

record 'w world =
  env_state :: 'w
  structs :: int
  curls :: int
  logins :: int
  hosts :: int

definition new_struct :: "'w env \<Rightarrow> 'w world \<Rightarrow> bool \<times> 'w world" where
  "new_struct E w =
     (let (good, e) = calloc E (env_state w)
      in (good, w\<lparr>env_state := e, structs := structs w + of_bool good\<rparr>))"

definition initialize_curlsession :: "'w env \<Rightarrow> utils_session \<Rightarrow> 'w world \<Rightarrow> utils_session \<times> 'w world" where
  "initialize_curlsession E s w =
     (let (good, e) = curl_easy_init E (env_state w)
      in (if good then s\<lparr>curl_handle := True\<rparr> else s,
          w\<lparr>env_state := e, curls := curls w + of_bool good\<rparr>))"

definition uninitialize_curlsession :: "utils_session \<Rightarrow> 'w world \<Rightarrow> 'w world" where
  "uninitialize_curlsession s w = (if curl_handle s then w\<lparr>curls := curls w - 1\<rparr> else w)"

definition login :: "'w env \<Rightarrow> utils_session \<Rightarrow> string \<Rightarrow> string \<Rightarrow> 'w world \<Rightarrow> xen_session option \<times> 'w world" where
  "login E s user pw w =
     (let (x, e) = login_with_password E (curl_handle s) (host_url s) user pw (env_state w)
      in (x, w\<lparr>env_state := e, logins := logins w + of_bool (x \<noteq> None)\<rparr>))"

definition this_host :: "'w env \<Rightarrow> xen_session \<Rightarrow> 'w world \<Rightarrow> string option \<times> xen_session \<times> 'w world" where
  "this_host E x w =
     (let (h, x', e) = get_this_host E x (env_state w)
      in (h, x', w\<lparr>env_state := e, hosts := hosts w + of_bool (h \<noteq> None)\<rparr>))"

definition xen_logout :: "'w env \<Rightarrow> xen_session \<Rightarrow> 'w world \<Rightarrow> 'w world" where
  "xen_logout E x w = w\<lparr>env_state := session_logout E x (env_state w), logins := logins w - 1\<rparr>"

definition host_free :: "string option \<Rightarrow> 'w world \<Rightarrow> 'w world" where
  "host_free h w = (if h \<noteq> None then w\<lparr>hosts := hosts w - 1\<rparr> else w)"

section \<open>The operations\<close>

definition xen_utils_cleanup_session :: "'w env \<Rightarrow> utils_session option \<Rightarrow> 'w world \<Rightarrow> 'w world" where
  "xen_utils_cleanup_session E session w =
     (case session of
        None \<Rightarrow> w
      | Some s \<Rightarrow>
          let w1 = (case xen s of Some x \<Rightarrow> xen_logout E x w | None \<Rightarrow> w);
              w2 = uninitialize_curlsession s (host_free (host s) w1)
          in w2\<lparr>structs := structs w2 - 1\<rparr>)"

text \<open>Releases the memory of the SDK object without a logout at the server.\<close>

definition xen_utils_free_session :: "utils_session option \<Rightarrow> 'w world \<Rightarrow> 'w world" where
  "xen_utils_free_session session w =
     (case session of
        None \<Rightarrow> w
      | Some s \<Rightarrow>
          let w1 = (case xen s of Some x \<Rightarrow> w\<lparr>logins := logins w - 1\<rparr> | None \<Rightarrow> w);
              w2 = uninitialize_curlsession s (host_free (host s) w1)
          in w2\<lparr>structs := structs w2 - 1\<rparr>)"

text \<open>The trace of a failed login reads the first error description of the session.\<close>

definition trace_login_error :: "bool \<Rightarrow> xen_session option \<Rightarrow> unit outcome" where
  "trace_login_error tracing x =
     (if \<not> tracing then Ret ()
      else (case x of
         None \<Rightarrow> Undefined
       | Some y \<Rightarrow> (case error_description y of Some (d # ds) \<Rightarrow> Ret () | _ \<Rightarrow> Undefined)))"

definition xen_utils_get_remote_session ::
    "'w env \<Rightarrow> bool \<Rightarrow> string \<Rightarrow> string \<Rightarrow> string \<Rightarrow> 'w world \<Rightarrow> (utils_session option \<times> 'w world) outcome" where
  "xen_utils_get_remote_session E tracing ip user pw w =
     (let (good, w1) = new_struct E w
      in if \<not> good then Ret (None, w1)
         else
           let (s, w2) = initialize_curlsession E
                 \<lparr>xen = None, host_url = snprintf 100 (''http://'' @ ip), host = None, curl_handle = False\<rparr> w1;
               (x, w3) = login E s user pw w2
           in (case x of
                 None \<Rightarrow>
                   bind_outcome (trace_login_error tracing None)
                     (\<lambda>_. Ret (None, w3\<lparr>structs := structs w3 - 1\<rparr>))
               | Some y \<Rightarrow>
                   if \<not> ok y
                   then bind_outcome (trace_login_error tracing (Some y))
                     (\<lambda>_. Ret (None, w3\<lparr>structs := structs w3 - 1\<rparr>))
                   else
                     let (h, y', w4) = this_host E y w3
                     in (case h of
                           None \<Rightarrow> Ret (None, w4\<lparr>structs := structs w4 - 1\<rparr>)
                         | Some hr \<Rightarrow> Ret (Some (s\<lparr>xen := Some y', host := Some hr\<rparr>), w4))))"

text \<open>The error exit of \<^verbatim>\<open>xen_utils_get_session\<close>; a null session dereferences null when traced.\<close>

definition session_error ::
    "'w env \<Rightarrow> bool \<Rightarrow> utils_session option \<Rightarrow> 'w world \<Rightarrow> (utils_session option \<times> 'w world) outcome" where
  "session_error E tracing s w =
     bind_outcome (trace_login_error tracing (case s of None \<Rightarrow> None | Some t \<Rightarrow> xen t))
       (\<lambda>_. Ret (None, xen_utils_cleanup_session E s w))"

text \<open>The master's address in the answer of a slave host to a login.\<close>

definition redirect_of :: "xen_session \<Rightarrow> string option" where
  "redirect_of y =
     (case error_description y of
        Some (d0 # d1 # ds) \<Rightarrow> if d0 = ''HOST_IS_SLAVE'' then Some d1 else None
      | _ \<Rightarrow> None)"

text \<open>The session structure with its curl handle and the reply to the local login.\<close>

definition local_session :: "'w env \<Rightarrow> string \<Rightarrow> string \<Rightarrow> 'w world \<Rightarrow> utils_session \<times> 'w world" where
  "local_session E user pw w =
     (let (s, w2) = initialize_curlsession E
            \<lparr>xen = None, host_url = ''http://127.0.0.1'', host = None, curl_handle = False\<rparr> w;
          (x, w3) = login E s user pw w2
      in (s\<lparr>xen := x\<rparr>, w3))"

text \<open>What follows the login: the redirection, the error exit or the query for the host.\<close>

definition login_refused ::
    "'w env \<Rightarrow> bool \<Rightarrow> string \<Rightarrow> string \<Rightarrow> utils_session \<Rightarrow> xen_session \<Rightarrow> 'w world \<Rightarrow>
     (utils_session option \<times> 'w world) outcome" where
  "login_refused E tracing user pw s y w =
     (case redirect_of y of
        Some ip \<Rightarrow>
          bind_outcome
            (xen_utils_get_remote_session E tracing ip user pw (xen_utils_cleanup_session E (Some s) w))
            (\<lambda>(r, w1). if r = None then session_error E tracing None w1 else Ret (r, w1))
      | None \<Rightarrow> session_error E tracing (Some s) w)"

definition login_accepted ::
    "'w env \<Rightarrow> bool \<Rightarrow> utils_session \<Rightarrow> xen_session \<Rightarrow> 'w world \<Rightarrow>
     (utils_session option \<times> 'w world) outcome" where
  "login_accepted E tracing s y w =
     (let (h, y', w1) = this_host E y w
      in (case h of
            None \<Rightarrow> session_error E tracing (Some (s\<lparr>xen := Some y'\<rparr>)) w1
          | Some hr \<Rightarrow> Ret (Some (s\<lparr>xen := Some y', host := Some hr\<rparr>), w1)))"

definition xen_utils_get_session ::
    "'w env \<Rightarrow> bool \<Rightarrow> string \<Rightarrow> string \<Rightarrow> 'w world \<Rightarrow> (utils_session option \<times> 'w world) outcome" where
  "xen_utils_get_session E tracing user pw w =
     (let (good, w1) = new_struct E w
      in if \<not> good then Ret (None, w1)
         else
           let (s, w2) = local_session E user pw w1
           in (case xen s of
                 None \<Rightarrow> Undefined
               | Some y \<Rightarrow>
                   if \<not> ok y then login_refused E tracing user pw s y w2
                   else login_accepted E tracing s y w2))"

text \<open>The session pointer may itself be missing; the reply is the return code and the session.\<close>

definition xen_utils_validate_session ::
    "'w env \<Rightarrow> bool \<Rightarrow> utils_session option option \<Rightarrow> string \<Rightarrow> string \<Rightarrow> 'w world \<Rightarrow>
     (bool \<times> utils_session option \<times> 'w world) outcome" where
  "xen_utils_validate_session E tracing session user pw w =
     (case session of
        None \<Rightarrow> Ret (False, None, w)
      | Some cur \<Rightarrow>
          bind_outcome
            (case cur of Some s \<Rightarrow> Ret (Some s, w) | None \<Rightarrow> xen_utils_get_session E tracing user pw w)
            (\<lambda>(r, w1). case r of
                None \<Rightarrow> Ret (False, None, w1)
              | Some s \<Rightarrow>
                  (case xen s of
                     None \<Rightarrow> Undefined
                   | Some x \<Rightarrow>
                       let (h, x', w2) = this_host E (x\<lparr>ok := True\<rparr>) (host_free (host s) w1);
                           s1 = s\<lparr>xen := Some x', host := h\<rparr>
                       in if h \<noteq> None \<and> ok x' then Ret (True, Some s1, w2)
                          else
                            let w3 = xen_logout E x' w2
                            in bind_outcome
                                 (xen_utils_get_session E tracing user pw (w3\<lparr>structs := structs w3 - 1\<rparr>))
                                 (\<lambda>(r2, w4). Ret (r2 \<noteq> None, r2, w4)))))"

definition xen_utils_xen_init2 ::
    "'w env \<Rightarrow> bool \<Rightarrow> string \<Rightarrow> string \<Rightarrow> library \<Rightarrow> 'w world \<Rightarrow>
     (utils_session option \<times> library \<times> 'w world) outcome" where
  "xen_utils_xen_init2 E tracing user pw l w =
     bind_outcome (xen_utils_get_session E tracing user pw w)
       (\<lambda>(r, w1). Ret (r, xen_utils_xen_init l, w1))"

section \<open>Lemmas\<close>

text \<open>The second world holds what the first one does, and the parts of the session besides.\<close>

definition holds_more :: "'w world \<Rightarrow> 'w world \<Rightarrow> utils_session option \<Rightarrow> bool" where
  "holds_more w w' r \<longleftrightarrow>
     (case r of
        None \<Rightarrow> structs w' = structs w \<and> logins w' = logins w \<and> hosts w' = hosts w \<and> curls w' = curls w
      | Some s \<Rightarrow> structs w' = structs w + 1 \<and> logins w' = logins w + of_bool (xen s \<noteq> None) \<and>
          hosts w' = hosts w + of_bool (host s \<noteq> None) \<and> curls w' = curls w + of_bool (curl_handle s))"

definition ready :: "utils_session \<Rightarrow> bool" where
  "ready s \<longleftrightarrow> xen s \<noteq> None \<and> host s \<noteq> None"

lemmas session_ops = new_struct_def initialize_curlsession_def uninitialize_curlsession_def login_def
  this_host_def xen_logout_def host_free_def xen_utils_cleanup_session_def session_error_def

lemma cleanup_releases: "holds_more (xen_utils_cleanup_session E (Some s) w) w (Some s)"
  by (auto simp: holds_more_def session_ops Let_def split: option.splits)

lemma free_releases: "holds_more (xen_utils_free_session (Some s) w) w (Some s)"
  by (auto simp: holds_more_def session_ops xen_utils_free_session_def Let_def split: option.splits)

lemma remote_session_ready:
  assumes "xen_utils_get_remote_session E tracing ip user pw w = Ret (Some s, w')"
  shows "ready s \<and> host_url s = snprintf 100 (''http://'' @ ip) \<and> holds_more w w' (Some s)"
  using assms
  by (auto simp: xen_utils_get_remote_session_def ready_def holds_more_def session_ops Let_def
      bind_outcome_Ret_iff split: prod.splits option.splits if_splits)

lemma remote_session_failed:
  assumes "xen_utils_get_remote_session E tracing ip user pw w = Ret (None, w')"
  shows "structs w' = structs w \<and> logins w \<le> logins w' \<and> curls w \<le> curls w' \<and> hosts w' = hosts w"
  using assms
  by (auto simp: xen_utils_get_remote_session_def session_ops Let_def bind_outcome_Ret_iff
      split: prod.splits option.splits if_splits)

lemma session_error_releases:
  assumes "session_error E tracing (Some s) w = Ret (r, w')"
  shows "r = None \<and> holds_more w' w (Some s)"
  using assms cleanup_releases [of E s w] by (auto simp: session_error_def bind_outcome_Ret_iff)

lemma session_error_null:
  "session_error E tracing None w = (if tracing then Undefined else Ret (None, w))"
  by (simp add: session_error_def trace_login_error_def xen_utils_cleanup_session_def)

lemma local_session_holds:
  assumes "local_session E user pw w = (s, w')"
  shows "structs w' = structs w \<and> host s = None \<and> hosts w' = hosts w \<and>
    logins w' = logins w + of_bool (xen s \<noteq> None) \<and> curls w' = curls w + of_bool (curl_handle s)"
  using assms by (auto simp: local_session_def session_ops Let_def split: prod.splits if_splits)

lemma login_accepted_holds:
  assumes "login_accepted E tracing s y w = Ret (r, w')" and "holds_more w0 w (Some s)"
    and "host s = None" and "xen s = Some y"
  shows "holds_more w0 w' r \<and> (\<forall>t. r = Some t \<longrightarrow> ready t)"
proof -
  obtain h y' w1 where t: "this_host E y w = (h, y', w1)" by (metis prod_cases3)
  have w1: "structs w1 = structs w" "logins w1 = logins w" "curls w1 = curls w"
    "hosts w1 = hosts w + of_bool (h \<noteq> None)"
    using t by (auto simp: this_host_def split: prod.splits)
  show ?thesis
  proof (cases h)
    case None
    have "r = None \<and> holds_more w' w1 (Some (s\<lparr>xen := Some y'\<rparr>))"
      by (intro session_error_releases) (use assms(1) t None in \<open>simp add: login_accepted_def\<close>)
    then show ?thesis using assms(2-4) w1 None by (auto simp: holds_more_def)
  next
    case (Some hr)
    then show ?thesis using assms t w1 by (auto simp: login_accepted_def holds_more_def ready_def)
  qed
qed

lemma login_refused_holds:
  assumes "login_refused E tracing user pw s y w = Ret (r, w')" and "holds_more w0 w (Some s)"
  shows "case r of
      Some t \<Rightarrow> ready t \<and> holds_more w0 w' r
    | None \<Rightarrow> structs w' = structs w0 \<and> logins w0 \<le> logins w' \<and> (redirect_of y = None \<longrightarrow> holds_more w0 w' None)"
proof (cases "redirect_of y")
  case None
  have "r = None \<and> holds_more w' w (Some s)"
    by (intro session_error_releases) (use assms(1) None in \<open>simp add: login_refused_def\<close>)
  then show ?thesis using assms(2) by (auto simp: holds_more_def)
next
  case (Some ip)
  let ?wc = "xen_utils_cleanup_session E (Some s) w"
  have wc: "holds_more w0 ?wc None"
    using assms(2) cleanup_releases [of E s w] by (auto simp: holds_more_def)
  from assms(1) Some obtain q w1 where
    remote: "xen_utils_get_remote_session E tracing ip user pw ?wc = Ret (q, w1)" and
    rest: "(if q = None then session_error E tracing None w1 else Ret (q, w1)) = Ret (r, w')"
    by (auto simp: login_refused_def bind_outcome_Ret_iff)
  show ?thesis
  proof (cases q)
    case None
    then show ?thesis
      using rest remote wc remote_session_failed [of E tracing ip user pw ?wc w1] Some
      by (auto simp: session_error_null holds_more_def split: if_splits)
  next
    case (Some t)
    then show ?thesis
      using rest remote wc remote_session_ready [of E tracing ip user pw ?wc t w1]
      by (auto simp: holds_more_def)
  qed
qed

lemma new_struct_holds:
  "new_struct E w = (good, w1) \<Longrightarrow> structs w1 = structs w + of_bool good \<and> logins w1 = logins w \<and>
   hosts w1 = hosts w \<and> curls w1 = curls w"
  by (auto simp: new_struct_def split: prod.splits)

lemma get_session_balance:
  assumes "xen_utils_get_session E tracing user pw w = Ret (r, w')"
  shows "case r of
      Some t \<Rightarrow> ready t \<and> holds_more w w' r
    | None \<Rightarrow> structs w' = structs w \<and> logins w \<le> logins w'"
proof -
  obtain good w1 where ns: "new_struct E w = (good, w1)" by (cases "new_struct E w")
  show ?thesis
  proof (cases good)
    case False
    then show ?thesis
      using assms ns new_struct_holds [OF ns] by (auto simp: xen_utils_get_session_def)
  next
    case True
    obtain s w2 where ls: "local_session E user pw w1 = (s, w2)" by (cases "local_session E user pw w1")
    obtain y where y: "xen s = Some y"
      using assms ns ls True by (cases "xen s") (auto simp: xen_utils_get_session_def)
    have w2: "holds_more w w2 (Some s)" "host s = None"
      using new_struct_holds [OF ns] local_session_holds [OF ls] True by (auto simp: holds_more_def)
    show ?thesis
    proof (cases "ok y")
      case True
      then have "login_accepted E tracing s y w2 = Ret (r, w')"
        using assms ns ls y \<open>good\<close> by (auto simp: xen_utils_get_session_def)
      from login_accepted_holds [OF this w2 y] show ?thesis
        by (auto simp: holds_more_def split: option.splits)
    next
      case False
      then have "login_refused E tracing user pw s y w2 = Ret (r, w')"
        using assms ns ls y \<open>good\<close> by (auto simp: xen_utils_get_session_def)
      from login_refused_holds [OF this w2(1)] show ?thesis by (auto split: option.splits)
    qed
  qed
qed

text \<open>C30. A session that is handed out is logged in, knows its host, and accounts for everything that
  was allocated on its behalf; when none is handed out, no session structure is leaked, whatever
  the server and the allocator answer.\<close>

theorem get_session_accounts:
  assumes "xen_utils_get_session E tracing user pw w = Ret (r, w')"
  shows "case r of
      Some t \<Rightarrow> ready t \<and> holds_more w w' r
    | None \<Rightarrow> structs w' = structs w \<and> logins w \<le> logins w'"
  by (rule get_session_balance [OF assms])

lemma get_session_accounts_witness:
  "\<exists>t w'. xen_utils_get_session
      \<lparr>calloc = (\<lambda>n. (True, n + 1)), curl_easy_init = (\<lambda>n. (True, n)),
       login_with_password = (\<lambda>c url user pw n. (Some \<lparr>ok = True, error_description = None, session_id = user\<rparr>, n)),
       get_this_host = (\<lambda>x n. (Some ''host-1'', x, n)), session_logout = (\<lambda>x n. n)\<rparr>
      True ''root'' ''pw'' \<lparr>env_state = 0 :: nat, structs = 0, curls = 0, logins = 0, hosts = 0\<rparr> = Ret (Some t, w') \<and>
    ready t \<and> structs w' = 1 \<and> logins w' = 1"
proof -
  let ?E = "\<lparr>calloc = (\<lambda>n. (True, n + 1)), curl_easy_init = (\<lambda>n. (True, n)),
       login_with_password = (\<lambda>c url user pw n. (Some \<lparr>ok = True, error_description = None, session_id = user\<rparr>, n)),
       get_this_host = (\<lambda>x n. (Some ''host-1'', x, n)), session_logout = (\<lambda>x n. n)\<rparr> :: nat env"
  let ?w = "\<lparr>env_state = 0 :: nat, structs = 0, curls = 0, logins = 0, hosts = 0\<rparr>"
  obtain t w' where r: "xen_utils_get_session ?E True ''root'' ''pw'' ?w = Ret (Some t, w')"
    by (simp add: xen_utils_get_session_def local_session_def login_accepted_def session_ops)
  with get_session_accounts [OF r] show ?thesis
    by (auto simp: holds_more_def ready_def)
qed

text \<open>C36. On a slave host whose master refuses the credentials, a traced login dereferences the null
  session that the failed redirection leaves behind; without tracing it fails cleanly, but the
  SDK session and the curl handle of the second login stay allocated.\<close>

theorem slave_refusal_crashes:
  assumes memory: "\<And>e. fst (calloc E e)" "\<And>e. fst (curl_easy_init E e)"
    and slave: "\<And>c e. \<exists>y ds e'. login_with_password E c ''http://127.0.0.1'' user pw e = (Some y, e') \<and>
      \<not> ok y \<and> error_description y = Some (''HOST_IS_SLAVE'' # ip # ds)"
    and master: "\<And>c e. \<exists>y d ds e'. login_with_password E c (snprintf 100 (''http://'' @ ip)) user pw e = (Some y, e') \<and>
      \<not> ok y \<and> error_description y = Some (d # ds)"
  shows "xen_utils_get_session E True user pw w = Undefined \<and>
    (\<exists>w'. xen_utils_get_session E False user pw w = Ret (None, w') \<and>
       structs w' = structs w \<and> logins w' = logins w + 1 \<and> curls w' = curls w + 1)"
proof -
  obtain e0 where c0: "calloc E (env_state w) = (True, e0)" using memory(1) by (metis prod.collapse)
  obtain e1 where c1: "curl_easy_init E e0 = (True, e1)" using memory(2) by (metis prod.collapse)
  obtain y ds e2 where l0: "login_with_password E True ''http://127.0.0.1'' user pw e1 = (Some y, e2)"
    "\<not> ok y" "error_description y = Some (''HOST_IS_SLAVE'' # ip # ds)" using slave by blast
  obtain e3 where c2: "calloc E (session_logout E y e2) = (True, e3)" using memory(1) by (metis prod.collapse)
  obtain e4 where c3: "curl_easy_init E e3 = (True, e4)" using memory(2) by (metis prod.collapse)
  obtain z d ds' e5 where l1: "login_with_password E True (snprintf 100 (''http://'' @ ip)) user pw e4 = (Some z, e5)"
    "\<not> ok z" "error_description z = Some (d # ds')" using master by blast
  note run = xen_utils_get_session_def local_session_def login_refused_def redirect_of_def
    xen_utils_get_remote_session_def trace_login_error_def session_ops
  show ?thesis using c0 c1 l0 c2 c3 l1 by (simp add: run)
qed

lemma slave_refusal_crashes_witness:
  "xen_utils_get_session
      \<lparr>calloc = (\<lambda>n. (True, n)), curl_easy_init = (\<lambda>n. (True, n)),
       login_with_password = (\<lambda>c url user pw n. (Some \<lparr>ok = False,
          error_description = Some [''HOST_IS_SLAVE'', ''10.0.0.2''], session_id = []\<rparr>, n)),
       get_this_host = (\<lambda>x n. (None, x, n)), session_logout = (\<lambda>x n. n)\<rparr>
      True ''root'' ''wrong'' \<lparr>env_state = 0 :: nat, structs = 0, curls = 0, logins = 0, hosts = 0\<rparr> = Undefined"
  by (rule conjunct1 [OF slave_refusal_crashes [where ip = "''10.0.0.2''"]]) auto

lemma validate_session_cases:
  assumes "xen_utils_validate_session E tracing (Some (Some s)) user pw w = Ret (rc, r, w')"
  obtains x h x' w2 where "xen s = Some x"
    and "this_host E (x\<lparr>ok := True\<rparr>) (host_free (host s) w) = (h, x', w2)"
    and "if h \<noteq> None \<and> ok x' then rc \<and> r = Some (s\<lparr>xen := Some x', host := h\<rparr>) \<and> w' = w2
         else (rc \<longleftrightarrow> r \<noteq> None) \<and> (let w3 = xen_logout E x' w2 in
           xen_utils_get_session E tracing user pw (w3\<lparr>structs := structs w3 - 1\<rparr>) = Ret (r, w'))"
proof -
  obtain x where x: "xen s = Some x"
    using assms by (cases "xen s") (auto simp: xen_utils_validate_session_def)
  obtain h x' w2 where t: "this_host E (x\<lparr>ok := True\<rparr>) (host_free (host s) w) = (h, x', w2)"
    by (metis prod_cases3)
  show thesis
    by (rule that [OF x t])
      (use assms x t in \<open>auto simp: xen_utils_validate_session_def Let_def bind_outcome_Ret_iff split: if_splits\<close>)
qed

lemma validate_session_balance:
  assumes "xen_utils_validate_session E tracing (Some (Some s)) user pw w = Ret (rc, r, w')"
  shows "(rc \<longleftrightarrow> r \<noteq> None) \<and>
    (case r of Some t \<Rightarrow> ready t \<and> structs w' = structs w \<and> logins w' = logins w
             | None \<Rightarrow> structs w' = structs w - 1 \<and> logins w - 1 \<le> logins w')"
  using assms
proof (rule validate_session_cases)
  fix x h x' w2
  assume x: "xen s = Some x" and t: "this_host E (x\<lparr>ok := True\<rparr>) (host_free (host s) w) = (h, x', w2)"
    and rest: "if h \<noteq> None \<and> ok x' then rc \<and> r = Some (s\<lparr>xen := Some x', host := h\<rparr>) \<and> w' = w2
         else (rc \<longleftrightarrow> r \<noteq> None) \<and> (let w3 = xen_logout E x' w2 in
           xen_utils_get_session E tracing user pw (w3\<lparr>structs := structs w3 - 1\<rparr>) = Ret (r, w'))"
  have w2: "structs w2 = structs w \<and> logins w2 = logins w"
    using t by (auto simp: this_host_def host_free_def split: prod.splits if_splits)
  show ?thesis
  proof (cases "h \<noteq> None \<and> ok x'")
    case True
    then show ?thesis using rest w2 by (auto simp: ready_def)
  next
    case False
    then have "xen_utils_get_session E tracing user pw
        ((xen_logout E x' w2)\<lparr>structs := structs (xen_logout E x' w2) - 1\<rparr>) = Ret (r, w')" "rc \<longleftrightarrow> r \<noteq> None"
      using rest by (auto simp: Let_def)
    then show ?thesis
      using get_session_balance [of E tracing user pw _ r w'] w2 by (fastforce simp: xen_logout_def holds_more_def ready_def split: option.splits)
  qed
qed

text \<open>Validation answers success exactly when it leaves a session that is logged in and knows its
  host; the session given to it is either kept or logged out and replaced by one new login, so
  that the number of sessions at the server does not grow.\<close>

lemma validate_session_ready:
  assumes "xen_utils_validate_session E tracing (Some (Some s)) user pw w = Ret (rc, r, w')"
  shows "(rc \<longleftrightarrow> r \<noteq> None) \<and>
    (case r of Some t \<Rightarrow> ready t \<and> structs w' = structs w \<and> logins w' = logins w
             | None \<Rightarrow> structs w' = structs w - 1 \<and> logins w - 1 \<le> logins w')"
  by (rule validate_session_balance [OF assms])

lemma validate_session_ready_witness:
  "\<exists>w'. xen_utils_validate_session
      \<lparr>calloc = (\<lambda>n. (True, n)), curl_easy_init = (\<lambda>n. (True, n)),
       login_with_password = (\<lambda>c url user pw n. (None, n)),
       get_this_host = (\<lambda>x n. (Some ''host-2'', x, n)), session_logout = (\<lambda>x n. n)\<rparr> True
      (Some (Some \<lparr>xen = Some \<lparr>ok = False, error_description = None, session_id = ''s''\<rparr>,
         host_url = ''http://127.0.0.1'', host = Some ''host-1'', curl_handle = True\<rparr>)) ''root'' ''pw''
      \<lparr>env_state = 0 :: nat, structs = 1, curls = 1, logins = 1, hosts = 1\<rparr> =
    Ret (True, Some \<lparr>xen = Some \<lparr>ok = True, error_description = None, session_id = ''s''\<rparr>,
         host_url = ''http://127.0.0.1'', host = Some ''host-2'', curl_handle = True\<rparr>, w') \<and>
    structs w' = 1 \<and> logins w' = 1"
proof -
  let ?E = "\<lparr>calloc = (\<lambda>n. (True, n)), curl_easy_init = (\<lambda>n. (True, n)),
       login_with_password = (\<lambda>c url user pw n. (None, n)),
       get_this_host = (\<lambda>x n. (Some ''host-2'', x, n)), session_logout = (\<lambda>x n. n)\<rparr> :: nat env"
  let ?t = "\<lparr>xen = Some \<lparr>ok = True, error_description = None, session_id = ''s''\<rparr>,
         host_url = ''http://127.0.0.1'', host = Some ''host-2'', curl_handle = True\<rparr>"
  obtain w' where r: "xen_utils_validate_session ?E True
      (Some (Some \<lparr>xen = Some \<lparr>ok = False, error_description = None, session_id = ''s''\<rparr>,
         host_url = ''http://127.0.0.1'', host = Some ''host-1'', curl_handle = True\<rparr>)) ''root'' ''pw''
      \<lparr>env_state = 0 :: nat, structs = 1, curls = 1, logins = 1, hosts = 1\<rparr> = Ret (True, Some ?t, w')"
    by (simp add: xen_utils_validate_session_def this_host_def host_free_def)
  then show ?thesis using validate_session_ready [OF r] by simp
qed

section \<open>The reference count and the credentials\<close>

lemma library_in_use:
  "initialised l \<longleftrightarrow> ref_count l \<noteq> 0 \<Longrightarrow> ref_count l \<noteq> - 1 \<Longrightarrow>
   initialised (xen_utils_xen_init l) \<and>
   (initialised (xen_utils_xen_close (xen_utils_xen_init l)) \<longleftrightarrow> initialised l)"
  by (auto simp: xen_utils_xen_init_def xen_utils_xen_close_def Let_def)

lemma call_context_roundtrip:
  assumes "CHR '' '' \<notin> set user"
  shows "xen_utils_get_call_context (Some (user @ '' '' @ pw)) = Some (user, pw)"
proof -
  have "\<forall>c \<in> set user. c \<noteq> CHR '' ''" using assms by auto
  then show ?thesis
    using takeWhile_append_stop [of user "\<lambda>c. c \<noteq> CHR '' ''" "CHR '' ''" pw]
      dropWhile_append_stop [of user "\<lambda>c. c \<noteq> CHR '' ''" "CHR '' ''" pw]
    by (simp add: xen_utils_get_call_context_def strchr_def)
qed

end
