(* ===== verification/Iterator.thy ===== *)
theory Iterator
  imports Prelude
begin

text \<open>
  The interface of the enumerations: a cursor that hands out one element per call until it
  reports the end. The Xen domain cursor, the key-value list and the provider's instance
  enumeration have this shape; their clients call it in a loop.
\<close>

primrec drain :: "('s \<Rightarrow> ('a \<times> 's) option) \<Rightarrow> nat \<Rightarrow> 's \<Rightarrow> 'a list" where
  "drain step 0 s = []"
| "drain step (Suc n) s = (case step s of None \<Rightarrow> [] | Some (x, s') \<Rightarrow> x # drain step n s')"

locale cursor =
  fixes step :: "'s \<Rightarrow> ('a \<times> 's) option"
    and remaining :: "'s \<Rightarrow> 'a list"
    and valid :: "'s \<Rightarrow> bool"
  assumes at_end: "valid s \<Longrightarrow> step s = None \<longleftrightarrow> remaining s = []"
    and advance: "valid s \<Longrightarrow> step s = Some (x, s') \<Longrightarrow> remaining s = x # remaining s' \<and> valid s'"
begin

lemma drain_remaining:
  "valid s \<Longrightarrow> length (remaining s) \<le> n \<Longrightarrow> drain step n s = remaining s"
proof (induction n arbitrary: s)
  case 0
  then show ?case by simp
next
  case (Suc n)
  show ?case
  proof (cases "step s")
    case None
    then show ?thesis using at_end [OF Suc.prems(1)] by simp
  next
    case (Some p)
    then obtain x s' where "step s = Some (x, s')" by (cases p) auto
    then show ?thesis using Suc.prems Suc.IH [of s'] advance [of s x s'] by simp
  qed
qed

lemma drain_once: "valid s \<Longrightarrow> length (remaining s) \<le> n \<Longrightarrow> count_list (drain step n s) x = count_list (remaining s) x"
  by (simp add: drain_remaining)

lemma advance_shorter: "valid s \<Longrightarrow> step s = Some (x, s') \<Longrightarrow> length (remaining s') < length (remaining s)"
  using advance by fastforce

end

end
