(* ===== verification/Domain.thy ===== *)
theory Domain
  imports Iterator XenText
begin

text \<open>
  Virtual machines (\<^verbatim>\<open>src/xen_utils.c\<close>): the cursor over the VMs of a host with its choice of
  templates, snapshots and proper VMs, and the lookup of a VM by uuid, InstanceID and object
  path. The SDK is the record \<open>sdk\<close> of functions on the session state; a call on a session
  whose error flag is set need not be answered, which is why the code resets the flag.
\<close>

datatype power_state = Halted | Paused | Running | Suspended | Undefined_state

datatype vm_operation =
  OP_START | OP_CLEAN_SHUTDOWN | OP_HARD_SHUTDOWN | OP_CLEAN_REBOOT | OP_HARD_REBOOT
  | OP_PAUSE | OP_UNPAUSE | OP_SUSPEND | OP_RESUME | OP_other nat | OP_UNDEFINED

record vm_record =
  vm_uuid :: string
  vm_name_label :: string
  vm_name_description :: string
  is_a_template :: bool
  is_a_snapshot :: bool
  is_control_domain :: bool
  vm_power_state :: power_state
  allowed_operations :: "vm_operation list"
  other_config :: "string_map option"
  resident_on :: "string option"

record 'x sdk =
  session_ok :: "'x \<Rightarrow> bool"
  clear_error :: "'x \<Rightarrow> 'x"
  vm_get_all :: "'x \<Rightarrow> string list option \<times> 'x"
  vm_get_record :: "string \<Rightarrow> 'x \<Rightarrow> vm_record option \<times> 'x"
  vm_get_by_uuid :: "string \<Rightarrow> 'x \<Rightarrow> string option \<times> 'x"
  host_get_address :: "string \<Rightarrow> 'x \<Rightarrow> string option \<times> 'x"

text \<open>A VM to take examples from.\<close>

definition plain_vm :: "string \<Rightarrow> vm_record" where
  "plain_vm uuid = \<lparr>vm_uuid = uuid, vm_name_label = ''vm'', vm_name_description = [], is_a_template = False,
     is_a_snapshot = False, is_control_domain = False, vm_power_state = Running, allowed_operations = [],
     other_config = None, resident_on = None\<rparr>"

lemma plain_vm_simps [simp]:
  "vm_uuid (plain_vm u) = u" "is_a_template (plain_vm u) = False" "is_a_snapshot (plain_vm u) = False"
  "vm_power_state (plain_vm u) = Running" "other_config (plain_vm u) = None" "resident_on (plain_vm u) = None"
  by (simp_all add: plain_vm_def)

definition RESET_XEN_ERROR :: "'x sdk \<Rightarrow> 'x \<Rightarrow> 'x" where
  "RESET_XEN_ERROR K x = (if session_ok K x then x else clear_error K x)"

datatype domain_choice = vms_only | templates_only | snapshots_only | all_domains

record xen_domain_resources =
  domains :: "string list"
  numdomains :: nat
  currentdomain :: nat
  choice :: domain_choice

definition xen_utils_enum_domains :: "'x sdk \<Rightarrow> 'x \<Rightarrow> string list option \<times> 'x" where
  "xen_utils_enum_domains K x = vm_get_all K x"

definition xen_utils_get_domain_resources ::
    "'x sdk \<Rightarrow> bool \<Rightarrow> domain_choice \<Rightarrow> 'x \<Rightarrow> (bool \<times> xen_domain_resources option) \<times> 'x" where
  "xen_utils_get_domain_resources K mem ch x =
     (if \<not> mem then ((False, None), x)
      else
        let (ds, x1) = xen_utils_enum_domains K (RESET_XEN_ERROR K x)
        in (case ds of
              None \<Rightarrow> ((False, Some \<lparr>domains = [], numdomains = 0, currentdomain = 0, choice = vms_only\<rparr>), x1)
            | Some refs \<Rightarrow>
                ((True, Some \<lparr>domains = refs, numdomains = length refs, currentdomain = 0, choice = ch\<rparr>), x1)))"

definition matches_choice :: "domain_choice \<Rightarrow> vm_record \<Rightarrow> bool" where
  "matches_choice ch r =
     (case ch of
        all_domains \<Rightarrow> True
      | templates_only \<Rightarrow> is_a_template r
      | snapshots_only \<Rightarrow> is_a_snapshot r
      | vms_only \<Rightarrow> \<not> is_a_snapshot r \<and> \<not> is_a_template r)"

text \<open>The return codes 1, 0 and -1 of the cursor.\<close>

datatype next_domain = Domain string vm_record | No_more | Record_failed

function next_domain_loop ::
    "'x sdk \<Rightarrow> xen_domain_resources \<Rightarrow> 'x \<Rightarrow> (next_domain \<times> xen_domain_resources \<times> 'x) outcome" where
  "next_domain_loop K r x =
     (if length (domains r) \<le> currentdomain r then Undefined
      else
        let handle = domains r ! currentdomain r;
            r1 = r\<lparr>currentdomain := currentdomain r + 1\<rparr>
        in (case vm_get_record K handle (RESET_XEN_ERROR K x) of
              (None, x1) \<Rightarrow> Ret (Record_failed, r1, x1)
            | (Some rec, x1) \<Rightarrow>
                if matches_choice (choice r) rec then Ret (Domain handle rec, r1, x1)
                else if currentdomain r1 = numdomains r then Ret (No_more, r1, x1)
                else next_domain_loop K r1 x1))"
  by pat_completeness auto
termination
  by (relation "measure (\<lambda>(K, r, x). length (domains r) - currentdomain r)") auto

declare next_domain_loop.simps [simp del]

definition xen_utils_get_next_domain_resource ::
    "'x sdk \<Rightarrow> xen_domain_resources \<Rightarrow> 'x \<Rightarrow> (next_domain \<times> xen_domain_resources \<times> 'x) outcome" where
  "xen_utils_get_next_domain_resource K r x =
     (if currentdomain r = numdomains r then Ret (No_more, r, x) else next_domain_loop K r x)"

section \<open>Looking up one VM\<close>

definition xen_utils_get_domain_from_uuid ::
    "'x sdk \<Rightarrow> string \<Rightarrow> 'x \<Rightarrow> (string \<times> vm_record) option \<times> 'x" where
  "xen_utils_get_domain_from_uuid K uuid x =
     (case vm_get_by_uuid K uuid (RESET_XEN_ERROR K x) of
        (None, x1) \<Rightarrow> (None, x1)
      | (Some vm, x1) \<Rightarrow>
          (case vm_get_record K vm x1 of
             (None, x2) \<Rightarrow> (None, x2)
           | (Some rec, x2) \<Rightarrow> (Some (vm, rec), x2)))"

definition xen_utils_get_domain_from_instanceID ::
    "'x sdk \<Rightarrow> bool \<Rightarrow> string \<Rightarrow> 'x \<Rightarrow> (string \<times> vm_record) option \<times> 'x" where
  "xen_utils_get_domain_from_instanceID K mem instance_id x =
     (let x1 = RESET_XEN_ERROR K x
      in (case CMPIStrncpySystemNameFromID mem instance_id 64 of
            None \<Rightarrow> (None, x1)
          | Some uuid \<Rightarrow> xen_utils_get_domain_from_uuid K uuid x1))"

definition xen_utils_is_domain_active :: "'x sdk \<Rightarrow> string \<Rightarrow> 'x \<Rightarrow> bool option \<times> 'x" where
  "xen_utils_is_domain_active K uuid x =
     (case xen_utils_get_domain_from_uuid K uuid (RESET_XEN_ERROR K x) of
        (None, x1) \<Rightarrow> (None, x1)
      | (Some (vm, rec), x1) \<Rightarrow> (Some (vm_power_state rec \<noteq> Halted), x1))"

section \<open>The enumeration\<close>

text \<open>
  What the documentation of the SDK promises, for a set of VMs that does not change meanwhile: a
  session without an error answers from the server's table, a reset clears the error.
\<close>

definition answers :: "'x sdk \<Rightarrow> (string \<Rightarrow> vm_record option) \<Rightarrow> bool" where
  "answers K table \<longleftrightarrow> (\<forall>x. session_ok K (clear_error K x)) \<and>
     (\<forall>x h. session_ok K x \<longrightarrow> fst (vm_get_record K h x) = table h)"

lemma answers_after_reset:
  "answers K table \<Longrightarrow> fst (vm_get_record K h (RESET_XEN_ERROR K x)) = table h"
  by (simp add: answers_def RESET_XEN_ERROR_def)

definition resources_valid :: "xen_domain_resources \<Rightarrow> bool" where
  "resources_valid r \<longleftrightarrow> numdomains r = length (domains r) \<and> currentdomain r \<le> numdomains r"

text \<open>
  The abstract cursor: what is still to be reported, a record or a failure for each remaining
  reference, without the VMs that were not asked for.
\<close>

definition report :: "(string \<Rightarrow> vm_record option) \<Rightarrow> domain_choice \<Rightarrow> string \<Rightarrow> next_domain list" where
  "report table ch h =
     (case table h of
        None \<Rightarrow> [Record_failed]
      | Some rec \<Rightarrow> if matches_choice ch rec then [Domain h rec] else [])"

definition reports :: "(string \<Rightarrow> vm_record option) \<Rightarrow> xen_domain_resources \<Rightarrow> next_domain list" where
  "reports table r = concat (map (report table (choice r)) (drop (currentdomain r) (domains r)))"

lemma next_domain_loop_spec:
  assumes "answers K table" and "resources_valid r" and "currentdomain r < numdomains r"
  shows "\<exists>d r' x'. next_domain_loop K r x = Ret (d, r', x') \<and> resources_valid r' \<and>
    choice r' = choice r \<and> domains r' = domains r \<and>
    (if d = No_more then reports table r = [] else reports table r = d # reports table r')"
  using assms
proof (induction K r x rule: next_domain_loop.induct)
  case (1 K r x)
  let ?h = "domains r ! currentdomain r" and ?r1 = "r\<lparr>currentdomain := currentdomain r + 1\<rparr>"
  have lt: "currentdomain r < length (domains r)" using "1.prems" by (simp add: resources_valid_def)
  have valid1: "resources_valid ?r1" using "1.prems" by (simp add: resources_valid_def)
  have here: "reports table r = report table (choice r) ?h @ reports table ?r1"
    using lt by (simp add: reports_def Cons_nth_drop_Suc [symmetric])
  obtain res x1 where g: "vm_get_record K ?h (RESET_XEN_ERROR K x) = (res, x1)"
    by (cases "vm_get_record K ?h (RESET_XEN_ERROR K x)")
  then have res: "res = table ?h" using answers_after_reset [OF "1.prems"(1), of ?h x] by simp
  show ?case
  proof (cases "table ?h")
    case None
    then show ?thesis
      using lt g res valid1 here by (simp add: next_domain_loop.simps [of K r x] report_def)
  next
    case (Some rec)
    show ?thesis
    proof (cases "matches_choice (choice r) rec \<or> currentdomain ?r1 = numdomains r")
      case True
      moreover have "currentdomain ?r1 = numdomains r \<Longrightarrow> reports table ?r1 = []"
        using "1.prems" by (simp add: reports_def resources_valid_def)
      ultimately show ?thesis
        using lt g res valid1 here Some by (auto simp: next_domain_loop.simps [of K r x] report_def)
    next
      case False
      then have "currentdomain ?r1 < numdomains ?r1" using "1.prems" by simp
      from "1.IH" [OF _ refl refl g [symmetric] _ _ _ "1.prems"(1) valid1 this] lt res Some False
      obtain d r' x' where "next_domain_loop K ?r1 x1 = Ret (d, r', x') \<and> resources_valid r' \<and>
          choice r' = choice ?r1 \<and> domains r' = domains ?r1 \<and>
          (if d = No_more then reports table ?r1 = [] else reports table ?r1 = d # reports table r')"
        by auto
      then show ?thesis
        using lt g res here Some False by (auto simp: next_domain_loop.simps [of K r x] report_def)
    qed
  qed
qed

text \<open>A call of the cursor on the pair of the resources and the session state.\<close>

definition domain_step ::
    "'x sdk \<Rightarrow> xen_domain_resources \<times> 'x \<Rightarrow> (next_domain \<times> xen_domain_resources \<times> 'x) option" where
  "domain_step K s =
     (case xen_utils_get_next_domain_resource K (fst s) (snd s) of
        Ret (No_more, r, x) \<Rightarrow> None
      | Ret (d, r, x) \<Rightarrow> Some (d, r, x)
      | Undefined \<Rightarrow> None)"

lemma next_domain_spec:
  assumes "answers K table" and "resources_valid r"
  shows "\<exists>d r' x'. xen_utils_get_next_domain_resource K r x = Ret (d, r', x') \<and> resources_valid r' \<and>
    (if d = No_more then reports table r = [] else reports table r = d # reports table r')"
proof (cases "currentdomain r = numdomains r")
  case True
  then show ?thesis using assms(2)
    by (simp add: xen_utils_get_next_domain_resource_def reports_def resources_valid_def)
next
  case False
  then have "currentdomain r < numdomains r" using assms(2) by (simp add: resources_valid_def)
  from next_domain_loop_spec [OF assms this, of x] False show ?thesis
    unfolding xen_utils_get_next_domain_resource_def by (metis (full_types))
qed

lemma domain_step_spec:
  assumes "answers K table" and "resources_valid (fst s)"
  shows "case domain_step K s of
      None \<Rightarrow> reports table (fst s) = []
    | Some (d, s') \<Rightarrow> reports table (fst s) = d # reports table (fst s') \<and> resources_valid (fst s')"
  using next_domain_spec [OF assms, of "snd s"]
  by (auto simp: domain_step_def split: next_domain.splits if_splits)

interpretation vms: cursor "domain_step K" "\<lambda>s. reports table (fst s)"
    "\<lambda>s. answers K table \<and> resources_valid (fst s)" for K table
proof unfold_locales
  fix s :: "xen_domain_resources \<times> 'a"
  assume "answers K table \<and> resources_valid (fst s)"
  then show "domain_step K s = None \<longleftrightarrow> reports table (fst s) = []"
    using domain_step_spec [of K table s] by (auto split: option.splits)
next
  fix s x s'
  assume "answers K table \<and> resources_valid (fst s)" and "domain_step K s = Some (x, s')"
  then show "reports table (fst s) = x # reports table (fst s') \<and> answers K table \<and> resources_valid (fst s')"
    using domain_step_spec [of K table s] by simp
qed

text \<open>A server with a fixed table that refuses every call while the error flag is set.\<close>

definition strict_sdk :: "(string \<Rightarrow> vm_record option) \<Rightarrow> string list \<Rightarrow> bool sdk" where
  "strict_sdk table refs = \<lparr>session_ok = (\<lambda>x. x), clear_error = (\<lambda>x. True),
     vm_get_all = (\<lambda>x. (if x then Some refs else None, x)),
     vm_get_record = (\<lambda>h x. if x then (table h, table h \<noteq> None) else (None, x)),
     vm_get_by_uuid = (\<lambda>u x. if x then (List.find (\<lambda>h. map_option vm_uuid (table h) = Some u) refs, x) else (None, x)),
     host_get_address = (\<lambda>h x. (None, False))\<rparr>"



section \<open>Lookups\<close>

lemma domain_from_uuid_found:
  assumes "answers K table" and "\<And>x. session_ok K x \<Longrightarrow> \<exists>x'. vm_get_by_uuid K uuid x = (Some vm, x') \<and> session_ok K x'"
    and "table vm = Some rec"
  shows "fst (xen_utils_get_domain_from_uuid K uuid x) = Some (vm, rec)"
proof -
  have "session_ok K (RESET_XEN_ERROR K x)" using assms(1) by (simp add: answers_def RESET_XEN_ERROR_def)
  then obtain x' where u: "vm_get_by_uuid K uuid (RESET_XEN_ERROR K x) = (Some vm, x')" "session_ok K x'"
    using assms(2) by blast
  then have "fst (vm_get_record K vm x') = Some rec" using assms(1,3) by (simp add: answers_def)
  then show ?thesis using u by (cases "vm_get_record K vm x'") (simp add: xen_utils_get_domain_from_uuid_def)
qed

lemma domain_from_instance_id:
  assumes "system_id_fits uuid"
  shows "xen_utils_get_domain_from_instanceID K True (CMPICreateNewSystemInstanceID 128 uuid) x =
    xen_utils_get_domain_from_uuid K uuid (RESET_XEN_ERROR K x)"
  using system_id.dec_enc [OF assms] by (simp add: xen_utils_get_domain_from_instanceID_def Let_def)

end
