(* ===== verification/Kvp.thy ===== *)
theory Kvp
  imports Domain
begin

text \<open>
  The key-value pairs of a VM: the containers, the HTTP transport and the request URLs of
  \<^verbatim>\<open>src/xen_utils.c\<close>, and the provider of \<^verbatim>\<open>src/Xen_KVP.c\<close> on top of them.

  The HTTP server is a parameter: the reply to a GET is the status and the chunks in which curl
  delivers the body, the reply to a POST of a body is the status. A \<^verbatim>\<open>strdup\<close> of a null
  pointer and a \<^verbatim>\<open>sprintf\<close> that does not fit its buffer are undefined. Allocations
  succeed, except where a parameter \<open>mem\<close> says otherwise.
\<close>

section \<open>Pairs and sets of pairs\<close>

record kvp =
  kvp_key :: "string option"
  kvp_value :: "string option"
  kvp_vm :: "string option"

type_synonym kvp_set = "kvp list"

definition strdup :: "string option \<Rightarrow> string option outcome" where
  "strdup s = (case s of None \<Rightarrow> Undefined | Some t \<Rightarrow> Ret (Some t))"

definition initialise_kvp :: "bool \<Rightarrow> kvp option" where
  "initialise_kvp mem = (if mem then Some \<lparr>kvp_key = None, kvp_value = None, kvp_vm = None\<rparr> else None)"

definition initialise_kvp_set :: "bool \<Rightarrow> kvp_set option" where
  "initialise_kvp_set mem = (if mem then Some [] else None)"

definition fill_kvp :: "string option \<Rightarrow> string option \<Rightarrow> string option \<Rightarrow> kvp \<Rightarrow> kvp outcome" where
  "fill_kvp k v vm p =
     bind_outcome (strdup k) (\<lambda>k'. bind_outcome (strdup v) (\<lambda>v'. bind_outcome (strdup vm)
       (\<lambda>vm'. Ret (p\<lparr>kvp_key := k', kvp_value := v', kvp_vm := vm'\<rparr>))))"

definition xen_utils_create_kvp ::
    "bool \<Rightarrow> string option \<Rightarrow> string option \<Rightarrow> string option \<Rightarrow> kvp option outcome" where
  "xen_utils_create_kvp mem k v vm =
     (case initialise_kvp mem of
        None \<Rightarrow> Ret None
      | Some p \<Rightarrow> bind_outcome (fill_kvp k v vm p) (\<lambda>q. Ret (Some q)))"

definition xen_utils_kvp_copy :: "bool \<Rightarrow> kvp \<Rightarrow> kvp option outcome" where
  "xen_utils_kvp_copy mem orig =
     (case initialise_kvp mem of
        None \<Rightarrow> Ret None
      | Some p \<Rightarrow>
          bind_outcome (fill_kvp (kvp_key orig) (kvp_value orig) (kvp_vm orig) p) (\<lambda>q. Ret (Some q)))"

text \<open>A failed growth is traced and then written through the null pointer.\<close>

definition add_to_kvp_set :: "bool \<Rightarrow> kvp_set \<Rightarrow> kvp \<Rightarrow> kvp_set outcome" where
  "add_to_kvp_set mem st pair =
     (if \<not> mem then Undefined
      else bind_outcome
        (fill_kvp (kvp_key pair) (kvp_value pair) (kvp_vm pair)
           \<lparr>kvp_key = None, kvp_value = None, kvp_vm = None\<rparr>)
        (\<lambda>p. Ret (st @ [p])))"

fun append_each :: "kvp_set \<Rightarrow> kvp list \<Rightarrow> kvp_set outcome" where
  "append_each dest [] = Ret dest"
| "append_each dest (p # ps) = bind_outcome (add_to_kvp_set True dest p) (\<lambda>d. append_each d ps)"

definition xen_utils_append_kvp_set :: "kvp_set \<Rightarrow> kvp_set \<Rightarrow> kvp_set outcome" where
  "xen_utils_append_kvp_set dest src = (if length src = 0 then Ret dest else append_each dest src)"

section \<open>Transport\<close>

text \<open>The receiving buffer: a null pointer before the first chunk; the second result is the count handled.\<close>

definition write_to_buffer :: "bool \<Rightarrow> string \<Rightarrow> string option \<Rightarrow> nat \<times> string option" where
  "write_to_buffer mem data memory =
     (if \<not> mem then (0, None)
      else (length data, Some ((case memory of None \<Rightarrow> [] | Some m \<Rightarrow> m) @ data)))"

text \<open>The sender hands out one character per call, and 0 when nothing is left.\<close>

definition read_callback :: "nat \<Rightarrow> string \<times> nat \<Rightarrow> (char \<times> string \<times> nat) option outcome" where
  "read_callback space st =
     (if space < 1 then Ret None
      else if snd st \<noteq> 0
      then (case fst st of [] \<Rightarrow> Undefined | c # rest \<Rightarrow> Ret (Some (c, rest, snd st - 1)))
      else Ret None)"

definition read_step :: "string \<times> nat \<Rightarrow> (char \<times> string \<times> nat) option" where
  "read_step st = (case read_callback 16384 st of Ret r \<Rightarrow> r | Undefined \<Rightarrow> None)"

record http =
  http_get :: "string \<Rightarrow> nat \<times> string list"
  http_post :: "string \<Rightarrow> string \<Rightarrow> nat"
  http_curl :: bool

definition post_to_url :: "http \<Rightarrow> string \<Rightarrow> string \<Rightarrow> nat" where
  "post_to_url H url data =
     (if http_curl H then http_post H url (drain read_step (length data) (data, length data)) else 0)"

definition get_from_url :: "http \<Rightarrow> string \<Rightarrow> nat \<times> string option" where
  "get_from_url H url =
     (if http_curl H
      then (let (code, chunks) = http_get H url
            in (code, fold (\<lambda>d m. snd (write_to_buffer True d m)) chunks None))
      else (0, None))"

section \<open>Request URLs\<close>

definition sprintf_into :: "nat \<Rightarrow> string \<Rightarrow> string option outcome" where
  "sprintf_into cap s = (if length s + 1 \<le> cap then Ret (Some s) else Undefined)"

abbreviation plugin_path :: string where
  "plugin_path \<equiv> ''services/plugin/xscim''"

definition xen_utils_get_host_address :: "'x sdk \<Rightarrow> string \<Rightarrow> 'x \<Rightarrow> string option \<times> 'x" where
  "xen_utils_get_host_address K vm_ref x =
     (case vm_get_record K vm_ref x of
        (None, x1) \<Rightarrow> (None, x1)
      | (Some rec, x1) \<Rightarrow>
          (case resident_on rec of
             None \<Rightarrow> (None, x1)
           | Some h \<Rightarrow> host_get_address K h x1))"

text \<open>The branch for each command; a command that is not listed leaves the URL null.\<close>

definition compose_for ::
    "string \<Rightarrow> string \<Rightarrow> string option \<Rightarrow> string \<Rightarrow> string \<Rightarrow> string option outcome" where
  "compose_for address uuid key cmd xenref =
     (let base = length plugin_path + length address + length uuid + length xenref;
          head = ''http://'' @ address @ ''/'' @ plugin_path @ ''/vm/'' @ uuid;
          tail = ''?session_id='' @ xenref
      in if cmd = ''GET'' \<or> cmd = ''PUT''
         then (case key of
                 Some k \<Rightarrow> sprintf_into (30 + base + length k) (head @ ''/key/'' @ k @ tail)
               | None \<Rightarrow> sprintf_into (25 + base) (head @ tail))
         else if cmd = ''SETUP'' \<or> cmd = ''PREPAREMIGRATION'' \<or> cmd = ''FINISHMIGRATION''
         then let lowercasecmd = (if cmd = ''SETUP'' then ''setup''
                else if cmd = ''PREPAREMIGRATION'' then ''preparemigration'' else ''finishmigration'')
              in sprintf_into (30 + base + length lowercasecmd) (head @ ''/cmd/'' @ lowercasecmd @ tail)
         else if cmd = ''DEL''
         then (case key of
                 None \<Rightarrow> Undefined
               | Some k \<Rightarrow> sprintf_into (41 + base + length k) (head @ ''/key/'' @ k @ ''/cmd/delete'' @ tail))
         else Ret None)"

text \<open>The answer is the URL, none when the VM or its host's address cannot be found.\<close>

definition xen_utils_kvp_compose_url ::
    "'x sdk \<Rightarrow> string \<Rightarrow> string \<Rightarrow> string option \<Rightarrow> string \<Rightarrow> 'x \<Rightarrow> (string option option \<times> 'x) outcome" where
  "xen_utils_kvp_compose_url K xenref uuid key cmd x =
     (case vm_get_by_uuid K uuid x of
        (None, x1) \<Rightarrow> Ret (None, x1)
      | (Some vm_ref, x1) \<Rightarrow>
          (case xen_utils_get_host_address K vm_ref x1 of
             (None, x2) \<Rightarrow> Ret (None, x2)
           | (Some address, x2) \<Rightarrow>
               bind_outcome (compose_for address uuid key cmd xenref) (\<lambda>u. Ret (Some u, x2))))"

section \<open>Requests\<close>

datatype kvp_rc = Kvp_ok | Kvp_error | Kvp_failed

definition xen_utils_delete_kvp :: "http \<Rightarrow> 'x sdk \<Rightarrow> string \<Rightarrow> kvp \<Rightarrow> 'x \<Rightarrow> (kvp_rc \<times> 'x) outcome" where
  "xen_utils_delete_kvp H K xenref p x =
     (case kvp_vm p of
        None \<Rightarrow> Undefined
      | Some vm \<Rightarrow>
          bind_outcome (xen_utils_kvp_compose_url K xenref vm (kvp_key p) ''DEL'' x)
            (\<lambda>(u, x1). case u of
               None \<Rightarrow> Ret (Kvp_failed, x1)
             | Some None \<Rightarrow> Undefined
             | Some (Some url) \<Rightarrow> Ret (if post_to_url H url [] = 200 then Kvp_ok else Kvp_failed, x1)))"

definition xen_utils_push_kvp :: "http \<Rightarrow> 'x sdk \<Rightarrow> string \<Rightarrow> kvp \<Rightarrow> 'x \<Rightarrow> (kvp_rc \<times> 'x) outcome" where
  "xen_utils_push_kvp H K xenref p x =
     (case kvp_value p of
        None \<Rightarrow> Ret (Kvp_error, x)
      | Some val \<Rightarrow>
          (case kvp_vm p of
             None \<Rightarrow> Undefined
           | Some vm \<Rightarrow>
               bind_outcome (xen_utils_kvp_compose_url K xenref vm (kvp_key p) ''PUT'' x)
                 (\<lambda>(u, x1). case u of
                    None \<Rightarrow> Ret (Kvp_error, x1)
                  | Some None \<Rightarrow> Undefined
                  | Some (Some url) \<Rightarrow>
                      let http_rc = post_to_url H url val
                      in Ret (if http_rc = 200 then Kvp_ok
                              else if http_rc = 401 then Kvp_failed else Kvp_error, x1))))"

text \<open>On success the value is the buffer of the transport, which is null for an empty body.\<close>

definition xen_utils_get_from_kvp_store ::
    "http \<Rightarrow> 'x sdk \<Rightarrow> string \<Rightarrow> string \<Rightarrow> string option \<Rightarrow> 'x \<Rightarrow> (kvp_rc \<times> string option \<times> 'x) outcome" where
  "xen_utils_get_from_kvp_store H K xenref vm key x =
     bind_outcome (xen_utils_kvp_compose_url K xenref vm key ''GET'' x)
       (\<lambda>(u, x1). case u of
          None \<Rightarrow> Ret (Kvp_error, None, x1)
        | Some None \<Rightarrow> Undefined
        | Some (Some url) \<Rightarrow>
            (case get_from_url H url of
               (code, buf) \<Rightarrow> if code \<noteq> 200 then Ret (Kvp_failed, None, x1) else Ret (Kvp_ok, buf, x1)))"

text \<open>One line of the store: the first two words; a missing word is a null pointer.\<close>

definition parse_pair :: "string \<Rightarrow> string \<Rightarrow> kvp" where
  "parse_pair vm tok =
     (case strtok_r '' '' tok of
        None \<Rightarrow> \<lparr>kvp_key = None, kvp_value = None, kvp_vm = Some vm\<rparr>
      | Some (k, rest) \<Rightarrow>
          \<lparr>kvp_key = Some k, kvp_value = map_option fst (strtok_r '' '' rest), kvp_vm = Some vm\<rparr>)"

fun parse_store :: "string \<Rightarrow> string list \<Rightarrow> kvp_set \<Rightarrow> kvp_set outcome" where
  "parse_store vm [] st = Ret st"
| "parse_store vm (tok # toks) st =
     (let p = parse_pair vm tok
      in bind_outcome (strdup (kvp_key p)) (\<lambda>_. bind_outcome (strdup (kvp_value p))
           (\<lambda>_. bind_outcome (add_to_kvp_set True st p) (parse_store vm toks))))"

definition xen_utils_get_kvp_store :: "http \<Rightarrow> string \<Rightarrow> string \<Rightarrow> kvp_set option outcome" where
  "xen_utils_get_kvp_store H url vm =
     (case get_from_url H url of
        (code, buf) \<Rightarrow>
          if code \<noteq> 200 then Ret None
          else (case buf of
             None \<Rightarrow> Ret (Some [])
           | Some text \<Rightarrow>
               bind_outcome (parse_store vm (tokens [CHR 0x0A] text) []) (\<lambda>st. Ret (Some st))))"

definition xen_utils_cmd_kvp_channel :: "http \<Rightarrow> 'x sdk \<Rightarrow> string \<Rightarrow> string \<Rightarrow> string \<Rightarrow> 'x \<Rightarrow> (kvp_rc \<times> 'x) outcome" where
  "xen_utils_cmd_kvp_channel H K xenref vm cmd x =
     bind_outcome (xen_utils_kvp_compose_url K xenref vm None cmd x)
       (\<lambda>(u, x1). case u of
          None \<Rightarrow> Ret (Kvp_error, x1)
        | Some None \<Rightarrow> Undefined
        | Some (Some url) \<Rightarrow> Ret (if post_to_url H url [] = 200 then Kvp_ok else Kvp_error, x1))"

section \<open>The provider of the class Xen_KVP\<close>

text \<open>
  One VM of the enumeration: its pairs, or nothing when it has no store that can be reached.
  The address of the host is looked up without a reset of the session's error flag.
\<close>

definition kvps_of_vm ::
    "http \<Rightarrow> 'x sdk \<Rightarrow> string \<Rightarrow> vm_record \<Rightarrow> kvp_set \<Rightarrow> 'x \<Rightarrow> (kvp_set \<times> 'x) outcome" where
  "kvps_of_vm H K xenref rec complete x =
     (if xen_utils_get_from_string_string_map (other_config rec) ''kvp_enabled'' = None then Ret (complete, x)
      else (case resident_on rec of
         None \<Rightarrow> Ret (complete, x)
       | Some h \<Rightarrow>
           (case host_get_address K h x of
              (None, x1) \<Rightarrow> Ret (complete, x1)
            | (Some address, x1) \<Rightarrow>
                bind_outcome
                  (sprintf_into
                     (25 + length plugin_path + length address + length (vm_uuid rec) + length xenref)
                     (''http://'' @ address @ ''/'' @ plugin_path @ ''/vm/'' @ vm_uuid rec @
                      ''?session_id='' @ xenref))
                  (\<lambda>url. case url of
                     None \<Rightarrow> Undefined
                   | Some u \<Rightarrow>
                       bind_outcome (xen_utils_get_kvp_store H u (vm_uuid rec))
                         (\<lambda>st. case st of
                            None \<Rightarrow> Ret (complete, x1)
                          | Some kvps \<Rightarrow>
                              bind_outcome (xen_utils_append_kvp_set complete kvps)
                                (\<lambda>c. Ret (c, x1)))))))"

fun enum_vms ::
    "http \<Rightarrow> 'x sdk \<Rightarrow> string \<Rightarrow> string list \<Rightarrow> kvp_set \<Rightarrow> 'x \<Rightarrow> (kvp_set \<times> 'x) outcome" where
  "enum_vms H K xenref [] complete x = Ret (complete, x)"
| "enum_vms H K xenref (h # hs) complete x =
     (case vm_get_record K h x of
        (None, x1) \<Rightarrow> enum_vms H K xenref hs complete (RESET_XEN_ERROR K x1)
      | (Some rec, x1) \<Rightarrow>
          bind_outcome (kvps_of_vm H K xenref rec complete x1)
            (\<lambda>(c, x2). enum_vms H K xenref hs c x2))"

definition kvp_list_enum ::
    "http \<Rightarrow> 'x sdk \<Rightarrow> bool \<Rightarrow> string \<Rightarrow> 'x \<Rightarrow> (cmpi_rc \<times> kvp_set \<times> 'x) outcome" where
  "kvp_list_enum H K mem xenref x =
     (case xen_utils_get_domain_resources K mem vms_only x of
        ((False, r), x1) \<Rightarrow> Ret (CMPI_RC_ERR_FAILED, [], x1)
      | ((True, None), x1) \<Rightarrow> Undefined
      | ((True, Some r), x1) \<Rightarrow>
          bind_outcome (enum_vms H K xenref (domains r) [] x1)
            (\<lambda>(c, x2). Ret (CMPI_RC_OK, c, x2)))"

text \<open>The current resource is advanced by the caller; the reply is a copy of the pair.\<close>

definition kvp_record_getnext :: "kvp_set option \<Rightarrow> nat \<Rightarrow> (cmpi_rc \<times> kvp option) outcome" where
  "kvp_record_getnext st current =
     (case st of
        None \<Rightarrow> Ret (CMPI_RC_ERR_NOT_FOUND, None)
      | Some kvps \<Rightarrow>
          if current = length kvps then Ret (CMPI_RC_ERR_NOT_FOUND, None)
          else if length kvps < current then Undefined
          else bind_outcome (xen_utils_kvp_copy True (kvps ! current))
            (\<lambda>p. Ret (CMPI_RC_OK, p)))"

text \<open>The results of the two parsers are not checked: on a failure the buffers hold garbage.\<close>

definition kvp_record_get_from_id ::
    "http \<Rightarrow> 'x sdk \<Rightarrow> string \<Rightarrow> string \<Rightarrow> 'x \<Rightarrow> (cmpi_rc \<times> kvp option \<times> 'x) outcome" where
  "kvp_record_get_from_id H K xenref res_uuid x =
     (case (CMPIStrncpyDeviceNameFromID (Some res_uuid) 256, CMPIStrncpySystemNameFromID True res_uuid 128) of
        (Some k, Some vm) \<Rightarrow>
          bind_outcome (xen_utils_get_from_kvp_store H K xenref vm (Some k) x)
            (\<lambda>(rc, val, x1).
               if rc \<noteq> Kvp_ok then Ret (CMPI_RC_ERR_FAILED, None, x1)
               else bind_outcome (xen_utils_create_kvp True (Some k) val (Some vm))
                 (\<lambda>p. case p of
                    None \<Rightarrow> Ret (CMPI_RC_ERR_FAILED, None, x1)
                  | Some q \<Rightarrow> Ret (CMPI_RC_OK, Some q, x1)))
      | _ \<Rightarrow> Undefined)"

text \<open>The CIM properties of a pair, or none for an invalid context.\<close>

definition kvp_set_properties :: "kvp option \<Rightarrow> (string \<times> string option) list option" where
  "kvp_set_properties ctx =
     (case ctx of
        None \<Rightarrow> None
      | Some p \<Rightarrow>
          (case (kvp_vm p, kvp_key p) of
             (Some vm, Some k) \<Rightarrow>
               Some [(''CreationClassName'', Some ''Xen_KVP''),
                     (''DeviceID'', Some (CMPICreateNewDeviceInstanceID 128 vm k)),
                     (''Key'', Some k), (''Value'', kvp_value p), (''Vm_uuid'', Some vm),
                     (''Name'', Some k), (''SystemCreationClassName'', Some ''Xen_ComputerSystem''),
                     (''SystemName'', Some vm)]
           | _ \<Rightarrow> None))"

section \<open>Lemmas\<close>

definition pair :: "string \<Rightarrow> string \<Rightarrow> string \<Rightarrow> kvp" where
  "pair vm k v = \<lparr>kvp_key = Some k, kvp_value = Some v, kvp_vm = Some vm\<rparr>"

lemma add_pair [simp]: "add_to_kvp_set True st (pair vm k v) = Ret (st @ [pair vm k v])"
  by (simp add: add_to_kvp_set_def fill_kvp_def strdup_def pair_def)

lemma append_pairs:
  "xen_utils_append_kvp_set dest (map (\<lambda>(k, v). pair vm k v) kvs) = Ret (dest @ map (\<lambda>(k, v). pair vm k v) kvs)"
proof -
  have "append_each d (map (\<lambda>(k, v). pair vm k v) kvs) = Ret (d @ map (\<lambda>(k, v). pair vm k v) kvs)" for d
    by (induction kvs arbitrary: d) auto
  then show ?thesis by (simp add: xen_utils_append_kvp_set_def)
qed

interpretation sender: cursor read_step fst "\<lambda>st. snd st = length (fst st)"
  by unfold_locales (auto simp: read_step_def read_callback_def split: list.splits)

lemma posted_body: "post_to_url H url data = (if http_curl H then http_post H url data else 0)"
  using sender.drain_remaining [of "(data, length data)" "length data"] by (simp add: post_to_url_def)

lemma received_body:
  assumes "http_curl H" and "http_get H url = (code, chunks)"
  shows "get_from_url H url = (code, if chunks = [] then None else Some (concat chunks))"
proof -
  have "fold (\<lambda>d m. snd (write_to_buffer True d m)) cs (Some a) = Some (a @ concat cs)" for a cs
    by (induction cs arbitrary: a) (auto simp: write_to_buffer_def)
  then show ?thesis using assms by (cases chunks) (auto simp: get_from_url_def write_to_buffer_def)
qed

text \<open>The text of a store: a line with the key and the value for each pair.\<close>

definition word :: "string \<Rightarrow> bool" where
  "word s \<longleftrightarrow> s \<noteq> [] \<and> CHR '' '' \<notin> set s \<and> CHR 0x0A \<notin> set s"

definition store_text :: "(string \<times> string) list \<Rightarrow> string" where
  "store_text kvs = join [CHR 0x0A] (map (\<lambda>(k, v). k @ '' '' @ v) kvs)"

lemma parse_pair_words:
  assumes "word k" and "word v"
  shows "parse_pair vm (k @ '' '' @ v) = pair vm k v"
proof -
  have "strtok_r '' '' (k @ CHR '' '' # v) = Some (k, v)" "strtok_r '' '' v = Some (v, [])"
    using assms by (auto simp: word_def intro!: strtok_r_clean)
  then show ?thesis by (simp add: parse_pair_def pair_def)
qed

lemma parse_store_words:
  "(\<forall>(k, v) \<in> set kvs. word k \<and> word v) \<Longrightarrow>
   parse_store vm (map (\<lambda>(k, v). k @ '' '' @ v) kvs) st = Ret (st @ map (\<lambda>(k, v). pair vm k v) kvs)"
proof (induction kvs arbitrary: st)
  case Nil
  then show ?case by simp
next
  case (Cons e kvs)
  obtain k v where e: "e = (k, v)" by (cases e)
  have p: "parse_pair vm (k @ CHR '' '' # v) = pair vm k v"
    using parse_pair_words [of k v vm] Cons.prems e by simp
  then show ?case
    using Cons.IH [of "st @ [pair vm k v]"] Cons.prems e by (simp add: pair_def strdup_def Let_def add_pair [unfolded pair_def])
qed

lemma tokens_store:
  "(\<forall>(k, v) \<in> set kvs. word k \<and> word v) \<Longrightarrow>
   tokens [CHR 0x0A] (store_text kvs) = map (\<lambda>(k, v). k @ '' '' @ v) kvs"
  unfolding store_text_def by (rule tokens_join) (auto simp: word_def)

lemma get_store_of_text:
  assumes "http_curl H" and "http_get H u = (200, chunks)"
    and "concat chunks = store_text kvs" and "\<forall>(k, v) \<in> set kvs. word k \<and> word v"
  shows "xen_utils_get_kvp_store H u vm = Ret (Some (map (\<lambda>(k, v). pair vm k v) kvs))"
proof (cases "chunks = []")
  case True
  then have "map (\<lambda>(k, v). k @ '' '' @ v) kvs = []"
    using assms(3) tokens_store [OF assms(4)] by (simp add: tokens_Nil)
  then have "kvs = []" by (rule iffD1 [OF map_is_Nil_conv])
  then show ?thesis using True received_body [OF assms(1,2)] by (simp add: xen_utils_get_kvp_store_def)
next
  case False
  then show ?thesis
    using received_body [OF assms(1,2)] assms(3) tokens_store [OF assms(4)] parse_store_words [OF assms(4)]
    by (simp add: xen_utils_get_kvp_store_def)
qed

lemma sprintf_fits [simp]: "length s + 1 \<le> cap \<Longrightarrow> sprintf_into cap s = Ret (Some s)"
  by (simp add: sprintf_into_def)

definition key_url :: "string \<Rightarrow> string \<Rightarrow> string \<Rightarrow> string \<Rightarrow> string" where
  "key_url address vm k xenref =
     ''http://'' @ address @ ''/services/plugin/xscim/vm/'' @ vm @ ''/key/'' @ k @ ''?session_id='' @ xenref"

definition store_url :: "string \<Rightarrow> string \<Rightarrow> string \<Rightarrow> string" where
  "store_url address vm xenref =
     ''http://'' @ address @ ''/services/plugin/xscim/vm/'' @ vm @ ''?session_id='' @ xenref"

text \<open>Every request URL fits the buffer computed for it, the terminating null included, for every
  command, address, VM and key; the only undefined case is a deletion without a key.\<close>

lemma request_urls_fit:
  "compose_for address vm key cmd xenref = Undefined \<longleftrightarrow> cmd = ''DEL'' \<and> key = None"
  by (auto simp: compose_for_def Let_def split: option.splits if_splits)

lemma compose_get: "compose_for address vm (Some k) ''GET'' xenref = Ret (Some (key_url address vm k xenref))"
  by (simp add: compose_for_def Let_def key_url_def)

lemma compose_put: "compose_for address vm (Some k) ''PUT'' xenref = Ret (Some (key_url address vm k xenref))"
  by (simp add: compose_for_def Let_def key_url_def)

text \<open>
  What the documentation of the SDK promises: a session without an error answers from the tables
  of VMs and host addresses, and stays without an error when it has found something.
\<close>

definition serves :: "'x sdk \<Rightarrow> (string \<Rightarrow> vm_record option) \<Rightarrow> (string \<Rightarrow> string option) \<Rightarrow> (string \<Rightarrow> string option) \<Rightarrow> bool" where
  "serves K table by_uuid addr \<longleftrightarrow>
     (\<forall>x. session_ok K (clear_error K x)) \<and>
     (\<forall>x h. session_ok K x \<longrightarrow> (\<exists>x'. vm_get_record K h x = (table h, x') \<and> (table h \<noteq> None \<longrightarrow> session_ok K x'))) \<and>
     (\<forall>x u. session_ok K x \<longrightarrow> (\<exists>x'. vm_get_by_uuid K u x = (by_uuid u, x') \<and> (by_uuid u \<noteq> None \<longrightarrow> session_ok K x'))) \<and>
     (\<forall>x h. session_ok K x \<longrightarrow> (\<exists>x'. host_get_address K h x = (addr h, x') \<and> (addr h \<noteq> None \<longrightarrow> session_ok K x')))"

lemma servesD:
  assumes "serves K table by_uuid addr"
  shows "session_ok K (clear_error K x)"
    and "session_ok K x \<Longrightarrow> \<exists>x'. vm_get_record K h x = (table h, x') \<and> (table h \<noteq> None \<longrightarrow> session_ok K x')"
    and "session_ok K x \<Longrightarrow> \<exists>x'. vm_get_by_uuid K u x = (by_uuid u, x') \<and> (by_uuid u \<noteq> None \<longrightarrow> session_ok K x')"
    and "session_ok K x \<Longrightarrow> \<exists>x'. host_get_address K h x = (addr h, x') \<and> (addr h \<noteq> None \<longrightarrow> session_ok K x')"
  using assms by (auto simp: serves_def)

lemma reset_ok: "serves K table by_uuid addr \<Longrightarrow> session_ok K (RESET_XEN_ERROR K x)"
  by (simp add: RESET_XEN_ERROR_def servesD(1))

lemma compose_url_found:
  assumes K: "serves K table by_uuid addr" and ok: "session_ok K x"
    and vm: "by_uuid vm = Some h" "table h = Some rec" "resident_on rec = Some hst" "addr hst = Some a"
  shows "\<exists>x'. session_ok K x' \<and> (\<forall>key cmd. xen_utils_kvp_compose_url K xenref vm key cmd x =
    bind_outcome (compose_for a vm key cmd xenref) (\<lambda>u. Ret (Some u, x')))"
proof -
  obtain x1 where x1: "vm_get_by_uuid K vm x = (Some h, x1)" "session_ok K x1"
    using servesD(3) [OF K ok, of vm] vm by auto
  obtain x2 where x2: "vm_get_record K h x1 = (Some rec, x2)" "session_ok K x2"
    using servesD(2) [OF K x1(2), of h] vm by auto
  obtain x3 where x3: "host_get_address K hst x2 = (Some a, x3)" "session_ok K x3"
    using servesD(4) [OF K x2(2), of hst] vm by auto
  show ?thesis
    using x1 x2 x3 vm by (auto simp: xen_utils_kvp_compose_url_def xen_utils_get_host_address_def)
qed

text \<open>C29. The InstanceID under which a pair is published addresses that pair: the provider asks the
  server of the VM's host for exactly its key, and answers the pair with the value the server
  sends, in however many chunks. A value without any text crashes: the buffer stays null.\<close>

theorem published_pair_is_fetched:
  assumes K: "serves K table by_uuid addr" and ok: "session_ok K x"
    and vm: "by_uuid vm = Some h" "table h = Some rec" "resident_on rec = Some hst" "addr hst = Some a"
    and ident: "kvp_set_properties (Some (pair vm k old)) = Some ps" "map_of ps ''DeviceID'' = Some (Some ident)"
    and names: "device_id_fits (vm, k)"
    and server: "http_curl H" "http_get H (key_url a vm k xenref) = (200, chunks)"
  shows "\<exists>x'. kvp_record_get_from_id H K xenref ident x =
    (if chunks = [] then Undefined else Ret (CMPI_RC_OK, Some (pair vm k (concat chunks)), x'))"
proof -
  have i: "ident = CMPICreateNewDeviceInstanceID 128 vm k"
    using ident by (auto simp: kvp_set_properties_def pair_def)
  have parsed: "CMPIStrncpyDeviceNameFromID (Some ident) 256 = Some k"
    "CMPIStrncpySystemNameFromID True ident 128 = Some vm"
    using names i by (auto simp: device_id_fits_def intro!: device_name_of_device_id system_name_of_device_id)
  obtain x' where "xen_utils_kvp_compose_url K xenref vm (Some k) ''GET'' x =
      bind_outcome (compose_for a vm (Some k) ''GET'' xenref) (\<lambda>u. Ret (Some u, x'))"
    using compose_url_found [OF K ok vm] by blast
  then show ?thesis
    using parsed received_body [OF server]
    by (auto simp: kvp_record_get_from_id_def xen_utils_get_from_kvp_store_def compose_get
        xen_utils_create_kvp_def initialise_kvp_def fill_kvp_def strdup_def pair_def)
qed

abbreviation the_vm :: "string \<Rightarrow> vm_record" where
  "the_vm vm \<equiv> (plain_vm vm)\<lparr>other_config := Some [(''kvp_enabled'', ''1'')], resident_on := Some ''host''\<rparr>"

definition one_vm :: "string \<Rightarrow> string \<Rightarrow> bool sdk" where
  "one_vm vm a = \<lparr>session_ok = (\<lambda>x. x), clear_error = (\<lambda>x. True),
     vm_get_all = (\<lambda>x. (if x then Some [''ref''] else None, x)),
     vm_get_record = (\<lambda>h x. if x \<and> h = ''ref'' then (Some (the_vm vm), x) else (None, False)),
     vm_get_by_uuid = (\<lambda>u x. if x \<and> u = vm then (Some ''ref'', x) else (None, False)),
     host_get_address = (\<lambda>h x. if x \<and> h = ''host'' then (Some a, x) else (None, False))\<rparr>"

lemma one_vm_serves: "serves (one_vm vm a) [''ref'' \<mapsto> the_vm vm] [vm \<mapsto> ''ref''] [''host'' \<mapsto> a]"
  by (simp add: serves_def one_vm_def all_bool_eq ex_bool_eq)

lemma published_pair_is_fetched_witness:
  "\<exists>x'. kvp_record_get_from_id
      \<lparr>http_get = (\<lambda>u. (200, [''val'', ''ue''])), http_post = (\<lambda>u d. 200), http_curl = True\<rparr>
      (one_vm ''u1'' ''10.0.0.1'') ''OpaqueRef'' ''Xen:u1/key'' True =
    Ret (CMPI_RC_OK, Some (pair ''u1'' ''key'' ''value''), x')"
  using published_pair_is_fetched [OF one_vm_serves [of "''u1''" "''10.0.0.1''"],
      where x = True and vm = "''u1''" and h = "''ref''" and rec = "the_vm ''u1''" and hst = "''host''"
        and a = "''10.0.0.1''" and k = "''key''" and ident = "''Xen:u1/key''" and chunks = "[''val'', ''ue'']"
        and H = "\<lparr>http_get = (\<lambda>u. (200, [''val'', ''ue''])), http_post = (\<lambda>u d. 200), http_curl = True\<rparr>"
        and xenref = "''OpaqueRef''" and old = "[]"]
  by (simp add: one_vm_def kvp_set_properties_def pair_def device_id_fits_def
      CMPICreateNewDeviceInstanceID_def snprintf_def)

section \<open>The enumeration of all pairs\<close>

definition enabled :: "vm_record \<Rightarrow> bool" where
  "enabled rec \<longleftrightarrow> xen_utils_get_from_string_string_map (other_config rec) ''kvp_enabled'' \<noteq> None"

definition vm_pairs :: "(string \<Rightarrow> (string \<times> string) list) \<Rightarrow> vm_record option \<Rightarrow> kvp list" where
  "vm_pairs store r =
     (case r of
        None \<Rightarrow> []
      | Some rec \<Rightarrow>
          if enabled rec \<and> resident_on rec \<noteq> None
          then map (\<lambda>(k, v). pair (vm_uuid rec) k v) (store (vm_uuid rec)) else [])"

text \<open>The host of every resident VM that has a store has an address, and its server lists the store.\<close>

definition lists_stores ::
    "http \<Rightarrow> string \<Rightarrow> (string \<Rightarrow> vm_record option) \<Rightarrow> (string \<Rightarrow> string option) \<Rightarrow>
     (string \<Rightarrow> (string \<times> string) list) \<Rightarrow> bool" where
  "lists_stores H xenref table addr store \<longleftrightarrow> http_curl H \<and>
     (\<forall>h rec hst. table h = Some rec \<and> enabled rec \<and> resident_on rec = Some hst \<longrightarrow>
        (\<forall>(k, v) \<in> set (store (vm_uuid rec)). word k \<and> word v) \<and>
        (\<exists>a chunks. addr hst = Some a \<and>
           http_get H (store_url a (vm_uuid rec) xenref) = (200, chunks) \<and>
           concat chunks = store_text (store (vm_uuid rec))))"

lemma kvps_of_vm_spec:
  assumes K: "serves K table by_uuid addr" and H: "lists_stores H xenref table addr store"
    and rec: "table h = Some rec" and ok: "session_ok K x"
  shows "\<exists>x'. kvps_of_vm H K xenref rec complete x = Ret (complete @ vm_pairs store (Some rec), x') \<and> session_ok K x'"
proof (cases "enabled rec \<and> resident_on rec \<noteq> None")
  case False
  then show ?thesis using ok
    by (auto simp: kvps_of_vm_def vm_pairs_def enabled_def split: option.splits)
next
  case True
  then obtain hst where hst: "resident_on rec = Some hst" by auto
  with True H rec obtain a chunks where a: "addr hst = Some a"
    and g: "http_get H (store_url a (vm_uuid rec) xenref) = (200, chunks)"
    and c: "concat chunks = store_text (store (vm_uuid rec))"
    and w: "\<forall>(k, v) \<in> set (store (vm_uuid rec)). word k \<and> word v" and curl: "http_curl H"
    unfolding lists_stores_def by blast
  obtain x' where x': "host_get_address K hst x = (Some a, x')" "session_ok K x'"
    using servesD(4) [OF K ok, of hst] a by auto
  have "xen_utils_get_kvp_store H (store_url a (vm_uuid rec) xenref) (vm_uuid rec) =
      Ret (Some (map (\<lambda>(k, v). pair (vm_uuid rec) k v) (store (vm_uuid rec))))"
    by (rule get_store_of_text [OF curl g c w])
  then show ?thesis
    using x' True hst append_pairs [of complete "vm_uuid rec"]
    by (auto simp: kvps_of_vm_def vm_pairs_def enabled_def store_url_def)
qed

lemma enum_vms_spec:
  assumes K: "serves K table by_uuid addr" and H: "lists_stores H xenref table addr store"
    and ok: "session_ok K x"
  shows "\<exists>x'. enum_vms H K xenref hs complete x =
    Ret (complete @ concat (map (\<lambda>h. vm_pairs store (table h)) hs), x')"
  using ok
proof (induction hs arbitrary: complete x)
  case Nil
  then show ?case by simp
next
  case (Cons h hs)
  obtain x1 where x1: "vm_get_record K h x = (table h, x1)" "table h \<noteq> None \<longrightarrow> session_ok K x1"
    using servesD(2) [OF K Cons.prems] by blast
  show ?case
  proof (cases "table h")
    case None
    then show ?thesis
      using x1 Cons.IH [OF reset_ok [OF K]] by (simp add: vm_pairs_def)
  next
    case (Some rec)
    then obtain x2 where "kvps_of_vm H K xenref rec complete x1 = Ret (complete @ vm_pairs store (Some rec), x2)"
      "session_ok K x2"
      using kvps_of_vm_spec [OF K H Some] x1 by blast
    then show ?thesis
      using x1 Some Cons.IH [where complete = "complete @ vm_pairs store (Some rec)"] by simp
  qed
qed

text \<open>The enumeration lists exactly the pairs of all VMs that have a store and run on a host, VM by
  VM and in the order of each store; VMs that vanish meanwhile are skipped without losing any of
  the others.\<close>

lemma all_pairs_enumerated:
  assumes K: "serves K table by_uuid addr" and H: "lists_stores H xenref table addr store"
    and all: "vm_get_all K (RESET_XEN_ERROR K x) = (Some refs, y)" and ok: "session_ok K y"
  shows "\<exists>x'. kvp_list_enum H K True xenref x =
    Ret (CMPI_RC_OK, concat (map (\<lambda>h. vm_pairs store (table h)) refs), x')"
  using all enum_vms_spec [OF K H ok, where hs = refs and complete = "[]"]
  by (auto simp: kvp_list_enum_def xen_utils_get_domain_resources_def xen_utils_enum_domains_def)

lemma all_pairs_enumerated_witness:
  "\<exists>x'. kvp_list_enum
      \<lparr>http_get = (\<lambda>u. (200, [''k v''])), http_post = (\<lambda>u d. 200), http_curl = True\<rparr>
      (one_vm ''u1'' ''10.0.0.1'') True ''OpaqueRef'' True = Ret (CMPI_RC_OK, [pair ''u1'' ''k'' ''v''], x')"
proof -
  let ?H = "\<lparr>http_get = (\<lambda>u. (200, [''k v''])), http_post = (\<lambda>u d. 200), http_curl = True\<rparr>"
  have H: "lists_stores ?H ''OpaqueRef'' [''ref'' \<mapsto> the_vm ''u1''] [''host'' \<mapsto> ''10.0.0.1''] (\<lambda>u. [(''k'', ''v'')])"
    by (simp add: lists_stores_def word_def store_text_def)
  from all_pairs_enumerated [OF one_vm_serves H, where x = True and refs = "[''ref'']" and y = True]
  show ?thesis
    by (simp add: one_vm_def RESET_XEN_ERROR_def vm_pairs_def enabled_def xen_utils_get_from_string_string_map_def)
qed

text \<open>
  The lookup of a host's address is not followed by a reset: when one host cannot be found, the
  next VM of the enumeration is reported as vanished, and its pairs are missing.
\<close>

definition two_vms :: "bool sdk" where
  "two_vms = \<lparr>session_ok = (\<lambda>x. x), clear_error = (\<lambda>x. True),
     vm_get_all = (\<lambda>x. (if x then Some [''r1'', ''r2''] else None, x)),
     vm_get_record = (\<lambda>h x. if x then (Some ((the_vm h)\<lparr>resident_on := Some h\<rparr>), True) else (None, False)),
     vm_get_by_uuid = (\<lambda>u x. (None, False)),
     host_get_address = (\<lambda>h x. if x \<and> h = ''r2'' then (Some ''10.0.0.1'', True) else (None, False))\<rparr>"

lemma lost_host_hides_next_vm:
  "kvp_list_enum \<lparr>http_get = (\<lambda>u. (200, [''k v''])), http_post = (\<lambda>u d. 200), http_curl = True\<rparr>
     two_vms True ''OpaqueRef'' True = Ret (CMPI_RC_OK, [], True)"
  by (simp add: kvp_list_enum_def xen_utils_get_domain_resources_def xen_utils_enum_domains_def two_vms_def
      RESET_XEN_ERROR_def kvps_of_vm_def xen_utils_get_from_string_string_map_def)

end
