(* ===== verification/ProxyHelper.thy ===== *)
theory ProxyHelper
  imports Session Domain
begin

text \<open>
  The generic side of every provider (\<^verbatim>\<open>src/ProxyHelper.c\<close>): the table of providers and the
  operations that open a session, call the function table of one provider and release what was
  opened. The function table is a record, with the optional operations that a read-only provider
  leaves null; the CMPI broker is a record of the calls that the code makes, each of which may fail.
\<close>

section \<open>Resources, function tables and the broker\<close>

record 'r resource =
  res_class :: string
  res_session :: utils_session
  cleanupsession :: bool
  res_ctx :: "'r option"
  res_refs_only :: bool

record 'c resource_list =
  list_class :: string
  current_resource :: nat
  list_session :: utils_session
  list_ctx :: "'c option"
  list_refs_only :: bool

record ('c, 'r, 'i, 'w) instance_ft =
  key_property :: "string \<Rightarrow> string"
  class_keys :: "string \<Rightarrow> string list"
  list_enum :: "'c resource_list \<Rightarrow> 'w \<Rightarrow> (cmpi_rc \<times> 'c resource_list \<times> 'w) outcome"
  list_cleanup :: "'c resource_list \<Rightarrow> unit outcome"
  record_getnext :: "'c resource_list \<Rightarrow> 'r resource \<Rightarrow> 'w \<Rightarrow>
    (cmpi_rc \<times> 'c resource_list \<times> 'r resource \<times> 'w) outcome"
  record_cleanup :: "'r resource \<Rightarrow> unit outcome"
  get_from_id :: "string \<Rightarrow> 'r resource \<Rightarrow> 'w \<Rightarrow> (cmpi_rc \<times> 'r resource \<times> 'w) outcome"
  set_properties :: "'r resource \<Rightarrow> 'i \<Rightarrow> cmpi_rc \<times> 'i"
  resource_add :: "('i \<Rightarrow> 'w \<Rightarrow> (cmpi_rc \<times> 'w) outcome) option"
  resource_delete :: "(string \<Rightarrow> 'w \<Rightarrow> (cmpi_rc \<times> 'w) outcome) option"
  resource_modify :: "('i \<Rightarrow> 'r resource option \<Rightarrow> string \<Rightarrow> 'w \<Rightarrow> (cmpi_rc \<times> 'w) outcome) option"
  resource_extract :: "('i \<Rightarrow> cmpi_rc \<times> 'r resource option) option"

text \<open>A broker call that fails, or that answers a null object, answers none.\<close>

record ('p, 'i) broker =
  new_object_path :: "string \<Rightarrow> string \<Rightarrow> 'p option"
  new_instance :: "'p \<Rightarrow> 'i option"
  instance_path :: "'i \<Rightarrow> 'p option"
  path_class :: "'p \<Rightarrow> string"
  path_namespace :: "'p \<Rightarrow> string"
  set_namespace :: "'p \<Rightarrow> string \<Rightarrow> 'p option"
  path_keys :: "'p \<Rightarrow> (string \<times> string option) list option"
  set_property :: "'i \<Rightarrow> string \<Rightarrow> string option \<Rightarrow> 'i option"
  get_property :: "'i \<Rightarrow> string \<Rightarrow> string option option"
  set_property_filter :: "'i \<Rightarrow> string list option \<Rightarrow> string list \<Rightarrow> 'i option"
  instance_class :: "'i \<Rightarrow> string"
  return_result :: "'p + 'i \<Rightarrow> bool"
  evaluate_query :: "string \<Rightarrow> 'i \<Rightarrow> bool option"

record 'w backend =
  daemon :: "'w env"
  traced :: bool
  api :: "'w sdk"

definition alloc :: "'w backend \<Rightarrow> 'w world \<Rightarrow> bool \<times> 'w world" where
  "alloc X w = (let (good, e) = calloc (daemon X) (env_state w) in (good, w\<lparr>env_state := e\<rparr>))"

section \<open>Loading\<close>

text \<open>The library's state and the flag \<^verbatim>\<open>g_bProviderLoaded\<close>.\<close>

definition prov_pxy_init :: "library \<times> bool \<Rightarrow> library \<times> bool" where
  "prov_pxy_init s = (xen_utils_xen_init (fst s), True)"

definition prov_pxy_uninit :: "library \<times> bool \<Rightarrow> library \<times> bool" where
  "prov_pxy_uninit s = (if snd s then (xen_utils_xen_close (fst s), False) else s)"

text \<open>The whole table is scanned, so that the last entry of a class wins.\<close>

definition prov_pxy_load_xen_instance_provider :: "(string \<times> 'f) list \<Rightarrow> string \<Rightarrow> 'f option" where
  "prov_pxy_load_xen_instance_provider table classname =
     fold (\<lambda>(n, ft) found. if n = classname then Some ft else found) table None"

definition prov_pxy_load_xen_method_provider :: "(string \<times> 'f) list \<Rightarrow> string \<Rightarrow> 'f option" where
  "prov_pxy_load_xen_method_provider table classname =
     fold (\<lambda>(n, ft) found. if n = classname then Some ft else found) table None"

section \<open>Enumeration\<close>

definition open_session ::
    "'w backend \<Rightarrow> string \<times> string \<Rightarrow> 'w world \<Rightarrow> (utils_session option \<times> 'w world) outcome" where
  "open_session X ctx w =
     bind_outcome (xen_utils_validate_session (daemon X) (traced X) (Some None) (fst ctx) (snd ctx) w)
       (\<lambda>(rc, s, w1). Ret (if rc then s else None, w1))"

definition prov_pxy_begin ::
    "'w backend \<Rightarrow> ('c, 'r, 'i, 'w) instance_ft \<Rightarrow> string \<Rightarrow> string \<times> string \<Rightarrow> bool \<Rightarrow> 'w world \<Rightarrow>
     (cmpi_rc \<times> 'c resource_list option \<times> 'w world) outcome" where
  "prov_pxy_begin X ft classname ctx refs_only w =
     bind_outcome (open_session X ctx w)
       (\<lambda>(sess, w1). case sess of
          None \<Rightarrow> Ret (CMPI_RC_ERR_FAILED, None, w1)
        | Some s \<Rightarrow>
            let (good, w2) = alloc X w1
            in if \<not> good then Ret (CMPI_RC_ERR_FAILED, None, w2)
               else bind_outcome
                 (list_enum ft \<lparr>list_class = classname, current_resource = 0, list_session = s,
                    list_ctx = None, list_refs_only = refs_only\<rparr> (env_state w2))
                 (\<lambda>(rc, rl, e). let w3 = w2\<lparr>env_state := e\<rparr> in
                    if rc = CMPI_RC_OK then Ret (CMPI_RC_OK, Some rl, w3)
                    else bind_outcome (list_cleanup ft rl)
                      (\<lambda>_. Ret (CMPI_RC_ERR_FAILED, None, xen_utils_cleanup_session (daemon X) (Some s) w3))))"

definition prov_pxy_end ::
    "'w backend \<Rightarrow> ('c, 'r, 'i, 'w) instance_ft \<Rightarrow> 'c resource_list option \<Rightarrow> 'w world \<Rightarrow> 'w world outcome" where
  "prov_pxy_end X ft resources w =
     (case resources of
        None \<Rightarrow> Ret w
      | Some rl \<Rightarrow>
          bind_outcome (list_cleanup ft rl)
            (\<lambda>_. Ret (xen_utils_cleanup_session (daemon X) (Some (list_session rl)) w)))"

definition advance_list :: "'c resource_list \<Rightarrow> 'c resource_list" where
  "advance_list rl = rl\<lparr>current_resource := current_resource rl + 1\<rparr>"

definition prov_pxy_getnext ::
    "'w backend \<Rightarrow> ('c, 'r, 'i, 'w) instance_ft \<Rightarrow> 'c resource_list \<Rightarrow> 'w world \<Rightarrow>
     (cmpi_rc \<times> 'r resource option \<times> 'c resource_list \<times> 'w world) outcome" where
  "prov_pxy_getnext X ft rl w =
     (let (good, w1) = alloc X (w\<lparr>env_state := RESET_XEN_ERROR (api X) (env_state w)\<rparr>)
      in if \<not> good then Ret (CMPI_RC_ERR_FAILED, None, rl, w1)
         else bind_outcome
           (record_getnext ft rl \<lparr>res_class = list_class rl, res_session = list_session rl,
              cleanupsession = False, res_ctx = None, res_refs_only = list_refs_only rl\<rparr> (env_state w1))
           (\<lambda>(rc, rl1, res, e). let w2 = w1\<lparr>env_state := e\<rparr> in
              if rc \<noteq> CMPI_RC_OK
              then bind_outcome (record_cleanup ft res)
                (\<lambda>_. Ret (rc, None, if rc \<noteq> CMPI_RC_ERR_NOT_FOUND then advance_list rl1 else rl1, w2))
              else Ret (CMPI_RC_OK, Some res, advance_list rl1, w2)))"

section \<open>Single resources\<close>

definition prov_pxy_release ::
    "'w backend \<Rightarrow> ('c, 'r, 'i, 'w) instance_ft \<Rightarrow> 'r resource option \<Rightarrow> 'w world \<Rightarrow> 'w world outcome" where
  "prov_pxy_release X ft res w =
     (case res of
        None \<Rightarrow> Ret w
      | Some r \<Rightarrow>
          bind_outcome (record_cleanup ft r)
            (\<lambda>_. Ret (if cleanupsession r then xen_utils_cleanup_session (daemon X) (Some (res_session r)) w
                      else w)))"

definition prov_pxy_get ::
    "'w backend \<Rightarrow> ('p, 'i) broker \<Rightarrow> ('c, 'r, 'i, 'w) instance_ft \<Rightarrow> 'i \<Rightarrow> string \<times> string \<Rightarrow> 'w world \<Rightarrow>
     (cmpi_rc \<times> 'r resource option \<times> 'w world) outcome" where
  "prov_pxy_get X B ft inst ctx w =
     (case get_property B inst (key_property ft (instance_class B inst)) of
        None \<Rightarrow> Ret (CMPI_RC_ERR_INVALID_PARAMETER, None, w)
      | Some None \<Rightarrow> Ret (CMPI_RC_ERR_FAILED, None, w)
      | Some (Some res_uuid) \<Rightarrow>
          bind_outcome (open_session X ctx w)
            (\<lambda>(sess, w1). case sess of
               None \<Rightarrow> Ret (CMPI_RC_ERR_FAILED, None, w1)
             | Some s \<Rightarrow>
                 let (good, w2) = alloc X w1
                 in if \<not> good then Ret (CMPI_RC_ERR_FAILED, None, w2)
                    else bind_outcome
                      (get_from_id ft res_uuid \<lparr>res_class = instance_class B inst, res_session = s,
                         cleanupsession = True, res_ctx = None, res_refs_only = False\<rparr> (env_state w2))
                      (\<lambda>(rc, r, e). let w3 = w2\<lparr>env_state := e\<rparr> in
                         if rc = CMPI_RC_OK then Ret (CMPI_RC_OK, Some r, w3)
                         else bind_outcome (record_cleanup ft r)
                           (\<lambda>_. Ret (rc, None, xen_utils_cleanup_session (daemon X) (Some s) w3)))))"

text \<open>The status of the property filter is not looked at; a filter that fails leaves the instance.\<close>

definition prov_pxy_setproperties ::
    "'w backend \<Rightarrow> ('p, 'i) broker \<Rightarrow> ('c, 'r, 'i, 'w) instance_ft \<Rightarrow> 'i \<Rightarrow> 'r resource option \<Rightarrow>
     string list option \<Rightarrow> 'w world \<Rightarrow> cmpi_rc \<times> 'i \<times> 'w world" where
  "prov_pxy_setproperties X B ft inst res properties w =
     (case res of
        None \<Rightarrow> (CMPI_RC_ERR_FAILED, inst, w)
      | Some r \<Rightarrow>
          let i1 = (case set_property_filter B inst properties (class_keys ft (res_class r)) of
                      None \<Rightarrow> inst | Some i \<Rightarrow> i);
              (rc, i2) = set_properties ft r i1
          in (rc, i2, w\<lparr>env_state := RESET_XEN_ERROR (api X) (env_state w)\<rparr>))"

text \<open>A session around one call of the provider, for the operations that change a resource.\<close>

definition within_session ::
    "'w backend \<Rightarrow> string \<times> string \<Rightarrow> ('w \<Rightarrow> (cmpi_rc \<times> 'w) outcome) \<Rightarrow> 'w world \<Rightarrow> (cmpi_rc \<times> 'w world) outcome" where
  "within_session X ctx call w =
     bind_outcome (open_session X ctx w)
       (\<lambda>(sess, w1). case sess of
          None \<Rightarrow> Ret (CMPI_RC_ERR_FAILED, w1)
        | Some s \<Rightarrow>
            bind_outcome (call (env_state w1))
              (\<lambda>(rc, e). Ret (rc, xen_utils_cleanup_session (daemon X) (Some s) (w1\<lparr>env_state := e\<rparr>))))"

text \<open>Calling an operation that the provider leaves null is undefined.\<close>

definition prov_pxy_add ::
    "'w backend \<Rightarrow> ('c, 'r, 'i, 'w) instance_ft \<Rightarrow> 'i \<Rightarrow> string \<times> string \<Rightarrow> 'w world \<Rightarrow> (cmpi_rc \<times> 'w world) outcome" where
  "prov_pxy_add X ft inst ctx w =
     within_session X ctx (\<lambda>e. case resource_add ft of None \<Rightarrow> Undefined | Some f \<Rightarrow> f inst e) w"

definition instance_id :: "('p, 'i) broker \<Rightarrow> ('c, 'r, 'i, 'w) instance_ft \<Rightarrow> 'i \<Rightarrow> string option" where
  "instance_id B ft inst =
     (case get_property B inst (key_property ft (instance_class B inst)) of
        Some (Some s) \<Rightarrow> if s = [] then None else Some s
      | _ \<Rightarrow> None)"

definition prov_pxy_delete ::
    "'w backend \<Rightarrow> ('p, 'i) broker \<Rightarrow> ('c, 'r, 'i, 'w) instance_ft \<Rightarrow> 'i \<Rightarrow> string \<times> string \<Rightarrow> 'w world \<Rightarrow>
     (cmpi_rc \<times> 'w world) outcome" where
  "prov_pxy_delete X B ft inst ctx w =
     (case instance_id B ft inst of
        None \<Rightarrow> Ret (CMPI_RC_ERR_FAILED, w)
      | Some inst_id \<Rightarrow>
          within_session X ctx
            (\<lambda>e. case resource_delete ft of None \<Rightarrow> Undefined | Some f \<Rightarrow> f inst_id e) w)"

definition prov_pxy_modify ::
    "'w backend \<Rightarrow> ('p, 'i) broker \<Rightarrow> ('c, 'r, 'i, 'w) instance_ft \<Rightarrow> 'i \<Rightarrow> string \<times> string \<Rightarrow>
     'r resource option \<Rightarrow> 'w world \<Rightarrow> (cmpi_rc \<times> 'w world) outcome" where
  "prov_pxy_modify X B ft inst ctx modified w =
     (case instance_id B ft inst of
        None \<Rightarrow> Ret (CMPI_RC_ERR_FAILED, w)
      | Some inst_id \<Rightarrow>
          within_session X ctx
            (\<lambda>e. case resource_modify ft of None \<Rightarrow> Undefined | Some f \<Rightarrow> f inst modified inst_id e) w)"

definition prov_pxy_extract :: "('c, 'r, 'i, 'w) instance_ft \<Rightarrow> 'i \<Rightarrow> (cmpi_rc \<times> 'r resource option) outcome" where
  "prov_pxy_extract ft inst =
     (case resource_extract ft of None \<Rightarrow> Undefined | Some f \<Rightarrow> Ret (f inst))"

section \<open>The tables of providers\<close>

text \<open>Each class with the name of the module whose load function the table holds.\<close>

definition g_instance_providers :: "(string \<times> string) list" where
  "g_instance_providers = [
     (''Xen_HostPool'', ''Xen_HostPool''),
     (''Xen_ComputerSystem'', ''Xen_ComputerSystem''),
     (''Xen_ComputerSystemSettingData'', ''Xen_ComputerSystem''),
     (''Xen_ComputerSystemTemplate'', ''Xen_ComputerSystem''),
     (''Xen_ComputerSystemSnapshot'', ''Xen_ComputerSystem''),
     (''Xen_VirtualSwitch'', ''Xen_VirtualSwitch''),
     (''Xen_VirtualSwitchSettingData'', ''Xen_VirtualSwitch''),
     (''Xen_HostComputerSystem'', ''Xen_HostComputerSystem''),
     (''Xen_VirtualSystemManagementService'', ''Xen_Services''),
     (''Xen_VirtualSystemMigrationService'', ''Xen_Services''),
     (''Xen_VirtualSystemSnapshotService'', ''Xen_Services''),
     (''Xen_VirtualSwitchManagementService'', ''Xen_Services''),
     (''Xen_VirtualSwitchManagementService'', ''Xen_Services''),
     (''Xen_StoragePoolManagementService'', ''Xen_Services''),
     (''Xen_VirtualSystemManagementServiceJob'', ''Xen_Job''),
     (''Xen_VirtualSystemMigrationServiceJob'', ''Xen_Job''),
     (''Xen_ConnectToDiskImageJob'', ''Xen_Job''),
     (''Xen_DisconnectFromDiskImageJob'', ''Xen_Job''),
     (''Xen_VirtualSystemModifyResourcesJob'', ''Xen_Job''),
     (''Xen_VirtualSystemCreateJob'', ''Xen_Job''),
     (''Xen_SystemStateChangeJob'', ''Xen_Job''),
     (''Xen_StartSnapshotForestExportJob'', ''Xen_Job''),
     (''Xen_EndSnapshotForestExportJob'', ''Xen_Job''),
     (''Xen_HostNetworkPort'', ''Xen_HostNetworkPort''),
     (''Xen_HostProcessor'', ''Xen_HostProcessor''),
     (''Xen_HostMemory'', ''Xen_HostComputerSystem''),
     (''Xen_DiskImage'', ''Xen_DiskImage''),
     (''Xen_MemoryState'', ''Xen_MemoryState''),
     (''Xen_HostNetworkPortSettingData'', ''Xen_HostNetworkPort''),
     (''Xen_ProcessorPool'', ''Xen_HostComputerSystem''),
     (''Xen_MemoryPool'', ''Xen_HostComputerSystem''),
     (''Xen_NetworkConnectionPool'', ''Xen_VirtualSwitch''),
     (''Xen_StoragePool'', ''Xen_StoragePool''),
     (''Xen_Processor'', ''Xen_Processor''),
     (''Xen_Memory'', ''Xen_ComputerSystem''),
     (''Xen_Disk'', ''Xen_Disk''),
     (''Xen_DiskDrive'', ''Xen_Disk''),
     (''Xen_NetworkPort'', ''Xen_NetworkPort''),
     (''Xen_Console'', ''Xen_Console''),
     (''Xen_KVP'', ''Xen_KVP''),
     (''Xen_VirtualSwitchLANEndpoint'', ''Xen_NetworkPort''),
     (''Xen_ComputerSystemLANEndpoint'', ''Xen_NetworkPort''),
     (''Xen_VirtualSwitchPort'', ''Xen_NetworkPort''),
     (''Xen_ProcessorSettingData'', ''Xen_ComputerSystem''),
     (''Xen_MemorySettingData'', ''Xen_ComputerSystem''),
     (''Xen_DiskSettingData'', ''Xen_Disk''),
     (''Xen_NetworkPortSettingData'', ''Xen_NetworkPort''),
     (''Xen_ConsoleSettingData'', ''Xen_Console''),
     (''Xen_KVPSettingData'', ''Xen_KVP''),
     (''Xen_MetricService'', ''Xen_MetricService''),
     (''Xen_HostProcessorUtilization'', ''Xen_HostComputerSystem''),
     (''Xen_HostNetworkPortReceiveThroughput'', ''Xen_HostNetworkPort''),
     (''Xen_HostNetworkPortTransmitThroughput'', ''Xen_HostNetworkPort''),
     (''Xen_ProcessorUtilization'', ''Xen_HostComputerSystem''),
     (''Xen_DiskReadThroughput'', ''Xen_Disk''),
     (''Xen_DiskWriteThroughput'', ''Xen_Disk''),
     (''Xen_DiskReadLatency'', ''Xen_Disk''),
     (''Xen_DiskWriteLatency'', ''Xen_Disk''),
     (''Xen_NetworkPortReceiveThroughput'', ''Xen_NetworkPort''),
     (''Xen_NetworkPortTransmitThroughput'', ''Xen_NetworkPort''),
     (''Xen_MemoryAllocationCapabilities'', ''Xen_HostComputerSystem''),
     (''Xen_ProcessorAllocationCapabilities'', ''Xen_HostComputerSystem''),
     (''Xen_StorageAllocationCapabilities'', ''Xen_StoragePool''),
     (''Xen_NetworkConnectionAllocationCapabilities'', ''Xen_VirtualSwitch''),
     (''Xen_MemoryCapabilitiesSettingData'', ''Xen_MemoryCapabilitiesSettingData''),
     (''Xen_ProcessorCapabilitiesSettingData'', ''Xen_ProcessorCapabilitiesSettingData''),
     (''Xen_StorageCapabilitiesSettingData'', ''Xen_StorageCapabilitiesSettingData''),
     (''Xen_NetworkConnectionCapabilitiesSettingData'', ''Xen_NetworkConnectionCapabilitiesSettingData''),
     (''Xen_VirtualizationCapabilities'', ''Xen_VirtualizationCapabilities''),
     (''Xen_VirtualSystemManagementCapabilities'', ''Xen_Services''),
     (''Xen_VirtualSystemMigrationCapabilities'', ''Xen_Services''),
     (''Xen_VirtualSystemSnapshotServiceCapabilities'', ''Xen_Services''),
     (''Xen_VirtualSystemSnapshotCapabilities'', ''Xen_Services''),
     (''Xen_ComputerSystemCapabilities'', ''Xen_ComputerSystem''),
     (''Xen_HostComputerSystemCapabilities'', ''Xen_HostComputerSystem'')]"

definition g_method_providers :: "(string \<times> string) list" where
  "g_method_providers = [
     (''Xen_VirtualSystemManagementService'', ''Xen_VirtualSystemManagementService''),
     (''Xen_VirtualSystemMigrationService'', ''Xen_VirtualSystemMigrationService''),
     (''Xen_VirtualSystemSnapshotService'', ''Xen_VirtualSystemSnapshotService''),
     (''Xen_VirtualSwitchManagementService'', ''Xen_VirtualSwitchManagementService''),
     (''Xen_StoragePoolManagementService'', ''Xen_StoragePoolManagementService''),
     (''Xen_ComputerSystem'', ''Xen_ComputerSystem''),
     (''Xen_HostComputerSystem'', ''Xen_HostComputerSystem''),
     (''Xen_HostPool'', ''Xen_HostPool''),
     (''Xen_Console'', ''Xen_Console''),
     (''Xen_MetricService'', ''Xen_MetricService''),
     (''Xen_VirtualSystemManagementServiceJob'', ''Xen_Job''),
     (''Xen_VirtualSystemMigrationServiceJob'', ''Xen_Job''),
     (''Xen_VirtualSystemModifyResourcesJob'', ''Xen_Job''),
     (''Xen_VirtualSystemCreateJob'', ''Xen_Job''),
     (''Xen_ConnectToDiskImageJob'', ''Xen_Job''),
     (''Xen_DisconnectFromDiskImageJob'', ''Xen_Job''),
     (''Xen_SystemStateChangeJob'', ''Xen_Job''),
     (''Xen_StartSnapshotForestExportJob'', ''Xen_Job''),
     (''Xen_EndSnapshotForestExportJob'', ''Xen_Job'')]"

lemma load_last:
  "prov_pxy_load_xen_instance_provider table cls = map_of (rev table) cls"
proof -
  have "fold (\<lambda>(n, ft) found. if n = cls then Some ft else found) table a =
      (case map_of (rev table) cls of Some ft \<Rightarrow> Some ft | None \<Rightarrow> a)" for a
    by (induction table arbitrary: a) (auto simp: map_add_def split: option.splits)
  from this [of None] show ?thesis
    unfolding prov_pxy_load_xen_instance_provider_def by (simp split: option.splits)
qed

section \<open>Sessions are balanced\<close>

lemma validate_fresh:
  assumes "xen_utils_validate_session E tracing (Some None) user pw w = Ret (rc, r, w')"
  shows "(rc \<longleftrightarrow> r \<noteq> None) \<and>
    (case r of Some t \<Rightarrow> ready t \<and> structs w' = structs w + 1 \<and> logins w' = logins w + 1
             | None \<Rightarrow> structs w' = structs w \<and> logins w \<le> logins w')"
proof -
  obtain r0 w0 where g: "xen_utils_get_session E tracing user pw w = Ret (r0, w0)"
    using assms by (cases "xen_utils_get_session E tracing user pw w") (auto simp: xen_utils_validate_session_def)
  note acc = get_session_balance [OF g]
  show ?thesis
  proof (cases r0)
    case None
    then show ?thesis using assms g acc by (auto simp: xen_utils_validate_session_def)
  next
    case (Some s)
    then have v: "xen_utils_validate_session E tracing (Some (Some s)) user pw w0 = Ret (rc, r, w')"
      using assms g by (simp add: xen_utils_validate_session_def)
    show ?thesis
      using validate_session_balance [OF v] acc Some
      by (auto simp: holds_more_def ready_def split: option.splits)
  qed
qed

lemma open_session_balance:
  assumes "open_session X ctx w = Ret (r, w')"
  shows "case r of Some t \<Rightarrow> ready t \<and> structs w' = structs w + 1 \<and> logins w' = logins w + 1
             | None \<Rightarrow> structs w' = structs w \<and> logins w \<le> logins w'"
proof -
  obtain rc s where v: "xen_utils_validate_session (daemon X) (traced X) (Some None) (fst ctx) (snd ctx) w = Ret (rc, s, w')"
    "r = (if rc then s else None)"
    using assms by (auto simp: open_session_def bind_outcome_Ret_iff)
  show ?thesis using validate_fresh [OF v(1)] v(2) by (cases s) auto
qed

lemma cleanup_ready:
  "ready s \<Longrightarrow> structs (xen_utils_cleanup_session E (Some s) w) = structs w - 1 \<and>
    logins (xen_utils_cleanup_session E (Some s) w) = logins w - 1"
  using cleanup_releases [of E s w] by (auto simp: holds_more_def ready_def)

lemma within_session_balance:
  assumes "within_session X ctx call w = Ret (rc, w')"
  shows "structs w' = structs w \<and> logins w \<le> logins w'"
proof -
  obtain sess w1 where o1: "open_session X ctx w = Ret (sess, w1)"
    using assms by (cases "open_session X ctx w") (auto simp: within_session_def)
  show ?thesis
    using assms o1 open_session_balance [OF o1]
    by (auto simp: within_session_def bind_outcome_Ret_iff cleanup_ready split: option.splits)
qed

end
