(* ===== verification/ProxyProvider.thy ===== *)
theory ProxyProvider
  imports ProxyHelper Iterator
begin

text \<open>
  The CMPI entry points that every provider shares (\<^verbatim>\<open>src/ProxyProvider.c\<close>): enumeration of
  names and of instances, retrieval, creation, modification, deletion, queries and method calls.

  The loops that enumerate run on fuel, the first argument, and answer none without it: whether
  they end depends on the provider, and the lemmas of the locale \<open>instance_provider\<close> say when they do.
  An error exit that jumps over the declaration of the caller's context reads an indeterminate
  pointer there, which is undefined.
\<close>

section \<open>The caller\<close>

text \<open>The entry of the CMPI context is its status, or the principal.\<close>

definition credentials :: "cmpi_rc + string \<Rightarrow> cmpi_rc + string \<times> string" where
  "credentials entry =
     (case entry of
        Inl rc \<Rightarrow> Inl rc
      | Inr p \<Rightarrow> (case xen_utils_get_call_context (Some p) of
                     None \<Rightarrow> Inl CMPI_RC_ERR_ACCESS_DENIED | Some up \<Rightarrow> Inr up))"

section \<open>Object paths to resources\<close>

fun set_keys :: "('p, 'i) broker \<Rightarrow> (string \<times> string option) list \<Rightarrow> 'i \<Rightarrow> 'i option" where
  "set_keys B [] inst = Some inst"
| "set_keys B ((k, v) # ks) inst =
     (case set_property B inst k v of None \<Rightarrow> None | Some i \<Rightarrow> set_keys B ks i)"

definition op2inst :: "('p, 'i) broker \<Rightarrow> 'p \<Rightarrow> 'i option" where
  "op2inst B op =
     (case new_instance B op of
        None \<Rightarrow> None
      | Some inst \<Rightarrow> (case path_keys B op of None \<Rightarrow> None | Some ks \<Rightarrow> set_keys B ks inst))"

definition getres4op ::
    "'w backend \<Rightarrow> ('p, 'i) broker \<Rightarrow> 'p \<Rightarrow> string \<times> string \<Rightarrow> ('c, 'r, 'i, 'w) instance_ft \<Rightarrow> 'w world \<Rightarrow>
     ('r resource option \<times> 'w world) outcome" where
  "getres4op X B op ctx ft w =
     (case op2inst B op of
        None \<Rightarrow> Ret (None, w)
      | Some inst \<Rightarrow>
          bind_outcome (prov_pxy_get X B ft inst ctx w)
            (\<lambda>(rc, res, w1).
               if rc \<noteq> CMPI_RC_OK
               then bind_outcome (prov_pxy_release X ft res w1) (\<lambda>w2. Ret (None, w2))
               else Ret (res, w1)))"

section \<open>Enumeration\<close>

definition fresh_instance :: "('p, 'i) broker \<Rightarrow> string \<Rightarrow> string \<Rightarrow> 'i option" where
  "fresh_instance B ns cls =
     (case new_object_path B ns cls of None \<Rightarrow> None | Some op \<Rightarrow> new_instance B op)"

text \<open>
  What becomes of one resource: the loop stops with a failure, or it goes on with the object that was
  returned, if any. The resource is released after its properties were set, but not when the
  property filter fails.
\<close>

definition enum_item ::
    "'w backend \<Rightarrow> ('p, 'i) broker \<Rightarrow> ('c, 'r, 'i, 'w) instance_ft \<Rightarrow> string \<Rightarrow> string list option \<Rightarrow> bool \<Rightarrow>
     'i \<Rightarrow> 'r resource option \<Rightarrow> 'w world \<Rightarrow> (bool \<times> ('p + 'i) option \<times> 'w world) outcome" where
  "enum_item X B ft ns properties refs_only inst res w =
     (case (case properties of None \<Rightarrow> Some inst | Some ps \<Rightarrow> set_property_filter B inst (Some ps) []) of
        None \<Rightarrow> Ret (True, None, w)
      | Some i1 \<Rightarrow>
          let (rc, i2, w1) = prov_pxy_setproperties X B ft i1 res None w
          in bind_outcome (prov_pxy_release X ft res w1)
               (\<lambda>w2. if rc \<noteq> CMPI_RC_OK then Ret (False, None, w2)
                 else (case instance_path B i2 of
                    None \<Rightarrow> Ret (True, None, w2)
                  | Some op \<Rightarrow>
                      (case set_namespace B op ns of
                         None \<Rightarrow> Ret (True, None, w2)
                       | Some op1 \<Rightarrow>
                           let obj = (if refs_only then Inl op1 else Inr i2)
                           in if return_result B obj then Ret (False, Some obj, w2)
                              else Ret (True, None, w2)))))"

fun enum_loop ::
    "nat \<Rightarrow> 'w backend \<Rightarrow> ('p, 'i) broker \<Rightarrow> ('c, 'r, 'i, 'w) instance_ft \<Rightarrow> string \<Rightarrow> string \<Rightarrow>
     string list option \<Rightarrow> bool \<Rightarrow> 'c resource_list \<Rightarrow> ('p + 'i) list \<Rightarrow> 'w world \<Rightarrow>
     (cmpi_rc \<times> ('p + 'i) list \<times> 'c resource_list \<times> 'w world) outcome option" where
  "enum_loop 0 X B ft ns cls properties refs_only rl acc w = None"
| "enum_loop (Suc n) X B ft ns cls properties refs_only rl acc w =
     (case fresh_instance B ns cls of
        None \<Rightarrow> Some (Ret (CMPI_RC_ERR_FAILED, acc, rl, w))
      | Some inst \<Rightarrow>
          (case prov_pxy_getnext X ft rl w of
             Undefined \<Rightarrow> Some Undefined
           | Ret (rc, res, rl1, w1) \<Rightarrow>
               if rc = CMPI_RC_ERR_NOT_FOUND then Some (Ret (CMPI_RC_OK, acc, rl1, w1))
               else if rc \<noteq> CMPI_RC_OK then enum_loop n X B ft ns cls properties refs_only rl1 acc w1
               else (case enum_item X B ft ns properties refs_only inst res w1 of
                  Undefined \<Rightarrow> Some Undefined
                | Ret (True, obj, w2) \<Rightarrow> Some (Ret (CMPI_RC_ERR_FAILED, acc, rl1, w2))
                | Ret (False, None, w2) \<Rightarrow> enum_loop n X B ft ns cls properties refs_only rl1 acc w2
                | Ret (False, Some obj, w2) \<Rightarrow>
                    enum_loop n X B ft ns cls properties refs_only rl1 (acc @ [obj]) w2)))"

text \<open>The status, the objects returned to the client, and whether the result was closed.\<close>

definition enum_call ::
    "nat \<Rightarrow> 'w backend \<Rightarrow> ('p, 'i) broker \<Rightarrow> (string \<times> ('c, 'r, 'i, 'w) instance_ft) list \<Rightarrow>
     cmpi_rc + string \<Rightarrow> 'p \<Rightarrow> string list option \<Rightarrow> bool \<Rightarrow> 'w world \<Rightarrow>
     (cmpi_rc \<times> ('p + 'i) list \<times> bool \<times> 'w world) outcome option" where
  "enum_call n X B table entry ref properties refs_only w =
     (case credentials entry of
        Inl rc \<Rightarrow> Some (Ret (rc, [], False, w))
      | Inr ctx \<Rightarrow>
          (case prov_pxy_load_xen_instance_provider table (path_class B ref) of
             None \<Rightarrow> Some (Ret (CMPI_RC_ERR_NOT_SUPPORTED, [], False, w))
           | Some ft \<Rightarrow>
               (case prov_pxy_begin X ft (path_class B ref) ctx refs_only w of
                  Undefined \<Rightarrow> Some Undefined
                | Ret (rc, None, w1) \<Rightarrow> Some (Ret (CMPI_RC_ERR_FAILED, [], False, w1))
                | Ret (rc, Some rl, w1) \<Rightarrow>
                    (case enum_loop n X B ft (path_namespace B ref) (path_class B ref) properties refs_only rl [] w1 of
                       None \<Rightarrow> None
                     | Some r \<Rightarrow> Some (bind_outcome r
                         (\<lambda>(st, objs, rl1, w2). bind_outcome (prov_pxy_end X ft (Some rl1) w2)
                           (\<lambda>w3. Ret (st, objs, objs \<noteq> [] \<and> st = CMPI_RC_OK, w3))))))))"

definition XenCommonEnumInstanceNames where
  "XenCommonEnumInstanceNames n X B table entry ref w = enum_call n X B table entry ref None True w"

definition XenCommonEnumInstances where
  "XenCommonEnumInstances n X B table entry ref properties w =
     enum_call n X B table entry ref properties False w"

section \<open>One instance\<close>

definition deliver_instance ::
    "'w backend \<Rightarrow> ('p, 'i) broker \<Rightarrow> ('c, 'r, 'i, 'w) instance_ft \<Rightarrow> 'i \<Rightarrow> string list option \<Rightarrow>
     'r resource \<Rightarrow> 'w world \<Rightarrow> (cmpi_rc \<times> 'i option \<times> 'w world) outcome" where
  "deliver_instance X B ft inst properties r w =
     (let (rc, i2, w1) = prov_pxy_setproperties X B ft inst (Some r) properties w
      in bind_outcome (prov_pxy_release X ft (Some r) w1)
           (\<lambda>w2. if rc \<noteq> CMPI_RC_OK then Ret (CMPI_RC_ERR_FAILED, None, w2)
             else if return_result B (Inr i2) then Ret (CMPI_RC_OK, Some i2, w2)
             else Ret (CMPI_RC_ERR_FAILED, None, w2)))"

definition XenCommonGetInstance ::
    "'w backend \<Rightarrow> ('p, 'i) broker \<Rightarrow> (string \<times> ('c, 'r, 'i, 'w) instance_ft) list \<Rightarrow> cmpi_rc + string \<Rightarrow>
     'p \<Rightarrow> string list option \<Rightarrow> 'w world \<Rightarrow> (cmpi_rc \<times> 'i option \<times> 'w world) outcome" where
  "XenCommonGetInstance X B table entry ref properties w =
     (case new_instance B ref of
        None \<Rightarrow> Undefined
      | Some inst \<Rightarrow>
          (case (case properties of None \<Rightarrow> Some inst | Some ps \<Rightarrow> set_property_filter B inst (Some ps) []) of
             None \<Rightarrow> Undefined
           | Some i1 \<Rightarrow>
               (case credentials entry of
                  Inl rc \<Rightarrow> Ret (rc, None, w)
                | Inr ctx \<Rightarrow>
                    (case prov_pxy_load_xen_instance_provider table (path_class B ref) of
                       None \<Rightarrow> Ret (CMPI_RC_ERR_NOT_SUPPORTED, None, w)
                     | Some ft \<Rightarrow>
                         bind_outcome (getres4op X B ref ctx ft w)
                           (\<lambda>(res, w1). case res of
                              None \<Rightarrow> Ret (CMPI_RC_ERR_NOT_FOUND, None, w1)
                            | Some r \<Rightarrow>
                                deliver_instance X B ft i1 properties r w1)))))"

text \<open>How the error of a provider operation is reported.\<close>

definition operation_status :: "cmpi_rc \<Rightarrow> cmpi_rc" where
  "operation_status rc =
     (if rc = CMPI_RC_ERR_NOT_SUPPORTED \<or> rc = CMPI_RC_OK then rc else CMPI_RC_ERR_FAILED)"

definition XenCommonCreateInstance ::
    "'w backend \<Rightarrow> ('p, 'i) broker \<Rightarrow> (string \<times> ('c, 'r, 'i, 'w) instance_ft) list \<Rightarrow> cmpi_rc + string \<Rightarrow>
     'p \<Rightarrow> 'i \<Rightarrow> 'w world \<Rightarrow> (cmpi_rc \<times> 'w world) outcome" where
  "XenCommonCreateInstance X B table entry ref inst w =
     (case prov_pxy_load_xen_instance_provider table (path_class B ref) of
        None \<Rightarrow> Undefined
      | Some ft \<Rightarrow>
          if resource_add ft = None then Undefined
          else (case credentials entry of
             Inl rc \<Rightarrow> Ret (rc, w)
           | Inr ctx \<Rightarrow>
               bind_outcome (getres4op X B ref ctx ft w)
                 (\<lambda>(res, w1). if res \<noteq> None
                    then bind_outcome (prov_pxy_release X ft res w1)
                      (\<lambda>w2. Ret (CMPI_RC_ERR_ALREADY_EXISTS, w2))
                    else bind_outcome (prov_pxy_extract ft inst)
                      (\<lambda>(rc, r). if rc \<noteq> CMPI_RC_OK then Ret (operation_status rc, w1)
                         else bind_outcome (prov_pxy_add X ft inst ctx w1)
                           (\<lambda>(rc2, w2). bind_outcome (prov_pxy_release X ft r w2)
                              (\<lambda>w3. Ret (operation_status rc2, w3)))))))"

definition XenCommonModifyInstance ::
    "'w backend \<Rightarrow> ('p, 'i) broker \<Rightarrow> (string \<times> ('c, 'r, 'i, 'w) instance_ft) list \<Rightarrow> cmpi_rc + string \<Rightarrow>
     'p \<Rightarrow> 'i \<Rightarrow> 'w world \<Rightarrow> (cmpi_rc \<times> 'w world) outcome" where
  "XenCommonModifyInstance X B table entry ref inst w =
     (case prov_pxy_load_xen_instance_provider table (path_class B ref) of
        None \<Rightarrow> Undefined
      | Some ft \<Rightarrow>
          if resource_modify ft = None then Undefined
          else (case credentials entry of
             Inl rc \<Rightarrow> Ret (rc, w)
           | Inr ctx \<Rightarrow>
               bind_outcome (getres4op X B ref ctx ft w)
                 (\<lambda>(res, w1). if res = None then Ret (CMPI_RC_ERR_NOT_FOUND, w1)
                    else bind_outcome (prov_pxy_release X ft res w1)
                      (\<lambda>w2. bind_outcome (prov_pxy_extract ft inst)
                         (\<lambda>(rc, r). bind_outcome
                            (if rc \<noteq> CMPI_RC_OK then Ret (rc, w2) else prov_pxy_modify X B ft inst ctx r w2)
                            (\<lambda>(rc2, w3). bind_outcome (prov_pxy_release X ft r w3)
                               (\<lambda>w4. Ret (operation_status rc2, w4))))))))"

definition XenCommonDeleteInstance ::
    "'w backend \<Rightarrow> ('p, 'i) broker \<Rightarrow> (string \<times> ('c, 'r, 'i, 'w) instance_ft) list \<Rightarrow> cmpi_rc + string \<Rightarrow>
     'p \<Rightarrow> 'w world \<Rightarrow> (cmpi_rc \<times> 'w world) outcome" where
  "XenCommonDeleteInstance X B table entry ref w =
     (case prov_pxy_load_xen_instance_provider table (path_class B ref) of
        None \<Rightarrow> Undefined
      | Some ft \<Rightarrow>
          if resource_delete ft = None then Undefined
          else (case credentials entry of
             Inl rc \<Rightarrow> Ret (rc, w)
           | Inr ctx \<Rightarrow>
               bind_outcome (getres4op X B ref ctx ft w)
                 (\<lambda>(res, w1). if res = None then Ret (CMPI_RC_ERR_NOT_FOUND, w1)
                    else bind_outcome (prov_pxy_release X ft res w1)
                      (\<lambda>w2. case op2inst B ref of
                         None \<Rightarrow> Ret (CMPI_RC_ERR_FAILED, w2)
                       | Some i \<Rightarrow> bind_outcome (prov_pxy_delete X B ft i ctx w2)
                           (\<lambda>(rc, w3). Ret (operation_status rc, w3))))))"

section \<open>Queries\<close>

fun query_loop ::
    "nat \<Rightarrow> 'w backend \<Rightarrow> ('p, 'i) broker \<Rightarrow> ('c, 'r, 'i, 'w) instance_ft \<Rightarrow> string \<Rightarrow> string \<Rightarrow> string \<Rightarrow>
     'c resource_list \<Rightarrow> 'i list \<Rightarrow> 'w world \<Rightarrow> (cmpi_rc \<times> 'i list \<times> 'c resource_list \<times> 'w world) outcome option" where
  "query_loop 0 X B ft ns cls query rl acc w = None"
| "query_loop (Suc n) X B ft ns cls query rl acc w =
     (case fresh_instance B ns cls of
        None \<Rightarrow> Some (Ret (CMPI_RC_ERR_FAILED, acc, rl, w))
      | Some inst \<Rightarrow>
          (case prov_pxy_getnext X ft rl w of
             Undefined \<Rightarrow> Some Undefined
           | Ret (rc, res, rl1, w1) \<Rightarrow>
               if rc = CMPI_RC_ERR_NOT_FOUND then Some (Ret (CMPI_RC_OK, acc, rl1, w1))
               else if rc \<noteq> CMPI_RC_OK then query_loop n X B ft ns cls query rl1 acc w1
               else (case prov_pxy_setproperties X B ft inst res None w1 of
                  (rc2, i2, w2) \<Rightarrow>
                    (case prov_pxy_release X ft res w2 of
                       Undefined \<Rightarrow> Some Undefined
                     | Ret w3 \<Rightarrow>
                         if rc2 \<noteq> CMPI_RC_OK then Some (Ret (CMPI_RC_ERR_FAILED, acc, rl1, w3))
                         else (case evaluate_query B query i2 of
                            None \<Rightarrow> Some (Ret (CMPI_RC_ERR_FAILED, acc, rl1, w3))
                          | Some False \<Rightarrow> query_loop n X B ft ns cls query rl1 acc w3
                          | Some True \<Rightarrow>
                              if return_result B (Inr i2)
                              then query_loop n X B ft ns cls query rl1 (acc @ [i2]) w3
                              else Some (Ret (CMPI_RC_ERR_FAILED, acc, rl1, w3)))))))"

text \<open>The query is none when the broker cannot build an expression from it.\<close>

definition XenCommonExecQuery ::
    "nat \<Rightarrow> 'w backend \<Rightarrow> ('p, 'i) broker \<Rightarrow> (string \<times> ('c, 'r, 'i, 'w) instance_ft) list \<Rightarrow>
     cmpi_rc + string \<Rightarrow> 'p \<Rightarrow> string option \<Rightarrow> 'w world \<Rightarrow>
     (cmpi_rc \<times> 'i list \<times> bool \<times> 'w world) outcome option" where
  "XenCommonExecQuery n X B table entry ref query w =
     (case (prov_pxy_load_xen_instance_provider table (path_class B ref), query) of
        (Some ft, Some q) \<Rightarrow>
          (case credentials entry of
             Inl rc \<Rightarrow> Some (Ret (rc, [], False, w))
           | Inr ctx \<Rightarrow>
               (case prov_pxy_begin X ft (path_class B ref) ctx False w of
                  Undefined \<Rightarrow> Some Undefined
                | Ret (rc, None, w1) \<Rightarrow> Some (Ret (CMPI_RC_ERR_FAILED, [], False, w1))
                | Ret (rc, Some rl, w1) \<Rightarrow>
                    (case query_loop n X B ft (path_namespace B ref) (path_class B ref) q rl [] w1 of
                       None \<Rightarrow> None
                     | Some r \<Rightarrow> Some (bind_outcome r
                         (\<lambda>(st, objs, rl1, w2). bind_outcome (prov_pxy_end X ft (Some rl1) w2)
                           (\<lambda>w3. Ret (st, objs, objs \<noteq> [] \<and> st = CMPI_RC_OK, w3)))))))
      | _ \<Rightarrow> Some Undefined)"

section \<open>Methods\<close>

text \<open>The status variable starts as "method not found", but the lookup of the class name overwrites it.\<close>

definition XenCommonInvokeMethod ::
    "(string \<times> ('m \<Rightarrow> cmpi_rc)) list \<Rightarrow> string \<Rightarrow> cmpi_rc \<Rightarrow> 'm \<Rightarrow> cmpi_rc" where
  "XenCommonInvokeMethod table classname class_status call =
     (case prov_pxy_load_xen_method_provider table classname of
        None \<Rightarrow> class_status
      | Some invoke \<Rightarrow> invoke call)"

section \<open>The contract of a provider\<close>

text \<open>
  What the generic code expects of a function table: \<open>todo\<close> is what a list has still to hand
  out, a resource context or a failure for each entry; \<open>listed\<close> holds of a list that the provider
  built. Handing out keeps everything of the list but the provider's own context.
\<close>

locale instance_provider =
  fixes ft :: "('c, 'r, 'i, 'w) instance_ft"
    and todo :: "'c resource_list \<Rightarrow> 'r option list"
    and listed :: "'c resource_list \<Rightarrow> bool"
  assumes record_cleanup_total: "record_cleanup ft r = Ret ()"
    and list_cleanup_total: "listed rl \<Longrightarrow> list_cleanup ft rl = Ret ()"
    and enum_lists: "current_resource rl = 0 \<Longrightarrow> list_enum ft rl e = Ret (CMPI_RC_OK, rl', e') \<Longrightarrow>
      listed rl' \<and> (\<exists>c. rl' = rl\<lparr>list_ctx := c\<rparr>)"
    and getnext_end: "listed rl \<Longrightarrow> todo rl = [] \<Longrightarrow>
      \<exists>c r' e'. record_getnext ft rl r e = Ret (CMPI_RC_ERR_NOT_FOUND, rl\<lparr>list_ctx := c\<rparr>, r', e') \<and>
        listed (rl\<lparr>list_ctx := c\<rparr>)"
    and getnext_item: "listed rl \<Longrightarrow> todo rl = x # xs \<Longrightarrow>
      \<exists>rc c r' e'. record_getnext ft rl r e = Ret (rc, rl\<lparr>list_ctx := c\<rparr>, r', e') \<and>
        listed (advance_list (rl\<lparr>list_ctx := c\<rparr>)) \<and> todo (advance_list (rl\<lparr>list_ctx := c\<rparr>)) = xs \<and>
        (case x of
           Some d \<Rightarrow> rc = CMPI_RC_OK \<and> r' = r\<lparr>res_ctx := Some d\<rparr>
         | None \<Rightarrow> rc \<noteq> CMPI_RC_OK \<and> rc \<noteq> CMPI_RC_ERR_NOT_FOUND)"
    and get_keeps: "get_from_id ft i r e = Ret (rc, r', e') \<Longrightarrow>
      res_session r' = res_session r \<and> cleanupsession r' = cleanupsession r"

text \<open>Memory is available, and the broker creates and returns what it is asked for.\<close>

definition roomy :: "'w backend \<Rightarrow> bool" where
  "roomy X \<longleftrightarrow> (\<forall>e. fst (calloc (daemon X) e))"

definition obliging :: "('p, 'i) broker \<Rightarrow> bool" where
  "obliging B \<longleftrightarrow> (\<forall>ns cls. fresh_instance B ns cls \<noteq> None) \<and> (\<forall>i. instance_path B i \<noteq> None) \<and>
     (\<forall>op ns. set_namespace B op ns \<noteq> None) \<and> (\<forall>obj. return_result B obj)"

text \<open>The object that the client receives for one resource, if any.\<close>

definition resource_of :: "'c resource_list \<Rightarrow> 'r \<Rightarrow> 'r resource" where
  "resource_of rl d = \<lparr>res_class = list_class rl, res_session = list_session rl, cleanupsession = False,
     res_ctx = Some d, res_refs_only = list_refs_only rl\<rparr>"

definition published ::
    "('p, 'i) broker \<Rightarrow> ('c, 'r, 'i, 'w) instance_ft \<Rightarrow> string \<Rightarrow> bool \<Rightarrow> 'i \<Rightarrow> 'r resource \<Rightarrow> ('p + 'i) list" where
  "published B ft ns refs_only inst r =
     (let i1 = (case set_property_filter B inst None (class_keys ft (res_class r)) of
                  None \<Rightarrow> inst | Some i \<Rightarrow> i)
      in case set_properties ft r i1 of
           (rc, i2) \<Rightarrow>
             if rc \<noteq> CMPI_RC_OK then []
             else if \<not> refs_only then [Inr i2]
             else (case instance_path B i2 of
                None \<Rightarrow> []
              | Some op \<Rightarrow> (case set_namespace B op ns of None \<Rightarrow> [] | Some op1 \<Rightarrow> [Inl op1])))"

definition publish_all ::
    "('p, 'i) broker \<Rightarrow> ('c, 'r, 'i, 'w) instance_ft \<Rightarrow> string \<Rightarrow> bool \<Rightarrow> 'i \<Rightarrow> 'c resource_list \<Rightarrow>
     'r option list \<Rightarrow> ('p + 'i) list" where
  "publish_all B ft ns refs_only inst rl ds =
     concat (map (\<lambda>d. case d of None \<Rightarrow> [] | Some c \<Rightarrow> published B ft ns refs_only inst (resource_of rl c)) ds)"

lemma resource_of_ctx [simp]:
  "resource_of (advance_list rl) d = resource_of rl d" "resource_of (rl\<lparr>list_ctx := c\<rparr>) d = resource_of rl d"
  by (simp_all add: resource_of_def advance_list_def)

lemma publish_all_Cons:
  "publish_all B ft ns refs_only inst rl (d # ds) =
     (case d of None \<Rightarrow> [] | Some c \<Rightarrow> published B ft ns refs_only inst (resource_of rl c)) @
     publish_all B ft ns refs_only inst rl ds"
  by (simp add: publish_all_def)

lemma publish_all_ctx [simp]:
  "publish_all B ft ns refs_only inst (advance_list rl) ds = publish_all B ft ns refs_only inst rl ds"
  "publish_all B ft ns refs_only inst (rl\<lparr>list_ctx := c\<rparr>) ds = publish_all B ft ns refs_only inst rl ds"
  by (simp_all add: publish_all_def cong: option.case_cong)

text \<open>The part of the world that counts what is held is the same.\<close>

abbreviation same_held :: "'w world \<Rightarrow> 'w world \<Rightarrow> bool" where
  "same_held w w' \<equiv> holds_more w w' None"

lemma same_held_trans: "same_held w1 w2 \<Longrightarrow> same_held w2 w3 \<Longrightarrow> same_held w1 w3"
  by (simp add: holds_more_def)

lemma same_held_env [simp]: "same_held w (w\<lparr>env_state := e\<rparr>)" "same_held w w"
  by (simp_all add: holds_more_def)

lemma alloc_roomy: "roomy X \<Longrightarrow> \<exists>e. alloc X w = (True, w\<lparr>env_state := e\<rparr>)"
  by (auto simp: roomy_def alloc_def split: prod.splits) (metis fst_conv)

lemma setproperties_same_held:
  "prov_pxy_setproperties X B ft inst res properties w = (rc, i, w1) \<Longrightarrow> same_held w w1"
  by (auto simp: prov_pxy_setproperties_def Let_def holds_more_def split: option.splits prod.splits)

context instance_provider
begin

lemma getnext_step:
  assumes "roomy X" and "listed rl"
  shows "case todo rl of
      [] \<Rightarrow> \<exists>rl' w'. prov_pxy_getnext X ft rl w = Ret (CMPI_RC_ERR_NOT_FOUND, None, rl', w') \<and>
        same_held w w' \<and> listed rl' \<and> list_session rl' = list_session rl
    | x # xs \<Rightarrow> \<exists>rc c w' rl'. rl' = advance_list (rl\<lparr>list_ctx := c\<rparr>) \<and>
        prov_pxy_getnext X ft rl w = Ret (rc, map_option (resource_of rl) x, rl', w') \<and>
        same_held w w' \<and> listed rl' \<and> todo rl' = xs \<and> rc \<noteq> CMPI_RC_ERR_NOT_FOUND \<and>
        (rc = CMPI_RC_OK \<longleftrightarrow> x \<noteq> None)"
proof -
  let ?r = "\<lparr>res_class = list_class rl, res_session = list_session rl, cleanupsession = False,
    res_ctx = None, res_refs_only = list_refs_only rl\<rparr>"
  let ?w = "w\<lparr>env_state := RESET_XEN_ERROR (api X) (env_state w)\<rparr>"
  obtain e where e: "alloc X ?w = (True, ?w\<lparr>env_state := e\<rparr>)" using alloc_roomy [OF assms(1)] by blast
  show ?thesis
  proof (cases "todo rl")
    case Nil
    with getnext_end [OF assms(2), of ?r e] e show ?thesis
      by (fastforce simp: prov_pxy_getnext_def record_cleanup_total holds_more_def)
  next
    case (Cons x xs)
    with getnext_item [OF assms(2), of x xs ?r e] obtain rc c r' e' where g:
      "record_getnext ft rl ?r e = Ret (rc, rl\<lparr>list_ctx := c\<rparr>, r', e')"
      "listed (advance_list (rl\<lparr>list_ctx := c\<rparr>))" "todo (advance_list (rl\<lparr>list_ctx := c\<rparr>)) = xs"
      "case x of Some d \<Rightarrow> rc = CMPI_RC_OK \<and> r' = ?r\<lparr>res_ctx := Some d\<rparr>
         | None \<Rightarrow> rc \<noteq> CMPI_RC_OK \<and> rc \<noteq> CMPI_RC_ERR_NOT_FOUND" by blast
    then show ?thesis using e Cons
      by (cases x) (auto simp: prov_pxy_getnext_def record_cleanup_total holds_more_def resource_of_def)
  qed
qed

end

context instance_provider
begin

lemma release_kept: "cleanupsession r = False \<Longrightarrow> prov_pxy_release X ft (Some r) w = Ret w"
  by (simp add: prov_pxy_release_def record_cleanup_total)

lemma item_published:
  assumes "obliging B"
  shows "\<exists>w'. enum_item X B ft ns None refs_only inst (Some (resource_of rl d)) w =
      Ret (False, (case published B ft ns refs_only inst (resource_of rl d) of [] \<Rightarrow> None | obj # _ \<Rightarrow> Some obj), w') \<and>
    same_held w w'"
proof -
  obtain rc i w1 where s: "prov_pxy_setproperties X B ft inst (Some (resource_of rl d)) None w = (rc, i, w1)"
    by (metis prod_cases3)
  let ?i1 = "case set_property_filter B inst None (class_keys ft (res_class (resource_of rl d))) of
    None \<Rightarrow> inst | Some i \<Rightarrow> i"
  have p: "set_properties ft (resource_of rl d) ?i1 = (rc, i)"
    using s by (auto simp: prov_pxy_setproperties_def Let_def split: prod.splits)
  have r: "prov_pxy_release X ft (Some (resource_of rl d)) w1 = Ret w1"
    by (rule release_kept) (simp add: resource_of_def)
  obtain op op1 where o1: "instance_path B i = Some op" "set_namespace B op ns = Some op1"
    using assms by (fastforce simp: obliging_def)
  have ret: "return_result B obj" for obj using assms by (simp add: obliging_def)
  show ?thesis
    using setproperties_same_held [OF s] s p r o1 ret
    by (auto simp: enum_item_def published_def Let_def)
qed

lemma published_le_one: "length (published B ft ns refs_only inst r) \<le> 1"
  by (auto simp: published_def Let_def split: prod.splits option.splits)

lemma enum_loop_publishes:
  assumes X: "roomy X" and B: "obliging B" and inst: "fresh_instance B ns cls = Some inst"
  shows "listed rl \<Longrightarrow> length (todo rl) < n \<Longrightarrow>
    \<exists>rl' w'. enum_loop n X B ft ns cls None refs_only rl acc w =
      Some (Ret (CMPI_RC_OK, acc @ publish_all B ft ns refs_only inst rl (todo rl), rl', w')) \<and>
      same_held w w' \<and> listed rl' \<and> list_session rl' = list_session rl"
proof (induction n arbitrary: rl acc w)
  case 0
  then show ?case by simp
next
  case (Suc n)
  show ?case
  proof (cases "todo rl")
    case Nil
    with getnext_step [OF X Suc.prems(1), of w] inst show ?thesis
      by (auto simp: publish_all_def)
  next
    case (Cons x xs)
    with getnext_step [OF X Suc.prems(1), of w] obtain rc c w1 where g:
      "prov_pxy_getnext X ft rl w = Ret (rc, map_option (resource_of rl) x, advance_list (rl\<lparr>list_ctx := c\<rparr>), w1)"
      "same_held w w1" "listed (advance_list (rl\<lparr>list_ctx := c\<rparr>))"
      "todo (advance_list (rl\<lparr>list_ctx := c\<rparr>)) = xs" "rc \<noteq> CMPI_RC_ERR_NOT_FOUND" "rc = CMPI_RC_OK \<longleftrightarrow> x \<noteq> None"
      by auto
    let ?rl = "advance_list (rl\<lparr>list_ctx := c\<rparr>)"
    have len: "length (todo ?rl) < n" using Suc.prems(2) Cons g(4) by simp
    have sess: "list_session ?rl = list_session rl" by (simp add: advance_list_def)
    show ?thesis
    proof (cases x)
      case None
      with Suc.IH [OF g(3) len, of acc w1] g inst Cons sess show ?thesis
        by (auto simp: publish_all_Cons intro: same_held_trans)
    next
      case (Some d)
      obtain w2 where item: "enum_item X B ft ns None refs_only inst (Some (resource_of rl d)) w1 =
          Ret (False, (case published B ft ns refs_only inst (resource_of rl d) of [] \<Rightarrow> None | obj # _ \<Rightarrow> Some obj), w2)"
        "same_held w1 w2" using item_published [OF B] by blast
      let ?acc = "acc @ published B ft ns refs_only inst (resource_of rl d)"
      have run: "enum_loop (Suc n) X B ft ns cls None refs_only rl acc w =
          enum_loop n X B ft ns cls None refs_only ?rl ?acc w2"
        using g item inst Some published_le_one [of B ns refs_only inst "resource_of rl d"]
        by (cases "published B ft ns refs_only inst (resource_of rl d)") auto
      from Suc.IH [OF g(3) len, of ?acc w2] obtain rl' w' where ih:
        "enum_loop n X B ft ns cls None refs_only ?rl ?acc w2 =
           Some (Ret (CMPI_RC_OK, ?acc @ publish_all B ft ns refs_only inst ?rl (todo ?rl), rl', w'))"
        "same_held w2 w'" "listed rl'" "list_session rl' = list_session ?rl" by blast
      show ?thesis
        unfolding run ih(1)
        using ih(2-4) g(2,4) item(2) Cons Some sess by (auto simp: publish_all_Cons intro: same_held_trans)
    qed
  qed
qed

lemma get_balance:
  assumes "roomy X" and "prov_pxy_get X B ft inst ctx w = Ret (rc, res, w')"
  shows "case res of
      None \<Rightarrow> rc \<noteq> CMPI_RC_OK \<and> structs w' = structs w \<and> logins w \<le> logins w'
    | Some r \<Rightarrow> rc = CMPI_RC_OK \<and> cleanupsession r \<and> ready (res_session r) \<and>
        structs w' = structs w + 1 \<and> logins w' = logins w + 1"
proof (cases "get_property B inst (key_property ft (instance_class B inst))")
  case None
  then show ?thesis using assms(2) by (auto simp: prov_pxy_get_def)
next
  case (Some p)
  show ?thesis
  proof (cases p)
    case None
    then show ?thesis using Some assms(2) by (auto simp: prov_pxy_get_def)
  next
    case (Some ident)
    note key = \<open>get_property B inst (key_property ft (instance_class B inst)) = Some p\<close> Some
    obtain sess w1 where o1: "open_session X ctx w = Ret (sess, w1)"
      using assms(2) key by (cases "open_session X ctx w") (auto simp: prov_pxy_get_def)
    note bal = open_session_balance [OF o1]
    show ?thesis
    proof (cases sess)
      case None
      then show ?thesis using assms(2) key o1 bal by (auto simp: prov_pxy_get_def)
    next
      case (Some s)
      obtain e where e: "alloc X w1 = (True, w1\<lparr>env_state := e\<rparr>)" using alloc_roomy [OF assms(1)] by blast
      let ?r = "\<lparr>res_class = instance_class B inst, res_session = s, cleanupsession = True, res_ctx = None,
        res_refs_only = False\<rparr>"
      obtain rc0 r0 e0 where g: "get_from_id ft ident ?r e = Ret (rc0, r0, e0)"
        using assms(2) key o1 Some e by (cases "get_from_id ft ident ?r e") (auto simp: prov_pxy_get_def)
      have r0: "res_session r0 = s" "cleanupsession r0" using get_keeps [OF g] by simp_all
      show ?thesis
        using assms(2) key o1 Some e g r0 bal
        by (auto simp: prov_pxy_get_def record_cleanup_total cleanup_ready Let_def split: if_splits)
    qed
  qed
qed

lemma release_balance:
  assumes "cleanupsession r" and "ready (res_session r)" and "prov_pxy_release X ft (Some r) w = Ret w'"
  shows "structs w' = structs w - 1 \<and> logins w' = logins w - 1"
  using assms by (auto simp: prov_pxy_release_def record_cleanup_total cleanup_ready)

lemma getres_balance:
  assumes "roomy X" and "getres4op X B op ctx ft w = Ret (res, w')"
  shows "case res of
      None \<Rightarrow> structs w' = structs w \<and> logins w \<le> logins w'
    | Some r \<Rightarrow> cleanupsession r \<and> ready (res_session r) \<and> structs w' = structs w + 1 \<and> logins w' = logins w + 1"
proof (cases "op2inst B op")
  case None
  then show ?thesis using assms(2) by (auto simp: getres4op_def)
next
  case (Some inst)
  then obtain rc r w1 where g: "prov_pxy_get X B ft inst ctx w = Ret (rc, r, w1)"
    using assms(2) by (cases "prov_pxy_get X B ft inst ctx w") (auto simp: getres4op_def)
  show ?thesis
    using get_balance [OF assms(1) g] assms(2) Some g
    by (cases r) (auto simp: getres4op_def prov_pxy_release_def)
qed

lemma deliver_balance:
  assumes "cleanupsession r" and "ready (res_session r)"
    and "deliver_instance X B ft inst properties r w = Ret (rc, i, w')"
  shows "structs w' = structs w - 1 \<and> logins w' = logins w - 1"
proof -
  obtain rc2 i2 w1 where s: "prov_pxy_setproperties X B ft inst (Some r) properties w = (rc2, i2, w1)"
    by (metis prod_cases3)
  obtain w2 where rel: "prov_pxy_release X ft (Some r) w1 = Ret w2"
    using assms(3) s by (cases "prov_pxy_release X ft (Some r) w1") (auto simp: deliver_instance_def)
  have "w' = w2" using assms(3) s rel by (auto simp: deliver_instance_def split: if_splits)
  then show ?thesis
    using release_balance [OF assms(1,2) rel] setproperties_same_held [OF s] by (simp add: holds_more_def)
qed

lemma getinstance_balance:
  assumes "roomy X" and "prov_pxy_load_xen_instance_provider table (path_class B ref) = Some ft"
    and "XenCommonGetInstance X B table entry ref properties w = Ret (rc, i, w')"
  shows "structs w' = structs w \<and> logins w \<le> logins w'"
proof -
  obtain inst i1 where i: "new_instance B ref = Some inst"
    "(case properties of None \<Rightarrow> Some inst | Some ps \<Rightarrow> set_property_filter B inst (Some ps) []) = Some i1"
    using assms(3) by (auto simp: XenCommonGetInstance_def split: option.splits)
  show ?thesis
  proof (cases "credentials entry")
    case (Inl r)
    then show ?thesis using assms(3) i by (simp add: XenCommonGetInstance_def)
  next
    case (Inr ctx)
    obtain res w1 where g: "getres4op X B ref ctx ft w = Ret (res, w1)"
      using assms(2,3) i Inr by (cases "getres4op X B ref ctx ft w") (auto simp: XenCommonGetInstance_def)
    show ?thesis
    proof (cases res)
      case None
      then show ?thesis using assms(2,3) i Inr g getres_balance [OF assms(1) g]
        by (simp add: XenCommonGetInstance_def)
    next
      case (Some r)
      then have b: "cleanupsession r" "ready (res_session r)" "structs w1 = structs w + 1" "logins w1 = logins w + 1"
        using getres_balance [OF assms(1) g] by auto
      have "deliver_instance X B ft i1 properties r w1 = Ret (rc, i, w')"
        using assms(2,3) i Inr g Some by (simp add: XenCommonGetInstance_def)
      then have "structs w' = structs w1 - 1 \<and> logins w' = logins w1 - 1"
        by (rule deliver_balance [OF b(1,2)])
      then show ?thesis using b by simp
    qed
  qed
qed

end

context instance_provider
begin

lemma found_released:
  assumes "roomy X" and "getres4op X B op ctx ft w = Ret (Some r, w1)"
    and "prov_pxy_release X ft (Some r) w1 = Ret w2"
  shows "structs w2 = structs w \<and> logins w2 = logins w"
  using getres_balance [OF assms(1,2)] release_balance [OF _ _ assms(3)] by auto

lemma delete_balance:
  assumes "roomy X" and "prov_pxy_load_xen_instance_provider table (path_class B ref) = Some ft"
    and "XenCommonDeleteInstance X B table entry ref w = Ret (rc, w')"
  shows "structs w' = structs w \<and> logins w \<le> logins w'"
proof -
  have del: "resource_delete ft \<noteq> None"
    using assms(2,3) by (auto simp: XenCommonDeleteInstance_def split: if_splits)
  show ?thesis
  proof (cases "credentials entry")
    case (Inl r)
    then show ?thesis using assms(2,3) del by (simp add: XenCommonDeleteInstance_def)
  next
    case (Inr ctx)
    obtain res w1 where g: "getres4op X B ref ctx ft w = Ret (res, w1)"
      using assms(2,3) del Inr by (cases "getres4op X B ref ctx ft w") (auto simp: XenCommonDeleteInstance_def)
    show ?thesis
    proof (cases res)
      case None
      then show ?thesis using assms(2,3) del Inr g getres_balance [OF assms(1) g]
        by (simp add: XenCommonDeleteInstance_def)
    next
      case (Some r)
      obtain w2 where rel: "prov_pxy_release X ft (Some r) w1 = Ret w2"
        using assms(2,3) del Inr g Some
        by (cases "prov_pxy_release X ft (Some r) w1") (auto simp: XenCommonDeleteInstance_def)
      note b = found_released [OF assms(1) g [unfolded Some] rel]
      show ?thesis
      proof (cases "op2inst B ref")
        case None
        then show ?thesis using assms(2,3) del Inr g Some rel b by (simp add: XenCommonDeleteInstance_def)
      next
        case (Some i)
        then obtain rc2 where d: "prov_pxy_delete X B ft i ctx w2 = Ret (rc2, w')"
          using assms(2,3) del Inr g \<open>res = Some r\<close> rel
          by (auto simp: XenCommonDeleteInstance_def bind_outcome_Ret_iff)
        then have "structs w' = structs w2 \<and> logins w2 \<le> logins w'"
          by (cases "instance_id B ft i") (auto simp: prov_pxy_delete_def dest: within_session_balance)
        then show ?thesis using b by simp
      qed
    qed
  qed
qed

lemma begin_balance:
  assumes "roomy X" and "prov_pxy_begin X ft cls ctx refs_only w = Ret (rc, res, w')"
  shows "case res of
      None \<Rightarrow> rc \<noteq> CMPI_RC_OK \<and> structs w' = structs w \<and> logins w \<le> logins w'
    | Some rl \<Rightarrow> rc = CMPI_RC_OK \<and> listed rl \<and> ready (list_session rl) \<and> list_class rl = cls \<and>
        current_resource rl = 0 \<and> list_refs_only rl = refs_only \<and>
        structs w' = structs w + 1 \<and> logins w' = logins w + 1"
proof -
  obtain sess w1 where o1: "open_session X ctx w = Ret (sess, w1)"
    using assms(2) by (cases "open_session X ctx w") (auto simp: prov_pxy_begin_def)
  note bal = open_session_balance [OF o1]
  show ?thesis
  proof (cases sess)
    case None
    then show ?thesis using assms(2) o1 bal by (auto simp: prov_pxy_begin_def)
  next
    case (Some s)
    obtain e where e: "alloc X w1 = (True, w1\<lparr>env_state := e\<rparr>)" using alloc_roomy [OF assms(1)] by blast
    let ?rl = "\<lparr>list_class = cls, current_resource = 0, list_session = s, list_ctx = None, list_refs_only = refs_only\<rparr>"
    obtain rc0 rl e0 where g: "list_enum ft ?rl e = Ret (rc0, rl, e0)"
      using assms(2) o1 Some e by (cases "list_enum ft ?rl e") (auto simp: prov_pxy_begin_def)
    show ?thesis
    proof (cases "rc0 = CMPI_RC_OK")
      case True
      then show ?thesis using assms(2) o1 Some e g bal enum_lists [of ?rl e rl e0]
        by (auto simp: prov_pxy_begin_def)
    next
      case False
      then show ?thesis using assms(2) o1 Some e g bal
        by (auto simp: prov_pxy_begin_def Let_def bind_outcome_Ret_iff cleanup_ready)
    qed
  qed
qed

lemma enum_call_publishes:
  assumes X: "roomy X" and B: "obliging B" and ctx: "credentials entry = Inr ctx"
    and ft: "prov_pxy_load_xen_instance_provider table (path_class B ref) = Some ft"
    and start: "prov_pxy_begin X ft (path_class B ref) ctx refs_only w = Ret (rc, Some rl, w1)"
    and inst: "fresh_instance B (path_namespace B ref) (path_class B ref) = Some inst"
    and fuel: "length (todo rl) < n"
  shows "\<exists>w'. enum_call n X B table entry ref None refs_only w =
      Some (Ret (CMPI_RC_OK, publish_all B ft (path_namespace B ref) refs_only inst rl (todo rl),
        publish_all B ft (path_namespace B ref) refs_only inst rl (todo rl) \<noteq> [], w')) \<and>
      structs w' = structs w \<and> logins w' = logins w"
proof -
  have rl: "listed rl" "ready (list_session rl)" "structs w1 = structs w + 1" "logins w1 = logins w + 1"
    using begin_balance [OF X start] by auto
  obtain rl' w2 where loop: "enum_loop n X B ft (path_namespace B ref) (path_class B ref) None refs_only rl [] w1 =
      Some (Ret (CMPI_RC_OK, publish_all B ft (path_namespace B ref) refs_only inst rl (todo rl), rl', w2))"
    "same_held w1 w2" "listed rl'" "list_session rl' = list_session rl"
    using enum_loop_publishes [OF X B inst rl(1) fuel, of refs_only "[]" w1] by auto
  have fin: "prov_pxy_end X ft (Some rl') w2 = Ret (xen_utils_cleanup_session (daemon X) (Some (list_session rl)) w2)"
    using loop(3,4) by (simp add: prov_pxy_end_def list_cleanup_total)
  show ?thesis
    using ctx ft start loop(1,2) fin rl cleanup_ready [OF rl(2), of "daemon X" w2]
    by (simp add: enum_call_def holds_more_def)
qed

end

section \<open>Errors of the entry points\<close>

text \<open>
  A provider without the optional operations: the exit reads the context before its declaration.
  A method call for a class without a method provider reports the status of the class lookup.
\<close>

lemma read_only_change_undefined:
  assumes "prov_pxy_load_xen_instance_provider table (path_class B ref) = Some ft"
  shows "resource_add ft = None \<Longrightarrow> XenCommonCreateInstance X B table entry ref inst w = Undefined"
    and "resource_modify ft = None \<Longrightarrow> XenCommonModifyInstance X B table entry ref inst w = Undefined"
    and "resource_delete ft = None \<Longrightarrow> XenCommonDeleteInstance X B table entry ref w = Undefined"
  using assms by (simp_all add: XenCommonCreateInstance_def XenCommonModifyInstance_def XenCommonDeleteInstance_def)

lemma unknown_method_class_ok:
  "prov_pxy_load_xen_method_provider table cls = None \<Longrightarrow> XenCommonInvokeMethod table cls CMPI_RC_OK call = CMPI_RC_OK"
  by (simp add: XenCommonInvokeMethod_def)

end
