(* ===== verification/KvpProvider.thy ===== *)
theory KvpProvider
  imports Kvp ProxyProvider
begin

text \<open>
  The provider of Xen_KVP plugged into the generic code: its function table, the proof that it
  keeps the contract \<open>instance_provider\<close>, and what follows for the requests of a client.
\<close>

section \<open>CIM instances and the function table\<close>

record cim_instance =
  cim_class :: string
  cim_props :: "(string \<times> string option) list"

fun set_props :: "(string \<times> string option) list \<Rightarrow> cim_instance \<Rightarrow> cim_instance" where
  "set_props [] i = i"
| "set_props ((k, v) # ps) i = set_props ps (i\<lparr>cim_props := (k, v) # filter (\<lambda>e. fst e \<noteq> k) (cim_props i)\<rparr>)"

text \<open>A session without an SDK session has no id to read.\<close>

definition with_session_id :: "utils_session \<Rightarrow> (string \<Rightarrow> 'a outcome) \<Rightarrow> 'a outcome" where
  "with_session_id s f = (case xen s of None \<Rightarrow> Undefined | Some x \<Rightarrow> f (session_id x))"

definition kvp_get_keys :: "string \<Rightarrow> string list" where
  "kvp_get_keys classname = [''SystemName'', ''SystemCreationClassName'', ''CreationClassName'', ''DeviceID'']"

definition kvp_get_key_property :: "string \<Rightarrow> string" where
  "kvp_get_key_property classname = ''DeviceID''"

text \<open>The clean-up of a list frees the set of pairs without a test for null.\<close>

definition xen_utils_free_kvpset :: "kvp_set option \<Rightarrow> unit outcome" where
  "xen_utils_free_kvpset st = (case st of None \<Rightarrow> Undefined | Some kvps \<Rightarrow> Ret ())"

definition kvp_list_cleanup :: "kvp_set resource_list \<Rightarrow> unit outcome" where
  "kvp_list_cleanup rl = xen_utils_free_kvpset (list_ctx rl)"

lemmas kvp_ft_parts = kvp_get_keys_def kvp_get_key_property_def xen_utils_free_kvpset_def kvp_list_cleanup_def

definition kvp_ft :: "http \<Rightarrow> 'w sdk \<Rightarrow> (kvp_set, kvp, cim_instance, 'w) instance_ft" where
  "kvp_ft H K = \<lparr>
     key_property = kvp_get_key_property,
     class_keys = kvp_get_keys,
     list_enum = (\<lambda>rl e. with_session_id (list_session rl)
       (\<lambda>xenref. bind_outcome (kvp_list_enum H K True xenref e)
          (\<lambda>(rc, kvps, e1). Ret (rc, if rc = CMPI_RC_OK then rl\<lparr>list_ctx := Some kvps\<rparr> else rl, e1)))),
     list_cleanup = kvp_list_cleanup,
     record_getnext = (\<lambda>rl r e. bind_outcome (kvp_record_getnext (list_ctx rl) (current_resource rl))
       (\<lambda>(rc, p). Ret (rc, rl, if rc = CMPI_RC_OK then r\<lparr>res_ctx := p\<rparr> else r, e))),
     record_cleanup = (\<lambda>r. Ret ()),
     get_from_id = (\<lambda>ident r e. with_session_id (res_session r)
       (\<lambda>xenref. bind_outcome (kvp_record_get_from_id H K xenref ident e)
          (\<lambda>(rc, p, e1). Ret (rc, if rc = CMPI_RC_OK then r\<lparr>res_ctx := p\<rparr> else r, e1)))),
     set_properties = (\<lambda>r i. case kvp_set_properties (res_ctx r) of
         None \<Rightarrow> (CMPI_RC_ERROR, i)
       | Some ps \<Rightarrow> (CMPI_RC_OK, set_props ps i)),
     resource_add = None, resource_delete = None, resource_modify = None, resource_extract = None\<rparr>"

section \<open>The contract\<close>

definition full :: "kvp \<Rightarrow> bool" where
  "full p \<longleftrightarrow> kvp_key p \<noteq> None \<and> kvp_value p \<noteq> None \<and> kvp_vm p \<noteq> None"

lemma strdup_Ret [simp]: "strdup s = Ret t \<longleftrightarrow> s = t \<and> s \<noteq> None"
  by (auto simp: strdup_def split: option.splits)

lemma fill_kvp_Ret: "fill_kvp k v vm p = Ret q \<longleftrightarrow>
    k \<noteq> None \<and> v \<noteq> None \<and> vm \<noteq> None \<and> q = p\<lparr>kvp_key := k, kvp_value := v, kvp_vm := vm\<rparr>"
  by (auto simp: fill_kvp_def bind_outcome_Ret_iff)

lemma fill_kvp_full: "fill_kvp k v vm p = Ret q \<Longrightarrow> full q"
  by (auto simp: fill_kvp_Ret full_def)

lemma copy_full: "full p \<Longrightarrow> xen_utils_kvp_copy True p = Ret (Some p)"
  by (cases p) (auto simp: xen_utils_kvp_copy_def initialise_kvp_def full_def fill_kvp_def strdup_def)

lemma add_to_kvp_set_full: "add_to_kvp_set m st p = Ret st' \<Longrightarrow> list_all full st \<Longrightarrow> list_all full st'"
  by (auto simp: add_to_kvp_set_def bind_outcome_Ret_iff dest: fill_kvp_full split: if_splits)

lemma append_each_full: "append_each d ps = Ret d' \<Longrightarrow> list_all full d \<Longrightarrow> list_all full d'"
  by (induction d ps rule: append_each.induct) (auto simp: bind_outcome_Ret_iff dest: add_to_kvp_set_full)

lemma append_set_full:
  "xen_utils_append_kvp_set d ps = Ret d' \<Longrightarrow> list_all full d \<Longrightarrow> list_all full d'"
  by (auto simp: xen_utils_append_kvp_set_def dest: append_each_full split: if_splits)

lemma kvps_of_vm_full:
  "kvps_of_vm H K xenref rec c x = Ret (c', x') \<Longrightarrow> list_all full c \<Longrightarrow> list_all full c'"
  by (auto simp: kvps_of_vm_def bind_outcome_Ret_iff dest: append_set_full
      split: if_splits option.splits prod.splits)

lemma enum_vms_full:
  "enum_vms H K xenref hs c x = Ret (c', x') \<Longrightarrow> list_all full c \<Longrightarrow> list_all full c'"
proof (induction hs arbitrary: c x)
  case Nil
  then show ?case by simp
next
  case (Cons h hs)
  then show ?case
    by (fastforce simp: bind_outcome_Ret_iff dest: kvps_of_vm_full split: option.splits prod.splits)
qed

lemma kvp_list_enum_full: "kvp_list_enum H K m xenref x = Ret (rc, c, x') \<Longrightarrow> list_all full c"
  by (auto simp: kvp_list_enum_def bind_outcome_Ret_iff dest: enum_vms_full
      split: prod.splits bool.splits option.splits)

definition kvp_todo :: "kvp_set resource_list \<Rightarrow> kvp option list" where
  "kvp_todo rl =
     (case list_ctx rl of None \<Rightarrow> [] | Some kvps \<Rightarrow> map Some (drop (current_resource rl) kvps))"

definition kvp_listed :: "kvp_set resource_list \<Rightarrow> bool" where
  "kvp_listed rl \<longleftrightarrow>
     (case list_ctx rl of
        None \<Rightarrow> False | Some kvps \<Rightarrow> list_all full kvps \<and> current_resource rl \<le> length kvps)"

lemma getnext_listed:
  assumes "kvp_listed rl" and "kvp_todo rl = x # xs"
  shows "\<exists>d. x = Some d \<and> record_getnext (kvp_ft H K) rl r e = Ret (CMPI_RC_OK, rl, r\<lparr>res_ctx := Some d\<rparr>, e) \<and>
    kvp_listed (advance_list rl) \<and> kvp_todo (advance_list rl) = xs"
proof -
  obtain kvps where k: "list_ctx rl = Some kvps" "list_all full kvps" "current_resource rl \<le> length kvps"
    using assms(1) by (auto simp: kvp_listed_def split: option.splits)
  have lt: "current_resource rl < length kvps"
    using assms(2) k(1,3) by (cases "current_resource rl = length kvps") (simp_all add: kvp_todo_def)
  let ?d = "kvps ! current_resource rl"
  have "full ?d" using k(2) lt by (simp add: list_all_length)
  then have g: "kvp_record_getnext (list_ctx rl) (current_resource rl) = Ret (CMPI_RC_OK, Some ?d)"
    using lt k(1) by (simp add: kvp_record_getnext_def copy_full)
  have "x = Some ?d \<and> xs = map Some (drop (Suc (current_resource rl)) kvps)"
    using assms(2) k(1) lt by (simp add: kvp_todo_def Cons_nth_drop_Suc [symmetric])
  then show ?thesis
    using g k lt by (auto simp: kvp_ft_def kvp_ft_parts kvp_listed_def kvp_todo_def advance_list_def)
qed

interpretation kvps: instance_provider "kvp_ft H K" kvp_todo kvp_listed for H K
proof unfold_locales
  show "record_cleanup (kvp_ft H K) r = Ret ()" for r by (simp add: kvp_ft_def kvp_ft_parts)
  show "kvp_listed rl \<Longrightarrow> list_cleanup (kvp_ft H K) rl = Ret ()" for rl
    by (auto simp: kvp_ft_def kvp_ft_parts kvp_listed_def split: option.splits)
  show "kvp_listed rl' \<and> (\<exists>c. rl' = rl\<lparr>list_ctx := c\<rparr>)"
    if "current_resource rl = 0" and "list_enum (kvp_ft H K) rl e = Ret (CMPI_RC_OK, rl', e')" for rl rl' e e'
    using that by (auto simp: kvp_ft_def kvp_ft_parts with_session_id_def bind_outcome_Ret_iff kvp_listed_def
        dest: kvp_list_enum_full split: option.splits)
  show "\<exists>c r' e'. record_getnext (kvp_ft H K) rl r e = Ret (CMPI_RC_ERR_NOT_FOUND, rl\<lparr>list_ctx := c\<rparr>, r', e') \<and>
      kvp_listed (rl\<lparr>list_ctx := c\<rparr>)" if "kvp_listed rl" and "kvp_todo rl = []" for rl r e
  proof -
    have "record_getnext (kvp_ft H K) rl r e = Ret (CMPI_RC_ERR_NOT_FOUND, rl, r, e)"
      using that by (auto simp: kvp_listed_def kvp_todo_def kvp_ft_def kvp_ft_parts kvp_record_getnext_def split: option.splits)
    then show ?thesis using that(1) by (intro exI [of _ "list_ctx rl"] exI [of _ r] exI [of _ e]) simp
  qed
  show "\<exists>rc c r' e'. record_getnext (kvp_ft H K) rl r e = Ret (rc, rl\<lparr>list_ctx := c\<rparr>, r', e') \<and>
      kvp_listed (advance_list (rl\<lparr>list_ctx := c\<rparr>)) \<and> kvp_todo (advance_list (rl\<lparr>list_ctx := c\<rparr>)) = xs \<and>
      (case x of Some d \<Rightarrow> rc = CMPI_RC_OK \<and> r' = r\<lparr>res_ctx := Some d\<rparr>
       | None \<Rightarrow> rc \<noteq> CMPI_RC_OK \<and> rc \<noteq> CMPI_RC_ERR_NOT_FOUND)"
    if "kvp_listed rl" and "kvp_todo rl = x # xs" for rl x xs r e
  proof -
    note h = that
    obtain d where "x = Some d" "kvp_listed (advance_list rl)" "kvp_todo (advance_list rl) = xs"
      "record_getnext (kvp_ft H K) rl r e = Ret (CMPI_RC_OK, rl, r\<lparr>res_ctx := Some d\<rparr>, e)"
      using getnext_listed [OF h, of H K r e] by blast
    then show ?thesis
      by (intro exI [of _ CMPI_RC_OK] exI [of _ "list_ctx rl"] exI [of _ "r\<lparr>res_ctx := Some d\<rparr>"] exI [of _ e]) simp
  qed
  show "res_session r' = res_session r \<and> cleanupsession r' = cleanupsession r"
    if "get_from_id (kvp_ft H K) i r e = Ret (rc, r', e')" for i r e rc r' e'
    using that by (auto simp: kvp_ft_def kvp_ft_parts with_session_id_def bind_outcome_Ret_iff split: option.splits if_splits)
qed

section \<open>A client, a broker and a daemon to run it on\<close>

type_synonym cim_path = "string \<times> string \<times> (string \<times> string option) list"

definition demo_broker :: "(cim_path, cim_instance) broker" where
  "demo_broker = \<lparr>
     new_object_path = (\<lambda>ns cls. Some (ns, cls, [])),
     new_instance = (\<lambda>op. Some \<lparr>cim_class = fst (snd op), cim_props = []\<rparr>),
     instance_path = (\<lambda>i. Some (''root/cimv2'', cim_class i, cim_props i)),
     path_class = (\<lambda>op. fst (snd op)), path_namespace = fst,
     set_namespace = (\<lambda>op ns. Some (ns, snd op)),
     path_keys = (\<lambda>op. Some (snd (snd op))),
     set_property = (\<lambda>i k v. Some (set_props [(k, v)] i)),
     get_property = (\<lambda>i k. map_of (cim_props i) k),
     set_property_filter = (\<lambda>i ps ks. Some i),
     instance_class = cim_class,
     return_result = (\<lambda>obj. True),
     evaluate_query = (\<lambda>q i. Some True)\<rparr>"

definition demo_backend :: "bool backend" where
  "demo_backend = \<lparr>
     daemon = \<lparr>calloc = (\<lambda>x. (True, x)), curl_easy_init = (\<lambda>x. (True, x)),
       login_with_password = (\<lambda>c url user pw x. (Some \<lparr>ok = True, error_description = None, session_id = ''ref''\<rparr>, x)),
       get_this_host = (\<lambda>s x. (Some ''host'', s, x)), session_logout = (\<lambda>s x. x)\<rparr>,
     traced = True, api = one_vm ''u1'' ''10.0.0.1''\<rparr>"

definition demo_http :: http where
  "demo_http = \<lparr>http_get = (\<lambda>u. (200, [''k v''])), http_post = (\<lambda>u d. 200), http_curl = True\<rparr>"

definition demo_world :: "bool world" where
  "demo_world = \<lparr>env_state = True, structs = 0, curls = 0, logins = 0, hosts = 0\<rparr>"

abbreviation demo_table :: "(string \<times> (kvp_set, kvp, cim_instance, bool) instance_ft) list" where
  "demo_table \<equiv> [(''Xen_KVP'', kvp_ft demo_http (one_vm ''u1'' ''10.0.0.1''))]"

abbreviation demo_ref :: cim_path where
  "demo_ref \<equiv> (''root/cimv2'', ''Xen_KVP'', [(''DeviceID'', Some ''Xen:u1/k'')])"

lemma demo_roomy: "roomy demo_backend"
  by (simp add: roomy_def demo_backend_def)

lemma demo_obliging: "obliging demo_broker"
  by (simp add: obliging_def demo_broker_def fresh_instance_def)

lemma demo_load: "prov_pxy_load_xen_instance_provider demo_table (path_class demo_broker demo_ref) =
    Some (kvp_ft demo_http (one_vm ''u1'' ''10.0.0.1''))"
  by (simp add: prov_pxy_load_xen_instance_provider_def demo_broker_def)

lemma demo_credentials: "credentials (Inr ''root pw'') = Inr (''root'', ''pw'')"
  by (simp add: credentials_def xen_utils_get_call_context_def strchr_def)

lemma demo_session: "\<exists>s w'. open_session demo_backend (''root'', ''pw'') demo_world = Ret (Some s, w') \<and>
    xen s = Some \<lparr>ok = True, error_description = None, session_id = ''ref''\<rparr> \<and> env_state w' = True"
  by (simp add: open_session_def xen_utils_validate_session_def xen_utils_get_session_def local_session_def
      login_accepted_def session_ops demo_backend_def demo_world_def)

lemma demo_pairs: "\<exists>x. kvp_list_enum demo_http (one_vm ''u1'' ''10.0.0.1'') True ''ref'' True =
    Ret (CMPI_RC_OK, [pair ''u1'' ''k'' ''v''], x)"
proof -
  have H: "lists_stores demo_http ''ref'' [''ref'' \<mapsto> the_vm ''u1''] [''host'' \<mapsto> ''10.0.0.1''] (\<lambda>u. [(''k'', ''v'')])"
    by (simp add: lists_stores_def word_def store_text_def demo_http_def)
  show ?thesis
    using enum_vms_spec [OF one_vm_serves H, where x = True and hs = "[''ref'']" and complete = "[]"]
    by (auto simp: kvp_list_enum_def xen_utils_get_domain_resources_def xen_utils_enum_domains_def
        one_vm_def RESET_XEN_ERROR_def vm_pairs_def enabled_def xen_utils_get_from_string_string_map_def)
qed

lemma demo_begin: "\<exists>rl w1. prov_pxy_begin demo_backend (kvp_ft demo_http (one_vm ''u1'' ''10.0.0.1'')) ''Xen_KVP''
    (''root'', ''pw'') False demo_world = Ret (CMPI_RC_OK, Some rl, w1) \<and> list_ctx rl = Some [pair ''u1'' ''k'' ''v''] \<and>
    list_class rl = ''Xen_KVP'' \<and> current_resource rl = 0"
proof -
  obtain s w' where s: "open_session demo_backend (''root'', ''pw'') demo_world = Ret (Some s, w')"
    "xen s = Some \<lparr>ok = True, error_description = None, session_id = ''ref''\<rparr>" "env_state w' = True"
    using demo_session by blast
  obtain x where x: "kvp_list_enum demo_http (one_vm ''u1'' ''10.0.0.1'') True ''ref'' True =
      Ret (CMPI_RC_OK, [pair ''u1'' ''k'' ''v''], x)" using demo_pairs by blast
  show ?thesis
    using s x by (simp add: prov_pxy_begin_def alloc_def demo_backend_def kvp_ft_def kvp_ft_parts with_session_id_def)
qed

section \<open>Properties\<close>





text \<open>When the server does not list its VMs, the enumeration of the key-value pairs crashes: the
  error path cleans up a list whose set of pairs was never made.\<close>

lemma kvp_enum_failure_crashes:
  assumes "open_session X ctx w = Ret (Some s, w1)" and "roomy X"
    and "\<And>x. fst (vm_get_all K x) = None"
  shows "prov_pxy_begin X (kvp_ft H K) cls ctx refs_only w = Undefined"
proof -
  obtain e where e: "alloc X w1 = (True, w1\<lparr>env_state := e\<rparr>)" using alloc_roomy [OF assms(2)] by blast
  have "ready s" using open_session_balance [OF assms(1)] by simp
  then obtain x where x: "xen s = Some x" by (auto simp: ready_def)
  obtain y where "vm_get_all K (RESET_XEN_ERROR K e) = (None, y)" using assms(3) by (metis prod.collapse)
  then have "kvp_list_enum H K True (session_id x) e = Ret (CMPI_RC_ERR_FAILED, [], y)"
    by (simp add: kvp_list_enum_def xen_utils_get_domain_resources_def xen_utils_enum_domains_def)
  then show ?thesis using assms(1) e x
    by (simp add: prov_pxy_begin_def kvp_ft_def kvp_ft_parts with_session_id_def)
qed

lemma kvp_enum_failure_crashes_witness:
  "prov_pxy_begin demo_backend
     (kvp_ft demo_http ((one_vm ''u1'' ''10.0.0.1'')\<lparr>vm_get_all := (\<lambda>x. (None, False))\<rparr>))
     ''Xen_KVP'' (''root'', ''pw'') False demo_world = Undefined"
proof -
  obtain s w1 where "open_session demo_backend (''root'', ''pw'') demo_world = Ret (Some s, w1)"
    using demo_session by blast
  then show ?thesis by (rule kvp_enum_failure_crashes [OF _ demo_roomy]) simp
qed

end
