(* ===== verification/JobRecord.thy ===== *)
theory JobRecord
  imports ProxyProvider
begin

text \<open>
  The records of the jobs: their creation and their states (\<^verbatim>\<open>src/Xen_Job_Helper.c\<close>), what the
  worker does with one job, and the provider that shows them to the client (\<^verbatim>\<open>src/Xen_Job.c\<close>).
  A job is kept as a task of the Xen daemon, whose only writable field is a string map; state,
  progress and errors are written to it as decimal text and read back from there.

  The task calls of the SDK are the record \<open>task_sdk\<close> of functions on the state of the session.
\<close>

section \<open>Decimal text\<close>

definition is_digit :: "char \<Rightarrow> bool" where
  "is_digit c \<longleftrightarrow> c \<in> set ''0123456789''"

text \<open>The C function, for values that fit an int.\<close>

definition atoi :: "string \<Rightarrow> int" where
  "atoi str =
     (let s = dropWhile (\<lambda>c. c \<in> set [CHR '' '', CHR 0x09, CHR 0x0A, CHR 0x0B, CHR 0x0C, CHR 0x0D]) str
      in case s of
           [] \<Rightarrow> 0
         | c # rest \<Rightarrow>
             if c = CHR ''-'' then - int (read_nat (takeWhile is_digit rest))
             else if c = CHR ''+'' then int (read_nat (takeWhile is_digit rest))
             else int (read_nat (takeWhile is_digit s)))"

lemma digits_show_nat: "\<forall>c \<in> set (show_nat n). is_digit c"
  unfolding is_digit_def using set_show_nat by blast

lemma takeWhile_show_nat: "takeWhile is_digit (show_nat n) = show_nat n"
  using digits_show_nat by (simp add: takeWhile_eq_all_conv)

lemma atoi_show_int: "atoi (show_int i) = i"
proof (cases "i < 0")
  case True
  then show ?thesis by (simp add: atoi_def show_int_def takeWhile_show_nat read_show_nat)
next
  case False
  obtain c r where cr: "show_nat (nat i) = c # r" by (cases "show_nat (nat i)") auto
  then have "is_digit c" using digits_show_nat [of "nat i"] by simp
  then have c: "c \<notin> set [CHR '' '', CHR 0x09, CHR 0x0A, CHR 0x0B, CHR 0x0C, CHR 0x0D]"
    "c \<noteq> CHR ''-''" "c \<noteq> CHR ''+''" by (auto simp: is_digit_def)
  have "atoi (c # r) = int (read_nat (takeWhile is_digit (c # r)))"
    using c by (simp add: atoi_def)
  then show ?thesis
    using False cr takeWhile_show_nat [of "nat i"] read_show_nat [of "nat i"] by (simp add: show_int_def)
qed

section \<open>Tasks and jobs\<close>

record task_record =
  task_uuid :: string
  name_label :: string
  name_description :: string
  task_config :: "string_map option"
  task_created :: "64 word"

record 'x task_sdk =
  task_ok :: "'x \<Rightarrow> bool"
  set_task_ok :: "bool \<Rightarrow> 'x \<Rightarrow> 'x"
  clear_task_error :: "'x \<Rightarrow> 'x"
  task_create :: "string \<Rightarrow> string \<Rightarrow> 'x \<Rightarrow> string option \<times> 'x"
  task_set_other_config :: "string \<Rightarrow> string_map option \<Rightarrow> 'x \<Rightarrow> 'x"
  task_get_uuid :: "string \<Rightarrow> 'x \<Rightarrow> string option \<times> 'x"
  task_get_record :: "string \<Rightarrow> 'x \<Rightarrow> task_record option \<times> 'x"
  task_get_by_uuid :: "string \<Rightarrow> 'x \<Rightarrow> string option \<times> 'x"
  task_destroy :: "string \<Rightarrow> 'x \<Rightarrow> 'x"
  task_get_all :: "'x \<Rightarrow> string list option \<times> 'x"
  task_get_name_label :: "string \<Rightarrow> 'x \<Rightarrow> string option \<times> 'x"

definition reset_task_error :: "'x task_sdk \<Rightarrow> 'x \<Rightarrow> 'x" where
  "reset_task_error T x = (if task_ok T x then x else clear_task_error T x)"

datatype job_state =
  Job_New | Job_Starting | Job_Running | Job_Suspended | Job_Shutting_Down | Job_Completed
  | Job_Terminated | Job_Killed | Job_Exception | Job_Service | Job_Query_Pending

fun job_state_code :: "job_state \<Rightarrow> int" where
  "job_state_code Job_New = 2"
| "job_state_code Job_Starting = 3"
| "job_state_code Job_Running = 4"
| "job_state_code Job_Suspended = 5"
| "job_state_code Job_Shutting_Down = 6"
| "job_state_code Job_Completed = 7"
| "job_state_code Job_Terminated = 8"
| "job_state_code Job_Killed = 9"
| "job_state_code Job_Exception = 10"
| "job_state_code Job_Service = 11"
| "job_state_code Job_Query_Pending = 12"

text \<open>The uuid is none while its buffer is not initialised.\<close>

record 'a xen_job =
  job_name :: string
  domain_name :: string
  ref_cn :: string
  ref_ns :: string
  job_uuid :: "string option"
  task_handle :: string
  callback :: 'a

definition job_alloc ::
    "'x task_sdk \<Rightarrow> bool \<Rightarrow> string \<Rightarrow> string \<Rightarrow> 'a \<Rightarrow> string \<Rightarrow> string \<Rightarrow> 'x \<Rightarrow> 'a xen_job option \<times> 'x" where
  "job_alloc T mem jname dname cb cn ns x =
     (if \<not> mem then (None, x)
      else (case task_create T jname dname x of
         (None, x1) \<Rightarrow> (None, x1)
       | (Some handle, x1) \<Rightarrow>
           let cfg = put_entry ''CIMJobState'' ''2'' (put_entry ''PercentComplete'' ''0'' None);
               x2 = task_set_other_config T handle cfg x1;
               (uuid, x3) = task_get_uuid T handle x2;
               job = \<lparr>job_name = jname, domain_name = dname, ref_cn = jname, ref_ns = ns,
                 job_uuid = map_option (take 36) uuid, task_handle = handle, callback = cb\<rparr>
           in if task_ok T x3 then (Some job, x3)
              else (None, set_task_ok T False (task_destroy T handle (set_task_ok T True x3)))))"

definition description_entries :: "int \<Rightarrow> string option \<Rightarrow> (string \<times> string) list" where
  "description_entries error_code descr =
     (case descr of
        None \<Rightarrow> []
      | Some d \<Rightarrow>
          if error_code \<noteq> 0 then [(''Description'', []), (''ErrorDescription'', d)]
          else [(''Description'', d), (''ErrorDescription'', [])])"

definition job_change_state ::
    "'x task_sdk \<Rightarrow> 'a xen_job \<Rightarrow> job_state \<Rightarrow> int \<Rightarrow> int \<Rightarrow> string option \<Rightarrow> 'x \<Rightarrow> 'x" where
  "job_change_state T job state percent error_code descr x =
     (case task_get_record T (task_handle job) (reset_task_error T x) of
        (None, x1) \<Rightarrow> x1
      | (Some rec, x1) \<Rightarrow>
          let entries = [(''PercentComplete'', snprintf 100 (show_int percent)),
                (''CIMJobState'', snprintf 100 (show_int (job_state_code state))),
                (''ErrorCode'', snprintf 100 (show_int error_code))] @ description_entries error_code descr
          in task_set_other_config T (task_handle job)
               (fold (\<lambda>(k, v). put_entry k v) entries (task_config rec)) x1)"

text \<open>
  The job as it is put on the work list, and the class name and InstanceID of its reference. The
  queue itself is the component of that name.
\<close>

definition job_create ::
    "'x task_sdk \<Rightarrow> bool \<Rightarrow> string \<Rightarrow> string \<Rightarrow> 'a \<Rightarrow> 'x \<Rightarrow>
     (('a xen_job \<times> string \<times> string) option \<times> 'x) outcome" where
  "job_create T mem jname dname cb x =
     (case job_alloc T mem jname dname cb jname ''root/cimv2'' x of
        (None, x1) \<Rightarrow> Ret (None, x1)
      | (Some job, x1) \<Rightarrow>
          (case job_uuid job of
             None \<Rightarrow> Undefined
           | Some u \<Rightarrow> Ret (Some (job, jname, CMPICreateNewSystemInstanceID 129 u), x1)))"

section \<open>The worker's treatment of one job\<close>

text \<open>
  The credentials come from the context attached to the job, the session is a fresh one; the
  callback works on the daemon's state. The job is freed in any case; when no session can be
  had the callback is not called, and the job's record is left alone.
\<close>

definition run_job ::
    "'w backend \<Rightarrow> cmpi_rc + string \<Rightarrow> ('w \<Rightarrow> 'w outcome) xen_job \<Rightarrow> 'w world \<Rightarrow> (bool \<times> 'w world) outcome" where
  "run_job X entry job w =
     (case credentials entry of
        Inl rc \<Rightarrow> Ret (False, w)
      | Inr ctx \<Rightarrow>
          bind_outcome (open_session X ctx w)
            (\<lambda>(sess, w1). case sess of
               None \<Rightarrow> Ret (False, w1)
             | Some s \<Rightarrow>
                 bind_outcome (callback job (env_state w1))
                   (\<lambda>e. Ret (True, xen_utils_cleanup_session (daemon X) (Some s) (w1\<lparr>env_state := e\<rparr>)))))"

section \<open>The provider of the job classes\<close>

text \<open>First pass: how many tasks bear the class name as their label.\<close>

fun count_tasks :: "'x task_sdk \<Rightarrow> string \<Rightarrow> string list \<Rightarrow> nat \<Rightarrow> 'x \<Rightarrow> nat \<times> 'x" where
  "count_tasks T cls [] n x = (n, x)"
| "count_tasks T cls (h # hs) n x =
     (case task_get_name_label T h x of
        (name, x1) \<Rightarrow>
          count_tasks T cls hs (if name = Some cls then n + 1 else n) (reset_task_error T x1))"

text \<open>Second pass: the matching tasks are copied to an array of that size; writing past it is undefined.\<close>

fun fill_tasks :: "'x task_sdk \<Rightarrow> string \<Rightarrow> string list \<Rightarrow> nat \<Rightarrow> string list \<Rightarrow> 'x \<Rightarrow> (string list \<times> 'x) outcome" where
  "fill_tasks T cls [] cap out x = Ret (out, x)"
| "fill_tasks T cls (h # hs) cap out x =
     (case task_get_name_label T h x of
        (name, x1) \<Rightarrow>
          if name = Some cls
          then if length out < cap then fill_tasks T cls hs cap (out @ [h]) (reset_task_error T x1) else Undefined
          else fill_tasks T cls hs cap out (reset_task_error T x1))"

text \<open>The array of handles; entries that were not filled are null.\<close>

definition job_list_enum :: "'x task_sdk \<Rightarrow> string \<Rightarrow> 'x \<Rightarrow> (cmpi_rc \<times> string option list \<times> 'x) outcome" where
  "job_list_enum T cls x =
     (case task_get_all T x of
        (None, x1) \<Rightarrow> Ret (CMPI_RC_ERR_FAILED, [], x1)
      | (Some hs, x1) \<Rightarrow>
          let (n, x2) = count_tasks T cls hs 0 x1
          in bind_outcome (fill_tasks T cls hs n [] x2)
               (\<lambda>(out, x3). Ret (CMPI_RC_OK, map Some out @ replicate (n - length out) None, x3)))"

definition job_record_getnext ::
    "'x task_sdk \<Rightarrow> string option list option \<Rightarrow> nat \<Rightarrow> 'x \<Rightarrow> (cmpi_rc \<times> task_record option \<times> 'x) outcome" where
  "job_record_getnext T tasks current x =
     (case tasks of
        None \<Rightarrow> Ret (CMPI_RC_ERR_NOT_FOUND, None, x)
      | Some ts \<Rightarrow>
          if current = length ts then Ret (CMPI_RC_ERR_NOT_FOUND, None, x)
          else if length ts < current then Undefined
          else (case ts ! current of
             None \<Rightarrow> Undefined
           | Some h \<Rightarrow>
               (case task_get_record T h x of
                  (None, x1) \<Rightarrow> Ret (CMPI_RC_ERR_FAILED, None, x1)
                | (Some rec, x1) \<Rightarrow> Ret (CMPI_RC_OK, Some rec, x1))))"

text \<open>An InstanceID that cannot be parsed leaves the buffer of the uuid uninitialised.\<close>

definition job_record_get_from_id ::
    "'x task_sdk \<Rightarrow> string \<Rightarrow> string \<Rightarrow> 'x \<Rightarrow> (cmpi_rc \<times> task_record option \<times> 'x) outcome" where
  "job_record_get_from_id T cls res_uuid x =
     (case CMPIStrncpySystemNameFromID True res_uuid 128 of
        None \<Rightarrow> Undefined
      | Some u \<Rightarrow>
          (case task_get_by_uuid T u x of
             (None, x1) \<Rightarrow> Ret (CMPI_RC_ERR_NOT_FOUND, None, x1)
           | (Some h, x1) \<Rightarrow>
               (case task_get_record T h x1 of
                  (None, x2) \<Rightarrow> Ret (CMPI_RC_ERR_NOT_FOUND, None, x2)
                | (Some rec, x2) \<Rightarrow>
                    if name_label rec = cls then Ret (CMPI_RC_OK, Some rec, x2)
                    else Ret (CMPI_RC_ERR_INVALID_PARAMETER, None, x2))))"

definition job_resource_delete :: "'x task_sdk \<Rightarrow> string \<Rightarrow> 'x \<Rightarrow> (cmpi_rc \<times> 'x) outcome" where
  "job_resource_delete T inst_id x =
     (case CMPIStrncpySystemNameFromID True inst_id 128 of
        None \<Rightarrow> Undefined
      | Some u \<Rightarrow>
          let x1 = (case task_get_by_uuid T u x of
                (None, y) \<Rightarrow> y | (Some h, y) \<Rightarrow> task_destroy T h y)
          in Ret (if task_ok T x1 then CMPI_RC_OK else CMPI_RC_ERR_FAILED, x1))"

section \<open>The properties of a job\<close>

datatype job_value = J_chars "string option" | J_uint16 "16 word" | J_time "64 word" | J_array string_set

definition config_number :: "string_map option \<Rightarrow> string \<Rightarrow> 16 word" where
  "config_number cfg k =
     (case xen_utils_get_from_string_string_map cfg k of None \<Rightarrow> 0 | Some s \<Rightarrow> word_of_int (atoi s))"

definition config_chars :: "string_map option \<Rightarrow> string \<Rightarrow> (string \<times> job_value) list" where
  "config_chars cfg k =
     (case xen_utils_get_from_string_string_map cfg k of None \<Rightarrow> [] | Some s \<Rightarrow> [(k, J_chars (Some s))])"

definition config_set :: "string_map option \<Rightarrow> string \<Rightarrow> string \<Rightarrow> (string \<times> job_value) list" where
  "config_set cfg k sep =
     (case xen_utils_get_from_string_string_map cfg k of
        None \<Rightarrow> []
      | Some s \<Rightarrow>
          (case xen_utils_copy_to_string_set s sep of
             None \<Rightarrow> [] | Some st \<Rightarrow> if st = [] then [] else [(k, J_array st)]))"

text \<open>The extra properties of some job classes; which class is a subclass of which is the broker's.\<close>

definition extra_properties :: "(string \<Rightarrow> string \<Rightarrow> bool) \<Rightarrow> string \<Rightarrow> string_map option \<Rightarrow> (string \<times> job_value) list" where
  "extra_properties isa cls cfg =
     (if isa cls ''Xen_ConnectToDiskImageJob''
      then config_chars cfg ''TargetURI'' @ config_chars cfg ''SSLCertificate'' @
        config_chars cfg ''ConnectionHandle'' @ config_chars cfg ''Username'' @ config_chars cfg ''Password''
      else if isa cls ''Xen_VirtualSystemModifyResourcesJob''
      then (case xen_utils_get_from_string_string_map cfg ''AffectedResources'' of
              None \<Rightarrow> []
            | Some s \<Rightarrow> (case xen_utils_copy_to_string_set s '';'' of
                None \<Rightarrow> [] | Some st \<Rightarrow> [(''AffectedResources'', J_array st)]))
      else if isa cls ''Xen_VirtualSystemCreateJob'' then config_chars cfg ''ResultingSystem''
      else if isa cls ''Xen_StartSnapshotForestExportJob''
      then config_set cfg ''DiskImageURIs'' '','' @ config_set cfg ''SSLCertificates'' '','' @
        config_chars cfg ''MetadataURI'' @ config_chars cfg ''ExportConnectionHandle''
      else [])"

definition job_set_properties ::
    "(string \<Rightarrow> string \<Rightarrow> bool) \<Rightarrow> string \<Rightarrow> task_record \<Rightarrow> (string \<times> job_value) list" where
  "job_set_properties isa cls rec =
     (let cfg = task_config rec
      in [(''Caption'', J_chars (Some ''Xen Task'')),
          (''Description'', J_chars (xen_utils_get_from_string_string_map cfg ''Description'')),
          (''ElementName'', J_chars (Some (name_description rec))),
          (''ErrorCode'', J_uint16 (config_number cfg ''ErrorCode'')),
          (''ErrorDescription'', J_chars (xen_utils_get_from_string_string_map cfg ''ErrorDescription'')),
          (''InstanceID'', J_chars (Some (CMPICreateNewSystemInstanceID 128 (task_uuid rec)))),
          (''JobState'', J_uint16 (config_number cfg ''CIMJobState'')),
          (''Name'', J_chars (Some (name_label rec))),
          (''PercentComplete'', J_uint16 (config_number cfg ''PercentComplete'')),
          (''StartTime'', J_time (xen_utils_time_t_to_binary (task_created rec)))] @
         extra_properties isa cls cfg)"

section \<open>Methods of a job\<close>

text \<open>The key is its status and value. The only method is KillJob, which removes the record of the job; its result is ignored.\<close>

definition job_invoke_method ::
    "'w backend \<Rightarrow> 'w task_sdk \<Rightarrow> cmpi_rc + string \<Rightarrow> string \<Rightarrow> cmpi_rc \<times> string option option \<Rightarrow> string \<Rightarrow> 'w world \<Rightarrow>
     (cmpi_rc \<times> 'w world) outcome" where
  "job_invoke_method X T entry ns key methodname w =
     (case credentials entry of
        Inl rc \<Rightarrow> Ret (rc, w)
      | Inr ctx \<Rightarrow>
          bind_outcome (open_session X ctx w)
            (\<lambda>(sess, w1). case sess of
               None \<Rightarrow> Ret (CMPI_RC_ERR_METHOD_NOT_AVAILABLE, w1)
             | Some s \<Rightarrow>
                 bind_outcome
                   (if ns = ''smash'' then Ret (CMPI_RC_ERR_INVALID_NAMESPACE, env_state w1)
                    else if fst key \<noteq> CMPI_RC_OK then Ret (fst key, env_state w1)
                    else (case snd key of
                       None \<Rightarrow> Ret (CMPI_RC_OK, env_state w1)
                     | Some res_id \<Rightarrow>
                         if methodname = ''KillJob''
                         then (case res_id of
                            None \<Rightarrow> Undefined
                          | Some ident \<Rightarrow>
                              bind_outcome (job_resource_delete T ident (env_state w1))
                                (\<lambda>(rc, e). Ret (CMPI_RC_OK, e)))
                         else Ret (CMPI_RC_ERR_METHOD_NOT_FOUND, env_state w1)))
                   (\<lambda>(st, e). Ret (st, xen_utils_cleanup_session (daemon X) (Some s) (w1\<lparr>env_state := e\<rparr>)))))"

section \<open>The service of tasks\<close>

text \<open>
  What the documentation of the SDK promises of tasks, with the table of tasks that a session state
  stands for: a session without an error answers from the table, a new task has a fresh handle
  and a fresh uuid of 36 characters, and only the string map of a task can be changed.
\<close>

definition task_service :: "'x task_sdk \<Rightarrow> ('x \<Rightarrow> string \<Rightarrow> task_record option) \<Rightarrow> bool" where
  "task_service T view \<longleftrightarrow>
     (\<forall>x. task_ok T (clear_task_error T x) \<and> view (clear_task_error T x) = view x) \<and>
     (\<forall>x h. task_ok T x \<longrightarrow> (\<exists>x'. task_get_record T h x = (view x h, x') \<and> view x' = view x \<and>
        (view x h \<noteq> None \<longrightarrow> task_ok T x'))) \<and>
     (\<forall>x h m r. task_ok T x \<and> view x h = Some r \<longrightarrow> task_ok T (task_set_other_config T h m x) \<and>
        view (task_set_other_config T h m x) = (view x)(h \<mapsto> r\<lparr>task_config := m\<rparr>)) \<and>
     (\<forall>x l d h x'. task_ok T x \<and> task_create T l d x = (Some h, x') \<longrightarrow> task_ok T x' \<and> view x h = None \<and>
        (\<exists>u t. view x' = (view x)(h \<mapsto> \<lparr>task_uuid = u, name_label = l, name_description = d, task_config = None, task_created = t\<rparr>) \<and>
           length u = 36 \<and> CHR ''/'' \<notin> set u \<and> (\<forall>k r. view x k = Some r \<longrightarrow> task_uuid r \<noteq> u))) \<and>
     (\<forall>x h r. task_ok T x \<and> view x h = Some r \<longrightarrow> (\<exists>x'. task_get_uuid T h x = (Some (task_uuid r), x') \<and>
        view x' = view x \<and> task_ok T x')) \<and>
     (\<forall>x h r. task_ok T x \<and> view x h = Some r \<and> (\<forall>k q. view x k = Some q \<and> task_uuid q = task_uuid r \<longrightarrow> k = h) \<longrightarrow>
        (\<exists>x'. task_get_by_uuid T (task_uuid r) x = (Some h, x') \<and> view x' = view x \<and> task_ok T x')) \<and>
     (\<forall>x h. task_ok T x \<longrightarrow> (\<exists>x'. task_get_name_label T h x = (map_option name_label (view x h), x') \<and> view x' = view x))"

lemma task_serviceD:
  assumes "task_service T view"
  shows "task_ok T (clear_task_error T x) \<and> view (clear_task_error T x) = view x"
    and "task_ok T x \<Longrightarrow> \<exists>x'. task_get_record T h x = (view x h, x') \<and> view x' = view x \<and> (view x h \<noteq> None \<longrightarrow> task_ok T x')"
    and "task_ok T x \<Longrightarrow> view x h = Some r \<Longrightarrow> task_ok T (task_set_other_config T h m x) \<and>
      view (task_set_other_config T h m x) = (view x)(h \<mapsto> r\<lparr>task_config := m\<rparr>)"
    and "task_ok T x \<Longrightarrow> task_create T l d x = (Some h, x') \<Longrightarrow> task_ok T x' \<and> view x h = None \<and>
      (\<exists>u t. view x' = (view x)(h \<mapsto> \<lparr>task_uuid = u, name_label = l, name_description = d, task_config = None, task_created = t\<rparr>) \<and>
         length u = 36 \<and> CHR ''/'' \<notin> set u \<and> (\<forall>k r. view x k = Some r \<longrightarrow> task_uuid r \<noteq> u))"
    and "task_ok T x \<Longrightarrow> view x h = Some r \<Longrightarrow> \<exists>x'. task_get_uuid T h x = (Some (task_uuid r), x') \<and> view x' = view x \<and> task_ok T x'"
    and "task_ok T x \<Longrightarrow> view x h = Some r \<Longrightarrow> (\<And>k q. view x k = Some q \<Longrightarrow> task_uuid q = task_uuid r \<Longrightarrow> k = h) \<Longrightarrow>
      \<exists>x'. task_get_by_uuid T (task_uuid r) x = (Some h, x') \<and> view x' = view x \<and> task_ok T x'"
    and "task_ok T x \<Longrightarrow> \<exists>x'. task_get_name_label T h x = (map_option name_label (view x h), x') \<and> view x' = view x"
proof -
  note laws = assms [unfolded task_service_def]
  note l1 = conjunct1 [OF laws] and r1 = conjunct2 [OF laws]
  note l2 = conjunct1 [OF r1] and r2 = conjunct2 [OF r1]
  note l3 = conjunct1 [OF r2] and r3 = conjunct2 [OF r2]
  note l4 = conjunct1 [OF r3] and r4 = conjunct2 [OF r3]
  note l5 = conjunct1 [OF r4] and r5 = conjunct2 [OF r4]
  note l6 = conjunct1 [OF r5] and l7 = conjunct2 [OF r5]
  show "task_ok T (clear_task_error T x) \<and> view (clear_task_error T x) = view x"
    using l1 by blast
  show "task_ok T x \<Longrightarrow> \<exists>x'. task_get_record T h x = (view x h, x') \<and> view x' = view x \<and> (view x h \<noteq> None \<longrightarrow> task_ok T x')"
    using l2 by blast
  show "task_ok T x \<Longrightarrow> view x h = Some r \<Longrightarrow> task_ok T (task_set_other_config T h m x) \<and>
      view (task_set_other_config T h m x) = (view x)(h \<mapsto> r\<lparr>task_config := m\<rparr>)"
    using l3 by blast
  show "task_ok T x \<Longrightarrow> task_create T l d x = (Some h, x') \<Longrightarrow> task_ok T x' \<and> view x h = None \<and>
      (\<exists>u t. view x' = (view x)(h \<mapsto> \<lparr>task_uuid = u, name_label = l, name_description = d, task_config = None, task_created = t\<rparr>) \<and>
         length u = 36 \<and> CHR ''/'' \<notin> set u \<and> (\<forall>k r. view x k = Some r \<longrightarrow> task_uuid r \<noteq> u))"
    by (rule l4 [rule_format, OF conjI])
  show "task_ok T x \<Longrightarrow> view x h = Some r \<Longrightarrow> \<exists>x'. task_get_uuid T h x = (Some (task_uuid r), x') \<and> view x' = view x \<and> task_ok T x'"
    using l5 by blast
  show "task_ok T x \<Longrightarrow> view x h = Some r \<Longrightarrow> (\<And>k q. view x k = Some q \<Longrightarrow> task_uuid q = task_uuid r \<Longrightarrow> k = h) \<Longrightarrow>
      \<exists>x'. task_get_by_uuid T (task_uuid r) x = (Some h, x') \<and> view x' = view x \<and> task_ok T x'"
    using l6 by blast
  show "task_ok T x \<Longrightarrow> \<exists>x'. task_get_name_label T h x = (map_option name_label (view x h), x') \<and> view x' = view x"
    using l7 by blast
qed

lemma reset_task: "task_service T view \<Longrightarrow> task_ok T (reset_task_error T x) \<and> view (reset_task_error T x) = view x"
  by (simp add: reset_task_error_def task_serviceD(1))

lemma snprintf_int: "\<bar>i\<bar> < 2 ^ 31 \<Longrightarrow> snprintf 100 (show_int i) = show_int i"
  using length_show_int_le [of i 10] by (intro snprintf_fits) simp

lemma code_bound: "\<bar>job_state_code s\<bar> < 2 ^ 31"
  by (cases s) auto

lemma change_state_record:
  fixes st :: job_state and descr :: "string option"
  assumes T: "task_service T view" and r: "view x (task_handle job) = Some rec"
    and small: "\<bar>percent\<bar> < 2 ^ 31" "\<bar>err\<bar> < 2 ^ 31"
  defines "written \<equiv> [(''PercentComplete'', show_int percent), (''CIMJobState'', show_int (job_state_code st)),
    (''ErrorCode'', show_int err)] @ description_entries err descr"
  shows "view (job_change_state T job st percent err descr x) =
    (view x)(task_handle job \<mapsto> rec\<lparr>task_config := fold (\<lambda>(k, v). put_entry k v) written (task_config rec)\<rparr>)"
proof -
  let ?x = "reset_task_error T x"
  have x: "task_ok T ?x" "view ?x = view x" using reset_task [OF T] by auto
  obtain x1 where x1: "task_get_record T (task_handle job) ?x = (Some rec, x1)" "view x1 = view x" "task_ok T x1"
    using task_serviceD(2) [OF T x(1), of "task_handle job"] x(2) r by auto
  show ?thesis
    using task_serviceD(3) [OF T x1(3), of "task_handle job" rec] x1 r small code_bound [of st]
    by (simp add: job_change_state_def snprintf_int written_def Let_def)
qed

text \<open>The map after a change of state, read key by key through the interface of string maps.\<close>

lemma changed_config:
  "xen_utils_get_from_string_string_map
     (fold (\<lambda>(k, v). put_entry k v) ([(''PercentComplete'', p), (''CIMJobState'', s), (''ErrorCode'', e)] @ ds) cfg) =
   (xen_utils_get_from_string_string_map cfg)(''PercentComplete'' \<mapsto> p, ''CIMJobState'' \<mapsto> s, ''ErrorCode'' \<mapsto> e)
     ++ map_of (rev ds)"
  by (simp add: smap.get_puts smap.get_put)

lemma description_keys: "k \<in> fst ` set (description_entries err descr) \<Longrightarrow> k \<in> {''Description'', ''ErrorDescription''}"
  by (auto simp: description_entries_def split: option.splits if_splits)

lemma props_numbers:
  "map_of (job_set_properties isa cls rec) ''JobState'' = Some (J_uint16 (config_number (task_config rec) ''CIMJobState''))"
  "map_of (job_set_properties isa cls rec) ''PercentComplete'' = Some (J_uint16 (config_number (task_config rec) ''PercentComplete''))"
  "map_of (job_set_properties isa cls rec) ''ErrorCode'' = Some (J_uint16 (config_number (task_config rec) ''ErrorCode''))"
  by (simp_all add: job_set_properties_def Let_def)

lemma props_texts:
  "map_of (job_set_properties isa cls rec) ''Description'' =
     Some (J_chars (xen_utils_get_from_string_string_map (task_config rec) ''Description''))"
  "map_of (job_set_properties isa cls rec) ''ErrorDescription'' =
     Some (J_chars (xen_utils_get_from_string_string_map (task_config rec) ''ErrorDescription''))"
  "map_of (job_set_properties isa cls rec) ''InstanceID'' =
     Some (J_chars (Some (CMPICreateNewSystemInstanceID 128 (task_uuid rec))))"
  by (simp_all add: job_set_properties_def Let_def)

lemma description_get:
  "(m ++ map_of (rev (description_entries err (Some d)))) ''Description'' = Some (if err \<noteq> 0 then [] else d)"
  "(m ++ map_of (rev (description_entries err (Some d)))) ''ErrorDescription'' = Some (if err \<noteq> 0 then d else [])"
  "k \<notin> {''Description'', ''ErrorDescription''} \<Longrightarrow> (m ++ map_of (rev (description_entries err (Some d)))) k = m k"
  by (auto simp: description_entries_def map_add_def)

lemma change_state_get:
  assumes T: "task_service T view" and r: "view x (task_handle job) = Some rec"
    and small: "\<bar>percent\<bar> < 2 ^ 31" "\<bar>err\<bar> < 2 ^ 31"
  obtains rec' where "view (job_change_state T job st percent err (Some d) x) (task_handle job) = Some rec'"
    and "xen_utils_get_from_string_string_map (task_config rec') =
      (xen_utils_get_from_string_string_map (task_config rec))(''PercentComplete'' \<mapsto> show_int percent,
        ''CIMJobState'' \<mapsto> show_int (job_state_code st), ''ErrorCode'' \<mapsto> show_int err)
        ++ map_of (rev (description_entries err (Some d)))"
proof -
  let ?m = "fold (\<lambda>(k, v). put_entry k v) ([(''PercentComplete'', show_int percent),
    (''CIMJobState'', show_int (job_state_code st)), (''ErrorCode'', show_int err)] @
    description_entries err (Some d)) (task_config rec)"
  have "view (job_change_state T job st percent err (Some d) x) = (view x)(task_handle job \<mapsto> rec\<lparr>task_config := ?m\<rparr>)"
    by (rule change_state_record [OF T r small])
  then have "view (job_change_state T job st percent err (Some d) x) (task_handle job) = Some (rec\<lparr>task_config := ?m\<rparr>)"
    by (simp only: fun_upd_same)
  moreover have "task_config (rec\<lparr>task_config := m\<rparr>) = m" for m by simp
  ultimately show thesis using that changed_config by metis
qed

section \<open>A daemon with room for one task\<close>

text \<open>The task, if there is one, and the error flag. Every call is refused while the flag is down.\<close>

definition one_task :: "(task_record option \<times> bool) task_sdk" where
  "one_task = \<lparr>task_ok = snd, set_task_ok = (\<lambda>b x. (fst x, b)), clear_task_error = (\<lambda>x. (fst x, True)),
     task_create = (\<lambda>l d x. if snd x \<and> fst x = None
       then (Some ''ref'', (Some \<lparr>task_uuid = replicate 36 CHR ''a'', name_label = l, name_description = d,
         task_config = None, task_created = 0\<rparr>, True))
       else (None, (fst x, False))),
     task_set_other_config = (\<lambda>h m x. if snd x \<and> h = ''ref'' \<and> fst x \<noteq> None
       then (map_option (\<lambda>r. r\<lparr>task_config := m\<rparr>) (fst x), True) else (fst x, False)),
     task_get_uuid = (\<lambda>h x. if snd x \<and> h = ''ref'' \<and> fst x \<noteq> None
       then (map_option task_uuid (fst x), x) else (None, (fst x, False))),
     task_get_record = (\<lambda>h x. if snd x \<and> h = ''ref'' \<and> fst x \<noteq> None then (fst x, x) else (None, (fst x, False))),
     task_get_by_uuid = (\<lambda>u x. if snd x \<and> map_option task_uuid (fst x) = Some u
       then (Some ''ref'', x) else (None, (fst x, False))),
     task_destroy = (\<lambda>h x. if snd x \<and> h = ''ref'' then (None, True) else (fst x, False)),
     task_get_all = (\<lambda>x. if snd x then (Some (if fst x = None then [] else [''ref'']), x) else (None, x)),
     task_get_name_label = (\<lambda>h x. if snd x \<and> h = ''ref'' \<and> fst x \<noteq> None
       then (map_option name_label (fst x), x) else (None, (fst x, False)))\<rparr>"

definition one_task_view :: "task_record option \<times> bool \<Rightarrow> string \<Rightarrow> task_record option" where
  "one_task_view x h = (if h = ''ref'' then fst x else None)"

lemma one_task_service: "task_service one_task one_task_view"
  unfolding task_service_def
  by (intro conjI allI impI) (auto simp: one_task_def one_task_view_def fun_eq_iff split: if_splits)

text \<open>The three numbers of the record after a change of state, whatever the description.\<close>

definition job_numbers :: "task_record \<Rightarrow> job_state \<Rightarrow> int \<Rightarrow> int \<Rightarrow> bool" where
  "job_numbers rec st percent err \<longleftrightarrow>
     config_number (task_config rec) ''CIMJobState'' = word_of_int (job_state_code st) \<and>
     config_number (task_config rec) ''PercentComplete'' = word_of_int percent \<and>
     config_number (task_config rec) ''ErrorCode'' = word_of_int err"

lemma change_state_numbers:
  assumes T: "task_service T view" and r: "view x (task_handle job) = Some rec"
    and small: "\<bar>percent\<bar> < 2 ^ 31" "\<bar>err\<bar> < 2 ^ 31"
  obtains m where "view (job_change_state T job st percent err descr x) = (view x)(task_handle job \<mapsto> rec\<lparr>task_config := m\<rparr>)"
    and "job_numbers (rec\<lparr>task_config := m\<rparr>) st percent err"
proof -
  let ?ds = "description_entries err descr"
  let ?m = "fold (\<lambda>(k, v). put_entry k v) ([(''PercentComplete'', show_int percent),
    (''CIMJobState'', show_int (job_state_code st)), (''ErrorCode'', show_int err)] @ ?ds) (task_config rec)"
  have v: "view (job_change_state T job st percent err descr x) = (view x)(task_handle job \<mapsto> rec\<lparr>task_config := ?m\<rparr>)"
    by (rule change_state_record [OF T r small])
  have ds: "map_of (rev ?ds) ''CIMJobState'' = None" "map_of (rev ?ds) ''PercentComplete'' = None"
    "map_of (rev ?ds) ''ErrorCode'' = None"
    by (auto simp: description_entries_def split: option.splits)
  have "job_numbers (rec\<lparr>task_config := ?m\<rparr>) st percent err"
    using changed_config [of "show_int percent" "show_int (job_state_code st)" "show_int err" ?ds "task_config rec"] ds
    by (simp add: job_numbers_def config_number_def atoi_show_int map_add_def)
  with that v show thesis by blast
qed

text \<open>A change of state is what the client sees: the state, the progress and the error code that were
  set, the description in the one of the two description properties that fits the error code,
  with the other one cleared; everything else that was written to the task is kept.\<close>

lemma job_state_visible:
  assumes "task_service T view" and "view x (task_handle job) = Some rec"
    and "\<bar>percent\<bar> < 2 ^ 31" and "\<bar>err\<bar> < 2 ^ 31"
  shows "\<exists>rec'. view (job_change_state T job st percent err (Some d) x) (task_handle job) = Some rec' \<and>
    map_of (job_set_properties isa cls rec') ''JobState'' = Some (J_uint16 (word_of_int (job_state_code st))) \<and>
    map_of (job_set_properties isa cls rec') ''PercentComplete'' = Some (J_uint16 (word_of_int percent)) \<and>
    map_of (job_set_properties isa cls rec') ''ErrorCode'' = Some (J_uint16 (word_of_int err)) \<and>
    map_of (job_set_properties isa cls rec') ''Description'' = Some (J_chars (Some (if err \<noteq> 0 then [] else d))) \<and>
    map_of (job_set_properties isa cls rec') ''ErrorDescription'' = Some (J_chars (Some (if err \<noteq> 0 then d else []))) \<and>
    (k \<notin> {''PercentComplete'', ''CIMJobState'', ''ErrorCode'', ''Description'', ''ErrorDescription''} \<longrightarrow>
       xen_utils_get_from_string_string_map (task_config rec') k =
       xen_utils_get_from_string_string_map (task_config rec) k)"
proof -
  obtain rec' where r: "view (job_change_state T job st percent err (Some d) x) (task_handle job) = Some rec'"
    and get: "xen_utils_get_from_string_string_map (task_config rec') =
      (xen_utils_get_from_string_string_map (task_config rec))(''PercentComplete'' \<mapsto> show_int percent,
        ''CIMJobState'' \<mapsto> show_int (job_state_code st), ''ErrorCode'' \<mapsto> show_int err)
        ++ map_of (rev (description_entries err (Some d)))"
    by (rule change_state_get [OF assms, of st d])
  have "config_number (task_config rec') ''CIMJobState'' = word_of_int (job_state_code st)"
    "config_number (task_config rec') ''PercentComplete'' = word_of_int percent"
    "config_number (task_config rec') ''ErrorCode'' = word_of_int err"
    unfolding config_number_def get by (simp_all add: description_get(3) atoi_show_int)
  moreover have "k \<notin> {''PercentComplete'', ''CIMJobState'', ''ErrorCode'', ''Description'', ''ErrorDescription''} \<longrightarrow>
       xen_utils_get_from_string_string_map (task_config rec') k =
       xen_utils_get_from_string_string_map (task_config rec) k"
    unfolding get by (simp add: description_get(3))
  moreover have "xen_utils_get_from_string_string_map (task_config rec') ''Description'' = Some (if err \<noteq> 0 then [] else d)"
    "xen_utils_get_from_string_string_map (task_config rec') ''ErrorDescription'' = Some (if err \<noteq> 0 then d else [])"
    unfolding get by (rule description_get(1), rule description_get(2))
  ultimately show ?thesis
    using r by (intro exI [of _ rec'] conjI) (simp_all only: props_numbers props_texts)
qed

lemma job_state_visible_witness:
  "\<exists>rec'. one_task_view (job_change_state one_task
        \<lparr>job_name = ''Xen_StartJob'', domain_name = ''vm'', ref_cn = ''Xen_StartJob'', ref_ns = ''root/cimv2'',
          job_uuid = Some (replicate 36 CHR ''a''), task_handle = ''ref'', callback = ()\<rparr> Job_Exception 40 5 (Some ''no disk'')
        (Some \<lparr>task_uuid = replicate 36 CHR ''a'', name_label = ''Xen_StartJob'', name_description = ''vm'',
          task_config = None, task_created = 0\<rparr>, False)) ''ref'' = Some rec' \<and>
      map_of (job_set_properties (\<lambda>_ _. False) ''Xen_StartJob'' rec') ''JobState'' = Some (J_uint16 10)"
  using job_state_visible [OF one_task_service, where percent = 40 and err = 5 and d = "''no disk''" and
      st = Job_Exception and isa = "\<lambda>_ _. False" and cls = "''Xen_StartJob''" and k = "''x''" and
      job = "\<lparr>job_name = ''Xen_StartJob'', domain_name = ''vm'', ref_cn = ''Xen_StartJob'', ref_ns = ''root/cimv2'',
          job_uuid = Some (replicate 36 CHR ''a''), task_handle = ''ref'', callback = ()\<rparr>" and
      x = "(Some \<lparr>task_uuid = replicate 36 CHR ''a'', name_label = ''Xen_StartJob'', name_description = ''vm'',
          task_config = None, task_created = 0\<rparr>, False)"]
  by (auto simp: one_task_view_def)

end
