(* ===== verification/JobProvider.thy ===== *)
theory JobProvider
  imports JobRecord
begin

text \<open>
  What the client sees of jobs: a created job, the enumeration of a job class as a cursor, and the
  worker's accounting of the sessions it opens. The definitions are those of \<open>JobRecord\<close>.
\<close>

section \<open>Creation of a job\<close>

lemma job_alloc_ok:
  assumes T: "task_service T view" and x: "task_ok T x" and create: "task_create T jname dname x = (Some h, x1)"
  obtains x' u r where "job_alloc T True jname dname cb cn ns x = (Some \<lparr>job_name = jname, domain_name = dname,
      ref_cn = jname, ref_ns = ns, job_uuid = Some u, task_handle = h, callback = cb\<rparr>, x')"
    and "task_ok T x'" and "view x' = (view x)(h \<mapsto> r)" and "view x h = None"
    and "task_uuid r = u" and "length u = 36" and "CHR ''/'' \<notin> set u" and "name_label r = jname"
    and "name_description r = dname" and "task_config r = Some [(''PercentComplete'', ''0''), (''CIMJobState'', ''2'')]"
    and "\<And>k q. view x k = Some q \<Longrightarrow> task_uuid q \<noteq> u"
proof -
  let ?cfg = "put_entry ''CIMJobState'' ''2'' (put_entry ''PercentComplete'' ''0'' None)"
  obtain u t where x1: "task_ok T x1" "view x h = None" "length u = 36" "CHR ''/'' \<notin> set u"
    "\<forall>k r. view x k = Some r \<longrightarrow> task_uuid r \<noteq> u"
    "view x1 = (view x)(h \<mapsto> \<lparr>task_uuid = u, name_label = jname, name_description = dname, task_config = None, task_created = t\<rparr>)"
    using task_serviceD(4) [OF T x create] by blast
  let ?r = "\<lparr>task_uuid = u, name_label = jname, name_description = dname, task_config = ?cfg, task_created = t\<rparr>"
  have x2: "task_ok T (task_set_other_config T h ?cfg x1)" "view (task_set_other_config T h ?cfg x1) = (view x)(h \<mapsto> ?r)"
    using task_serviceD(3) [OF T x1(1), of h _ ?cfg] x1(6) by simp_all
  have "view (task_set_other_config T h ?cfg x1) h = Some ?r" by (simp only: x2(2) fun_upd_same)
  then obtain x3 where
    x3: "task_get_uuid T h (task_set_other_config T h ?cfg x1) = (Some u, x3)"
      "view x3 = view (task_set_other_config T h ?cfg x1)" "task_ok T x3"
    using task_serviceD(5) [OF T x2(1), of h ?r] by (auto simp only: task_record.simps)
  have "job_alloc T True jname dname cb cn ns x = (Some \<lparr>job_name = jname, domain_name = dname,
      ref_cn = jname, ref_ns = ns, job_uuid = Some u, task_handle = h, callback = cb\<rparr>, x3)"
    using create x3 x1(3) by (simp add: job_alloc_def Let_def)
  moreover have "?cfg = Some [(''PercentComplete'', ''0''), (''CIMJobState'', ''2'')]" by code_simp
  ultimately show thesis
    using that [of u x3 ?r] x3 x2 x1 by simp
qed

text \<open>The InstanceID of a task leads to it.\<close>

lemma job_record_found:
  assumes T: "task_service T view" and ok: "task_ok T x" and r: "view x h = Some r"
    and only: "\<forall>k q. view x k = Some q \<and> task_uuid q = task_uuid r \<longrightarrow> k = h"
    and fits: "length (task_uuid r) = 36" "CHR ''/'' \<notin> set (task_uuid r)"
  shows "\<exists>x'. job_record_get_from_id T (name_label r) (CMPICreateNewSystemInstanceID 129 (task_uuid r)) x =
    Ret (CMPI_RC_OK, Some r, x')"
proof -
  have ident: "CMPIStrncpySystemNameFromID True (CMPICreateNewSystemInstanceID 129 (task_uuid r)) 128 = Some (task_uuid r)"
    using system_name_of_system_id [of "task_uuid r" 128 129] fits by simp
  have "\<exists>x2. task_get_by_uuid T (task_uuid r) x = (Some h, x2) \<and> view x2 = view x \<and> task_ok T x2"
    by (rule task_serviceD(6) [OF T ok r]) (use only in blast)
  then obtain x2 where x2: "task_get_by_uuid T (task_uuid r) x = (Some h, x2)" "view x2 = view x" "task_ok T x2" by blast
  obtain x3 where "task_get_record T h x2 = (Some r, x3)" using task_serviceD(2) [OF T x2(3), of h] x2(2) r by auto
  then show ?thesis using ident x2 by (simp add: job_record_get_from_id_def)
qed

text \<open>A job that was created can be looked up by the InstanceID of the reference that the client got:
  it is a new job at zero percent, without an error, under the class and the VM it was
  created for; the tasks that were there before are unchanged.\<close>

lemma created_job_is_visible:
  assumes T: "task_service T view" and x: "task_ok T x" and create: "task_create T jname dname x = (Some h, x1)"
  shows "\<exists>job ident x' rec x''. job_create T True jname dname cb x = Ret (Some (job, jname, ident), x') \<and>
    callback job = cb \<and> (\<forall>k. k \<noteq> h \<longrightarrow> view x' k = view x k) \<and> view x' h = Some rec \<and>
    job_record_get_from_id T jname ident x' = Ret (CMPI_RC_OK, Some rec, x'') \<and>
    map_of (job_set_properties isa jname rec) ''JobState'' = Some (J_uint16 (word_of_int (job_state_code Job_New))) \<and>
    map_of (job_set_properties isa jname rec) ''PercentComplete'' = Some (J_uint16 0) \<and>
    map_of (job_set_properties isa jname rec) ''ErrorCode'' = Some (J_uint16 0) \<and>
    map_of (job_set_properties isa jname rec) ''InstanceID'' = Some (J_chars (Some ident)) \<and>
    map_of (job_set_properties isa jname rec) ''ElementName'' = Some (J_chars (Some dname))"
proof -
  obtain x' u r where a: "job_alloc T True jname dname cb jname ''root/cimv2'' x = (Some \<lparr>job_name = jname, domain_name = dname,
      ref_cn = jname, ref_ns = ''root/cimv2'', job_uuid = Some u, task_handle = h, callback = cb\<rparr>, x')"
    and ok: "task_ok T x'" and v: "view x' = (view x)(h \<mapsto> r)" and r: "task_uuid r = u" "length u = 36" "CHR ''/'' \<notin> set u"
      "name_label r = jname" "name_description r = dname" "task_config r = Some [(''PercentComplete'', ''0''), (''CIMJobState'', ''2'')]"
    and new: "\<And>k q. view x k = Some q \<Longrightarrow> task_uuid q \<noteq> u"
    using job_alloc_ok [OF T x create, of cb jname "''root/cimv2''"] by metis
  let ?id = "CMPICreateNewSystemInstanceID 129 u"
  have idu: "CMPICreateNewSystemInstanceID 128 u = ?id"
    using r by (simp add: CMPICreateNewSystemInstanceID_def snprintf_fits)
  have vh: "view x' h = Some r" by (simp add: v)
  have only: "\<forall>k q. view x' k = Some q \<and> task_uuid q = task_uuid r \<longrightarrow> k = h"
    using new r(1) by (auto simp: v split: if_splits)
  obtain x3 where get: "job_record_get_from_id T jname ?id x' = Ret (CMPI_RC_OK, Some r, x3)"
    using job_record_found [OF T ok vh only] r by auto
  have cfg: "config_number (task_config r) ''CIMJobState'' = 2" "config_number (task_config r) ''PercentComplete'' = 0"
    "config_number (task_config r) ''ErrorCode'' = 0"
    unfolding r(6) by (code_simp, code_simp, code_simp)
  have "map_of (job_set_properties isa jname r) ''ElementName'' = Some (J_chars (Some dname))"
    using r by (simp add: job_set_properties_def Let_def)
  moreover have "job_create T True jname dname cb x = Ret (Some (\<lparr>job_name = jname, domain_name = dname,
      ref_cn = jname, ref_ns = ''root/cimv2'', job_uuid = Some u, task_handle = h, callback = cb\<rparr>, jname, ?id), x')"
    using a by (simp add: job_create_def)
  ultimately show ?thesis
    using get v cfg idu r(1)
    by (intro exI [of _ "\<lparr>job_name = jname, domain_name = dname, ref_cn = jname, ref_ns = ''root/cimv2'',
        job_uuid = Some u, task_handle = h, callback = cb\<rparr>"] exI [of _ ?id] exI [of _ x'] exI [of _ r] exI [of _ x3])
      (simp add: props_numbers props_texts)
qed

lemma created_job_is_visible_witness:
  "\<exists>job ident x' rec x''. job_create one_task True ''Xen_StartJob'' ''vm'' () (None, True) = Ret (Some (job, ''Xen_StartJob'', ident), x') \<and>
     job_record_get_from_id one_task ''Xen_StartJob'' ident x' = Ret (CMPI_RC_OK, Some rec, x'')"
proof -
  have "task_create one_task ''Xen_StartJob'' ''vm'' (None, True) = (Some ''ref'', (Some \<lparr>task_uuid = replicate 36 CHR ''a'',
      name_label = ''Xen_StartJob'', name_description = ''vm'', task_config = None, task_created = 0\<rparr>, True))"
    "task_ok one_task (None, True)" by (simp_all add: one_task_def)
  from created_job_is_visible [OF one_task_service this(2) this(1), where isa = "\<lambda>_ _. False" and cb = "()"] show ?thesis
    by (elim exE conjE) (intro exI conjI)
qed

section \<open>Enumeration of a job class\<close>

abbreviation labelled :: "(string \<Rightarrow> task_record option) \<Rightarrow> string \<Rightarrow> string \<Rightarrow> bool" where
  "labelled tasks cls h \<equiv> map_option name_label (tasks h) = Some cls"

lemma label_step:
  assumes T: "task_service T view" and x: "task_ok T x"
  obtains x' where "task_get_name_label T h x = (map_option name_label (view x h), x')"
    and "view (reset_task_error T x') = view x" and "task_ok T (reset_task_error T x')"
  using task_serviceD(7) [OF T x, of h] reset_task [OF T] by metis

lemma count_tasks_spec:
  assumes T: "task_service T view"
  shows "task_ok T x \<Longrightarrow> \<exists>x'. count_tasks T cls hs n x = (n + length (filter (labelled (view x) cls) hs), x') \<and>
    view x' = view x \<and> task_ok T x'"
proof (induction hs arbitrary: n x)
  case (Cons h hs)
  obtain x1 where l: "task_get_name_label T h x = (map_option name_label (view x h), x1)"
    and v: "view (reset_task_error T x1) = view x" "task_ok T (reset_task_error T x1)"
    by (rule label_step [OF T Cons.prems])
  from Cons.IH [OF v(2), of "if labelled (view x) cls h then n + 1 else n"] v l show ?case
    by (cases "labelled (view x) cls h") (simp_all del: map_option_eq_Some)
qed simp

lemma fill_tasks_spec:
  assumes T: "task_service T view"
  shows "task_ok T x \<Longrightarrow> length out + length (filter (labelled (view x) cls) hs) \<le> cap \<Longrightarrow>
    \<exists>x'. fill_tasks T cls hs cap out x = Ret (out @ filter (labelled (view x) cls) hs, x') \<and>
      view x' = view x \<and> task_ok T x'"
proof (induction hs arbitrary: out x)
  case (Cons h hs)
  obtain x1 where l: "task_get_name_label T h x = (map_option name_label (view x h), x1)"
    and v: "view (reset_task_error T x1) = view x" "task_ok T (reset_task_error T x1)"
    by (rule label_step [OF T Cons.prems(1)])
  from Cons.IH [OF v(2), of "if labelled (view x) cls h then out @ [h] else out"] v l Cons.prems(2)
  show ?case by (cases "labelled (view x) cls h") (simp_all del: map_option_eq_Some)
qed simp

lemma job_list_enum_spec:
  assumes T: "task_service T view" and all: "task_get_all T x = (Some hs, x1)" and ok: "task_ok T x1"
  obtains y where "job_list_enum T cls x = Ret (CMPI_RC_OK, map Some (filter (labelled (view x1) cls) hs), y)"
    and "view y = view x1" and "task_ok T y"
proof -
  let ?ts = "filter (labelled (view x1) cls) hs"
  obtain x2 where x2: "count_tasks T cls hs 0 x1 = (length ?ts, x2)" "view x2 = view x1" "task_ok T x2"
    using count_tasks_spec [OF T ok, of cls hs 0] by auto
  obtain x3 where x3: "fill_tasks T cls hs (length ?ts) [] x2 = Ret (?ts, x3)" "view x3 = view x1" "task_ok T x3"
    using fill_tasks_spec [OF T x2(3), of "[]" cls hs "length ?ts"] x2(2) by auto
  show thesis using that [of x3] all x2(1) x3 by (simp add: job_list_enum_def)
qed

text \<open>One call of the cursor, after the error flag of the session was reset as the caller does.\<close>

definition job_step ::
    "'x task_sdk \<Rightarrow> string list \<times> nat \<times> 'x \<Rightarrow> (task_record option \<times> string list \<times> nat \<times> 'x) option" where
  "job_step T s =
     (case s of (ts, i, x) \<Rightarrow>
        (case job_record_getnext T (Some (map Some ts)) i (reset_task_error T x) of
           Ret (rc, r, x') \<Rightarrow> if rc = CMPI_RC_ERR_NOT_FOUND then None else Some (r, ts, i + 1, x')
         | Undefined \<Rightarrow> None))"

interpretation jobs: cursor "job_step T" "\<lambda>s. map (view (snd (snd s))) (drop (fst (snd s)) (fst s))"
    "\<lambda>s. task_service T view \<and> fst (snd s) \<le> length (fst s)" for T view
proof unfold_locales
  fix s :: "string list \<times> nat \<times> 'a"
  assume "task_service T view \<and> fst (snd s) \<le> length (fst s)"
  then show "job_step T s = None \<longleftrightarrow> map (view (snd (snd s))) (drop (fst (snd s)) (fst s)) = []"
    by (cases s) (auto simp: job_step_def job_record_getnext_def split: prod.splits option.splits)
next
  fix s x s'
  assume v: "task_service T view \<and> fst (snd s) \<le> length (fst s)" and step: "job_step T s = Some (x, s')"
  obtain ts i e where s: "s = (ts, i, e)" by (cases s)
  let ?e = "reset_task_error T e"
  have T: "task_service T view" using v by blast
  have e: "task_ok T ?e" "view ?e = view e" using reset_task [OF T] by auto
  have i: "i < length ts"
    using step v by (auto simp: s job_step_def job_record_getnext_def split: if_splits)
  obtain e1 where g: "task_get_record T (ts ! i) ?e = (view e (ts ! i), e1)" "view e1 = view e"
    using task_serviceD(2) [OF T e(1), of "ts ! i"] e(2) by auto
  have "x = view e (ts ! i) \<and> s' = (ts, i + 1, e1)"
    using step i g by (auto simp: s job_step_def job_record_getnext_def split: option.splits)
  then show "map (view (snd (snd s))) (drop (fst (snd s)) (fst s)) = x # map (view (snd (snd s'))) (drop (fst (snd s')) (fst s')) \<and>
      task_service T view \<and> fst (snd s') \<le> length (fst s')"
    using i g(2) T by (auto simp: s Cons_nth_drop_Suc [symmetric])
qed

text \<open>An enumeration of a job class lists exactly the daemon's tasks that bear the name of the class, in
  the daemon's order, within the array that was sized for them, and hands out the record of each of
  them once.\<close>

lemma jobs_enumerated:
  assumes T: "task_service T view" and all: "task_get_all T x = (Some hs, x1)" and ok: "task_ok T x1"
    and n: "length hs \<le> n"
  shows "\<exists>ts y. job_list_enum T cls x = Ret (CMPI_RC_OK, map Some ts, y) \<and>
    drain (job_step T) n (ts, 0, y) = map (view x1) (filter (\<lambda>h. map_option name_label (view x1 h) = Some cls) hs)"
proof -
  obtain y where y: "job_list_enum T cls x = Ret (CMPI_RC_OK, map Some (filter (labelled (view x1) cls) hs), y)"
    "view y = view x1" by (rule job_list_enum_spec [OF T all ok])
  have "length (filter (labelled (view x1) cls) hs) \<le> n"
    using n le_trans [OF length_filter_le] by blast
  then have "drain (job_step T) n (filter (labelled (view x1) cls) hs, 0, y) = map (view y) (filter (labelled (view x1) cls) hs)"
    using jobs.drain_remaining [of T view "(filter (labelled (view x1) cls) hs, 0, y)" n] T by simp
  with y show ?thesis by auto
qed

lemma jobs_enumerated_witness:
  "\<exists>ts y. job_list_enum one_task ''Xen_StartJob'' (Some \<lparr>task_uuid = ''u'', name_label = ''Xen_StartJob'', name_description = ''vm'',
        task_config = None, task_created = 0\<rparr>, True) = Ret (CMPI_RC_OK, map Some ts, y) \<and>
     drain (job_step one_task) 1 (ts, 0, y) = [Some \<lparr>task_uuid = ''u'', name_label = ''Xen_StartJob'', name_description = ''vm'',
        task_config = None, task_created = 0\<rparr>]"
proof -
  let ?x = "(Some \<lparr>task_uuid = ''u'', name_label = ''Xen_StartJob'', name_description = ''vm'', task_config = None, task_created = 0\<rparr>, True)"
  have "task_get_all one_task ?x = (Some [''ref''], ?x)" "task_ok one_task ?x" by (simp_all add: one_task_def)
  from jobs_enumerated [OF one_task_service this, of 1 "''Xen_StartJob''"] show ?thesis by (simp add: one_task_view_def)
qed

section \<open>What the worker holds\<close>

text \<open>Whatever happens to a job, the worker gives back the session structure that it opened for it, and the
  login too when the callback was run; the callback is run exactly when there were credentials
  and a session, on the state that the login left.\<close>

lemma run_job_balance:
  assumes "run_job X entry job w = Ret (called, w')"
  shows "structs w' = structs w \<and> logins w \<le> logins w' \<and>
    (if called then logins w' = logins w \<and> (\<exists>ctx s w1 e. credentials entry = Inr ctx \<and>
        open_session X ctx w = Ret (Some s, w1) \<and> ready s \<and> callback job (env_state w1) = Ret e)
     else (case credentials entry of Inl rc \<Rightarrow> w' = w | Inr ctx \<Rightarrow> open_session X ctx w = Ret (None, w')))"
proof (cases "credentials entry")
  case (Inl rc)
  then show ?thesis using assms by (simp add: run_job_def)
next
  case (Inr ctx)
  then obtain r w1 where o: "open_session X ctx w = Ret (r, w1)"
    and b: "(case r of None \<Rightarrow> Ret (False, w1) | Some s \<Rightarrow> bind_outcome (callback job (env_state w1))
      (\<lambda>e. Ret (True, xen_utils_cleanup_session (daemon X) (Some s) (w1\<lparr>env_state := e\<rparr>)))) = Ret (called, w')"
    using assms by (auto simp: run_job_def bind_outcome_Ret_iff)
  show ?thesis
  proof (cases r)
    case None
    then show ?thesis using Inr o b open_session_balance [OF o] by simp
  next
    case (Some s)
    then obtain e where e: "callback job (env_state w1) = Ret e" and called: called
      and w': "w' = xen_utils_cleanup_session (daemon X) (Some s) (w1\<lparr>env_state := e\<rparr>)"
      using b by (auto simp: bind_outcome_Ret_iff)
    have s: "ready s" "structs w1 = structs w + 1" "logins w1 = logins w + 1"
      using open_session_balance [OF o] Some by auto
    then show ?thesis
      using Inr o e called Some cleanup_ready [OF s(1), of "daemon X" "w1\<lparr>env_state := e\<rparr>"] by (simp add: w')
  qed
qed

lemma run_job_balance_witness:
  "\<exists>w'. structs w' = 0 \<and> logins w' = 0 \<and>
     run_job \<lparr>daemon = \<lparr>calloc = (\<lambda>x. (True, x)), curl_easy_init = (\<lambda>x. (True, x)),
         login_with_password = (\<lambda>c url user pw x. (Some \<lparr>ok = True, error_description = None, session_id = ''ref''\<rparr>, x)),
         get_this_host = (\<lambda>s x. (Some ''host'', s, x)), session_logout = (\<lambda>s x. x)\<rparr>,
       traced = True, api = strict_sdk (\<lambda>_. None) []\<rparr> (Inr ''root pw'')
       \<lparr>job_name = ''Xen_StartJob'', domain_name = ''vm'', ref_cn = ''Xen_StartJob'', ref_ns = ''root/cimv2'',
          job_uuid = None, task_handle = ''ref'', callback = (\<lambda>x. Ret (\<not> x))\<rparr>
       \<lparr>env_state = True, structs = 0, curls = 0, logins = 0, hosts = 0\<rparr> = Ret (True, w')"
    (is "\<exists>w'. structs w' = 0 \<and> logins w' = 0 \<and> run_job ?X ?c ?job ?w = Ret (True, w')")
proof -
  have c: "credentials ?c = Inr (''root'', ''pw'')"
    by (simp add: credentials_def xen_utils_get_call_context_def strchr_def)
  have "\<exists>s w1. open_session ?X (''root'', ''pw'') ?w = Ret (Some s, w1)"
    by (simp add: open_session_def xen_utils_validate_session_def xen_utils_get_session_def local_session_def
        login_accepted_def session_ops)
  then obtain w' where r: "run_job ?X ?c ?job ?w = Ret (True, w')" by (auto simp: run_job_def c)
  have b: "structs w' = structs ?w \<and> logins ?w \<le> logins w' \<and> (if True then logins w' = logins ?w \<and> (\<exists>ctx s w1 e.
      credentials ?c = Inr ctx \<and> open_session ?X ctx ?w = Ret (Some s, w1) \<and> ready s \<and> callback ?job (env_state w1) = Ret e)
     else (case credentials ?c of Inl rc \<Rightarrow> w' = ?w | Inr ctx \<Rightarrow> open_session ?X ctx ?w = Ret (None, w')))"
    by (rule run_job_balance [OF r])
  then have "structs w' = 0" "logins w' = 0" by simp_all
  with r show ?thesis by blast
qed

end
