(* ===== verification/Arguments.thy ===== *)
theory Arguments
  imports Domain
begin

text \<open>
  The arguments of an extrinsic method (\<^verbatim>\<open>src/xen_utils.c\<close>): their lookup by name and
  type, and the two kinds of arguments that every service takes, an affected system and an embedded
  instance. The broker's \<^verbatim>\<open>CMGetArg\<close>, \<^verbatim>\<open>CMGetKey\<close> and
  \<^verbatim>\<open>CBGetInstance\<close> are parameters, and so is here the parser of embedded instances.
\<close>

datatype ('p, 'i) arg_value =
    A_boolean bool | A_uint16 "16 word" | A_uint32 "32 word" | A_uint64 "64 word" | A_string string
  | A_ref "'p option" | A_instance 'i | A_array "('p, 'i) arg_value list option" | A_other nat

fun arg_type :: "('p, 'i) arg_value \<Rightarrow> cmpi_type" where
  "arg_type (A_boolean _) = CMPI_boolean"
| "arg_type (A_uint16 _) = CMPI_uint16"
| "arg_type (A_uint32 _) = CMPI_uint32"
| "arg_type (A_uint64 _) = CMPI_uint64"
| "arg_type (A_string _) = CMPI_string"
| "arg_type (A_ref _) = CMPI_ref"
| "arg_type (A_instance _) = CMPI_instance"
| "arg_type (A_array _) = CMPI_ARRAY"
| "arg_type (A_other n) = CMPI_other n"

text \<open>The broker's answer for a name: a status and a value, none where the value is null.\<close>

type_synonym ('p, 'i) method_args = "string \<Rightarrow> cmpi_rc \<times> ('p, 'i) arg_value option"

definition GetArgument ::
    "('p, 'i) method_args \<Rightarrow> string \<Rightarrow> cmpi_type \<Rightarrow> cmpi_rc \<times> ('p, 'i) arg_value option" where
  "GetArgument argsin argument_name argument_type =
     (case argsin argument_name of
        (st, None) \<Rightarrow> (st, None)
      | (st, Some v) \<Rightarrow>
          if st \<noteq> CMPI_RC_OK then (st, None)
          else if arg_type v \<noteq> argument_type then (st, None)
          else if v = A_ref None \<or> v = A_array None then (st, None)
          else (st, Some v))"

section \<open>Embedded instances\<close>

definition xen_utils_get_cmpi_instance ::
    "(string \<Rightarrow> 'i option) \<Rightarrow> ('i \<Rightarrow> 'p) \<Rightarrow> ('p \<Rightarrow> 'i option) \<Rightarrow> ('p, 'i) arg_value \<Rightarrow> ('p option \<times> 'i) option" where
  "xen_utils_get_cmpi_instance parse path_of fetch setting_data =
     (case setting_data of
        A_string setting \<Rightarrow> map_option (\<lambda>i. (Some (path_of i), i)) (parse setting)
      | A_instance i \<Rightarrow> Some (Some (path_of i), i)
      | A_ref op \<Rightarrow> (case op of None \<Rightarrow> None | Some p \<Rightarrow> map_option (\<lambda>i. (Some p, i)) (fetch p))
      | _ \<Rightarrow> None)"

text \<open>The status and the instance; the status of a string that cannot be parsed is set here.\<close>

definition xen_utils_get_vssd_param ::
    "(string \<Rightarrow> 'i option) \<Rightarrow> ('p, 'i) method_args \<Rightarrow> string \<Rightarrow> cmpi_rc \<times> 'i option" where
  "xen_utils_get_vssd_param parse argsin param_name =
     (case GetArgument argsin param_name CMPI_string of
        (st, Some (A_string str)) \<Rightarrow>
          (case parse str of
             None \<Rightarrow> (CMPI_RC_ERR_INVALID_PARAMETER, None)
           | Some i \<Rightarrow> (st, Some i))
      | _ \<Rightarrow>
          (case GetArgument argsin param_name CMPI_instance of
             (st, Some (A_instance i)) \<Rightarrow> (st, Some i)
           | (st, _) \<Rightarrow> (st, None)))"

section \<open>The affected system\<close>

definition xen_utils_get_domain_from_sd_OP ::
    "'x sdk \<Rightarrow> ('p \<Rightarrow> string \<Rightarrow> cmpi_rc \<times> ('p, 'i) arg_value option) \<Rightarrow> 'p option \<Rightarrow> 'x \<Rightarrow>
     (string \<times> vm_record) option \<times> 'x" where
  "xen_utils_get_domain_from_sd_OP K get_key domOP x =
     (case domOP of
        None \<Rightarrow> (None, x)
      | Some p \<Rightarrow>
          (case get_key p ''Name'' of
             (st, Some (A_string uuid)) \<Rightarrow>
               if st \<noteq> CMPI_RC_OK then (None, x)
               else xen_utils_get_domain_from_uuid K uuid (RESET_XEN_ERROR K x)
           | _ \<Rightarrow> (None, x)))"

text \<open>
  A uuid is looked up without the reset of the error flag, and the record that comes with it may
  be null; a path goes through the lookup above. The result is none or the VM and its record.
\<close>

definition xen_utils_get_affectedsystem ::
    "'x sdk \<Rightarrow> ('p \<Rightarrow> string \<Rightarrow> cmpi_rc \<times> ('p, 'i) arg_value option) \<Rightarrow> ('p, 'i) method_args \<Rightarrow> 'x \<Rightarrow>
     cmpi_rc \<times> (string \<times> vm_record option) option \<times> 'x" where
  "xen_utils_get_affectedsystem K get_key argsin x =
     (case GetArgument argsin ''AffectedSystem'' CMPI_ref of
        (st, Some (A_ref op)) \<Rightarrow>
          (case xen_utils_get_domain_from_sd_OP K get_key op x of
             (None, x1) \<Rightarrow> (st, None, x1)
           | (Some (vm, rec), x1) \<Rightarrow> (st, Some (vm, Some rec), x1))
      | _ \<Rightarrow>
          (case GetArgument argsin ''AffectedSystem'' CMPI_string of
             (st, Some (A_string uuid)) \<Rightarrow>
               if uuid = [] then (st, None, x)
               else (case vm_get_by_uuid K uuid x of
                  (None, x1) \<Rightarrow> (st, None, x1)
                | (Some vm, x1) \<Rightarrow>
                    (case vm_get_record K vm x1 of (rec, x2) \<Rightarrow> (st, Some (vm, rec), x2)))
           | (st, _) \<Rightarrow> (st, None, x)))"

section \<open>Lemmas\<close>

lemma GetArgument_type: "GetArgument argsin n t = (st, Some v) \<Longrightarrow> st = CMPI_RC_OK \<and> arg_type v = t"
  by (auto simp: GetArgument_def split: prod.splits option.splits if_splits)

lemma GetArgument_string: "GetArgument argsin n CMPI_string = (st, Some v) \<Longrightarrow> \<exists>s. v = A_string s"
  using GetArgument_type [of argsin n CMPI_string st v]
  by (cases v) (auto simp: GetArgument_def split: prod.splits option.splits if_splits)

text \<open>A VM that the daemon knows is found by a reference or by its uuid alike.\<close>

lemma affected_system_found:
  assumes K: "answers K table" and x: "session_ok K x"
    and uuid: "\<And>x. session_ok K x \<Longrightarrow> \<exists>x'. vm_get_by_uuid K u x = (Some vm, x') \<and> session_ok K x'"
    and rec: "table vm = Some rec" and u: "u \<noteq> []"
    and arg: "argsin ''AffectedSystem'' = (CMPI_RC_OK, Some (A_string u)) \<or>
      argsin ''AffectedSystem'' = (CMPI_RC_OK, Some (A_ref (Some p))) \<and> get_key p ''Name'' = (CMPI_RC_OK, Some (A_string u))"
  shows "\<exists>x'. xen_utils_get_affectedsystem K get_key argsin x = (CMPI_RC_OK, Some (vm, Some rec), x')"
proof -
  obtain x1 where x1: "vm_get_by_uuid K u x = (Some vm, x1)" "session_ok K x1" using uuid [OF x] by blast
  have r1: "fst (vm_get_record K vm x1) = Some rec" using K rec x1(2) by (simp add: answers_def)
  have sd: "fst (xen_utils_get_domain_from_uuid K u (RESET_XEN_ERROR K x)) = Some (vm, rec)"
    by (rule domain_from_uuid_found [OF K uuid rec])
  from arg show ?thesis
  proof
    assume "argsin ''AffectedSystem'' = (CMPI_RC_OK, Some (A_string u))"
    then show ?thesis using u x1 r1
      by (cases "vm_get_record K vm x1") (simp add: xen_utils_get_affectedsystem_def GetArgument_def)
  next
    assume "argsin ''AffectedSystem'' = (CMPI_RC_OK, Some (A_ref (Some p))) \<and> get_key p ''Name'' = (CMPI_RC_OK, Some (A_string u))"
    then show ?thesis using sd
      by (cases "xen_utils_get_domain_from_uuid K u (RESET_XEN_ERROR K x)")
        (simp add: xen_utils_get_affectedsystem_def GetArgument_def xen_utils_get_domain_from_sd_OP_def)
  qed
qed

end
