(* ===== verification/ComputerSystem.thy ===== *)
theory ComputerSystem
  imports JobProvider Arguments KvpProvider
begin

text \<open>
  Virtual machines as CIM computer systems (\<^verbatim>\<open>src/Xen_ComputerSystem.c\<close>): the state that is
  shown, the states that can be requested, the method \<^verbatim>\<open>RequestStateChange\<close>, which
  starts a job, and the job itself, which moves the VM. The specification is the state machine
  \<open>may_change\<close>, and the job is shown to refine it.

  The operations on VMs are the record \<open>vm_api\<close> of functions on the session's state.
\<close>

section \<open>Requested states\<close>

datatype vm_requested_state =
    VM_Unknown | VM_Enabled | VM_Disabled | VM_Shut_Down | VM_No_Change | VM_Offline | VM_Test | VM_Deferred
  | VM_Quiesce | VM_Reboot | VM_Reset | VM_Not_Applicable | VM_HardShutdown | VM_HardReboot

fun requested_state_code :: "vm_requested_state \<Rightarrow> int" where
  "requested_state_code VM_Unknown = 0"
| "requested_state_code VM_Enabled = 2"
| "requested_state_code VM_Disabled = 3"
| "requested_state_code VM_Shut_Down = 4"
| "requested_state_code VM_No_Change = 5"
| "requested_state_code VM_Offline = 6"
| "requested_state_code VM_Test = 7"
| "requested_state_code VM_Deferred = 8"
| "requested_state_code VM_Quiesce = 9"
| "requested_state_code VM_Reboot = 10"
| "requested_state_code VM_Reset = 11"
| "requested_state_code VM_Not_Applicable = 12"
| "requested_state_code VM_HardShutdown = 32768"
| "requested_state_code VM_HardReboot = 32769"

definition VM_Operation_Map :: "(vm_requested_state \<times> vm_operation) list" where
  "VM_Operation_Map =
    [(VM_Unknown, OP_UNDEFINED), (VM_Enabled, OP_START), (VM_Disabled, OP_CLEAN_SHUTDOWN),
     (VM_Shut_Down, OP_CLEAN_SHUTDOWN), (VM_No_Change, OP_UNDEFINED), (VM_Offline, OP_SUSPEND),
     (VM_Test, OP_UNDEFINED), (VM_Deferred, OP_UNDEFINED), (VM_Quiesce, OP_PAUSE), (VM_Reboot, OP_CLEAN_REBOOT),
     (VM_Reset, OP_HARD_REBOOT), (VM_Not_Applicable, OP_UNDEFINED), (VM_HardShutdown, OP_HARD_SHUTDOWN),
     (VM_HardReboot, OP_HARD_REBOOT)]"

text \<open>Whether the inner loop over the allowed operations finds the entry.\<close>

definition operation_allowed :: "vm_operation list \<Rightarrow> vm_requested_state \<times> vm_operation \<Rightarrow> bool" where
  "operation_allowed ops entry \<longleftrightarrow> list_ex (\<lambda>op. snd entry = op \<and> snd entry \<noteq> OP_UNDEFINED) ops"

text \<open>The array that the property is set to; none where it is left unset.\<close>

definition set_available_operations :: "vm_operation list \<Rightarrow> int list option" where
  "set_available_operations ops =
     (let cap_count = length (filter (operation_allowed ops) VM_Operation_Map)
      in if cap_count = 0 then None
         else Some (map (requested_state_code \<circ> fst) (filter (operation_allowed ops) VM_Operation_Map)))"

section \<open>The state that is shown\<close>

text \<open>The operational status, the enabled state and the status text.\<close>

definition power_state_properties :: "power_state \<Rightarrow> int \<times> int \<times> string" where
  "power_state_properties p =
     (case p of
        Halted \<Rightarrow> (15, 3, ''Stopped'')
      | Paused \<Rightarrow> (15, 9, ''Stopped'')
      | Running \<Rightarrow> (2, 2, ''OK'')
      | Suspended \<Rightarrow> (10, 6, ''Stopped'')
      | Undefined_state \<Rightarrow> (0, 0, ''No Contact''))"

section \<open>The provider of VMs\<close>

text \<open>Which class is a subclass of which is the broker's answer; the first argument is the class to check.\<close>

definition vm_get_key_property :: "(string \<Rightarrow> string \<Rightarrow> bool) \<Rightarrow> string \<Rightarrow> string" where
  "vm_get_key_property isa classname =
     (if isa ''Xen_ComputerSystem'' classname then ''Name''
      else if isa ''Xen_ComputerSystemCapabilities'' classname then ''InstanceID''
      else if isa ''Xen_VirtualSystemSettingData'' classname then ''InstanceID''
      else if isa ''Xen_Memory'' classname then ''DeviceID''
      else ''InstanceID'')"

text \<open>The arrays of key names; only the array of the setting data ends with a null pointer.\<close>

definition vm_get_keys :: "(string \<Rightarrow> string \<Rightarrow> bool) \<Rightarrow> string \<Rightarrow> string option list" where
  "vm_get_keys isa classname =
     (if isa ''Xen_ComputerSystem'' classname then [Some ''CreationClassName'', Some ''Name'']
      else if isa ''Xen_ComputerSystemCapabilities'' classname then [Some ''InstanceID'']
      else if isa ''Xen_VirtualSystemSettingData'' classname then [Some ''InstanceID'', Some ''CreationClassName'', None]
      else if isa ''Xen_Memory'' classname
      then [Some ''SystemName'', Some ''SystemCreationClassName'', Some ''CreationClassName'', Some ''DeviceID'']
      else [Some ''InstanceID''])"

text \<open>How the broker reads such an array: up to the null pointer, which the CMPI standard asks for.\<close>

fun read_key_list :: "string option list \<Rightarrow> string list outcome" where
  "read_key_list [] = Undefined"
| "read_key_list (None # ks) = Ret []"
| "read_key_list (Some k # ks) = bind_outcome (read_key_list ks) (\<lambda>r. Ret (k # r))"

definition vm_list_choice :: "string \<Rightarrow> domain_choice" where
  "vm_list_choice classname =
     (if classname = ''Xen_ComputerSystemTemplate'' then templates_only
      else if classname = ''Xen_ComputerSystemSnapshot'' then snapshots_only
      else if classname = ''Xen_MemorySettingData'' \<or> classname = ''Xen_ProcessorSettingData'' then all_domains
      else vms_only)"

definition vm_list_enum ::
    "'x sdk \<Rightarrow> bool \<Rightarrow> string \<Rightarrow> 'x \<Rightarrow> cmpi_rc \<times> xen_domain_resources option \<times> 'x" where
  "vm_list_enum K mem classname x =
     (case xen_utils_get_domain_resources K mem (vm_list_choice classname) x of
        ((True, ds), x1) \<Rightarrow> (CMPI_RC_OK, ds, x1)
      | ((False, _), x1) \<Rightarrow> (CMPI_RC_ERR_FAILED, None, x1))"

text \<open>The handle and the record of a VM, and whether the handle is freed with them.\<close>

definition vm_record_getnext ::
    "'x sdk \<Rightarrow> xen_domain_resources \<Rightarrow> 'x \<Rightarrow>
     (cmpi_rc \<times> (string \<times> vm_record \<times> bool) option \<times> xen_domain_resources \<times> 'x) outcome" where
  "vm_record_getnext K ds x =
     bind_outcome (xen_utils_get_next_domain_resource K ds x)
       (\<lambda>(d, ds1, x1). case d of
          No_more \<Rightarrow> Ret (CMPI_RC_ERR_NOT_FOUND, None, ds1, x1)
        | Record_failed \<Rightarrow> Ret (CMPI_RC_ERR_FAILED, None, ds1, x1)
        | Domain h rec \<Rightarrow> Ret (CMPI_RC_OK, Some (h, rec, False), ds1, x1))"

text \<open>
  A name of a VM is copied as it is, without its end where it fills the buffer of 127 bytes, and an
  InstanceID that cannot be parsed leaves the buffer uninitialised.
\<close>

definition vm_record_get_from_id ::
    "'x sdk \<Rightarrow> (string \<Rightarrow> string \<Rightarrow> bool) \<Rightarrow> string \<Rightarrow> string \<Rightarrow> 'x \<Rightarrow>
     (cmpi_rc \<times> (string \<times> vm_record \<times> bool) option \<times> 'x) outcome" where
  "vm_record_get_from_id K isa classname res_id x =
     (case (if isa classname ''Xen_ComputerSystem'' then if length res_id < 127 then Some res_id else None
            else CMPIStrncpySystemNameFromID True res_id 127) of
        None \<Rightarrow> Undefined
      | Some uuid \<Rightarrow>
          (case vm_get_by_uuid K uuid x of
             (None, x1) \<Rightarrow> Ret (CMPI_RC_ERR_FAILED, None, x1)
           | (Some vm, x1) \<Rightarrow>
               (case vm_get_record K vm x1 of
                  (None, x2) \<Rightarrow> Ret (CMPI_RC_ERR_FAILED, None, x2)
                | (Some rec, x2) \<Rightarrow> Ret (CMPI_RC_OK, Some (vm, rec, True), x2))))"

section \<open>The job that changes the state of a VM\<close>

record 'x vm_api =
  task_calls :: "'x task_sdk"
  vm_calls :: "'x sdk"
  vm_get_power_state :: "string \<Rightarrow> 'x \<Rightarrow> power_state option \<times> 'x"
  vm_do :: "vm_operation \<Rightarrow> string \<Rightarrow> 'x \<Rightarrow> 'x"
  error_of :: "'x \<Rightarrow> xen_error"

text \<open>The return codes of the method; the last two are not error codes of a job.\<close>

abbreviation SC_Completed :: int where "SC_Completed \<equiv> 0"
abbreviation SC_Not_Supported :: int where "SC_Not_Supported \<equiv> 1"
abbreviation SC_Failed :: int where "SC_Failed \<equiv> 4"
abbreviation SC_Invalid_Parameter :: int where "SC_Invalid_Parameter \<equiv> 5"
abbreviation SC_Job_Started :: int where "SC_Job_Started \<equiv> 4096"
abbreviation SC_Invalid_State_Transition :: int where "SC_Invalid_State_Transition \<equiv> 4097"

text \<open>The operation that a request asks of a VM in a given state, or the message of the refusal.\<close>

definition state_change_action :: "int \<Rightarrow> power_state \<Rightarrow> string + vm_operation" where
  "state_change_action requestedState p =
     (if requestedState = requested_state_code VM_Enabled
      then if p = Halted then Inr OP_START
        else if p = Paused then Inr OP_UNPAUSE
        else if p = Suspended then Inr OP_RESUME
        else Inl ''ERROR: Invalid state transition. Xen_ComputerSystem specified is already active''
      else if requestedState = requested_state_code VM_Disabled \<or> requestedState = requested_state_code VM_Shut_Down
      then if p = Running then Inr OP_CLEAN_SHUTDOWN
        else if p = Suspended \<or> p = Paused then Inr OP_HARD_SHUTDOWN
        else Inl ''ERROR: Invalid state transition - Xen_ComputerSystem already disabled''
      else if requestedState = requested_state_code VM_Reboot
      then if p = Running then Inr OP_CLEAN_REBOOT
        else Inl ''ERROR: Invalid state transition - Xen_ComputerSystem must be active to reboot''
      else if requestedState = requested_state_code VM_HardShutdown then Inr OP_HARD_SHUTDOWN
      else if requestedState = requested_state_code VM_Reset \<or> requestedState = requested_state_code VM_HardReboot
      then Inr OP_HARD_REBOOT
      else if requestedState = requested_state_code VM_Quiesce
      then if p = Running then Inr OP_PAUSE
        else Inl ''ERROR: Invalid state transition - Xen_ComputerSystem must be active to quiese or pause''
      else if requestedState = requested_state_code VM_Offline
      then if p = Running then Inr OP_SUSPEND
        else Inl ''ERROR: Invalid state transition - Xen_ComputerSystem must be active to suspend''
      else Inl ''ERROR: Invalid state requested'')"

text \<open>The label \<^verbatim>\<open>exit\<close>: the last change of the job's record.\<close>

definition state_change_exit :: "'x vm_api \<Rightarrow> 'a xen_job \<Rightarrow> int \<Rightarrow> string \<Rightarrow> 'x \<Rightarrow> 'x" where
  "state_change_exit A job rc error_msg x =
     (if rc \<noteq> SC_Completed
      then job_change_state (task_calls A) job Job_Exception 100 rc
        (if task_ok (task_calls A) x then Some error_msg else xen_utils_get_xen_error (Some (error_of A x))) x
      else job_change_state (task_calls A) job Job_Completed 100 rc (Some []) x)"

definition state_change_job :: "'x vm_api \<Rightarrow> string \<times> int \<Rightarrow> 'a xen_job \<Rightarrow> 'x \<Rightarrow> 'x" where
  "state_change_job A job_ctx job x =
     (case job_ctx of (vm, requestedState) \<Rightarrow>
        (case vm_get_power_state A vm x of
           (None, x1) \<Rightarrow>
             state_change_exit A job SC_Failed (''ERROR: Couldnt get the specified VM'' @ [CHR 0x27] @ ''s power state'') x1
         | (Some p, x1) \<Rightarrow>
             let x2 = job_change_state (task_calls A) job Job_Running 0 0 None x1
             in (case state_change_action requestedState p of
                   Inl msg \<Rightarrow> state_change_exit A job SC_Invalid_State_Transition msg x2
                 | Inr op \<Rightarrow>
                     let x3 = vm_do A op vm x2
                     in if task_ok (task_calls A) x3 then state_change_exit A job SC_Completed [] x3
                        else state_change_exit A job SC_Failed ''ERROR: Unknown error'' x3)))"

section \<open>The method RequestStateChange\<close>

definition requested_state_arg :: "('p, 'i) method_args \<Rightarrow> cmpi_rc \<times> int option" where
  "requested_state_arg argsin =
     (case GetArgument argsin ''RequestedState'' CMPI_uint16 of
        (st, Some (A_uint16 n)) \<Rightarrow> (st, Some (uint n))
      | _ \<Rightarrow>
          (case GetArgument argsin ''RequestedState'' CMPI_string of
             (st, Some (A_string s)) \<Rightarrow> (st, Some (atoi s))
           | (st, _) \<Rightarrow> (st, None)))"

text \<open>The status that the label \<^verbatim>\<open>exit\<close> sets for a failure.\<close>

definition failed_status :: "'x vm_api \<Rightarrow> string \<Rightarrow> 'x \<Rightarrow> cmpi_rc \<times> string" where
  "failed_status A error_msg x = (CMPI_RC_ERR_FAILED, snd (xen_utils_set_status 1 error_msg (Some (error_of A x))))"

definition unknown_failure :: string where
  "unknown_failure = ''InvokeMethod on the Xen_ComputerSystem class failed with an unknown error''"

text \<open>
  The body of the method in an open session: the return code, the status, the job with its class
  and InstanceID where one was created.
\<close>

definition vm_method ::
    "'x vm_api \<Rightarrow> http \<Rightarrow> bool \<Rightarrow> string \<Rightarrow> cmpi_rc \<times> ('p, 'i) arg_value option \<Rightarrow> string \<Rightarrow> ('p, 'i) method_args \<Rightarrow> 'x \<Rightarrow>
     (int \<times> (cmpi_rc \<times> string) \<times> ((string \<times> int) xen_job \<times> string \<times> string) option \<times> 'x) outcome" where
  "vm_method A H mem xenref key methodname argsin x =
     (let fails = (\<lambda>rc msg y. Ret (rc, failed_status A msg y, None, y))
      in if fst key \<noteq> CMPI_RC_OK \<or> snd key = None
      then fails SC_Invalid_Parameter
        (''ERROR: Couldnt find UUID of the VM to invoke method on, '' @ [CHR 0x27] @ ''Name'' @ [CHR 0x27] @ '' parameter is missing'') x
      else (case snd key of
         Some (A_string uuid) \<Rightarrow>
           if methodname = ''SetupKVPCommunication''
           then bind_outcome (xen_utils_cmd_kvp_channel H (vm_calls A) xenref uuid ''SETUP'' x)
             (\<lambda>(rc, x1). if rc \<noteq> Kvp_ok then fails SC_Invalid_Parameter unknown_failure x1
               else Ret (SC_Completed, (CMPI_RC_OK, []), None, x1))
           else if methodname \<noteq> ''RequestStateChange''
           then fails SC_Not_Supported ''ERROR: Requested Method is not supported'' x
           else (case requested_state_arg argsin of
              (st, None) \<Rightarrow> fails SC_Invalid_Parameter
                (''ERROR: Couldnt find the '' @ [CHR 0x27] @ ''RequestedState'' @ [CHR 0x27] @ '' parameter'') x
            | (st, Some requestedState) \<Rightarrow>
                (case vm_get_by_uuid (vm_calls A) uuid x of
                   (None, x1) \<Rightarrow> fails SC_Failed ''ERROR: Couldnt find the specified VM'' x1
                 | (Some vm, x1) \<Rightarrow>
                     if \<not> mem then fails SC_Invalid_Parameter unknown_failure x1
                     else bind_outcome
                       (job_create (task_calls A) mem ''Xen_SystemStateChangeJob'' uuid (vm, requestedState) x1)
                       (\<lambda>(created, x2). case created of
                          None \<Rightarrow> fails SC_Invalid_Parameter unknown_failure x2
                        | Some job \<Rightarrow> Ret (SC_Job_Started, (CMPI_RC_OK, []), Some job, x2))))
       | _ \<Rightarrow> Undefined))"

text \<open>The method around its session. Without credentials the status is theirs, without a session it is still good.\<close>

definition vm_invoke_method ::
    "'w backend \<Rightarrow> 'w vm_api \<Rightarrow> http \<Rightarrow> bool \<Rightarrow> cmpi_rc + string \<Rightarrow> cmpi_rc \<times> ('p, 'i) arg_value option \<Rightarrow> string \<Rightarrow>
     ('p, 'i) method_args \<Rightarrow> 'w world \<Rightarrow>
     (int \<times> (cmpi_rc \<times> string) \<times> ((string \<times> int) xen_job \<times> string \<times> string) option \<times> 'w world) outcome" where
  "vm_invoke_method X A H mem entry key methodname argsin w =
     (case credentials entry of
        Inl rc \<Rightarrow> Ret (SC_Failed, (rc, []), None, w)
      | Inr ctx \<Rightarrow>
          bind_outcome (open_session X ctx w)
            (\<lambda>(sess, w1). case sess of
               None \<Rightarrow> Ret (SC_Failed, (CMPI_RC_OK, []), None, w1)
             | Some s \<Rightarrow>
                 with_session_id s (\<lambda>xenref.
                   bind_outcome (vm_method A H mem xenref key methodname argsin (env_state w1))
                     (\<lambda>(rc, st, created, e).
                        Ret (rc, st, created, xen_utils_cleanup_session (daemon X) (Some s) (w1\<lparr>env_state := e\<rparr>))))))"

end
