(* ===== verification/StateChange.thy ===== *)
theory StateChange
  imports ComputerSystem
begin

text \<open>
  The state machine of VMs, and the proof that the method \<^verbatim>\<open>RequestStateChange\<close> with its job
  refines it. The service of VMs that the SDK documents is the predicate \<open>vm_service\<close>; a daemon with one
  task and one VM satisfies it.
\<close>

section \<open>The specification\<close>

text \<open>
  What the operations of the daemon do to the power state of a VM, as its documentation has it;
  an operation that is not listed for a state is refused.
\<close>

definition power_effect :: "vm_operation \<Rightarrow> power_state \<Rightarrow> power_state option" where
  "power_effect op p =
     (case op of
        OP_START \<Rightarrow> if p = Halted then Some Running else None
      | OP_CLEAN_SHUTDOWN \<Rightarrow> if p = Running then Some Halted else None
      | OP_HARD_SHUTDOWN \<Rightarrow> if p = Running \<or> p = Paused \<or> p = Suspended then Some Halted else None
      | OP_CLEAN_REBOOT \<Rightarrow> if p = Running then Some Running else None
      | OP_HARD_REBOOT \<Rightarrow> if p = Running \<or> p = Paused then Some Running else None
      | OP_PAUSE \<Rightarrow> if p = Running then Some Paused else None
      | OP_UNPAUSE \<Rightarrow> if p = Paused then Some Running else None
      | OP_SUSPEND \<Rightarrow> if p = Running then Some Suspended else None
      | OP_RESUME \<Rightarrow> if p = Suspended then Some Running else None
      | _ \<Rightarrow> None)"

text \<open>The state machine of the virtual system profile, with the changes that Xen adds.\<close>

inductive may_change :: "int \<Rightarrow> power_state \<Rightarrow> power_state \<Rightarrow> bool" where
  enable: "p = Halted \<or> p = Paused \<or> p = Suspended \<Longrightarrow> may_change (requested_state_code VM_Enabled) p Running"
| disable: "p = Running \<or> p = Paused \<or> p = Suspended \<Longrightarrow> may_change (requested_state_code VM_Disabled) p Halted"
| shut_down: "p = Running \<or> p = Paused \<or> p = Suspended \<Longrightarrow> may_change (requested_state_code VM_Shut_Down) p Halted"
| reboot: "may_change (requested_state_code VM_Reboot) Running Running"
| hard_shutdown: "p = Running \<or> p = Paused \<or> p = Suspended \<Longrightarrow> may_change (requested_state_code VM_HardShutdown) p Halted"
| reset: "p = Running \<or> p = Paused \<Longrightarrow> may_change (requested_state_code VM_Reset) p Running"
| hard_reboot: "p = Running \<or> p = Paused \<Longrightarrow> may_change (requested_state_code VM_HardReboot) p Running"
| quiesce: "may_change (requested_state_code VM_Quiesce) Running Paused"
| offline: "may_change (requested_state_code VM_Offline) Running Suspended"

inductive_cases may_changeE: "may_change r p q"

lemma action_sound:
  "state_change_action r p = Inr op \<Longrightarrow> power_effect op p = Some q \<Longrightarrow> may_change r p q"
  by (auto simp: state_change_action_def power_effect_def split: if_splits
      intro: may_change.intros [simplified])

lemma action_complete:
  "may_change r p q \<Longrightarrow> \<exists>op. state_change_action r p = Inr op \<and> power_effect op p = Some q"
  by (erule may_changeE) (auto simp: state_change_action_def power_effect_def)

lemma may_change_functional: "may_change r p q \<Longrightarrow> may_change r p q' \<Longrightarrow> q = q'"
  using action_complete [of r p q] action_complete [of r p q'] by auto

text \<open>
  The service of VMs beside that of tasks: the two do not disturb each other, a read of the power
  state answers it, an operation has its effect or fails and leaves the VM alone, and a session
  with an error does nothing.
\<close>

definition vm_service ::
    "'x vm_api \<Rightarrow> ('x \<Rightarrow> string \<Rightarrow> task_record option) \<Rightarrow> ('x \<Rightarrow> string \<Rightarrow> power_state option) \<Rightarrow> bool" where
  "vm_service A view pwr \<longleftrightarrow> task_service (task_calls A) view \<and>
     (\<forall>x. pwr (clear_task_error (task_calls A) x) = pwr x) \<and>
     (\<forall>x h x' r. task_get_record (task_calls A) h x = (r, x') \<longrightarrow> pwr x' = pwr x \<and>
        (task_ok (task_calls A) x \<and> view x h = None \<longrightarrow> \<not> task_ok (task_calls A) x')) \<and>
     (\<forall>x h m. pwr (task_set_other_config (task_calls A) h m x) = pwr x) \<and>
     (\<forall>x l d. pwr (snd (task_create (task_calls A) l d x)) = pwr x) \<and>
     (\<forall>x h. pwr (snd (task_get_uuid (task_calls A) h x)) = pwr x) \<and>
     (\<forall>x vm p. task_ok (task_calls A) x \<and> pwr x vm = Some p \<longrightarrow> (\<exists>x'. vm_get_power_state A vm x = (Some p, x') \<and>
        pwr x' = pwr x \<and> view x' = view x \<and> task_ok (task_calls A) x')) \<and>
     (\<forall>x vm op p. task_ok (task_calls A) x \<and> pwr x vm = Some p \<longrightarrow> view (vm_do A op vm x) = view x \<and>
        (pwr (vm_do A op vm x) = pwr x \<and> \<not> task_ok (task_calls A) (vm_do A op vm x) \<or>
         (\<exists>q. power_effect op p = Some q \<and> pwr (vm_do A op vm x) = (pwr x)(vm \<mapsto> q) \<and>
            task_ok (task_calls A) (vm_do A op vm x)))) \<and>
     (\<forall>x vm op. \<not> task_ok (task_calls A) x \<longrightarrow> vm_do A op vm x = x)"

lemma vm_serviceD:
  assumes "vm_service A view pwr"
  shows "task_service (task_calls A) view"
    and "pwr (clear_task_error (task_calls A) x) = pwr x"
    and "task_get_record (task_calls A) h x = (r, x') \<Longrightarrow> pwr x' = pwr x"
    and "task_get_record (task_calls A) h x = (r, x') \<Longrightarrow> task_ok (task_calls A) x \<Longrightarrow> view x h = None \<Longrightarrow>
      \<not> task_ok (task_calls A) x'"
    and "pwr (task_set_other_config (task_calls A) h m x) = pwr x"
    and "task_ok (task_calls A) x \<Longrightarrow> pwr x vm = Some p \<Longrightarrow> \<exists>x'. vm_get_power_state A vm x = (Some p, x') \<and>
      pwr x' = pwr x \<and> view x' = view x \<and> task_ok (task_calls A) x'"
    and "task_ok (task_calls A) x \<Longrightarrow> pwr x vm = Some p \<Longrightarrow> view (vm_do A op vm x) = view x \<and>
        (pwr (vm_do A op vm x) = pwr x \<and> \<not> task_ok (task_calls A) (vm_do A op vm x) \<or>
         (\<exists>q. power_effect op p = Some q \<and> pwr (vm_do A op vm x) = (pwr x)(vm \<mapsto> q) \<and>
            task_ok (task_calls A) (vm_do A op vm x)))"
    and "\<not> task_ok (task_calls A) x \<Longrightarrow> vm_do A op vm x = x"
    and "pwr (snd (task_create (task_calls A) l d x)) = pwr x"
    and "pwr (snd (task_get_uuid (task_calls A) h x)) = pwr x"
proof -
  note r0 = assms [unfolded vm_service_def]
  note r1 = conjunct2 [OF r0] note r2 = conjunct2 [OF r1] note r3 = conjunct2 [OF r2] note r4 = conjunct2 [OF r3]
  note r5 = conjunct2 [OF r4] note r6 = conjunct2 [OF r5] note r7 = conjunct2 [OF r6]
  show "task_service (task_calls A) view" by (rule conjunct1 [OF r0])
  show "pwr (clear_task_error (task_calls A) x) = pwr x" by (rule conjunct1 [OF r1, rule_format])
  show "task_get_record (task_calls A) h x = (r, x') \<Longrightarrow> pwr x' = pwr x"
    by (drule conjunct1 [OF r2, rule_format]) (rule conjunct1)
  show "task_get_record (task_calls A) h x = (r, x') \<Longrightarrow> task_ok (task_calls A) x \<Longrightarrow> view x h = None \<Longrightarrow>
      \<not> task_ok (task_calls A) x'"
    by (drule conjunct1 [OF r2, rule_format]) simp
  show "pwr (task_set_other_config (task_calls A) h m x) = pwr x" by (rule conjunct1 [OF r3, rule_format])
  show "pwr (snd (task_create (task_calls A) l d x)) = pwr x" by (rule conjunct1 [OF r4, rule_format])
  show "pwr (snd (task_get_uuid (task_calls A) h x)) = pwr x" by (rule conjunct1 [OF r5, rule_format])
  show "task_ok (task_calls A) x \<Longrightarrow> pwr x vm = Some p \<Longrightarrow> \<exists>x'. vm_get_power_state A vm x = (Some p, x') \<and>
      pwr x' = pwr x \<and> view x' = view x \<and> task_ok (task_calls A) x'"
    by (rule conjunct1 [OF r6, rule_format, OF conjI])
  show "task_ok (task_calls A) x \<Longrightarrow> pwr x vm = Some p \<Longrightarrow> view (vm_do A op vm x) = view x \<and>
        (pwr (vm_do A op vm x) = pwr x \<and> \<not> task_ok (task_calls A) (vm_do A op vm x) \<or>
         (\<exists>q. power_effect op p = Some q \<and> pwr (vm_do A op vm x) = (pwr x)(vm \<mapsto> q) \<and>
            task_ok (task_calls A) (vm_do A op vm x)))"
    by (rule conjunct1 [OF r7, rule_format, OF conjI])
  show "\<not> task_ok (task_calls A) x \<Longrightarrow> vm_do A op vm x = x"
    by (rule conjunct2 [OF r7, rule_format])
qed

lemma reset_power: "vm_service A view pwr \<Longrightarrow> pwr (reset_task_error (task_calls A) x) = pwr x"
  by (simp add: reset_task_error_def vm_serviceD(2))

lemma change_state_power:
  assumes "vm_service A view pwr"
  shows "pwr (job_change_state (task_calls A) job st pc err descr x) = pwr x"
  using vm_serviceD(3) [OF assms] vm_serviceD(5) [OF assms] reset_power [OF assms]
  by (auto simp: job_change_state_def Let_def split: prod.splits option.splits)

lemma change_state_ok:
  assumes T: "task_service T view" and r: "view x (task_handle job) = Some rec"
  shows "task_ok T (job_change_state T job st pc err descr x)"
proof -
  let ?x = "reset_task_error T x"
  have x: "task_ok T ?x" "view ?x = view x" using reset_task [OF T] by auto
  obtain x1 where "task_get_record T (task_handle job) ?x = (Some rec, x1)" "view x1 = view x" "task_ok T x1"
    using task_serviceD(2) [OF T x(1), of "task_handle job"] x(2) r by auto
  then show ?thesis
    using task_serviceD(3) [OF T, of x1 "task_handle job" rec] r by (simp add: job_change_state_def Let_def)
qed

text \<open>A job without a record: the change of state fails, and leaves an error in the session.\<close>

lemma change_state_lost:
  assumes V: "vm_service A view pwr" and r: "view x (task_handle job) = None"
  shows "view (job_change_state (task_calls A) job st pc err descr x) = view x \<and>
    \<not> task_ok (task_calls A) (job_change_state (task_calls A) job st pc err descr x)"
proof -
  let ?T = "task_calls A" let ?x = "reset_task_error ?T x"
  note T = vm_serviceD(1) [OF V]
  have x: "task_ok ?T ?x" "view ?x = view x" using reset_task [OF T] by auto
  obtain x1 where g: "task_get_record ?T (task_handle job) ?x = (None, x1)" "view x1 = view x"
    using task_serviceD(2) [OF T x(1), of "task_handle job"] x(2) r by auto
  then have "\<not> task_ok ?T x1" using vm_serviceD(4) [OF V g(1) x(1)] x(2) r by simp
  with g show ?thesis by (simp add: job_change_state_def)
qed
section \<open>The job refines the specification\<close>

lemma state_change_exit_spec:
  assumes V: "vm_service A view pwr" and r: "view x (task_handle job) = Some rec" and rc: "\<bar>rc\<bar> < 2 ^ 31"
  obtains m where "view (state_change_exit A job rc msg x) = (view x)(task_handle job \<mapsto> rec\<lparr>task_config := m\<rparr>)"
    and "job_numbers (rec\<lparr>task_config := m\<rparr>) (if rc = SC_Completed then Job_Completed else Job_Exception) 100 rc"
    and "pwr (state_change_exit A job rc msg x) = pwr x" and "task_ok (task_calls A) (state_change_exit A job rc msg x)"
proof -
  note T = vm_serviceD(1) [OF V]
  define st where "st = (if rc = SC_Completed then Job_Completed else Job_Exception)"
  obtain descr where e: "state_change_exit A job rc msg x = job_change_state (task_calls A) job st 100 rc descr x"
    by (cases "rc = SC_Completed") (auto simp: state_change_exit_def st_def)
  obtain m where "view (job_change_state (task_calls A) job st 100 rc descr x) = (view x)(task_handle job \<mapsto> rec\<lparr>task_config := m\<rparr>)"
    and "job_numbers (rec\<lparr>task_config := m\<rparr>) st 100 rc"
    by (rule change_state_numbers [OF T r _ rc, of 100 st descr]) simp
  then show thesis using that [of m] change_state_ok [OF T r] by (simp add: e st_def change_state_power [OF V])
qed

text \<open>A daemon that does what its documentation lists.\<close>

definition obeys :: "'x vm_api \<Rightarrow> ('x \<Rightarrow> string \<Rightarrow> power_state option) \<Rightarrow> string \<Rightarrow> bool" where
  "obeys A pwr vm \<longleftrightarrow> (\<forall>op y p. task_ok (task_calls A) y \<and> pwr y vm = Some p \<and> power_effect op p \<noteq> None \<longrightarrow>
     task_ok (task_calls A) (vm_do A op vm y))"

lemma state_change_result:
  fixes r :: int
  assumes V: "vm_service A view pwr" and x: "task_ok (task_calls A) x"
    and rec: "view x (task_handle job) = Some rec" and p: "pwr x vm = Some p"
  defines "y \<equiv> state_change_job A (vm, r) job x"
  obtains m where "view y = (view x)(task_handle job \<mapsto> rec\<lparr>task_config := m\<rparr>)" and "task_ok (task_calls A) y"
    and "(\<exists>q. may_change r p q \<and> pwr y = (pwr x)(vm \<mapsto> q) \<and> job_numbers (rec\<lparr>task_config := m\<rparr>) Job_Completed 100 SC_Completed) \<or>
      pwr y = pwr x \<and> (\<exists>rc \<in> {SC_Failed, SC_Invalid_State_Transition}. job_numbers (rec\<lparr>task_config := m\<rparr>) Job_Exception 100 rc) \<and>
      ((\<exists>q. may_change r p q) \<longrightarrow> \<not> obeys A pwr vm)"
proof -
  note T = vm_serviceD(1) [OF V]
  obtain x1 where x1: "vm_get_power_state A vm x = (Some p, x1)" "pwr x1 = pwr x" "view x1 = view x"
    using vm_serviceD(6) [OF V x p] by blast
  let ?x2 = "job_change_state (task_calls A) job Job_Running 0 0 None x1"
  obtain m2 where v2: "view ?x2 = (view x)(task_handle job \<mapsto> rec\<lparr>task_config := m2\<rparr>)"
    using change_state_numbers [OF T, of x1 job rec 0 0 Job_Running None] x1(3) rec by auto
  have p2: "pwr ?x2 = pwr x" by (simp add: change_state_power [OF V] x1(2))
  have ok2: "task_ok (task_calls A) ?x2" using change_state_ok [OF T, of x1 job rec] x1(3) rec by simp
  show thesis
  proof (cases "state_change_action r p")
    case (Inl msg)
    obtain m where "view (state_change_exit A job SC_Invalid_State_Transition msg ?x2) = (view ?x2)(task_handle job \<mapsto> rec\<lparr>task_config := m\<rparr>)"
      "job_numbers (rec\<lparr>task_config := m\<rparr>) Job_Exception 100 SC_Invalid_State_Transition"
      "pwr (state_change_exit A job SC_Invalid_State_Transition msg ?x2) = pwr ?x2"
      "task_ok (task_calls A) (state_change_exit A job SC_Invalid_State_Transition msg ?x2)"
      using state_change_exit_spec [OF V, of ?x2 job "rec\<lparr>task_config := m2\<rparr>" SC_Invalid_State_Transition msg] v2 by auto
    moreover have "\<not> may_change r p q" for q using action_complete [of r p q] Inl by auto
    ultimately show thesis
      using x1 Inl v2 p2 by (intro that [of m]) (simp_all add: y_def state_change_job_def)
  next
    case (Inr op)
    let ?x3 = "vm_do A op vm ?x2"
    have v3: "view ?x3 = (view x)(task_handle job \<mapsto> rec\<lparr>task_config := m2\<rparr>)"
      and eff: "pwr ?x3 = pwr x \<and> \<not> task_ok (task_calls A) ?x3 \<or>
        (\<exists>q. power_effect op p = Some q \<and> pwr ?x3 = (pwr x)(vm \<mapsto> q) \<and> task_ok (task_calls A) ?x3)"
      using vm_serviceD(7) [OF V ok2, of vm p op] p v2 p2 by auto
    show thesis
    proof (cases "task_ok (task_calls A) ?x3")
      case True
      obtain m where "view (state_change_exit A job SC_Completed [] ?x3) = (view ?x3)(task_handle job \<mapsto> rec\<lparr>task_config := m\<rparr>)"
        "job_numbers (rec\<lparr>task_config := m\<rparr>) Job_Completed 100 SC_Completed" "pwr (state_change_exit A job SC_Completed [] ?x3) = pwr ?x3"
        "task_ok (task_calls A) (state_change_exit A job SC_Completed [] ?x3)"
        using state_change_exit_spec [OF V, of ?x3 job "rec\<lparr>task_config := m2\<rparr>" SC_Completed "[]"] v3 by auto
      then show thesis
        using x1 Inr v3 eff True action_sound [OF Inr] by (intro that [of m]) (auto simp: y_def state_change_job_def Let_def)
    next
      case False
      obtain m where "view (state_change_exit A job SC_Failed ''ERROR: Unknown error'' ?x3) = (view ?x3)(task_handle job \<mapsto> rec\<lparr>task_config := m\<rparr>)"
        "job_numbers (rec\<lparr>task_config := m\<rparr>) Job_Exception 100 SC_Failed" "pwr (state_change_exit A job SC_Failed ''ERROR: Unknown error'' ?x3) = pwr ?x3"
        "task_ok (task_calls A) (state_change_exit A job SC_Failed ''ERROR: Unknown error'' ?x3)"
        using state_change_exit_spec [OF V, of ?x3 job "rec\<lparr>task_config := m2\<rparr>" SC_Failed "''ERROR: Unknown error''"] v3 by auto
      moreover have "\<not> obeys A pwr vm" if "may_change r p q" for q
      proof -
        have "power_effect op p = Some q" using action_complete [OF that] Inr by simp
        then show ?thesis using False ok2 p2 p unfolding obeys_def by (metis option.distinct(1))
      qed
      ultimately show thesis
        using x1 Inr v3 eff False by (intro that [of m]) (auto simp: y_def state_change_job_def Let_def)
    qed
  qed
qed

text \<open>C1. The job that serves a state change refines the state machine of the profile: it leaves the VM in
  the state that the machine allows for the request and reports completion, or it leaves the VM as it was
  and reports an exception; a request that the machine does not allow always ends in the latter, and
  one that it allows in the former unless the daemon refuses the operation. No other VM and no other
  job is touched.\<close>

theorem state_change_refines:
  assumes "vm_service A view pwr" and "task_ok (task_calls A) x"
    and "view x (task_handle job) = Some rec" and "pwr x vm = Some p"
  shows "\<exists>rec' y. state_change_job A (vm, r) job x = y \<and> view y = (view x)(task_handle job \<mapsto> rec') \<and>
    ((\<exists>q. may_change r p q \<and> pwr y = (pwr x)(vm \<mapsto> q) \<and> job_numbers rec' Job_Completed 100 SC_Completed) \<or>
     pwr y = pwr x \<and> (\<exists>rc \<in> {SC_Failed, SC_Invalid_State_Transition}. job_numbers rec' Job_Exception 100 rc) \<and>
     ((\<exists>q. may_change r p q) \<longrightarrow> \<not> obeys A pwr vm))"
  by (rule state_change_result [OF assms, of r]) blast

text \<open>A job whose record was removed before the worker came to it moves no VM: its first change of
  state fails, and the session refuses the operation.\<close>

lemma killed_job_is_inert:
  assumes V: "vm_service A view pwr" and x: "task_ok (task_calls A) x"
    and gone: "view x (task_handle job) = None" and p: "pwr x vm = Some p"
  shows "view (state_change_job A (vm, r) job x) = view x \<and> pwr (state_change_job A (vm, r) job x) = pwr x"
proof -
  obtain x1 where x1: "vm_get_power_state A vm x = (Some p, x1)" "pwr x1 = pwr x" "view x1 = view x"
    using vm_serviceD(6) [OF V x p] by blast
  let ?x2 = "job_change_state (task_calls A) job Job_Running 0 0 None x1"
  have x2: "view ?x2 = view x" "\<not> task_ok (task_calls A) ?x2" "pwr ?x2 = pwr x"
    using change_state_lost [OF V, of x1 job] gone x1 by (simp_all add: change_state_power [OF V])
  have exit: "view (state_change_exit A job rc msg ?x2) = view x \<and> pwr (state_change_exit A job rc msg ?x2) = pwr x" for rc msg
    using change_state_lost [OF V, of ?x2 job] gone x2 by (simp add: state_change_exit_def change_state_power [OF V])
  show ?thesis
    using x1(1) x2(2) exit vm_serviceD(8) [OF V x2(2)]
    by (simp add: state_change_job_def Let_def split: sum.splits)
qed

section \<open>A daemon with one task and one VM\<close>

text \<open>Task calls on the first part of a state.\<close>

definition lift_tasks :: "'x task_sdk \<Rightarrow> ('x \<times> 'y) task_sdk" where
  "lift_tasks T = \<lparr>task_ok = (\<lambda>s. task_ok T (fst s)),
     set_task_ok = (\<lambda>b s. (set_task_ok T b (fst s), snd s)),
     clear_task_error = (\<lambda>s. (clear_task_error T (fst s), snd s)),
     task_create = (\<lambda>l d s. case task_create T l d (fst s) of (h, x) \<Rightarrow> (h, x, snd s)),
     task_set_other_config = (\<lambda>h m s. (task_set_other_config T h m (fst s), snd s)),
     task_get_uuid = (\<lambda>h s. case task_get_uuid T h (fst s) of (u, x) \<Rightarrow> (u, x, snd s)),
     task_get_record = (\<lambda>h s. case task_get_record T h (fst s) of (r, x) \<Rightarrow> (r, x, snd s)),
     task_get_by_uuid = (\<lambda>u s. case task_get_by_uuid T u (fst s) of (h, x) \<Rightarrow> (h, x, snd s)),
     task_destroy = (\<lambda>h s. (task_destroy T h (fst s), snd s)),
     task_get_all = (\<lambda>s. case task_get_all T (fst s) of (hs, x) \<Rightarrow> (hs, x, snd s)),
     task_get_name_label = (\<lambda>h s. case task_get_name_label T h (fst s) of (n, x) \<Rightarrow> (n, x, snd s))\<rparr>"

lemma lift_service:
  assumes T: "task_service T view"
  shows "task_service (lift_tasks T) (\<lambda>s. view (fst s))"
proof -
  let ?L = "lift_tasks T" let ?v = "\<lambda>s. view (fst s)"
  note simps = lift_tasks_def
  have l1: "task_ok ?L (clear_task_error ?L x) \<and> ?v (clear_task_error ?L x) = ?v x" for x
    using task_serviceD(1) [OF T, of "fst x"] by (simp add: simps)
  have l2: "\<exists>x'. task_get_record ?L h x = (?v x h, x') \<and> ?v x' = ?v x \<and> (?v x h \<noteq> None \<longrightarrow> task_ok ?L x')" if "task_ok ?L x" for x h
    using task_serviceD(2) [OF T, of "fst x" h] that by (auto simp: simps)
  have l3: "task_ok ?L (task_set_other_config ?L h m x) \<and> ?v (task_set_other_config ?L h m x) = (?v x)(h \<mapsto> r\<lparr>task_config := m\<rparr>)"
    if "task_ok ?L x \<and> ?v x h = Some r" for x h m r
    using task_serviceD(3) [OF T, of "fst x" h r m] that by (simp add: simps)
  have l4: "task_ok ?L x' \<and> ?v x h = None \<and> (\<exists>u t. ?v x' = (?v x)(h \<mapsto> \<lparr>task_uuid = u, name_label = l, name_description = d,
      task_config = None, task_created = t\<rparr>) \<and> length u = 36 \<and> CHR ''/'' \<notin> set u \<and> (\<forall>k r. ?v x k = Some r \<longrightarrow> task_uuid r \<noteq> u))"
    if "task_ok ?L x \<and> task_create ?L l d x = (Some h, x')" for x l d h x'
  proof -
    have "task_ok T (fst x)" "task_create T l d (fst x) = (Some h, fst x')"
      using that by (auto simp: simps split: prod.splits)
    from task_serviceD(4) [OF T this] show ?thesis by (simp add: simps)
  qed
  have l5: "\<exists>x'. task_get_uuid ?L h x = (Some (task_uuid r), x') \<and> ?v x' = ?v x \<and> task_ok ?L x'"
    if "task_ok ?L x \<and> ?v x h = Some r" for x h r
    using task_serviceD(5) [OF T, of "fst x" h r] that by (auto simp: simps)
  have l6: "\<exists>x'. task_get_by_uuid ?L (task_uuid r) x = (Some h, x') \<and> ?v x' = ?v x \<and> task_ok ?L x'"
    if "task_ok ?L x \<and> ?v x h = Some r \<and> (\<forall>k q. ?v x k = Some q \<and> task_uuid q = task_uuid r \<longrightarrow> k = h)" for x h r
  proof -
    have "\<exists>y. task_get_by_uuid T (task_uuid r) (fst x) = (Some h, y) \<and> view y = view (fst x) \<and> task_ok T y"
      by (rule task_serviceD(6) [OF T]) (use that in \<open>auto simp: simps\<close>)
    then show ?thesis by (auto simp: simps)
  qed
  have l7: "\<exists>x'. task_get_name_label ?L h x = (map_option name_label (?v x h), x') \<and> ?v x' = ?v x" if "task_ok ?L x" for x h
    using task_serviceD(7) [OF T, of "fst x" h] that by (auto simp: simps)
  show ?thesis
    unfolding task_service_def
    by (rule conjI, rule allI, rule l1, rule conjI, (intro allI impI, rule l2, assumption),
        rule conjI, (intro allI impI, rule l3, assumption), rule conjI, (intro allI impI, rule l4, assumption),
        rule conjI, (intro allI impI, rule l5, assumption), rule conjI, (intro allI impI, rule l6, assumption),
        intro allI impI, rule l7, assumption)
qed

definition one_vm_api :: "((task_record option \<times> bool) \<times> power_state) vm_api" where
  "one_vm_api = \<lparr>task_calls = lift_tasks one_task,
     vm_calls = \<lparr>session_ok = (\<lambda>s. snd (fst s)), clear_error = (\<lambda>s. ((fst (fst s), True), snd s)),
       vm_get_all = (\<lambda>s. (Some [''vm''], s)), vm_get_record = (\<lambda>h s. (None, s)),
       vm_get_by_uuid = (\<lambda>u s. if snd (fst s) \<and> u = ''u1'' then (Some ''vm'', s) else (None, s)),
       host_get_address = (\<lambda>h s. (None, s))\<rparr>,
     vm_get_power_state = (\<lambda>vm s. if snd (fst s) \<and> vm = ''vm'' then (Some (snd s), s) else (None, ((fst (fst s), False), snd s))),
     vm_do = (\<lambda>op vm s. if \<not> snd (fst s) then s
       else (case (if vm = ''vm'' then power_effect op (snd s) else None) of
          None \<Rightarrow> ((fst (fst s), False), snd s) | Some q \<Rightarrow> (fst s, q))),
     error_of = (\<lambda>s. \<lparr>ok = snd (fst s), error_description = Some [''VM_BAD_POWER_STATE'']\<rparr>)\<rparr>"

definition one_power :: "(task_record option \<times> bool) \<times> power_state \<Rightarrow> string \<Rightarrow> power_state option" where
  "one_power s vm = (if vm = ''vm'' then Some (snd s) else None)"

lemma one_vm_service: "vm_service one_vm_api (\<lambda>s. one_task_view (fst s)) one_power"
proof -
  have "task_service (task_calls one_vm_api) (\<lambda>s. one_task_view (fst s))"
    using lift_service [OF one_task_service] by (simp add: one_vm_api_def)
  then show ?thesis
    unfolding vm_service_def
    by (intro conjI allI impI)
      (auto simp: one_vm_api_def lift_tasks_def one_task_def one_task_view_def one_power_def fun_eq_iff
        split: option.splits if_splits)
qed

definition demo_job :: "unit xen_job" where
  "demo_job = \<lparr>job_name = ''Xen_SystemStateChangeJob'', domain_name = ''u1'', ref_cn = ''Xen_SystemStateChangeJob'',
     ref_ns = ''root/cimv2'', job_uuid = Some (replicate 36 CHR ''a''), task_handle = ''ref'', callback = ()\<rparr>"

definition demo_task :: task_record where
  "demo_task = \<lparr>task_uuid = replicate 36 CHR ''a'', name_label = ''Xen_SystemStateChangeJob'', name_description = ''u1'',
     task_config = None, task_created = 0\<rparr>"

text \<open>A running VM, with and without the record of the job.\<close>

definition demo_state :: "task_record option \<Rightarrow> (task_record option \<times> bool) \<times> power_state" where
  "demo_state r = ((r, True), Running)"

lemma demo_state_facts:
  "task_ok (task_calls one_vm_api) (demo_state r)" "one_task_view (fst (demo_state r)) (task_handle demo_job) = r"
  "one_power (demo_state r) ''vm'' = Some Running"
  by (simp_all add: demo_state_def one_vm_api_def lift_tasks_def one_task_def one_task_view_def one_power_def demo_job_def)

lemma one_power_vm: "one_power s ''vm'' = Some p \<longleftrightarrow> snd s = p"
  by (simp add: one_power_def)

lemma one_vm_obeys: "obeys one_vm_api one_power ''vm''"
  by (auto simp: obeys_def one_vm_api_def lift_tasks_def one_task_def one_power_def split: option.splits)

lemma state_change_refines_witness:
  "snd (state_change_job one_vm_api (''vm'', 9) demo_job (demo_state (Some demo_task))) = Paused"
proof -
  have m: "may_change 9 Running Paused" using quiesce by simp
  obtain y rec' where y: "state_change_job one_vm_api (''vm'', 9) demo_job (demo_state (Some demo_task)) = y"
    and d: "(\<exists>q. may_change 9 Running q \<and> one_power y = (one_power (demo_state (Some demo_task)))(''vm'' \<mapsto> q) \<and>
        job_numbers rec' Job_Completed 100 SC_Completed) \<or>
      one_power y = one_power (demo_state (Some demo_task)) \<and>
      (\<exists>rc \<in> {SC_Failed, SC_Invalid_State_Transition}. job_numbers rec' Job_Exception 100 rc) \<and>
      ((\<exists>q. may_change 9 Running q) \<longrightarrow> \<not> obeys one_vm_api one_power ''vm'')"
    using state_change_refines [OF one_vm_service demo_state_facts [of "Some demo_task"], of 9] by blast
  then obtain q where q: "may_change 9 Running q" "one_power y = (one_power (demo_state (Some demo_task)))(''vm'' \<mapsto> q)"
    using m one_vm_obeys by blast
  have "one_power y ''vm'' = Some Paused" using may_change_functional [OF q(1) m] q(2) by simp
  with y show ?thesis by (simp add: one_power_vm)
qed

lemma killed_job_is_inert_witness:
  "snd (state_change_job one_vm_api (''vm'', 9) demo_job (demo_state None)) = Running"
proof -
  have "one_power (state_change_job one_vm_api (''vm'', 9) demo_job (demo_state None)) = one_power (demo_state None)"
    using killed_job_is_inert [OF one_vm_service demo_state_facts [of None], of 9] by blast
  then have "one_power (state_change_job one_vm_api (''vm'', 9) demo_job (demo_state None)) ''vm'' = Some Running"
    by (simp only: demo_state_facts(3))
  then show ?thesis by (simp only: one_power_vm)
qed

section \<open>What is advertised, and what the method answers\<close>

text \<open>C40. Every state that a VM advertises as available is one that its job accepts, as long as the daemon
  lists only operations that fit the power state: the request has a legal transition, and the operation
  that the job calls is one that the daemon allows.\<close>

theorem advertised_states_accepted:
  assumes fits: "\<And>op. op \<in> set ops \<Longrightarrow> power_effect op p \<noteq> None"
    and listed: "set_available_operations ops = Some states" and r: "r \<in> set states"
  shows "\<exists>q op. may_change r p q \<and> state_change_action r p = Inr op \<and> op \<in> set ops"
proof -
  have "states = map (requested_state_code \<circ> fst) (filter (operation_allowed ops) VM_Operation_Map)"
    using listed by (auto simp: set_available_operations_def Let_def split: if_splits)
  then obtain s op where e: "(s, op) \<in> set VM_Operation_Map" "operation_allowed ops (s, op)" "r = requested_state_code s"
    using r by auto
  then have op: "op \<in> set ops" "op \<noteq> OP_UNDEFINED" by (auto simp: operation_allowed_def list_ex_iff)
  then obtain q where q: "power_effect op p = Some q" using fits by blast
  have "state_change_action r p = Inr op"
    using e(1,3) op(2) q by (auto simp: VM_Operation_Map_def state_change_action_def power_effect_def split: if_splits)
  then show ?thesis using action_sound [OF _ q, of r] op by blast
qed

lemma advertised_states_accepted_witness:
  "\<exists>q op. may_change 9 Running q \<and> state_change_action 9 Running = Inr op \<and> op \<in> set [OP_PAUSE, OP_HARD_REBOOT]"
proof (rule advertised_states_accepted)
  show "set_available_operations [OP_PAUSE, OP_HARD_REBOOT] = Some [9, 11, 32769]"
    by (simp add: set_available_operations_def VM_Operation_Map_def operation_allowed_def)
qed (auto simp: power_effect_def)

text \<open>The converse fails: a paused VM accepts to be enabled, but no list of operations advertises it.\<close>

lemma enabling_paused_not_advertised:
  assumes "\<forall>op \<in> set ops. power_effect op Paused \<noteq> None" and "set_available_operations ops = Some states"
  shows "state_change_action (requested_state_code VM_Enabled) Paused = Inr OP_UNPAUSE \<and>
    requested_state_code VM_Enabled \<notin> set states"
proof -
  have "OP_START \<notin> set ops" using assms(1) by (auto simp: power_effect_def)
  then have "operation_allowed ops e \<Longrightarrow> e \<in> set VM_Operation_Map \<Longrightarrow> requested_state_code (fst e) \<noteq> 2" for e
    by (auto simp: VM_Operation_Map_def operation_allowed_def list_ex_iff)
  then show ?thesis
    using assms(2) by (auto simp: set_available_operations_def Let_def state_change_action_def split: if_splits)
qed

text \<open>The arrays of keys of the VM classes have no end for the broker to find, except that of the setting data.\<close>

lemma keys_without_end:
  "read_key_list (vm_get_keys isa cls) = Undefined \<longleftrightarrow>
     isa ''Xen_ComputerSystem'' cls \<or> isa ''Xen_ComputerSystemCapabilities'' cls \<or> \<not> isa ''Xen_VirtualSystemSettingData'' cls"
  by (simp add: vm_get_keys_def)

section \<open>From the request to the changed VM\<close>

lemma job_alloc_power:
  assumes V: "vm_service A view pwr" and a: "job_alloc (task_calls A) True jname dname cb cn ns x = (Some job, x')"
  shows "pwr x' = pwr x"
proof -
  let ?T = "task_calls A"
  let ?cfg = "put_entry ''CIMJobState'' ''2'' (put_entry ''PercentComplete'' ''0'' None)"
  obtain h x1 where c: "task_create ?T jname dname x = (Some h, x1)"
    using a by (auto simp: job_alloc_def split: prod.splits option.splits)
  obtain u x3 where g: "task_get_uuid ?T h (task_set_other_config ?T h ?cfg x1) = (u, x3)"
    by (cases "task_get_uuid ?T h (task_set_other_config ?T h ?cfg x1)")
  have "x' = x3" using a c g by (auto simp: job_alloc_def Let_def split: if_splits)
  moreover have "pwr x1 = pwr x" using vm_serviceD(9) [OF V, of jname dname x] c by simp
  moreover have "pwr x3 = pwr x1"
    using vm_serviceD(10) [OF V, of h "task_set_other_config ?T h ?cfg x1"] vm_serviceD(5) [OF V, of h ?cfg x1] g by simp
  ultimately show ?thesis by simp
qed

text \<open>C2. A request that the state machine allows is carried out: the method starts a job and hands out its
  reference, the worker's run of that job leaves the VM in the state that the machine gives, and the
  reference then shows a completed job at 100 percent, as long as the daemon obeys.\<close>

theorem request_completes:
  assumes V: "vm_service A view pwr"
    and arg: "requested_state_arg argsin = (st, Some r)"
    and vm: "vm_get_by_uuid (vm_calls A) u x = (Some vm, x1)" "task_ok (task_calls A) x1" "pwr x1 vm = Some p"
    and create: "task_create (task_calls A) ''Xen_SystemStateChangeJob'' u x1 = (Some h, x2)"
    and may: "may_change r p q" and obeys: "obeys A pwr vm"
  shows "\<exists>job ident y z rec w.
    vm_method A H True xenref (CMPI_RC_OK, Some (A_string u)) ''RequestStateChange'' argsin x =
      Ret (SC_Job_Started, (CMPI_RC_OK, []), Some (job, ''Xen_SystemStateChangeJob'', ident), y) \<and>
    state_change_job A (callback job) job y = z \<and> pwr z = (pwr x1)(vm \<mapsto> q) \<and>
    job_record_get_from_id (task_calls A) ''Xen_SystemStateChangeJob'' ident z = Ret (CMPI_RC_OK, Some rec, w) \<and>
    job_numbers rec Job_Completed 100 SC_Completed"
proof -
  let ?T = "task_calls A" let ?cls = "''Xen_SystemStateChangeJob''"
  note T = vm_serviceD(1) [OF V]
  obtain y i rec where a: "job_alloc ?T True ?cls u (vm, r) ?cls ''root/cimv2'' x1 = (Some \<lparr>job_name = ?cls, domain_name = u,
      ref_cn = ?cls, ref_ns = ''root/cimv2'', job_uuid = Some i, task_handle = h, callback = (vm, r)\<rparr>, y)"
    and y: "task_ok ?T y" "view y = (view x1)(h \<mapsto> rec)"
    and rec: "task_uuid rec = i" "length i = 36" "CHR ''/'' \<notin> set i" "name_label rec = ?cls"
    and new: "\<And>k q. view x1 k = Some q \<Longrightarrow> task_uuid q \<noteq> i"
    using job_alloc_ok [OF T vm(2) create, of "(vm, r)" ?cls "''root/cimv2''"] by metis
  define job where "job = \<lparr>job_name = ?cls, domain_name = u, ref_cn = ?cls, ref_ns = ''root/cimv2'', job_uuid = Some i,
    task_handle = h, callback = (vm, r)\<rparr>"
  have j: "task_handle job = h" "callback job = (vm, r)" by (simp_all add: job_def)
  have pw: "pwr y = pwr x1" using job_alloc_power [OF V a] .
  have answer: "vm_method A H True xenref (CMPI_RC_OK, Some (A_string u)) ''RequestStateChange'' argsin x =
      Ret (SC_Job_Started, (CMPI_RC_OK, []), Some (job, ?cls, CMPICreateNewSystemInstanceID 129 i), y)"
    using arg vm(1) a by (simp add: vm_method_def job_create_def job_def)
  let ?z = "state_change_job A (vm, r) job y"
  have r0: "view y (task_handle job) = Some rec" "pwr y vm = Some p" using y(2) j pw vm(3) by simp_all
  obtain m where z: "view ?z = (view y)(task_handle job \<mapsto> rec\<lparr>task_config := m\<rparr>)" "task_ok ?T ?z"
    and cases: "(\<exists>q. may_change r p q \<and> pwr ?z = (pwr y)(vm \<mapsto> q) \<and> job_numbers (rec\<lparr>task_config := m\<rparr>) Job_Completed 100 SC_Completed) \<or>
      pwr ?z = pwr y \<and> (\<exists>rc \<in> {SC_Failed, SC_Invalid_State_Transition}. job_numbers (rec\<lparr>task_config := m\<rparr>) Job_Exception 100 rc) \<and>
      ((\<exists>q. may_change r p q) \<longrightarrow> \<not> obeys A pwr vm)"
    by (rule state_change_result [OF V y(1) r0, of r])
  obtain q2 where q2: "may_change r p q2" "pwr ?z = (pwr y)(vm \<mapsto> q2)" "job_numbers (rec\<lparr>task_config := m\<rparr>) Job_Completed 100 SC_Completed"
    using cases may obeys by blast
  have "\<forall>k q. view ?z k = Some q \<and> task_uuid q = task_uuid (rec\<lparr>task_config := m\<rparr>) \<longrightarrow> k = h"
    using new rec(1) z(1) y(2) j(1) by auto
  moreover have "view ?z h = Some (rec\<lparr>task_config := m\<rparr>)" using z(1) j(1) by simp
  ultimately obtain w where "job_record_get_from_id ?T ?cls (CMPICreateNewSystemInstanceID 129 i) ?z =
      Ret (CMPI_RC_OK, Some (rec\<lparr>task_config := m\<rparr>), w)"
    using job_record_found [OF T z(2), of h "rec\<lparr>task_config := m\<rparr>"] rec by auto
  moreover have "q2 = q" by (rule may_change_functional [OF q2(1) may])
  ultimately show ?thesis
    using answer q2 pw j(2)
    by (intro exI [of _ job] exI [of _ "CMPICreateNewSystemInstanceID 129 i"] exI [of _ y] exI [of _ ?z]
        exI [of _ "rec\<lparr>task_config := m\<rparr>"] exI [of _ w]) simp
qed

lemma request_completes_witness:
  "\<exists>job ident y z. vm_method one_vm_api \<lparr>http_get = (\<lambda>u. (200, [])), http_post = (\<lambda>u d. 200), http_curl = True\<rparr> True ''ref''
      (CMPI_RC_OK, Some (A_string ''u1'')) ''RequestStateChange'' (\<lambda>n. (CMPI_RC_OK, Some (A_uint16 9 :: (unit, unit) arg_value)))
      (demo_state None) = Ret (SC_Job_Started, (CMPI_RC_OK, []), Some (job, ''Xen_SystemStateChangeJob'', ident), y) \<and>
    state_change_job one_vm_api (callback job) job y = z \<and> snd z = Paused"
proof -
  have arg: "requested_state_arg (\<lambda>n. (CMPI_RC_OK, Some (A_uint16 9 :: (unit, unit) arg_value))) = (CMPI_RC_OK, Some 9)"
    by (simp add: requested_state_arg_def GetArgument_def)
  have vm: "vm_get_by_uuid (vm_calls one_vm_api) ''u1'' (demo_state None) = (Some ''vm'', demo_state None)"
    by (simp add: one_vm_api_def demo_state_def)
  have create: "task_create (task_calls one_vm_api) ''Xen_SystemStateChangeJob'' ''u1'' (demo_state None) =
      (Some ''ref'', demo_state (Some demo_task))"
    by (simp add: one_vm_api_def lift_tasks_def one_task_def demo_state_def demo_task_def)
  have may: "may_change 9 Running Paused" using quiesce by simp
  obtain job ident y z where r: "vm_method one_vm_api \<lparr>http_get = (\<lambda>u. (200, [])), http_post = (\<lambda>u d. 200), http_curl = True\<rparr> True ''ref''
      (CMPI_RC_OK, Some (A_string ''u1'')) ''RequestStateChange'' (\<lambda>n. (CMPI_RC_OK, Some (A_uint16 9 :: (unit, unit) arg_value)))
      (demo_state None) = Ret (SC_Job_Started, (CMPI_RC_OK, []), Some (job, ''Xen_SystemStateChangeJob'', ident), y)"
    "state_change_job one_vm_api (callback job) job y = z" "one_power z = (one_power (demo_state None))(''vm'' \<mapsto> Paused)"
    using request_completes [OF one_vm_service arg vm demo_state_facts(1,3) create may one_vm_obeys] by blast
  have "one_power z ''vm'' = Some Paused" using r(3) by simp
  then show ?thesis using r(1,2) by (auto simp only: one_power_vm)
qed

text \<open>The answer of the method is consistent on every path: there is a job exactly when the code says that
  one was started, then for the VM and the state of the request; the status is good exactly for the two
  successful codes, and no other codes than these five occur.\<close>

lemma method_answers:
  assumes "vm_method A H mem xenref key methodname argsin x = Ret (rc, st, created, y)"
  shows "(rc = SC_Job_Started \<longleftrightarrow> created \<noteq> None) \<and>
    rc \<in> {SC_Completed, SC_Not_Supported, SC_Failed, SC_Invalid_Parameter, SC_Job_Started} \<and>
    (if rc \<in> {SC_Completed, SC_Job_Started} then st = (CMPI_RC_OK, []) else fst st = CMPI_RC_ERR_FAILED) \<and>
    (case created of
       None \<Rightarrow> True
     | Some (job, cls, ident) \<Rightarrow> \<exists>u vm r x1. key = (CMPI_RC_OK, Some (A_string u)) \<and> methodname = ''RequestStateChange'' \<and>
         vm_get_by_uuid (vm_calls A) u x = (Some vm, x1) \<and> snd (requested_state_arg argsin) = Some r \<and>
         callback job = (vm, r) \<and> cls = ''Xen_SystemStateChangeJob'')"
proof -
  have jobs: "\<exists>job ident. j = (job, cls, ident) \<and> callback job = cb"
    if "job_create T m cls u cb z = Ret (Some j, z')" for T m cls u z j z' and cb :: "string \<times> int"
    using that by (auto simp: job_create_def job_alloc_def Let_def split: prod.splits option.splits if_splits)
  obtain kst kv where key: "key = (kst, kv)" by (cases key)
  show ?thesis
  proof (cases "kst \<noteq> CMPI_RC_OK \<or> (\<forall>u. kv \<noteq> Some (A_string u)) \<or> methodname \<noteq> ''RequestStateChange''")
    case True
    then show ?thesis using assms
      by (auto simp: vm_method_def key failed_status_def Let_def bind_outcome_Ret_iff
          split: option.splits arg_value.splits if_splits)
  next
    case False
    then obtain u where u: "key = (CMPI_RC_OK, Some (A_string u))" "methodname = ''RequestStateChange''" using key by auto
    show ?thesis using assms u(1) unfolding u(2)
      by (auto simp: vm_method_def failed_status_def Let_def bind_outcome_Ret_iff dest!: jobs
          split: option.splits prod.splits if_splits)
  qed
qed

lemma method_answers_witness:
  "\<exists>st. vm_method one_vm_api \<lparr>http_get = (\<lambda>u. (200, [])), http_post = (\<lambda>u d. 200), http_curl = True\<rparr> True ''ref''
      (CMPI_RC_OK, Some (A_string ''u1'')) ''Reboot'' (\<lambda>n. (CMPI_RC_OK, None :: (unit, unit) arg_value option))
      (demo_state None) = Ret (SC_Not_Supported, st, None, demo_state None) \<and> fst st = CMPI_RC_ERR_FAILED"
proof -
  have m: "vm_method one_vm_api \<lparr>http_get = (\<lambda>u. (200, [])), http_post = (\<lambda>u d. 200), http_curl = True\<rparr> True ''ref''
      (CMPI_RC_OK, Some (A_string ''u1'')) ''Reboot'' (\<lambda>n. (CMPI_RC_OK, None :: (unit, unit) arg_value option))
      (demo_state None) = Ret (SC_Not_Supported, failed_status one_vm_api ''ERROR: Requested Method is not supported'' (demo_state None),
        None, demo_state None)"
    by (simp add: vm_method_def)
  show ?thesis using m method_answers [OF m] by simp
qed

text \<open>The state that the client then reads is the one it asked for, where the profile has a state of that number.\<close>

lemma shown_state:
  "may_change r p q \<Longrightarrow> r \<in> requested_state_code ` {VM_Enabled, VM_Disabled, VM_Offline, VM_Quiesce} \<Longrightarrow>
    fst (snd (power_state_properties q)) = r"
  by (erule may_changeE) (auto simp: power_state_properties_def)

end
