(* ===== verification/SettingData.thy ===== *)
theory SettingData
  imports JobRecord XenText
begin

text \<open>
  The parser of embedded instances, the text in which clients send setting data: the scanner
  (\<^verbatim>\<open>src/Xen_SettingDataLexer.l\<close>), the grammar with its actions
  (\<^verbatim>\<open>src/Xen_SettingDataParser.y\<close>), and the function around them
  (\<^verbatim>\<open>src/xen_utils.c\<close>). The scanner is a list of rules of which the longest
  match wins, and the earlier of two equally long ones; its start condition outlives a parse, so that it is an
  argument and a result. The instance that is built is the broker's, a parameter.
\<close>

section \<open>The scanner\<close>

datatype lex_mode = INITIAL | READCLASSNAME

text \<open>A real number is kept as its text; an integer went through \<^verbatim>\<open>atoi\<close>, hence through 32 bits.\<close>

datatype token =
    T_INSTANCE | T_OF | T_ENDOFFILE | T_NULLTOK | T_CLASSNAME string | T_PROPERTYNAME string | T_STRING string
  | T_BOOLEAN bool | T_INTEGER "64 word" | T_REAL string | T_CHAR char

definition is_alpha :: "char \<Rightarrow> bool" where
  "is_alpha c \<longleftrightarrow> (65 \<le> (of_char c :: nat) \<and> (of_char c :: nat) \<le> 90) \<or> (97 \<le> (of_char c :: nat) \<and> (of_char c :: nat) \<le> 122)"

definition word_char :: "char \<Rightarrow> bool" where
  "word_char c \<longleftrightarrow> is_alpha c \<or> is_digit c \<or> c = CHR ''_''"

text \<open>A rule's pattern is the length of its longest match, 0 for no match.\<close>

definition match_literal :: "string list \<Rightarrow> string \<Rightarrow> nat" where
  "match_literal ws s = foldr (\<lambda>w n. if take (length w) s = w then max (length w) n else n) ws 0"

definition match_word :: "string \<Rightarrow> nat" where
  "match_word s = (case s of [] \<Rightarrow> 0 | c # r \<Rightarrow> if is_alpha c then 1 + length (takeWhile word_char r) else 0)"

definition match_integer :: "string \<Rightarrow> nat" where
  "match_integer s =
     (let sign = (case s of [] \<Rightarrow> 0 | c # r \<Rightarrow> if c = CHR ''-'' then 1 else 0);
          digits = length (takeWhile is_digit (drop sign s))
      in if digits = 0 then 0 else sign + digits)"

definition match_real :: "string \<Rightarrow> nat" where
  "match_real s =
     (let n = match_integer s
      in if n = 0 then 0
         else (case drop n s of
            [] \<Rightarrow> 0
          | c # r \<Rightarrow>
              let digits = length (takeWhile is_digit r)
              in if c = CHR ''.'' \<and> digits \<noteq> 0 then n + 1 + digits else 0))"

text \<open>From behind an opening quote to the closing one; a backslash takes any character but a newline along.\<close>

fun match_text :: "char \<Rightarrow> string \<Rightarrow> nat option" where
  "match_text q [] = None"
| "match_text q (c # r) =
     (if c = q then Some 1
      else if c = CHR 0x5C
      then (case r of
              [] \<Rightarrow> None
            | d # r' \<Rightarrow> if d = CHR 0x0A then None else map_option (\<lambda>n. n + 2) (match_text q r'))
      else map_option Suc (match_text q r))"

definition match_quoted :: "char \<Rightarrow> string \<Rightarrow> nat" where
  "match_quoted q s =
     (case s of
        [] \<Rightarrow> 0
      | c # r \<Rightarrow> if c = q then (case match_text q r of None \<Rightarrow> 0 | Some n \<Rightarrow> n + 1) else 0)"

definition match_space :: "string \<Rightarrow> nat" where
  "match_space s = length (takeWhile (\<lambda>c. c = CHR '' '' \<or> c = CHR 0x09) s)"

definition match_first :: "(char \<Rightarrow> bool) \<Rightarrow> string \<Rightarrow> nat" where
  "match_first P s = (case s of [] \<Rightarrow> 0 | c # r \<Rightarrow> if P c then 1 else 0)"

datatype lex_action = Return token lex_mode | Skip

definition rules :: "((string \<Rightarrow> nat) \<times> (string \<Rightarrow> lex_action)) list" where
  "rules =
    [(match_literal [''instance'', ''Instance'', ''INSTANCE''], \<lambda>yytext. Return T_INSTANCE INITIAL),
     (match_literal [''of'', ''Of'', ''OF''], \<lambda>yytext. Return T_OF READCLASSNAME),
     (match_literal [''null'', ''Null'', ''NULL''], \<lambda>yytext. Return T_NULLTOK INITIAL),
     (match_literal [''true'', ''True'', ''TRUE''], \<lambda>yytext. Return (T_BOOLEAN True) INITIAL),
     (match_literal [''false'', ''False'', ''False''], \<lambda>yytext. Return (T_BOOLEAN False) INITIAL),
     (match_integer, \<lambda>yytext. Return (T_INTEGER (scast (word_of_int (atoi yytext) :: 32 word))) INITIAL),
     (match_real, \<lambda>yytext. Return (T_REAL yytext) INITIAL),
     (\<lambda>s. max (match_quoted (CHR 0x22) s) (match_quoted (CHR 0x27) s),
        \<lambda>yytext. Return (T_STRING (butlast (tl yytext))) INITIAL),
     (match_word, \<lambda>yytext. Return (T_PROPERTYNAME yytext) INITIAL),
     (match_first (\<lambda>c. c = CHR 0x0A), \<lambda>yytext. Skip),
     (match_space, \<lambda>yytext. Skip),
     (match_first (\<lambda>c. c \<noteq> CHR 0x0A), \<lambda>yytext. Return (T_CHAR (hd yytext)) INITIAL)]"

fun longest_match :: "((string \<Rightarrow> nat) \<times> 'a) list \<Rightarrow> string \<Rightarrow> nat \<times> 'a option" where
  "longest_match [] s = (0, None)"
| "longest_match ((pattern, action) # rs) s =
     (let (n, best) = longest_match rs s
      in if n \<le> pattern s \<and> pattern s \<noteq> 0 then (pattern s, Some action) else (n, best))"

lemma longest_match_ge: "(pattern, action) \<in> set rs \<Longrightarrow> pattern s \<le> fst (longest_match rs s)"
  by (induction rs s rule: longest_match.induct) (auto simp: Let_def split: prod.splits)

lemma rules_match: "s \<noteq> [] \<Longrightarrow> 0 < fst (longest_match rules s)"
proof -
  assume s: "s \<noteq> []"
  have "match_first (\<lambda>c. c = CHR 0x0A) s \<le> fst (longest_match rules s)"
    "match_first (\<lambda>c. c \<noteq> CHR 0x0A) s \<le> fst (longest_match rules s)"
    by (rule longest_match_ge [of _ "\<lambda>yytext. Skip"], simp add: rules_def,
        rule longest_match_ge [of _ "\<lambda>yytext. Return (T_CHAR (hd yytext)) INITIAL"], simp add: rules_def)
  then show ?thesis using s by (cases s) (auto simp: match_first_def split: if_splits)
qed

lemma rules_shorten: "s \<noteq> [] \<Longrightarrow> (n, b) = longest_match rules s \<Longrightarrow> length s - n < length s"
  using rules_match [of s] by (cases s) (auto dest: sym)

text \<open>
  The next token, the start condition and the rest of the text. Behind \<^verbatim>\<open>OF\<close> only the
  rule of class names is active; what it does not match is echoed and dropped.
\<close>

function next_token :: "lex_mode \<Rightarrow> string \<Rightarrow> token \<times> lex_mode \<times> string" where
  "next_token mode s =
     (if s = [] then (T_ENDOFFILE, mode, [])
      else (case mode of
         READCLASSNAME \<Rightarrow>
           if match_word s = 0 then next_token READCLASSNAME (tl s)
           else (T_CLASSNAME (take (match_word s) s), INITIAL, drop (match_word s) s)
       | INITIAL \<Rightarrow>
           (case longest_match rules s of
              (n, None) \<Rightarrow> (T_ENDOFFILE, mode, [])
            | (n, Some action) \<Rightarrow>
                (case action (take n s) of
                   Skip \<Rightarrow> next_token INITIAL (drop n s)
                 | Return t mode' \<Rightarrow> (t, mode', drop n s)))))"
  by pat_completeness auto
termination
  by (relation "measure (\<lambda>(mode, s). length s)")
    (use rules_shorten in auto)

declare next_token.simps [simp del]

text \<open>Every token but the end of the text takes a character.\<close>

lemma next_token_shorter:
  "next_token mode s = (t, mode', r) \<Longrightarrow> length r \<le> length s \<and> (t \<noteq> T_ENDOFFILE \<longrightarrow> length r < length s)"
proof (induction mode s rule: next_token.induct)
  case (1 mode s)
  show ?case
  proof (cases "s = []")
    case False
    show ?thesis
    proof (cases mode)
      case READCLASSNAME
      show ?thesis
      proof (cases "match_word s = 0")
        case True
        with "1.IH"(2) [OF False READCLASSNAME True] "1.prems" False READCLASSNAME show ?thesis
          by (auto simp: next_token.simps [of READCLASSNAME s])
      qed (use "1.prems" False READCLASSNAME in \<open>auto simp: next_token.simps [of READCLASSNAME s]\<close>)
    next
      case INITIAL
      obtain n b where m: "longest_match rules s = (n, b)" by (cases "longest_match rules s")
      have short: "length s - n < length s" by (rule rules_shorten [OF False m [symmetric]])
      show ?thesis
      proof (cases b)
        case None
        then show ?thesis using "1.prems" False INITIAL m by (auto simp: next_token.simps [of INITIAL s])
      next
        case (Some action)
        show ?thesis
        proof (cases "action (take n s)")
          case (Return t2 mode2)
          then show ?thesis using "1.prems" False INITIAL m Some short by (auto simp: next_token.simps [of INITIAL s])
        next
          case Skip
          with "1.IH"(1) [OF False INITIAL m [symmetric] Some Skip] "1.prems" False INITIAL m Some short show ?thesis
            by (auto simp: next_token.simps [of INITIAL s])
        qed
      qed
    qed
  qed (use "1.prems" in \<open>simp add: next_token.simps [of mode "[]"]\<close>)
qed

section \<open>The parser\<close>

text \<open>
  What the broker's \<^verbatim>\<open>CMGetProperty\<close> says of a property of the new instance: which of the
  tests of its type with a bit mask hold, and whether it is an array.
\<close>

record property_type =
  string_bits :: bool
  real_bits :: bool
  integer_bits :: bool
  boolean_bits :: bool
  array_bit :: bool

datatype 'r setting =
    S_chars string | S_uint64 "64 word" | S_real64 'r | S_boolean bool
  | S_charsA "string list" | S_uint64A "64 word list" | S_real64A "'r list" | S_booleanA "bool list"

record ('i, 'r) mof_api =
  CMNewInstance :: "string \<Rightarrow> 'i option"
  CMPropertyType :: "'i \<Rightarrow> string \<Rightarrow> property_type"
  CMSetProperty :: "'i \<Rightarrow> string \<Rightarrow> 'r setting \<Rightarrow> 'i"
  real_of_sint64 :: "64 word \<Rightarrow> 'r"
  atof :: "string \<Rightarrow> 'r"

datatype mof_value =
    MV_string string | MV_braced string | MV_integer "64 word" | MV_boolean bool | MV_real string | MV_null

text \<open>The actions of the rules of \<^verbatim>\<open>property\<close>; a value of the wrong type is dropped.\<close>

definition set_property ::
    "('i, 'r) mof_api \<Rightarrow> 'i \<Rightarrow> string \<Rightarrow> mof_value \<Rightarrow> 'i" where
  "set_property A i p v =
     (let t = CMPropertyType A i p;
          put = (\<lambda>one many. CMSetProperty A i p (if array_bit t then many else one))
      in (case v of
            MV_string s \<Rightarrow> if string_bits t then put (S_chars s) (S_charsA [s]) else i
          | MV_braced s \<Rightarrow> if string_bits t then put (S_chars s) (S_charsA [s]) else i
          | MV_integer n \<Rightarrow>
              if real_bits t then put (S_real64 (real_of_sint64 A n)) (S_real64A [real_of_sint64 A n])
              else if integer_bits t then put (S_uint64 n) (S_uint64A [n]) else i
          | MV_boolean b \<Rightarrow> if boolean_bits t then put (S_boolean b) (S_booleanA [b]) else i
          | MV_real r \<Rightarrow> if real_bits t then put (S_real64 (atof A r)) (S_real64A [atof A r]) else i
          | MV_null \<Rightarrow> i))"

text \<open>The value, none after a syntax error; the start condition and the rest of the text in any case.\<close>

definition parse_value :: "lex_mode \<Rightarrow> string \<Rightarrow> mof_value option \<times> lex_mode \<times> string" where
  "parse_value mode s =
     (case next_token mode s of
        (T_STRING v, m1, s1) \<Rightarrow> (Some (MV_string v), m1, s1)
      | (T_INTEGER n, m1, s1) \<Rightarrow> (Some (MV_integer n), m1, s1)
      | (T_BOOLEAN b, m1, s1) \<Rightarrow> (Some (MV_boolean b), m1, s1)
      | (T_REAL r, m1, s1) \<Rightarrow> (Some (MV_real r), m1, s1)
      | (T_NULLTOK, m1, s1) \<Rightarrow> (Some MV_null, m1, s1)
      | (T_CHAR c, m1, s1) \<Rightarrow>
          if c \<noteq> CHR ''{'' then (None, m1, s1)
          else (case next_token m1 s1 of
             (T_STRING v, m2, s2) \<Rightarrow>
               (case next_token m2 s2 of
                  (t, m3, s3) \<Rightarrow> (if t = T_CHAR (CHR ''}'') then Some (MV_braced v) else None, m3, s3))
           | (_, m2, s2) \<Rightarrow> (None, m2, s2))
      | (_, m1, s1) \<Rightarrow> (None, m1, s1))"

text \<open>Behind a property name.\<close>

definition parse_property ::
    "('i, 'r) mof_api \<Rightarrow> 'i \<Rightarrow> string \<Rightarrow> lex_mode \<Rightarrow> string \<Rightarrow> 'i option \<times> lex_mode \<times> string" where
  "parse_property A i p mode s =
     (case next_token mode s of
        (t1, m1, s1) \<Rightarrow>
          if t1 \<noteq> T_CHAR (CHR ''='') then (None, m1, s1)
          else (case parse_value m1 s1 of
             (None, m2, s2) \<Rightarrow> (None, m2, s2)
           | (Some v, m2, s2) \<Rightarrow>
               (case next_token m2 s2 of
                  (t3, m3, s3) \<Rightarrow> (if t3 = T_CHAR (CHR '';'') then Some (set_property A i p v) else None, m3, s3))))"

lemma parse_value_rest:
  "parse_value mode s = (v, m', r) \<Longrightarrow> length r \<le> length s"
proof -
  assume p: "parse_value mode s = (v, m', r)"
  obtain t1 m1 s1 where n1: "next_token mode s = (t1, m1, s1)" by (cases "next_token mode s")
  obtain t2 m2 s2 where n2: "next_token m1 s1 = (t2, m2, s2)" by (cases "next_token m1 s1")
  obtain t3 m3 s3 where n3: "next_token m2 s2 = (t3, m3, s3)" by (cases "next_token m2 s2")
  from next_token_shorter [OF n1] next_token_shorter [OF n2] next_token_shorter [OF n3] p show ?thesis
    by (cases t1; cases t2) (auto simp: parse_value_def n1 n2 n3 split: if_splits)
qed

lemma parse_property_rest:
  "parse_property A i p mode s = (j, m', r) \<Longrightarrow> length r \<le> length s"
proof -
  assume p: "parse_property A i p mode s = (j, m', r)"
  obtain t1 m1 s1 where n1: "next_token mode s = (t1, m1, s1)" by (cases "next_token mode s")
  obtain v m2 s2 where n2: "parse_value m1 s1 = (v, m2, s2)" by (cases "parse_value m1 s1")
  obtain t3 m3 s3 where n3: "next_token m2 s2 = (t3, m3, s3)" by (cases "next_token m2 s2")
  from next_token_shorter [OF n1] parse_value_rest [OF n2] next_token_shorter [OF n3] p show ?thesis
    by (cases v) (auto simp: parse_property_def n1 n2 n3 split: if_splits)
qed

text \<open>The closing brace, whose token has been read, and the semicolon.\<close>

definition parse_end :: "'i \<Rightarrow> token \<Rightarrow> lex_mode \<Rightarrow> string \<Rightarrow> 'i option \<times> lex_mode" where
  "parse_end i t mode s =
     (if t \<noteq> T_CHAR (CHR ''}'') then (None, mode)
      else (case next_token mode s of
         (t2, m2, s2) \<Rightarrow> (if t2 = T_CHAR (CHR '';'') then Some i else None, m2)))"

text \<open>An end of the text is a list of properties, too; no brace can follow it.\<close>

function parse_properties ::
    "('i, 'r) mof_api \<Rightarrow> 'i \<Rightarrow> lex_mode \<Rightarrow> string \<Rightarrow> 'i option \<times> lex_mode" where
  "parse_properties A i mode s =
     (case next_token mode s of
        (T_PROPERTYNAME p, m1, s1) \<Rightarrow>
          (case parse_property A i p m1 s1 of
             (None, m2, s2) \<Rightarrow> (None, m2)
           | (Some j, m2, s2) \<Rightarrow> parse_properties A j m2 s2)
      | (T_ENDOFFILE, m1, s1) \<Rightarrow> (case next_token m1 s1 of (t, m2, s2) \<Rightarrow> parse_end i t m2 s2)
      | (t, m1, s1) \<Rightarrow> parse_end i t m1 s1)"
  by pat_completeness (elim Pair_inject, hypsubst, rule refl)
termination
proof (relation "measure (\<lambda>(A, i, mode, s). length s)", goal_cases)
  case (2 A i mode s x y p m1 s1 v r j m2 s2)
  have "length s1 < length s" using next_token_shorter [of mode s "T_PROPERTYNAME p" m1 s1] 2 by simp
  moreover have "length s2 \<le> length s1" using parse_property_rest [of A i p m1 s1 "Some j" m2 s2] 2 by simp
  moreover have "r = (m2, s2)" using 2 by simp
  ultimately show ?case by simp
qed simp

declare parse_properties.simps [simp del]

text \<open>The result is 0 for an instance, 1 after a syntax error or a class the broker refuses, -1 for no text.\<close>

definition yyparse :: "('i, 'r) mof_api \<Rightarrow> lex_mode \<Rightarrow> string \<Rightarrow> int \<times> 'i option \<times> lex_mode" where
  "yyparse A mode s =
     (case next_token mode s of
        (T_ENDOFFILE, m1, s1) \<Rightarrow> (- 1, None, m1)
      | (T_INSTANCE, m1, s1) \<Rightarrow>
          (case next_token m1 s1 of
             (T_OF, m2, s2) \<Rightarrow>
               (case next_token m2 s2 of
                  (T_CLASSNAME c, m3, s3) \<Rightarrow>
                    (case next_token m3 s3 of
                       (t4, m4, s4) \<Rightarrow>
                         if t4 \<noteq> T_CHAR (CHR ''{'') then (1, None, m4)
                         else (case CMNewInstance A c of
                            None \<Rightarrow> (1, None, m4)
                          | Some i \<Rightarrow>
                              (case parse_properties A i m4 s4 of
                                 (None, m5) \<Rightarrow> (1, None, m5)
                               | (Some j, m5) \<Rightarrow> (0, Some j, m5))))
                | (_, m3, s3) \<Rightarrow> (1, None, m3))
           | (_, m2, s2) \<Rightarrow> (1, None, m2))
      | (_, m1, s1) \<Rightarrow> (1, None, m1))"

definition xen_utils_parse_embedded_instance ::
    "('i, 'r) mof_api \<Rightarrow> lex_mode \<Rightarrow> string \<Rightarrow> 'i option \<times> lex_mode" where
  "xen_utils_parse_embedded_instance A mode instanceStr =
     (case yyparse A mode (XmlToAsciiStr instanceStr) of
        (rc, i, m') \<Rightarrow> (if rc \<noteq> 0 then None else i, m'))"

section \<open>The scanner on the text that clients write\<close>

lemma longest_match_rules:
  "longest_match rules s = (n, Some a) \<Longrightarrow> s \<noteq> [] \<Longrightarrow>
   next_token INITIAL s =
     (case a (take n s) of Skip \<Rightarrow> next_token INITIAL (drop n s) | Return t mode \<Rightarrow> (t, mode, drop n s))"
  by (simp add: next_token.simps [of INITIAL s])

lemmas match_defs = match_literal_def match_integer_def match_real_def match_quoted_def match_word_def
  match_space_def match_first_def is_alpha_def is_digit_def

lemma longest_match_space:
  assumes c: "c = CHR '' '' \<or> c = CHR 0x09"
  shows "longest_match rules (c # s) = (match_space (c # s), Some (\<lambda>yytext. Skip))"
  using c by (elim disjE) (simp_all add: rules_def match_defs)

lemma longest_match_newline:
  "longest_match rules (CHR 0x0A # s) = (1, Some (\<lambda>yytext. Skip))"
  by (simp add: rules_def match_defs)

lemma longest_match_punctuation:
  assumes c: "c \<in> set ''{}=;''"
  shows "longest_match rules (c # s) = (1, Some (\<lambda>yytext. Return (T_CHAR (hd yytext)) INITIAL))"
  using c by (simp, elim disjE) (simp_all add: rules_def match_defs)

lemma next_token_punctuation [simp]:
  "c \<in> set ''{}=;'' \<Longrightarrow> next_token INITIAL (c # s) = (T_CHAR c, INITIAL, s)"
  by (subst longest_match_rules [OF longest_match_punctuation]) simp_all

definition blank :: "char \<Rightarrow> bool" where
  "blank c \<longleftrightarrow> c = CHR '' '' \<or> c = CHR 0x09 \<or> c = CHR 0x0A"

lemma next_token_blank: "blank c \<Longrightarrow> next_token INITIAL (c # s) = next_token INITIAL s"
proof (induction s arbitrary: c)
  case (Cons d s)
  have sp: "c = CHR '' '' \<or> c = CHR 0x09 \<Longrightarrow>
    next_token INITIAL (c # d # s) = next_token INITIAL (drop (match_space (d # s)) (d # s))" for c
    by (subst longest_match_rules [OF longest_match_space]) (auto simp: match_space_def)
  show ?case
  proof (cases "c = CHR 0x0A")
    case True
    then show ?thesis by (simp add: longest_match_rules [OF longest_match_newline])
  next
    case False
    with Cons.prems have c: "c = CHR '' '' \<or> c = CHR 0x09" by (simp add: blank_def)
    show ?thesis
    proof (cases "d = CHR '' '' \<or> d = CHR 0x09")
      case True
      have "next_token INITIAL (d # s) = next_token INITIAL (drop (match_space (d # s)) (d # s))"
        by (subst longest_match_rules [OF longest_match_space [OF True]]) simp_all
      with sp [OF c] show ?thesis by simp
    next
      case False
      then show ?thesis using sp [OF c] by (simp add: match_space_def)
    qed
  qed
next
  case Nil
  then consider "c = CHR 0x0A" | "c = CHR '' '' \<or> c = CHR 0x09" by (auto simp: blank_def)
  then show ?case
  proof cases
    case 1
    then show ?thesis by (simp add: longest_match_rules [OF longest_match_newline])
  next
    case 2
    then show ?thesis by (subst longest_match_rules [OF longest_match_space [OF 2]]) (auto simp: match_space_def)
  qed
qed

lemma next_token_blanks: "\<forall>c \<in> set ws. blank c \<Longrightarrow> next_token INITIAL (ws @ s) = next_token INITIAL s"
  by (induction ws) (simp_all add: next_token_blank)

lemma match_text_plain:
  "q \<notin> set v \<Longrightarrow> CHR 0x5C \<notin> set v \<Longrightarrow> match_text q (v @ q # s) = Some (Suc (length v))"
  by (induction v) auto

definition plain_text :: "string \<Rightarrow> bool" where
  "plain_text v \<longleftrightarrow> CHR 0x22 \<notin> set v \<and> CHR 0x5C \<notin> set v"

definition quoted :: "string \<Rightarrow> string" where
  "quoted v = CHR 0x22 # v @ [CHR 0x22]"

lemma next_token_quoted:
  assumes v: "plain_text v"
  shows "next_token INITIAL (quoted v @ s) = (T_STRING v, INITIAL, s)"
proof -
  have "match_text (CHR 0x22) (v @ CHR 0x22 # s) = Some (Suc (length v))"
    using v by (simp add: plain_text_def match_text_plain)
  then have "longest_match rules (CHR 0x22 # v @ CHR 0x22 # s) =
    (length v + 2, Some (\<lambda>yytext. Return (T_STRING (butlast (tl yytext))) INITIAL))"
    by (simp add: rules_def match_defs)
  from longest_match_rules [OF this] show ?thesis by (simp add: quoted_def)
qed

definition is_name :: "string \<Rightarrow> bool" where
  "is_name p \<longleftrightarrow> (case p of [] \<Rightarrow> False | c # r \<Rightarrow> is_alpha c \<and> list_all word_char r)"

definition reserved :: "string list" where
  "reserved =
     [''instance'', ''Instance'', ''INSTANCE'', ''of'', ''Of'', ''OF'', ''null'', ''Null'', ''NULL'',
      ''true'', ''True'', ''TRUE'', ''false'', ''False'']"

lemma match_word_append:
  "is_name p \<Longrightarrow> \<not> word_char c \<Longrightarrow> match_word (p @ c # s) = length p"
  by (cases p) (simp_all add: is_name_def match_word_def list_all_iff takeWhile_append2)

lemma take_eq_append:
  assumes w: "\<forall>d \<in> set w. word_char d" and c: "\<not> word_char c"
  shows "take (length w) (p @ c # s) = w \<longleftrightarrow> take (length w) p = w"
proof (cases "length w \<le> length p")
  case False
  then obtain k where k: "length w - length p = Suc k" by (cases "length w - length p") auto
  have "c \<notin> set w" using w c by blast
  moreover have "c \<in> set (take (length w) (p @ c # s))" using False by (simp add: k)
  ultimately have "take (length w) (p @ c # s) \<noteq> w" by metis
  moreover have "take (length w) p \<noteq> w" using False by auto
  ultimately show ?thesis by simp
qed simp

lemma match_literal_append:
  "\<forall>w \<in> set ws. \<forall>d \<in> set w. word_char d \<Longrightarrow> \<not> word_char c \<Longrightarrow> match_literal ws (p @ c # s) = match_literal ws p"
  by (induction ws) (simp_all add: match_literal_def take_eq_append del: take_append)

lemma match_literal_le: "match_literal ws p \<le> length p"
proof (induction ws)
  case (Cons w ws)
  have "take (length w) p = w \<Longrightarrow> length w \<le> length p" by (metis length_take min.cobounded1)
  with Cons show ?case by (simp add: match_literal_def)
qed (simp add: match_literal_def)

lemma match_literal_less: "p \<noteq> [] \<Longrightarrow> p \<notin> set ws \<Longrightarrow> match_literal ws p < length p"
proof (induction ws)
  case (Cons w ws)
  have "take (length w) p = w \<Longrightarrow> length w < length p"
    using Cons.prems(2) by (metis leI list.set_intros(1) take_all)
  with Cons show ?case by (simp add: match_literal_def)
qed (simp add: match_literal_def)

lemma reserved_chars: "\<forall>w \<in> set reserved. \<forall>d \<in> set w. word_char d"
  by (simp add: reserved_def word_char_def is_alpha_def)

lemma next_token_identifier:
  assumes p: "is_name p" and k: "p \<notin> set reserved" and c: "\<not> word_char c"
  shows "next_token INITIAL (p @ c # s) = (T_PROPERTYNAME p, INITIAL, c # s)"
proof -
  obtain a r where ar: "p = a # r" "is_alpha a" using p by (auto simp: is_name_def split: list.splits)
  have lit: "match_literal ws (p @ c # s) < length p" if "set ws \<subseteq> set reserved" for ws
    using that k reserved_chars c match_literal_less [of p ws] ar(1)
    by (subst match_literal_append) auto
  have a: "a \<noteq> CHR ''-''" "\<not> is_digit a" "a \<noteq> CHR 0x22" "a \<noteq> CHR 0x27" "a \<noteq> CHR '' ''" "a \<noteq> CHR 0x09" "a \<noteq> CHR 0x0A"
    using ar(2) by (auto simp: is_alpha_def is_digit_def)
  have zero: "match_integer (p @ c # s) = 0" "match_quoted (CHR 0x22) (p @ c # s) = 0" "match_quoted (CHR 0x27) (p @ c # s) = 0"
    "match_space (p @ c # s) = 0"
    "match_first (\<lambda>c. c = CHR 0x0A) (p @ c # s) = 0" "match_first (\<lambda>c. c \<noteq> CHR 0x0A) (p @ c # s) = 1"
    using a by (simp_all add: ar(1) match_integer_def match_quoted_def match_space_def match_first_def)
  have real: "match_real (p @ c # s) = 0" by (simp add: match_real_def zero)
  have ks: "set [''instance'', ''Instance'', ''INSTANCE''] \<subseteq> set reserved" "set [''of'', ''Of'', ''OF''] \<subseteq> set reserved"
    "set [''null'', ''Null'', ''NULL''] \<subseteq> set reserved" "set [''true'', ''True'', ''TRUE''] \<subseteq> set reserved"
    "set [''false'', ''False'', ''False''] \<subseteq> set reserved"
    by (simp_all add: reserved_def)
  define t n where "t = p @ c # s" and "n = length p"
  note facts = ks [THEN lit, folded t_def n_def] zero [folded t_def] real [folded t_def]
    match_word_append [OF p c, of s, folded t_def n_def]
  have n: "1 \<le> n" by (simp add: n_def ar(1))
  have "longest_match rules t = (n, Some (\<lambda>yytext. Return (T_PROPERTYNAME yytext) INITIAL))"
    unfolding rules_def longest_match.simps Let_def facts using facts(1-5) n by simp
  from longest_match_rules [OF this] show ?thesis by (simp add: t_def n_def)
qed

lemma next_token_class:
  "is_name p \<Longrightarrow> \<not> word_char c \<Longrightarrow>
   next_token READCLASSNAME (CHR '' '' # p @ c # s) = (T_CLASSNAME p, INITIAL, c # s)"
proof -
  assume p: "is_name p" and c: "\<not> word_char c"
  have w: "match_word (p @ c # s) = length p" by (rule match_word_append [OF p c])
  have "length p \<noteq> 0" using p by (cases p) (simp_all add: is_name_def)
  then have "next_token READCLASSNAME (p @ c # s) = (T_CLASSNAME p, INITIAL, c # s)"
    by (simp add: next_token.simps [of READCLASSNAME "p @ c # s"] w)
  moreover have "match_word (CHR '' '' # p @ c # s) = 0" by (simp add: match_word_def is_alpha_def)
  ultimately show ?thesis by (simp add: next_token.simps [of READCLASSNAME "CHR '' '' # p @ c # s"])
qed

lemma next_token_instance:
  "next_token INITIAL (''INSTANCE OF'' @ s) = (T_INSTANCE, INITIAL, '' OF'' @ s)"
proof -
  have "longest_match rules (''INSTANCE OF'' @ s) = (8, Some (\<lambda>yytext. Return T_INSTANCE INITIAL))"
    by (simp add: rules_def match_defs word_char_def)
  from longest_match_rules [OF this] show ?thesis by simp
qed

lemma next_token_of:
  "\<not> word_char c \<Longrightarrow> next_token INITIAL (''OF'' @ c # s) = (T_OF, READCLASSNAME, c # s)"
proof -
  assume c: "\<not> word_char c"
  have "match_word (''OF'' @ c # s) = 2"
    using c by (simp add: match_word_def is_alpha_def word_char_def)
  then have "longest_match rules (''OF'' @ c # s) = (2, Some (\<lambda>yytext. Return T_OF READCLASSNAME))"
    by (simp add: rules_def match_literal_def match_integer_def match_real_def match_quoted_def
      match_space_def match_first_def is_digit_def)
  from longest_match_rules [OF this] show ?thesis by simp
qed

lemma next_token_null: "next_token INITIAL (''NULL'' @ CHR '';'' # s) = (T_NULLTOK, INITIAL, CHR '';'' # s)"
proof -
  have "longest_match rules (''NULL'' @ CHR '';'' # s) = (4, Some (\<lambda>yytext. Return T_NULLTOK INITIAL))"
    by (simp add: rules_def match_defs word_char_def)
  from longest_match_rules [OF this] show ?thesis by simp
qed

definition bool_text :: "bool \<Rightarrow> string" where
  "bool_text b = (if b then ''true'' else ''false'')"

lemma next_token_bool:
  "next_token INITIAL (bool_text b @ CHR '';'' # s) = (T_BOOLEAN b, INITIAL, CHR '';'' # s)"
proof -
  have "longest_match rules (bool_text b @ CHR '';'' # s) =
      (length (bool_text b), Some (\<lambda>yytext. Return (T_BOOLEAN b) INITIAL))"
    by (cases b) (simp_all add: rules_def match_defs word_char_def bool_text_def)
  from longest_match_rules [OF this] show ?thesis by (simp add: bool_text_def)
qed

lemma show_int_digits:
  "\<exists>sg ds. show_int i = sg @ ds \<and> ds \<noteq> [] \<and> (\<forall>c \<in> set ds. is_digit c) \<and>
     (sg = [] \<or> sg = ''-'')"
  unfolding show_int_def using digits_show_nat show_nat_nonempty by (metis append_Cons append_Nil)

lemma match_integer_int:
  "\<not> is_digit c \<Longrightarrow> match_integer (show_int i @ c # s) = length (show_int i)"
proof -
  assume c: "\<not> is_digit c"
  obtain sg ds where sd: "show_int i = sg @ ds" "ds \<noteq> []" "\<forall>c \<in> set ds. is_digit c" "sg = [] \<or> sg = ''-''"
    using show_int_digits by blast
  have tw: "takeWhile is_digit (ds @ c # s) = ds" using sd(3) c by (simp add: takeWhile_append2)
  obtain d r where dr: "ds = d # r" "is_digit d" using sd(2,3) by (cases ds) auto
  then have "d \<noteq> CHR ''-''" by (auto simp: is_digit_def)
  then show ?thesis using sd(4) tw dr by (auto simp: match_integer_def sd(1))
qed

lemma next_token_int:
  assumes i: "- (2 ^ 31) \<le> i" "i < 2 ^ 31"
  shows "next_token INITIAL (show_int i @ CHR '';'' # s) = (T_INTEGER (word_of_int i), INITIAL, CHR '';'' # s)"
proof -
  obtain sg ds where sd: "show_int i = sg @ ds" "ds \<noteq> []" "\<forall>c \<in> set ds. is_digit c" "sg = [] \<or> sg = ''-''"
    using show_int_digits by blast
  obtain d r where dr: "ds = d # r" "is_digit d" using sd(2,3) by (cases ds) auto
  define t n where "t = show_int i @ CHR '';'' # s" and "n = length (show_int i)"
  obtain a q where aq: "t = a # q" "a = CHR ''-'' \<or> is_digit a" using sd(4) dr by (auto simp: t_def sd(1))
  then have a: "\<not> is_alpha a" "a \<noteq> CHR 0x22" "a \<noteq> CHR 0x27" "a \<noteq> CHR '' ''" "a \<noteq> CHR 0x09" "a \<noteq> CHR 0x0A"
    "a \<noteq> CHR ''i''" "a \<noteq> CHR ''I''" "a \<noteq> CHR ''o''" "a \<noteq> CHR ''O''" "a \<noteq> CHR ''n''" "a \<noteq> CHR ''N''"
    "a \<noteq> CHR ''t''" "a \<noteq> CHR ''T''" "a \<noteq> CHR ''f''" "a \<noteq> CHR ''F''"
    by (auto simp: is_alpha_def is_digit_def)
  have int: "match_integer t = n" unfolding t_def n_def by (rule match_integer_int) (simp add: is_digit_def)
  have "n \<noteq> 0" "1 \<le> n" by (simp_all add: n_def sd dr)
  have "drop n t = CHR '';'' # s" by (simp add: t_def n_def)
  then have real: "match_real t = 0" by (simp add: match_real_def int)
  have zero: "match_word t = 0" "match_quoted (CHR 0x22) t = 0" "match_quoted (CHR 0x27) t = 0"
    "match_space t = 0" "match_first (\<lambda>c. c = CHR 0x0A) t = 0" "match_first (\<lambda>c. c \<noteq> CHR 0x0A) t = 1"
    "match_literal [''instance'', ''Instance'', ''INSTANCE''] t = 0" "match_literal [''of'', ''Of'', ''OF''] t = 0"
    "match_literal [''null'', ''Null'', ''NULL''] t = 0" "match_literal [''true'', ''True'', ''TRUE''] t = 0"
    "match_literal [''false'', ''False'', ''False''] t = 0"
    using a by (simp_all add: aq(1) match_word_def match_quoted_def match_space_def match_first_def match_literal_def)
  have "longest_match rules t =
      (n, Some (\<lambda>yytext. Return (T_INTEGER (scast (word_of_int (atoi yytext) :: 32 word))) INITIAL))"
    unfolding rules_def longest_match.simps Let_def zero real int using \<open>1 \<le> n\<close> by simp
  from longest_match_rules [OF this]
  have "next_token INITIAL t = (T_INTEGER (scast (word_of_int i :: 32 word)), INITIAL, CHR '';'' # s)"
    by (simp add: t_def n_def atoi_show_int)
  moreover have "scast (word_of_int i :: 32 word) = (word_of_int i :: 64 word)"
    using i by (simp add: scast_eq sint_sbintrunc' signed_take_bit_int_eq_self)
  ultimately show ?thesis by (simp add: t_def)
qed

section \<open>Instances as clients write them\<close>

fun mof_text :: "mof_value \<Rightarrow> string" where
  "mof_text (MV_string v) = quoted v"
| "mof_text (MV_braced v) = ''{'' @ quoted v @ ''}''"
| "mof_text (MV_integer n) = show_int (sint n)"
| "mof_text (MV_boolean b) = bool_text b"
| "mof_text (MV_real r) = r"
| "mof_text MV_null = ''NULL''"

text \<open>The texts that the scanner gives back: no escapes, and integers of 32 bits. Reals are left out.\<close>

fun writable :: "mof_value \<Rightarrow> bool" where
  "writable (MV_string v) = plain_text v"
| "writable (MV_braced v) = plain_text v"
| "writable (MV_integer n) = (- (2 ^ 31) \<le> sint n \<and> sint n < 2 ^ 31)"
| "writable (MV_boolean b) = True"
| "writable (MV_real r) = False"
| "writable MV_null = True"

definition property_text :: "string \<times> mof_value \<Rightarrow> string" where
  "property_text pv = CHR 0x0A # fst pv @ '' = '' @ mof_text (snd pv) @ '';''"

definition instance_text :: "string \<Rightarrow> (string \<times> mof_value) list \<Rightarrow> string" where
  "instance_text c ps = ''INSTANCE OF '' @ c @ '' {'' @ concat (map property_text ps) @ CHR 0x0A # ''};''"

definition writable_instance :: "string \<Rightarrow> (string \<times> mof_value) list \<Rightarrow> bool" where
  "writable_instance c ps \<longleftrightarrow>
     is_name c \<and> (\<forall>(p, v) \<in> set ps. is_name p \<and> p \<notin> set reserved \<and> writable v)"

definition assign_all :: "('i, 'r) mof_api \<Rightarrow> 'i \<Rightarrow> (string \<times> mof_value) list \<Rightarrow> 'i" where
  "assign_all A i ps = foldl (\<lambda>i (p, v). set_property A i p v) i ps"

lemma parse_value_text:
  "writable v \<Longrightarrow> parse_value INITIAL (CHR '' '' # mof_text v @ CHR '';'' # s) = (Some v, INITIAL, CHR '';'' # s)"
proof -
  assume w: "writable v"
  have blank: "next_token INITIAL (CHR '' '' # r) = next_token INITIAL r" for r
    by (rule next_token_blank) (simp add: blank_def)
  show ?thesis
  proof (cases v)
    case (MV_braced x)
    with w have x: "plain_text x" by simp
    show ?thesis
      using next_token_quoted [OF x, of "CHR ''}'' # CHR '';'' # s"]
      by (simp add: parse_value_def blank MV_braced)
  next
    case (MV_null)
    then show ?thesis using next_token_null [of s] by (simp add: parse_value_def blank)
  qed (use w in \<open>simp_all add: parse_value_def blank next_token_quoted next_token_int next_token_bool\<close>)
qed

lemma parse_property_text:
  "writable v \<Longrightarrow> parse_property A i p INITIAL ('' = '' @ mof_text v @ CHR '';'' # s) = (Some (set_property A i p v), INITIAL, s)"
proof -
  assume w: "writable v"
  have blank: "next_token INITIAL (CHR '' '' # r) = next_token INITIAL r" for r
    by (rule next_token_blank) (simp add: blank_def)
  show ?thesis using parse_value_text [OF w, of s] by (simp add: parse_property_def blank)
qed

lemma parse_properties_text:
  "\<forall>(p, v) \<in> set ps. is_name p \<and> p \<notin> set reserved \<and> writable v \<Longrightarrow>
   parse_properties A i INITIAL (concat (map property_text ps) @ CHR 0x0A # ''};'' @ s) = (Some (assign_all A i ps), INITIAL)"
proof (induction ps arbitrary: i)
  case Nil
  have "next_token INITIAL (CHR 0x0A # ''};'' @ s) = (T_CHAR (CHR ''}''), INITIAL, '';'' @ s)"
    by (simp add: next_token_blank blank_def)
  then show ?case by (simp add: parse_properties.simps [of A i] parse_end_def assign_all_def)
next
  case (Cons pv ps)
  obtain p v where pv: "pv = (p, v)" by (cases pv)
  let ?rest = "concat (map property_text ps) @ CHR 0x0A # ''};'' @ s"
  have p: "is_name p" "p \<notin> set reserved" "writable v" using Cons.prems pv by auto
  have "next_token INITIAL (property_text pv @ ?rest) =
    (T_PROPERTYNAME p, INITIAL, '' = '' @ mof_text v @ CHR '';'' # ?rest)"
    using next_token_identifier [OF p(1,2), of "CHR '' ''" "''= '' @ mof_text v @ CHR '';'' # ?rest"]
    by (simp add: property_text_def pv next_token_blank blank_def word_char_def is_alpha_def is_digit_def)
  then show ?case using Cons parse_property_text [OF p(3), of A i p ?rest]
    by (simp add: parse_properties.simps [of A i] assign_all_def pv)
qed

lemma yyparse_text:
  assumes w: "writable_instance c ps"
  shows "yyparse A INITIAL (instance_text c ps) =
    (case CMNewInstance A c of None \<Rightarrow> (1, None, INITIAL) | Some i \<Rightarrow> (0, Some (assign_all A i ps), INITIAL))"
proof -
  let ?body = "concat (map property_text ps) @ CHR 0x0A # ''};''"
  have blank: "next_token INITIAL (CHR '' '' # r) = next_token INITIAL r" for r
    by (rule next_token_blank) (simp add: blank_def)
  have space: "\<not> word_char (CHR '' '')" by (simp add: word_char_def is_alpha_def is_digit_def)
  have t1: "next_token INITIAL (instance_text c ps) = (T_INSTANCE, INITIAL, '' OF '' @ c @ '' {'' @ ?body)"
    using next_token_instance [of "'' '' @ c @ '' {'' @ ?body"] by (simp add: instance_text_def)
  have t2: "next_token INITIAL ('' OF '' @ c @ '' {'' @ ?body) = (T_OF, READCLASSNAME, '' '' @ c @ '' {'' @ ?body)"
    using next_token_of [OF space, of "c @ '' {'' @ ?body"] by (simp add: blank)
  have t3: "next_token READCLASSNAME ('' '' @ c @ '' {'' @ ?body) = (T_CLASSNAME c, INITIAL, '' {'' @ ?body)"
    using next_token_class [OF _ space, of c "''{'' @ ?body"] w by (simp add: writable_instance_def)
  have t4: "next_token INITIAL ('' {'' @ ?body) = (T_CHAR (CHR ''{''), INITIAL, ?body)"
    by (simp add: blank)
  have t5: "parse_properties A i INITIAL ?body = (Some (assign_all A i ps), INITIAL)" for i
    using parse_properties_text [of ps A i "[]"] w by (simp add: writable_instance_def)
  show ?thesis unfolding yyparse_def t1 prod.case token.case t2 t3 t4 by (simp add: t5 split: option.splits)
qed

text \<open>A value that a property of the type takes.\<close>

fun fits :: "property_type \<Rightarrow> 'r setting \<Rightarrow> bool" where
  "fits t (S_chars x) = (string_bits t \<and> \<not> array_bit t)"
| "fits t (S_charsA xs) = (string_bits t \<and> array_bit t)"
| "fits t (S_uint64 x) = (integer_bits t \<and> \<not> array_bit t)"
| "fits t (S_uint64A xs) = (integer_bits t \<and> array_bit t)"
| "fits t (S_real64 x) = (real_bits t \<and> \<not> array_bit t)"
| "fits t (S_real64A xs) = (real_bits t \<and> array_bit t)"
| "fits t (S_boolean x) = (boolean_bits t \<and> \<not> array_bit t)"
| "fits t (S_booleanA xs) = (boolean_bits t \<and> array_bit t)"

definition keeps :: "('i, 'r) mof_api \<Rightarrow> ('i \<Rightarrow> bool) \<Rightarrow> bool" where
  "keeps A P \<longleftrightarrow>
     (\<forall>i p x. P i \<longrightarrow> fits (CMPropertyType A i p) x \<longrightarrow> P (CMSetProperty A i p x))"

lemma set_property_keeps: "keeps A P \<Longrightarrow> P i \<Longrightarrow> P (set_property A i p v)"
  unfolding keeps_def set_property_def by (cases v) (auto simp: Let_def)

lemma parse_property_keeps:
  "keeps A P \<Longrightarrow> P i \<Longrightarrow> parse_property A i p mode s = (Some j, m2, s2) \<Longrightarrow> P j"
  by (auto simp: parse_property_def set_property_keeps split: prod.splits option.splits if_splits)

lemma parse_end_instance: "parse_end i t mode s = (Some j, m') \<Longrightarrow> j = i"
  by (simp add: parse_end_def split: if_splits prod.splits)

lemma parse_properties_keeps:
  "keeps A P \<Longrightarrow> P i \<Longrightarrow> parse_properties A i mode s = (Some j, m') \<Longrightarrow> P j"
proof (induction A i mode s rule: parse_properties.induct)
  case (1 A i mode s)
  obtain t m1 s1 where n1: "next_token mode s = (t, m1, s1)" by (cases "next_token mode s")
  show ?case
  proof (cases "\<exists>p. t = T_PROPERTYNAME p")
    case True
    then obtain p where p: "t = T_PROPERTYNAME p" ..
    obtain k m2 s2 where q: "parse_property A i p m1 s1 = (k, m2, s2)" by (cases "parse_property A i p m1 s1")
    show ?thesis
    proof (cases k)
      case None
      then show ?thesis using "1.prems" by (simp add: parse_properties.simps [of A i] n1 p q)
    next
      case (Some l)
      have "P l" using parse_property_keeps [OF "1.prems"(1,2)] q Some by simp
      moreover have "parse_properties A l m2 s2 = (Some j, m')"
        using "1.prems"(3) by (simp add: parse_properties.simps [of A i] n1 p q Some)
      ultimately show ?thesis
        using "1.IH" "1.prems"(1) n1 p q Some by fastforce
    qed
  next
    case False
    then have "j = i" using "1.prems"(3) parse_end_instance
      by (cases t) (auto simp: parse_properties.simps [of A i] n1 split: prod.splits)
    with "1.prems"(2) show ?thesis by simp
  qed
qed

section \<open>Properties\<close>

text \<open>C22. Setting data survive their text form: what a client writes with names that are not reserved, plain
  strings, 32-bit integers, truth values and null, escaped for XML, is parsed into the class's new instance with
  the properties assigned in order, or refused if the broker does not know the class.\<close>

theorem embedded_instance_roundtrip:
  assumes w: "writable_instance c ps"
  shows "xen_utils_parse_embedded_instance A INITIAL (concat (map xml_escape_char (instance_text c ps))) =
    (map_option (\<lambda>i. assign_all A i ps) (CMNewInstance A c), INITIAL)"
  by (simp add: xen_utils_parse_embedded_instance_def XmlToAsciiStr_escapes yyparse_text [OF w] split: option.splits)

text \<open>C24. A text that breaks off behind \<^verbatim>\<open>OF\<close> is refused, and so is the next one,
  whatever it holds: the scanner still waits for a class name, and takes the first word of the next text for it.\<close>

theorem truncated_text_spoils_next:
  assumes w: "writable_instance c ps"
  shows "xen_utils_parse_embedded_instance A INITIAL ''INSTANCE OF'' = (None, READCLASSNAME) \<and>
    xen_utils_parse_embedded_instance A READCLASSNAME (concat (map xml_escape_char (instance_text c ps))) = (None, INITIAL)"
proof
  have of: "longest_match rules ''OF'' = (2, Some (\<lambda>yytext. Return T_OF READCLASSNAME))"
    by (simp add: rules_def match_defs word_char_def)
  have t1: "next_token INITIAL ''INSTANCE OF'' = (T_INSTANCE, INITIAL, '' OF'')"
    using next_token_instance [of "[]"] by simp
  have t2: "next_token INITIAL '' OF'' = (T_OF, READCLASSNAME, [])"
    using longest_match_rules [OF of] by (simp add: next_token_blank blank_def)
  have "XmlToAsciiStr ''INSTANCE OF'' = ''INSTANCE OF''" by (simp add: XmlToAscii_def XmlEscapes_def)
  then show "xen_utils_parse_embedded_instance A INITIAL ''INSTANCE OF'' = (None, READCLASSNAME)"
    unfolding xen_utils_parse_embedded_instance_def yyparse_def
    by (simp add: t1 t2 next_token.simps [of READCLASSNAME "[]"])
  let ?rest = "'' OF '' @ c @ '' {'' @ concat (map property_text ps) @ CHR 0x0A # ''};''"
  have "match_word (instance_text c ps) = 8" by (simp add: instance_text_def match_defs word_char_def)
  then have "next_token READCLASSNAME (instance_text c ps) = (T_CLASSNAME ''INSTANCE'', INITIAL, ?rest)"
    by (simp add: next_token.simps [of READCLASSNAME "instance_text c ps"]) (simp add: instance_text_def)
  then show "xen_utils_parse_embedded_instance A READCLASSNAME (concat (map xml_escape_char (instance_text c ps))) = (None, INITIAL)"
    by (simp add: xen_utils_parse_embedded_instance_def XmlToAsciiStr_escapes yyparse_def)
qed


section \<open>Witnesses\<close>

text \<open>A broker that knows one class, whose instances are lists of assignments.\<close>

definition demo_type :: "string \<Rightarrow> property_type" where
  "demo_type p = \<lparr>string_bits = (p = ''ElementName''), real_bits = False, integer_bits = (p = ''VirtualQuantity''),
     boolean_bits = False, array_bit = False\<rparr>"

definition demo_mof :: "((string \<times> int setting) list, int) mof_api" where
  "demo_mof = \<lparr>CMNewInstance = (\<lambda>c. if c = ''Xen_MemorySettingData'' then Some [] else None),
     CMPropertyType = (\<lambda>i p. demo_type p), CMSetProperty = (\<lambda>i p x. i @ [(p, x)]),
     real_of_sint64 = sint, atof = (\<lambda>s. 0)\<rparr>"

definition demo_properties :: "(string \<times> mof_value) list" where
  "demo_properties = [(''ElementName'', MV_string ''R&D <1>''), (''VirtualQuantity'', MV_integer 256), (''Other'', MV_null)]"

lemma demo_writable: "writable_instance ''Xen_MemorySettingData'' demo_properties"
  by (simp add: writable_instance_def demo_properties_def is_name_def word_char_def is_alpha_def is_digit_def
    reserved_def plain_text_def)

lemma demo_assigned:
  "map_option (\<lambda>i. assign_all demo_mof i demo_properties) (CMNewInstance demo_mof ''Xen_MemorySettingData'') =
    Some [(''ElementName'', S_chars ''R&D <1>''), (''VirtualQuantity'', S_uint64 256)]"
  by (simp add: assign_all_def demo_mof_def demo_properties_def set_property_def demo_type_def)

theorem embedded_instance_roundtrip_witness:
  "xen_utils_parse_embedded_instance demo_mof INITIAL
     (concat (map xml_escape_char (instance_text ''Xen_MemorySettingData'' demo_properties))) =
   (Some [(''ElementName'', S_chars ''R&D <1>''), (''VirtualQuantity'', S_uint64 256)], INITIAL)"
  using embedded_instance_roundtrip [OF demo_writable, of demo_mof] by (simp only: demo_assigned)

theorem truncated_text_spoils_next_witness:
  "xen_utils_parse_embedded_instance demo_mof INITIAL ''INSTANCE OF'' = (None, READCLASSNAME) \<and>
   xen_utils_parse_embedded_instance demo_mof READCLASSNAME
     (concat (map xml_escape_char (instance_text ''Xen_MemorySettingData'' demo_properties))) = (None, INITIAL)"
  by (rule truncated_text_spoils_next [OF demo_writable])

definition demo_fits :: "(string \<times> int setting) list \<Rightarrow> bool" where
  "demo_fits i = (\<forall>(p, x) \<in> set i. fits (demo_type p) x)"

lemma demo_keeps: "keeps demo_mof demo_fits"
  by (simp add: keeps_def demo_mof_def demo_fits_def)


end
