(* ===== verification/SystemDestroy.thy ===== *)
theory SystemDestroy
  imports ComputerSystem
begin

text \<open>
  Destruction of VMs by the virtual system management service
  (\<^verbatim>\<open>src/Xen_VirtualSystemManagementService.c\<close>): a VM goes with its block devices,
  and with those of its disks that nothing else uses. The calls of the SDK are a record of functions on
  the session state; what its documentation says of them is the predicate \<open>disk_service\<close>.
\<close>

record 'x disk_api = "'x vm_api" +
  vm_get_vbds :: "string \<Rightarrow> 'x \<Rightarrow> string list option \<times> 'x"
  vbd_get_vdi :: "string \<Rightarrow> 'x \<Rightarrow> string option \<times> 'x"
  vdi_get_vbds :: "string \<Rightarrow> 'x \<Rightarrow> string list option \<times> 'x"
  vdi_get_read_only :: "string \<Rightarrow> 'x \<Rightarrow> bool option \<times> 'x"
  vdi_get_sharable :: "string \<Rightarrow> 'x \<Rightarrow> bool option \<times> 'x"
  xen_vdi_destroy :: "string \<Rightarrow> 'x \<Rightarrow> bool \<times> 'x"
  xen_vbd_destroy :: "string \<Rightarrow> 'x \<Rightarrow> bool \<times> 'x"
  xen_vm_destroy :: "string \<Rightarrow> 'x \<Rightarrow> bool \<times> 'x"

abbreviation reset_disks :: "('x, 'z) disk_api_scheme \<Rightarrow> 'x \<Rightarrow> 'x" where
  "reset_disks A x \<equiv> RESET_XEN_ERROR (vm_calls A) x"

section \<open>The operations\<close>

text \<open>A disk goes with its device when the device is its only user, and it can be written and is not shared.\<close>

definition vbd_destroy :: "('x, 'z) disk_api_scheme \<Rightarrow> string \<Rightarrow> bool \<Rightarrow> 'x \<Rightarrow> bool \<times> 'x" where
  "vbd_destroy A vbd destroy_associated_vdi x =
     (let x1 =
        (if destroy_associated_vdi
         then (case vbd_get_vdi A vbd x of
                 (None, y) \<Rightarrow> y
               | (Some vdi, y) \<Rightarrow>
                   (case vdi_get_vbds A vdi y of
                      (None, y1) \<Rightarrow> y1
                    | (Some users, y1) \<Rightarrow>
                        (case vdi_get_read_only A vdi y1 of (read_only, y2) \<Rightarrow>
                         (case vdi_get_sharable A vdi y2 of (sharable, y3) \<Rightarrow>
                          reset_disks A
                            (if length users = 1 \<and> read_only = Some False \<and> sharable = Some False
                             then snd (xen_vdi_destroy A vdi y3) else y3)))))
         else x)
      in xen_vbd_destroy A vbd x1)"

fun destroy_each :: "('x, 'z) disk_api_scheme \<Rightarrow> string list \<Rightarrow> 'x \<Rightarrow> 'x" where
  "destroy_each A [] x = x"
| "destroy_each A (b # bs) x = destroy_each A bs (snd (vbd_destroy A b True (reset_disks A x)))"

definition vm_vbds_destroy :: "('x, 'z) disk_api_scheme \<Rightarrow> string \<Rightarrow> 'x \<Rightarrow> 'x" where
  "vm_vbds_destroy A vm x =
     (case vm_get_vbds A vm x of (None, x1) \<Rightarrow> x1 | (Some vbd_set, x1) \<Rightarrow> destroy_each A vbd_set x1)"

definition vm_destroy :: "('x, 'z) disk_api_scheme \<Rightarrow> string \<Rightarrow> bool \<Rightarrow> 'x \<Rightarrow> bool \<times> 'x" where
  "vm_destroy A vm remove_associated_disks x =
     (let x1 = (if remove_associated_disks then vm_vbds_destroy A vm (reset_disks A x) else reset_disks A x)
      in xen_vm_destroy A vm (reset_disks A x1))"

text \<open>The status of a method: the error of the session, or the message, where the code is not OK.\<close>

definition method_status :: "xen_error \<Rightarrow> cmpi_rc \<Rightarrow> string \<Rightarrow> cmpi_rc \<times> string" where
  "method_status err statusrc msg =
     (statusrc, snd (xen_utils_set_status (if statusrc = CMPI_RC_OK then 0 else 1) msg (Some err)))"

abbreviation VSMS_Completed :: int where "VSMS_Completed \<equiv> 0"
abbreviation VSMS_Failed :: int where "VSMS_Failed \<equiv> 2"
abbreviation VSMS_Invalid_Parameter :: int where "VSMS_Invalid_Parameter \<equiv> 4"
abbreviation VSMS_Invalid_State :: int where "VSMS_Invalid_State \<equiv> 5"
abbreviation VSMS_Job_Started :: int where "VSMS_Job_Started \<equiv> 4096"

definition unknown_error :: string where
  "unknown_error = ''ERROR: Unknown Error''"

text \<open>A VM that is not halted is shut down, but not destroyed.\<close>

definition DestroySystem ::
    "('x, 'z) disk_api_scheme \<Rightarrow> ('p \<Rightarrow> string \<Rightarrow> cmpi_rc \<times> ('p, 'i) arg_value option) \<Rightarrow> ('p, 'i) method_args \<Rightarrow> nat \<Rightarrow>
     'x \<Rightarrow> int \<times> (cmpi_rc \<times> string) \<times> 'x" where
  "DestroySystem A get_key argsin argsInCount x =
     (let ends = (\<lambda>rc st msg y. (rc, method_status (error_of A y) st msg, y))
      in if argsInCount \<noteq> 1
         then ends VSMS_Invalid_Parameter CMPI_RC_ERR_INVALID_PARAMETER ''ERROR: Incorrect number of method arguments'' x
         else (case xen_utils_get_affectedsystem (vm_calls A) get_key argsin x of
            (_, None, x1) \<Rightarrow>
              ends VSMS_Invalid_Parameter CMPI_RC_ERR_INVALID_PARAMETER
                (''ERROR: Missing '' @ [CHR 0x27] @ ''AffectedSystem'' @ [CHR 0x27] @ '' parameter'') x1
          | (_, Some (vm, vm_rec), x1) \<Rightarrow>
              (case vm_get_power_state A vm x1 of
                 (None, x2) \<Rightarrow>
                   ends VSMS_Invalid_State CMPI_RC_ERR_FAILED
                     ''ERROR: Unable to determine power state of Xen_ComputerSystem instance.'' x2
               | (Some p, x2) \<Rightarrow>
                   if p \<noteq> Halted
                   then let x3 = vm_do A OP_CLEAN_SHUTDOWN vm x2
                     in ends VSMS_Invalid_State CMPI_RC_ERR_FAILED
                       (if session_ok (vm_calls A) x3 then unknown_error
                        else ''ERROR: Unable to cleanly shutdown the Xen_ComputerSystem instance.'') x3
                   else (case vm_destroy A vm True x2 of
                      (False, x3) \<Rightarrow>
                        ends VSMS_Failed CMPI_RC_ERR_FAILED ''ERROR: Unable to destroy the Xen_ComputerSystem instance.'' x3
                    | (True, x3) \<Rightarrow> ends VSMS_Completed CMPI_RC_OK unknown_error x3))))"

section \<open>What the daemon keeps\<close>

text \<open>The VMs with their power states, the block devices with their VM and disk, the disks with their flags read-only and sharable.\<close>

record disk_store =
  vm_of :: "string \<rightharpoonup> power_state"
  vbd_of :: "string \<rightharpoonup> string \<times> string option"
  vdi_of :: "string \<rightharpoonup> bool \<times> bool"

definition users :: "disk_store \<Rightarrow> string \<Rightarrow> string set" where
  "users S d = {b. \<exists>vm. vbd_of S b = Some (vm, Some d)}"

definition devices :: "disk_store \<Rightarrow> string \<Rightarrow> string set" where
  "devices S vm = {b. \<exists>d. vbd_of S b = Some (vm, d)}"

text \<open>The disks that nothing but the VM uses, and that may be destroyed.\<close>

definition own_disks :: "disk_store \<Rightarrow> string \<Rightarrow> string set" where
  "own_disks S vm = {d. vdi_of S d = Some (False, False) \<and> users S d \<noteq> {} \<and> users S d \<subseteq> devices S vm}"

definition without_vm :: "disk_store \<Rightarrow> string \<Rightarrow> disk_store" where
  "without_vm S vm = S\<lparr>vm_of := (vm_of S)(vm := None), vbd_of := vbd_of S |` (- devices S vm)\<rparr>"

text \<open>The calls as the SDK documents them.\<close>

definition disk_service :: "('x, 'z) disk_api_scheme \<Rightarrow> ('x \<Rightarrow> disk_store) \<Rightarrow> bool" where
  "disk_service A view \<longleftrightarrow>
     (\<forall>x. view (clear_error (vm_calls A) x) = view x) \<and>
     query_call view (vm_get_vbds A) (\<lambda>S vm bs. distinct bs \<and> set bs = devices S vm) \<and>
     query_call view (vbd_get_vdi A) (\<lambda>S b d. b \<in> users S d) \<and>
     query_call view (vdi_get_vbds A) (\<lambda>S d bs. distinct bs \<and> set bs = users S d) \<and>
     query_call view (vdi_get_read_only A) (\<lambda>S d v. map_option fst (vdi_of S d) = Some v) \<and>
     query_call view (vdi_get_sharable A) (\<lambda>S d v. map_option snd (vdi_of S d) = Some v) \<and>
     change_call view (xen_vdi_destroy A) (\<lambda>S d. S\<lparr>vdi_of := (vdi_of S)(d := None)\<rparr>) \<and>
     change_call view (xen_vbd_destroy A) (\<lambda>S b. S\<lparr>vbd_of := (vbd_of S)(b := None)\<rparr>) \<and>
     change_call view (xen_vm_destroy A) without_vm"

lemma disk_serviceD:
  assumes "disk_service A view"
  shows "view (clear_error (vm_calls A) x) = view x"
    and "query_call view (vm_get_vbds A) (\<lambda>S vm bs. distinct bs \<and> set bs = devices S vm)"
    and "query_call view (vbd_get_vdi A) (\<lambda>S b d. b \<in> users S d)"
    and "query_call view (vdi_get_vbds A) (\<lambda>S d bs. distinct bs \<and> set bs = users S d)"
    and "query_call view (vdi_get_read_only A) (\<lambda>S d v. map_option fst (vdi_of S d) = Some v)"
    and "query_call view (vdi_get_sharable A) (\<lambda>S d v. map_option snd (vdi_of S d) = Some v)"
    and "change_call view (xen_vdi_destroy A) (\<lambda>S d. S\<lparr>vdi_of := (vdi_of S)(d := None)\<rparr>)"
    and "change_call view (xen_vbd_destroy A) (\<lambda>S b. S\<lparr>vbd_of := (vbd_of S)(b := None)\<rparr>)"
    and "change_call view (xen_vm_destroy A) without_vm"
  using assms by (simp_all add: disk_service_def)

lemma reset_view: "disk_service A view \<Longrightarrow> view (reset_disks A x) = view x"
  by (simp add: RESET_XEN_ERROR_def disk_serviceD(1))

section \<open>What is spared\<close>

definition spares :: "disk_store \<Rightarrow> string \<Rightarrow> disk_store \<Rightarrow> bool" where
  "spares S vm S' \<longleftrightarrow>
     (\<forall>v. v \<noteq> vm \<longrightarrow> vm_of S' v = vm_of S v) \<and>
     (\<forall>b. vbd_of S' b = vbd_of S b \<or> vbd_of S' b = None \<and> b \<in> devices S vm) \<and>
     (\<forall>d. vdi_of S' d = vdi_of S d \<or> vdi_of S' d = None \<and> d \<in> own_disks S vm)"

lemma spares_refl: "spares S vm S"
  by (simp add: spares_def)

lemma one_user: "distinct us \<Longrightarrow> set us = U \<Longrightarrow> b \<in> U \<Longrightarrow> length us = 1 \<longleftrightarrow> U = {b}"
  by (metis One_nat_def card_1_singleton_iff distinct_card singletonD)

text \<open>What happens before the device itself is destroyed.\<close>

definition disk_freed :: "disk_store \<Rightarrow> string \<Rightarrow> disk_store \<Rightarrow> bool" where
  "disk_freed S b S1 \<longleftrightarrow> S1 = S \<or>
     (\<exists>d. users S d = {b} \<and> vdi_of S d = Some (False, False) \<and> S1 = S\<lparr>vdi_of := (vdi_of S)(d := None)\<rparr>)"

lemma vbd_destroy_disk:
  assumes D: "disk_service A view"
  shows "\<exists>x1. vbd_destroy A b f x = xen_vbd_destroy A b x1 \<and> disk_freed (view x) b (view x1)"
proof (cases f)
  case False
  then show ?thesis by (auto simp: vbd_destroy_def disk_freed_def)
next
  case True
  note q = disk_serviceD [OF D]
  obtain dd y where y: "vbd_get_vdi A b x = (dd, y)" by (cases "vbd_get_vdi A b x")
  note v0 = query_callD(1) [OF q(3) y]
  show ?thesis
  proof (cases dd)
    case None
    then show ?thesis using True y v0 by (auto simp: vbd_destroy_def disk_freed_def)
  next
    case (Some d)
    obtain us y1 where y1: "vdi_get_vbds A d y = (us, y1)" by (cases "vdi_get_vbds A d y")
    obtain ro y2 where y2: "vdi_get_read_only A d y1 = (ro, y2)" by (cases "vdi_get_read_only A d y1")
    obtain sh y3 where y3: "vdi_get_sharable A d y2 = (sh, y3)" by (cases "vdi_get_sharable A d y2")
    note v1 = query_callD(1) [OF q(4) y1] note v2 = query_callD(1) [OF q(5) y2] note v3 = query_callD(1) [OF q(6) y3]
    show ?thesis
    proof (cases us)
      case None
      then show ?thesis using True y y1 Some v0 v1 by (auto simp: vbd_destroy_def disk_freed_def)
    next
      case (Some bs)
      let ?c = "length bs = 1 \<and> ro = Some False \<and> sh = Some False"
      let ?x1 = "if ?c then snd (xen_vdi_destroy A d y3) else y3"
      have eq: "vbd_destroy A b f x = xen_vbd_destroy A b (reset_disks A ?x1)"
        using True y y1 y2 y3 \<open>dd = Some d\<close> Some by (simp add: vbd_destroy_def)
      have "disk_freed (view x) b (view ?x1)"
      proof (cases ?c)
        case c: True
        have "b \<in> users (view x) d" by (rule query_callD(2) [OF q(3), of b x d y]) (simp add: y \<open>dd = Some d\<close>)
        moreover have "distinct bs \<and> set bs = users (view y) d"
          by (rule query_callD(2) [OF q(4), of d y bs y1]) (simp add: y1 Some)
        ultimately have us: "users (view x) d = {b}" using one_user [of bs "users (view x) d" b] c v0 by simp
        moreover have fl: "map_option fst (vdi_of (view x) d) = Some False"
          using query_callD(2) [OF q(5), of d y1 False y2] y2 c v0 v1 by simp
        moreover have "map_option snd (vdi_of (view x) d) = Some False"
          using query_callD(2) [OF q(6), of d y2 False y3] y3 c v0 v1 v2 by simp
        then have "vdi_of (view x) d = Some (False, False)"
          using fl by (cases "vdi_of (view x) d") (simp_all add: prod_eq_iff)
        with us have u: "users (view x) d = {b} \<and> vdi_of (view x) d = Some (False, False)" by simp
        moreover have "view ?x1 = (if fst (xen_vdi_destroy A d y3)
            then (view x)\<lparr>vdi_of := (vdi_of (view x))(d := None)\<rparr> else view x)"
          using change_call_snd [OF q(7), of d y3] v0 v1 v2 v3 c by simp
        ultimately show ?thesis using u unfolding disk_freed_def
          by (cases "fst (xen_vdi_destroy A d y3)") (simp_all, blast)
      next
        case False
        then show ?thesis using v0 v1 v2 v3 by (auto simp: disk_freed_def)
      qed
      then show ?thesis using eq reset_view [OF D] by metis
    qed
  qed
qed

lemma disk_freed_spares:
  assumes s: "spares S vm T" and b: "b \<in> devices S vm" and f: "disk_freed T b T1"
  shows "spares S vm T1"
proof -
  from f consider "T1 = T" | d where "users T d = {b}" "vdi_of T d = Some (False, False)"
    "T1 = T\<lparr>vdi_of := (vdi_of T)(d := None)\<rparr>" by (auto simp: disk_freed_def)
  then show ?thesis
  proof cases
    case 1
    with s show ?thesis by simp
  next
    case 2
    have "users S d \<subseteq> devices S vm"
    proof
      fix c assume "c \<in> users S d"
      show "c \<in> devices S vm"
      proof (cases "vbd_of T c = vbd_of S c")
        case True
        with \<open>c \<in> users S d\<close> have "c \<in> users T d" by (simp add: users_def)
        with 2(1) b show ?thesis by simp
      next
        case False
        with s show ?thesis by (auto simp: spares_def)
      qed
    qed
    moreover have "b \<in> users S d"
    proof -
      have "b \<in> users T d" using 2(1) by simp
      moreover have "vbd_of T b = vbd_of S b \<or> vbd_of T b = None" using s by (auto simp: spares_def)
      ultimately show ?thesis by (auto simp: users_def)
    qed
    moreover have "vdi_of S d = Some (False, False)" using s 2(2) unfolding spares_def by (metis option.distinct(1))
    ultimately have "d \<in> own_disks S vm" by (auto simp: own_disks_def)
    with s 2(3) show ?thesis by (simp add: spares_def)
  qed
qed

lemma vbd_destroy_spares:
  assumes D: "disk_service A view" and s: "spares S vm (view x)" and b: "b \<in> devices S vm"
  shows "spares S vm (view (snd (vbd_destroy A b f x)))"
proof -
  obtain x1 where x1: "vbd_destroy A b f x = xen_vbd_destroy A b x1" "disk_freed (view x) b (view x1)"
    using vbd_destroy_disk [OF D] by blast
  have "spares S vm (view x1)" by (rule disk_freed_spares [OF s b x1(2)])
  with b show ?thesis using change_call_snd [OF disk_serviceD(8) [OF D], of b x1]
    by (auto simp: x1(1) spares_def split: if_splits)
qed

lemma destroy_each_spares:
  assumes D: "disk_service A view"
  shows "spares S vm (view x) \<Longrightarrow> set bs \<subseteq> devices S vm \<Longrightarrow> spares S vm (view (destroy_each A bs x))"
  by (induction bs arbitrary: x) (simp_all add: vbd_destroy_spares [OF D] reset_view [OF D])

section \<open>What is destroyed\<close>

text \<open>A daemon on which no call fails whose objects exist, and whose devices have existing disks.\<close>

definition reliable :: "('x, 'z) disk_api_scheme \<Rightarrow> ('x \<Rightarrow> disk_store) \<Rightarrow> bool" where
  "reliable A view \<longleftrightarrow>
     (let good = (\<lambda>x. session_ok (vm_calls A) x) in
     (\<forall>x. good (clear_error (vm_calls A) x)) \<and>
     (\<forall>x vm. good x \<and> vm_of (view x) vm \<noteq> None \<longrightarrow> (\<exists>bs x'. vm_get_vbds A vm x = (Some bs, x') \<and> good x')) \<and>
     (\<forall>x b vm d. good x \<and> vbd_of (view x) b = Some (vm, Some d) \<longrightarrow> (\<exists>x'. vbd_get_vdi A b x = (Some d, x') \<and> good x')) \<and>
     (\<forall>x d. good x \<and> vdi_of (view x) d \<noteq> None \<longrightarrow>
        (\<exists>bs x'. vdi_get_vbds A d x = (Some bs, x') \<and> good x') \<and>
        (\<exists>v x'. vdi_get_read_only A d x = (Some v, x') \<and> good x') \<and>
        (\<exists>v x'. vdi_get_sharable A d x = (Some v, x') \<and> good x') \<and>
        (\<exists>x'. xen_vdi_destroy A d x = (True, x') \<and> good x')) \<and>
     (\<forall>x b. good x \<and> vbd_of (view x) b \<noteq> None \<longrightarrow> fst (xen_vbd_destroy A b x)) \<and>
     (\<forall>x vm. good x \<and> vm_of (view x) vm \<noteq> None \<longrightarrow> fst (xen_vm_destroy A vm x)))"

lemma reliableD:
  assumes "reliable A view" and "session_ok (vm_calls A) x"
  shows "vm_of (view x) vm \<noteq> None \<Longrightarrow> \<exists>bs x'. vm_get_vbds A vm x = (Some bs, x') \<and> session_ok (vm_calls A) x'"
    and "vbd_of (view x) b = Some (vm, Some d) \<Longrightarrow> \<exists>x'. vbd_get_vdi A b x = (Some d, x') \<and> session_ok (vm_calls A) x'"
    and "vdi_of (view x) d \<noteq> None \<Longrightarrow> \<exists>bs x'. vdi_get_vbds A d x = (Some bs, x') \<and> session_ok (vm_calls A) x'"
    and "vdi_of (view x) d \<noteq> None \<Longrightarrow> \<exists>v x'. vdi_get_read_only A d x = (Some v, x') \<and> session_ok (vm_calls A) x'"
    and "vdi_of (view x) d \<noteq> None \<Longrightarrow> \<exists>v x'. vdi_get_sharable A d x = (Some v, x') \<and> session_ok (vm_calls A) x'"
    and "vdi_of (view x) d \<noteq> None \<Longrightarrow> fst (xen_vdi_destroy A d x)"
    and "vbd_of (view x) b \<noteq> None \<Longrightarrow> fst (xen_vbd_destroy A b x)"
    and "vm_of (view x) vm \<noteq> None \<Longrightarrow> fst (xen_vm_destroy A vm x)"
proof -
  note r0 = assms(1) [unfolded reliable_def Let_def]
  note r1 = conjunct2 [OF r0] note r2 = conjunct2 [OF r1] note r3 = conjunct2 [OF r2] note r4 = conjunct2 [OF r3]
  note r5 = conjunct2 [OF r4]
  show "vm_of (view x) vm \<noteq> None \<Longrightarrow> \<exists>bs x'. vm_get_vbds A vm x = (Some bs, x') \<and> session_ok (vm_calls A) x'"
    using conjunct1 [OF r1] assms(2) by blast
  show "vbd_of (view x) b = Some (vm, Some d) \<Longrightarrow> \<exists>x'. vbd_get_vdi A b x = (Some d, x') \<and> session_ok (vm_calls A) x'"
    using conjunct1 [OF r2] assms(2) by blast
  assume e: "vdi_of (view x) d \<noteq> None"
  note d = conjunct1 [OF r3, rule_format, OF conjI, OF assms(2) e]
  show "\<exists>bs x'. vdi_get_vbds A d x = (Some bs, x') \<and> session_ok (vm_calls A) x'" by (rule conjunct1 [OF d])
  show "\<exists>v x'. vdi_get_read_only A d x = (Some v, x') \<and> session_ok (vm_calls A) x'" by (rule conjunct1 [OF conjunct2 [OF d]])
  show "\<exists>v x'. vdi_get_sharable A d x = (Some v, x') \<and> session_ok (vm_calls A) x'"
    by (rule conjunct1 [OF conjunct2 [OF conjunct2 [OF d]]])
  show "fst (xen_vdi_destroy A d x)" using conjunct2 [OF conjunct2 [OF conjunct2 [OF d]]] by auto
next
  note r0 = assms(1) [unfolded reliable_def Let_def]
  note r1 = conjunct2 [OF r0] note r2 = conjunct2 [OF r1] note r3 = conjunct2 [OF r2] note r4 = conjunct2 [OF r3]
  note r5 = conjunct2 [OF r4]
  show "vbd_of (view x) b \<noteq> None \<Longrightarrow> fst (xen_vbd_destroy A b x)" using conjunct1 [OF r4] assms(2) by blast
  show "vm_of (view x) vm \<noteq> None \<Longrightarrow> fst (xen_vm_destroy A vm x)" using r5 assms(2) by blast
qed

lemma reset_good: "reliable A view \<Longrightarrow> session_ok (vm_calls A) (reset_disks A x)"
  by (simp add: RESET_XEN_ERROR_def reliable_def Let_def)

definition closed :: "disk_store \<Rightarrow> bool" where
  "closed S \<longleftrightarrow> (\<forall>b vm d. vbd_of S b = Some (vm, Some d) \<longrightarrow> vdi_of S d \<noteq> None)"

definition destroyed :: "disk_store \<Rightarrow> string \<Rightarrow> disk_store" where
  "destroyed S vm = (without_vm S vm)\<lparr>vdi_of := vdi_of S |` (- own_disks S vm)\<rparr>"

text \<open>After the devices of a set were destroyed; one without a disk may have stayed.\<close>

definition partly_destroyed :: "disk_store \<Rightarrow> string \<Rightarrow> string set \<Rightarrow> disk_store \<Rightarrow> bool" where
  "partly_destroyed S vm P T \<longleftrightarrow> P \<subseteq> devices S vm \<and> vm_of T = vm_of S \<and>
     (\<forall>e. vdi_of T e = (if e \<in> own_disks S vm \<and> users S e \<subseteq> P then None else vdi_of S e)) \<and>
     (\<forall>b. b \<notin> P \<longrightarrow> vbd_of T b = vbd_of S b) \<and>
     (\<forall>b. b \<in> P \<longrightarrow> vbd_of T b = None \<or> vbd_of T b = Some (vm, None))"

lemma partly_destroyedD:
  assumes "partly_destroyed S vm P T"
  shows "P \<subseteq> devices S vm" and "vm_of T = vm_of S"
    and "vdi_of T e = (if e \<in> own_disks S vm \<and> users S e \<subseteq> P then None else vdi_of S e)"
    and "b \<notin> P \<Longrightarrow> vbd_of T b = vbd_of S b"
    and "b \<in> P \<Longrightarrow> vbd_of T b = None \<or> vbd_of T b = Some (vm, None)"
  using assms by (simp_all add: partly_destroyed_def)

lemma partly_users: "partly_destroyed S vm P T \<Longrightarrow> users T d = users S d - P"
proof (rule set_eqI)
  fix b assume J: "partly_destroyed S vm P T"
  show "b \<in> users T d \<longleftrightarrow> b \<in> users S d - P"
    using partly_destroyedD(4,5) [OF J, of b] by (cases "b \<in> P") (auto simp: users_def)
qed

lemma partly_empty_drive:
  assumes J: "partly_destroyed S vm P T" and b: "b \<notin> P" "vbd_of S b = Some (vm, None)"
    and T1: "T1 = T \<or> T1 = T\<lparr>vbd_of := (vbd_of T)(b := None)\<rparr>"
  shows "partly_destroyed S vm (insert b P) T1"
proof -
  note D = partly_destroyedD [OF J]
  have nb: "users S e \<subseteq> insert b P \<longleftrightarrow> users S e \<subseteq> P" for e using b(2) by (auto simp: users_def)
  have T1: "vm_of T1 = vm_of T" "vdi_of T1 = vdi_of T" "c \<noteq> b \<Longrightarrow> vbd_of T1 c = vbd_of T c"
    "vbd_of T1 b = None \<or> vbd_of T1 b = vbd_of T b" for c
    using T1 by auto
  moreover have "c \<in> insert b P \<Longrightarrow> vbd_of T1 c = None \<or> vbd_of T1 c = Some (vm, None)" for c
    using D(4) [OF b(1)] D(5) [of c] T1(3) [of c] T1(4) b(2) by (cases "c = b") auto
  moreover have "b \<in> devices S vm" using b(2) by (simp add: devices_def)
  ultimately show ?thesis unfolding partly_destroyed_def nb using D b by auto
qed

lemma partly_disk:
  assumes J: "partly_destroyed S vm P T" and b: "b \<notin> P" "vbd_of S b = Some (vm, Some d)"
    and free: "free \<longleftrightarrow> users T d = {b} \<and> vdi_of T d = Some (False, False)"
    and T1: "T1 = T\<lparr>vdi_of := (if free then (vdi_of T)(d := None) else vdi_of T), vbd_of := (vbd_of T)(b := None)\<rparr>"
  shows "partly_destroyed S vm (insert b P) T1"
proof -
  note D = partly_destroyedD [OF J]
  have dev: "b \<in> devices S vm" using b(2) by (simp add: devices_def)
  have bu: "b \<in> users S d" using b(2) by (simp add: users_def)
  have e: "users S e \<subseteq> insert b P \<longleftrightarrow> users S e \<subseteq> P" if "e \<noteq> d" for e using b(2) that by (auto simp: users_def)
  have "\<not> users S d \<subseteq> P" using bu b(1) by blast
  then have vd: "vdi_of T d = vdi_of S d" using D(3) [of d] by simp
  have "users T d = {b} \<longleftrightarrow> users S d \<subseteq> insert b P" unfolding partly_users [OF J] using bu b(1) by blast
  then have "free \<longleftrightarrow> users S d \<subseteq> insert b P \<and> vdi_of S d = Some (False, False)" using free vd by simp
  then have fr: "free \<longleftrightarrow> d \<in> own_disks S vm \<and> users S d \<subseteq> insert b P"
    using bu D(1) dev by (auto simp: own_disks_def)
  have "vdi_of T1 c = (if c \<in> own_disks S vm \<and> users S c \<subseteq> insert b P then None else vdi_of S c)" for c
  proof (cases "c = d")
    case True
    then show ?thesis using fr vd T1 by simp
  next
    case False
    then show ?thesis using D(3) [of c] e T1 by simp
  qed
  moreover have T1: "vm_of T1 = vm_of T" "vbd_of T1 b = None" "c \<noteq> b \<Longrightarrow> vbd_of T1 c = vbd_of T c" for c
    using T1 by auto
  moreover have "c \<in> insert b P \<Longrightarrow> vbd_of T1 c = None \<or> vbd_of T1 c = Some (vm, None)" for c
    using D(5) [of c] T1(2) T1(3) [of c] by (cases "c = b") auto
  ultimately show ?thesis unfolding partly_destroyed_def using D dev by auto
qed

lemma vbd_destroy_empty_drive:
  assumes D: "disk_service A view" and b: "vbd_of (view x) b = Some (vm, None)"
  shows "view (snd (vbd_destroy A b True x)) = view x \<or>
    view (snd (vbd_destroy A b True x)) = (view x)\<lparr>vbd_of := (vbd_of (view x))(b := None)\<rparr>"
proof -
  obtain dd y where y: "vbd_get_vdi A b x = (dd, y)" by (cases "vbd_get_vdi A b x")
  have "dd = None"
  proof (rule ccontr)
    assume "dd \<noteq> None"
    then obtain d where "vbd_get_vdi A b x = (Some d, y)" using y by blast
    then have "b \<in> users (view x) d" by (rule query_callD(2) [OF disk_serviceD(3) [OF D]])
    with b show False by (simp add: users_def)
  qed
  then have "vbd_destroy A b True x = xen_vbd_destroy A b y" by (simp add: vbd_destroy_def y)
  moreover have "view y = view x" by (rule query_callD(1) [OF disk_serviceD(3) [OF D] y])
  ultimately show ?thesis using change_call_snd [OF disk_serviceD(8) [OF D], of b y] by simp
qed

lemma vbd_destroy_reliable:
  assumes D: "disk_service A view" and R: "reliable A view" and x: "session_ok (vm_calls A) x"
    and b: "vbd_of (view x) b = Some (vm, Some d)" and d: "vdi_of (view x) d \<noteq> None"
  shows "view (snd (vbd_destroy A b True x)) =
    (view x)\<lparr>vdi_of := (if users (view x) d = {b} \<and> vdi_of (view x) d = Some (False, False)
        then (vdi_of (view x))(d := None) else vdi_of (view x)),
      vbd_of := (vbd_of (view x))(b := None)\<rparr>"
proof -
  note q = disk_serviceD [OF D]
  obtain y where y: "vbd_get_vdi A b x = (Some d, y)" "session_ok (vm_calls A) y" using reliableD(2) [OF R x b] by blast
  have v0: "view y = view x" by (rule query_callD(1) [OF q(3) y(1)])
  obtain us y1 where y1: "vdi_get_vbds A d y = (Some us, y1)" "session_ok (vm_calls A) y1"
    using reliableD(3) [OF R y(2), of d] d v0 by auto
  have v1: "view y1 = view x" using query_callD(1) [OF q(4) y1(1)] v0 by simp
  obtain ro y2 where y2: "vdi_get_read_only A d y1 = (Some ro, y2)" "session_ok (vm_calls A) y2"
    using reliableD(4) [OF R y1(2), of d] d v1 by auto
  have v2: "view y2 = view x" using query_callD(1) [OF q(5) y2(1)] v1 by simp
  obtain sh y3 where y3: "vdi_get_sharable A d y2 = (Some sh, y3)" "session_ok (vm_calls A) y3"
    using reliableD(5) [OF R y2(2), of d] d v2 by auto
  have v3: "view y3 = view x" using query_callD(1) [OF q(6) y3(1)] v2 by simp
  have us: "distinct us \<and> set us = users (view x) d" using query_callD(2) [OF q(4) y1(1)] v0 by simp
  have "map_option fst (vdi_of (view x) d) = Some ro" "map_option snd (vdi_of (view x) d) = Some sh"
    using query_callD(2) [OF q(5) y2(1)] query_callD(2) [OF q(6) y3(1)] v1 v2 by simp_all
  then have fl: "vdi_of (view x) d = Some (ro, sh)" by (cases "vdi_of (view x) d") (simp_all add: prod_eq_iff)
  have "b \<in> users (view x) d" using b by (simp add: users_def)
  then have len: "length us = 1 \<longleftrightarrow> users (view x) d = {b}" using one_user [of us "users (view x) d" b] us by simp
  let ?c = "length us = 1 \<and> \<not> ro \<and> \<not> sh"
  let ?x1 = "reset_disks A (if ?c then snd (xen_vdi_destroy A d y3) else y3)"
  have eq: "vbd_destroy A b True x = xen_vbd_destroy A b ?x1"
    using y(1) y1(1) y2(1) y3(1) by (simp add: vbd_destroy_def)
  have "fst (xen_vdi_destroy A d y3)" using reliableD(6) [OF R y3(2), of d] d v3 by simp
  then have vx1: "view ?x1 = (if ?c then (view x)\<lparr>vdi_of := (vdi_of (view x))(d := None)\<rparr> else view x)"
    using change_call_snd [OF q(7), of d y3] v3 by (simp add: reset_view [OF D])
  then have "vbd_of (view ?x1) b \<noteq> None" using b by simp
  then have "fst (xen_vbd_destroy A b ?x1)" by (rule reliableD(7) [OF R reset_good [OF R]])
  then have "view (snd (xen_vbd_destroy A b ?x1)) = (view ?x1)\<lparr>vbd_of := (vbd_of (view ?x1))(b := None)\<rparr>"
    using change_call_snd [OF q(8), of b ?x1] by simp
  then show ?thesis unfolding eq vx1 using len fl by (cases ?c) auto
qed

lemma destroy_each_partly:
  assumes D: "disk_service A view" and R: "reliable A view" and S: "closed S"
  shows "partly_destroyed S vm P (view x) \<Longrightarrow> distinct bs \<Longrightarrow> set bs \<subseteq> devices S vm - P \<Longrightarrow>
    partly_destroyed S vm (P \<union> set bs) (view (destroy_each A bs x))"
proof (induction bs arbitrary: P x)
  case (Cons b bs)
  let ?x = "reset_disks A x"
  let ?x1 = "snd (vbd_destroy A b True ?x)"
  note J = Cons.prems(1) [folded reset_view [OF D, of x]]
  from Cons.prems(3) obtain dd where b: "b \<notin> P" "vbd_of S b = Some (vm, dd)" by (auto simp: devices_def)
  then have bx: "vbd_of (view ?x) b = Some (vm, dd)" using partly_destroyedD(4) [OF J] by simp
  have "partly_destroyed S vm (insert b P) (view ?x1)"
  proof (cases dd)
    case None
    with vbd_destroy_empty_drive [OF D, of ?x b vm] partly_empty_drive [OF J] b bx show ?thesis by simp
  next
    case (Some d)
    have "vdi_of S d \<noteq> None" using S b(2) Some by (auto simp: closed_def)
    moreover have "\<not> users S d \<subseteq> P" using b Some by (auto simp: users_def)
    ultimately have "vdi_of (view ?x) d \<noteq> None" using partly_destroyedD(3) [OF J, of d] by simp
    with vbd_destroy_reliable [OF D R reset_good [OF R], of x b vm d] bx Some
    show ?thesis by (intro partly_disk [OF J b(1) _ refl]) (simp_all add: b(2))
  qed
  from Cons.IH [OF this] Cons.prems show ?case by (simp add: insert_commute) (auto simp: subset_iff)
qed simp

lemma vm_destroy_destroys:
  assumes D: "disk_service A view" and R: "reliable A view" and S: "closed (view x)" and vm: "vm_of (view x) vm \<noteq> None"
  shows "\<exists>x'. vm_destroy A vm True x = (True, x') \<and> view x' = destroyed (view x) vm"
proof -
  let ?S = "view x"
  let ?x = "reset_disks A x"
  have vx: "view ?x = ?S" by (rule reset_view [OF D])
  obtain bs x1 where x1: "vm_get_vbds A vm ?x = (Some bs, x1)" using reliableD(1) [OF R reset_good [OF R], of x vm] vm vx by auto
  have bs: "distinct bs \<and> set bs = devices ?S vm" using query_callD(2) [OF disk_serviceD(2) [OF D] x1] vx by simp
  have v1: "view x1 = ?S" using query_callD(1) [OF disk_serviceD(2) [OF D] x1] vx by simp
  let ?x2 = "reset_disks A (destroy_each A bs x1)"
  have "partly_destroyed ?S vm {} (view x1)" by (auto simp: partly_destroyed_def own_disks_def v1)
  from destroy_each_partly [OF D R S this, of bs] bs have J: "partly_destroyed ?S vm (devices ?S vm) (view ?x2)"
    by (simp add: reset_view [OF D])
  note p = partly_destroyedD [OF J]
  have eq: "vm_destroy A vm True x = xen_vm_destroy A vm ?x2" by (simp add: vm_destroy_def vm_vbds_destroy_def x1)
  have ok: "fst (xen_vm_destroy A vm ?x2)" using reliableD(8) [OF R reset_good [OF R]] p(2) vm by simp
  have "without_vm (view ?x2) vm = destroyed ?S vm"
  proof -
    have "devices (view ?x2) vm \<subseteq> devices ?S vm"
    proof
      fix b assume b: "b \<in> devices (view ?x2) vm"
      show "b \<in> devices ?S vm"
      proof (rule ccontr)
        assume "b \<notin> devices ?S vm"
        with b p(4) [of b] show False by (simp add: devices_def)
      qed
    qed
    then have "vbd_of (view ?x2) |` (- devices (view ?x2) vm) = vbd_of ?S |` (- devices ?S vm)"
      using p(4,5) by (fastforce simp: restrict_map_def fun_eq_iff devices_def)
    moreover have "vdi_of (view ?x2) = vdi_of ?S |` (- own_disks ?S vm)"
      using p(3) by (auto simp: restrict_map_def fun_eq_iff own_disks_def)
    ultimately show ?thesis using p(2) by (simp add: destroyed_def without_vm_def)
  qed
  then show ?thesis using eq ok change_call_snd [OF disk_serviceD(9) [OF D], of vm ?x2]
    by (cases "xen_vm_destroy A vm ?x2") simp
qed

section \<open>The method\<close>

text \<open>The other calls of the method: lookups, the power state, and an operation on a VM, which leaves disks and other VMs alone.\<close>

definition vm_lookups :: "('x, 'z) disk_api_scheme \<Rightarrow> ('x \<Rightarrow> disk_store) \<Rightarrow> bool" where
  "vm_lookups A view \<longleftrightarrow>
     query_call view (vm_get_by_uuid (vm_calls A)) (\<lambda>S u vm. True) \<and>
     query_call view (vm_get_record (vm_calls A)) (\<lambda>S vm r. True) \<and>
     query_call view (vm_get_power_state A) (\<lambda>S vm p. vm_of S vm = Some p) \<and>
     (\<forall>x op vm. vbd_of (view (vm_do A op vm x)) = vbd_of (view x) \<and> vdi_of (view (vm_do A op vm x)) = vdi_of (view x) \<and>
        (\<forall>v. v \<noteq> vm \<longrightarrow> vm_of (view (vm_do A op vm x)) v = vm_of (view x) v))"

lemma vm_lookupsD:
  assumes "vm_lookups A view"
  shows "query_call view (vm_get_by_uuid (vm_calls A)) (\<lambda>S u vm. True)"
    and "query_call view (vm_get_record (vm_calls A)) (\<lambda>S vm r. True)"
    and "query_call view (vm_get_power_state A) (\<lambda>S vm p. vm_of S vm = Some p)"
    and "vbd_of (view (vm_do A op vm x)) = vbd_of (view x)" and "vdi_of (view (vm_do A op vm x)) = vdi_of (view x)"
    and "v \<noteq> vm \<Longrightarrow> vm_of (view (vm_do A op vm x)) v = vm_of (view x) v"
  using assms by (simp_all add: vm_lookups_def)

lemma affected_view:
  assumes D: "disk_service A view" and L: "vm_lookups A view"
    and a: "xen_utils_get_affectedsystem (vm_calls A) get_key argsin x = (st, r, x1)"
  shows "view x1 = view x"
proof -
  note u = query_callD(1) [OF vm_lookupsD(1) [OF L]] note g = query_callD(1) [OF vm_lookupsD(2) [OF L]]
  have dom: "view x2 = view y" if "xen_utils_get_domain_from_uuid (vm_calls A) s y = (q, x2)" for s y q x2
    using that u g reset_view [OF D]
    by (auto simp: xen_utils_get_domain_from_uuid_def split: prod.splits option.splits) (metis+)?
  have sd: "view x2 = view x" if "xen_utils_get_domain_from_sd_OP (vm_calls A) get_key op x = (q, x2)" for op q x2
    using that dom [of _ "reset_disks A x"] reset_view [OF D, of x]
    by (auto simp: xen_utils_get_domain_from_sd_OP_def split: option.splits prod.splits arg_value.splits if_splits)
  show ?thesis using a u g sd
    by (auto simp: xen_utils_get_affectedsystem_def split: prod.splits option.splits arg_value.splits if_splits) (metis+)?
qed

lemma vm_destroy_spares:
  assumes D: "disk_service A view"
  shows "spares (view x) vm (view (snd (vm_destroy A vm f x)))"
proof -
  let ?S = "view x"
  let ?x = "reset_disks A x"
  have v: "view ?x = ?S" by (rule reset_view [OF D])
  have "spares ?S vm (view (vm_vbds_destroy A vm ?x))"
  proof -
    obtain r y where y: "vm_get_vbds A vm ?x = (r, y)" by (cases "vm_get_vbds A vm ?x")
    have vy: "view y = ?S" using query_callD(1) [OF disk_serviceD(2) [OF D] y] v by simp
    show ?thesis
    proof (cases r)
      case None
      then show ?thesis using y vy by (simp add: vm_vbds_destroy_def spares_refl)
    next
      case (Some bs)
      then have "set bs = devices ?S vm" using query_callD(2) [OF disk_serviceD(2) [OF D]] y v by metis
      then show ?thesis using y Some vy destroy_each_spares [OF D, of ?S vm y bs]
        by (simp add: vm_vbds_destroy_def spares_refl)
    qed
  qed
  then have "spares ?S vm (view (reset_disks A (if f then vm_vbds_destroy A vm ?x else ?x)))"
    by (simp add: reset_view [OF D] spares_refl)
  moreover have "spares ?S vm (without_vm T vm)" if s: "spares ?S vm T" for T
  proof -
    have "b \<in> devices ?S vm" if b: "b \<in> devices T vm" for b
    proof -
      have "vbd_of T b = vbd_of ?S b \<or> vbd_of T b = None \<and> b \<in> devices ?S vm" using s by (simp add: spares_def)
      with b show ?thesis by (auto simp: devices_def)
    qed
    with s show ?thesis by (auto simp: spares_def without_vm_def restrict_map_def)
  qed
  ultimately show ?thesis using change_call_snd [OF disk_serviceD(9) [OF D]] by (simp add: vm_destroy_def Let_def)
qed

section \<open>Properties\<close>

text \<open>C7. Whatever calls of the daemon fail, DestroySystem touches at most the VM that it is asked to destroy: the
  other VMs and their devices stay, and so does every disk that is read-only, shared, unused or used by
  another VM. Success is reported only of a VM that was halted, which is gone then; a VM that was not
  halted keeps its devices and disks.\<close>

theorem destroy_spares_others:
  assumes D: "disk_service A view" and L: "vm_lookups A view"
    and run: "DestroySystem A get_key argsin n x = (rc, st, x')"
  shows "view x' = view x \<and> rc \<noteq> VSMS_Completed \<or>
    (\<exists>st1 vm r y. xen_utils_get_affectedsystem (vm_calls A) get_key argsin x = (st1, Some (vm, r), y) \<and>
       spares (view x) vm (view x') \<and>
       (rc = VSMS_Completed \<longrightarrow> vm_of (view x) vm = Some Halted \<and> vm_of (view x') vm = None) \<and>
       (vm_of (view x) vm \<noteq> Some Halted \<longrightarrow> vbd_of (view x') = vbd_of (view x) \<and> vdi_of (view x') = vdi_of (view x)))"
proof (cases "n = 1")
  case n: True
  obtain st1 r x1 where a: "xen_utils_get_affectedsystem (vm_calls A) get_key argsin x = (st1, r, x1)"
    by (cases "xen_utils_get_affectedsystem (vm_calls A) get_key argsin x")
  have v1: "view x1 = view x" by (rule affected_view [OF D L a])
  show ?thesis
  proof (cases r)
    case None
    then show ?thesis using run n a v1 by (auto simp: DestroySystem_def Let_def)
  next
    case (Some s)
    obtain vm rec where s: "s = (vm, rec)" by (cases s)
    obtain p x2 where p: "vm_get_power_state A vm x1 = (p, x2)" by (cases "vm_get_power_state A vm x1")
    have v2: "view x2 = view x" using query_callD(1) [OF vm_lookupsD(3) [OF L] p] v1 by simp
    have pw: "p = Some q \<Longrightarrow> vm_of (view x) vm = Some q" for q
      using query_callD(2) [OF vm_lookupsD(3) [OF L]] p v1 by metis
    consider "p = None" | q where "p = Some q" "q \<noteq> Halted" | "p = Some Halted" by (cases p) auto
    then show ?thesis
    proof cases
      case 1
      then show ?thesis using run n a Some s p v2 by (auto simp: DestroySystem_def Let_def)
    next
      case 2
      have "x' = vm_do A OP_CLEAN_SHUTDOWN vm x2 \<and> rc = VSMS_Invalid_State"
        using run n a Some s p 2 by (auto simp: DestroySystem_def Let_def)
      then show ?thesis using a Some s vm_lookupsD(4-6) [OF L] v2 by (auto simp: spares_def)
    next
      case 3
      obtain ok x3 where d: "vm_destroy A vm True x2 = (ok, x3)" by (cases "vm_destroy A vm True x2")
      have x': "x' = x3 \<and> (rc = VSMS_Completed \<longrightarrow> ok)"
        using run n a Some s p 3 d by (cases ok) (auto simp: DestroySystem_def Let_def)
      have "xen_vm_destroy A vm (reset_disks A (vm_vbds_destroy A vm (reset_disks A x2))) = (ok, x3)"
        using d by (simp add: vm_destroy_def)
      from change_callD [OF disk_serviceD(9) [OF D] this] have "ok \<longrightarrow> vm_of (view x3) vm = None"
        by (simp add: without_vm_def)
      moreover have "spares (view x) vm (view x3)" using vm_destroy_spares [OF D, of x2 vm True] d v2 by simp
      ultimately show ?thesis using a Some s x' pw 3 by auto
    qed
  qed
qed (use run in \<open>auto simp: DestroySystem_def Let_def\<close>)

text \<open>C8. On a daemon on which no call fails, a halted VM is destroyed with all its devices and exactly those of its
  disks that can be written, are not shared, and are used by no other VM, be they used by one of its
  devices or by several; nothing else changes.\<close>

theorem halted_system_destroyed:
  assumes D: "disk_service A view" and L: "vm_lookups A view" and R: "reliable A view" and S: "closed (view x)"
    and a: "xen_utils_get_affectedsystem (vm_calls A) get_key argsin x = (st1, Some (vm, r), x1)"
    and p: "vm_get_power_state A vm x1 = (Some Halted, x2)"
  shows "\<exists>x'. DestroySystem A get_key argsin 1 x = (VSMS_Completed, (CMPI_RC_OK, []), x') \<and>
    view x' = destroyed (view x) vm"
proof -
  have v: "view x2 = view x" "vm_of (view x) vm = Some Halted"
    using affected_view [OF D L a] query_callD [OF vm_lookupsD(3) [OF L], of vm x1] p by auto
  then obtain x' where "vm_destroy A vm True x2 = (True, x')" "view x' = destroyed (view x) vm"
    using vm_destroy_destroys [OF D R, of x2 vm] S by auto
  then show ?thesis using a p by (simp add: DestroySystem_def method_status_def xen_utils_set_status_def)
qed

section \<open>Witnesses\<close>

text \<open>A daemon whose references are the names of its objects.\<close>

record demo_disks =
  d_ok :: bool
  d_vms :: "(string \<times> power_state) list"
  d_vbds :: "(string \<times> string \<times> string option) list"
  d_vdis :: "(string \<times> bool \<times> bool) list"

definition demo_view :: "demo_disks \<Rightarrow> disk_store" where
  "demo_view x = \<lparr>vm_of = map_of (d_vms x), vbd_of = map_of (d_vbds x), vdi_of = map_of (d_vdis x)\<rparr>"

definition demo_error :: "demo_disks \<Rightarrow> demo_disks" where
  "demo_error x = x\<lparr>d_ok := False\<rparr>"

definition answer :: "demo_disks \<Rightarrow> 'r option \<Rightarrow> 'r option \<times> demo_disks" where
  "answer x r = (if d_ok x then (r, if r = None then demo_error x else x) else (None, x))"

definition no_tasks :: "('x \<Rightarrow> bool) \<Rightarrow> (bool \<Rightarrow> 'x \<Rightarrow> 'x) \<Rightarrow> 'x task_sdk" where
  "no_tasks good set_good = \<lparr>task_ok = good, set_task_ok = set_good, clear_task_error = set_good True,
     task_create = (\<lambda>l d x. (None, x)), task_set_other_config = (\<lambda>h m x. x),
     task_get_uuid = (\<lambda>h x. (None, x)), task_get_record = (\<lambda>h x. (None, x)), task_get_by_uuid = (\<lambda>u x. (None, x)),
     task_destroy = (\<lambda>h x. x), task_get_all = (\<lambda>x. (None, x)), task_get_name_label = (\<lambda>h x. (None, x))\<rparr>"

definition demo_known :: "demo_disks \<Rightarrow> string \<Rightarrow> string option" where
  "demo_known x u = (if map_of (d_vms x) u = None then None else Some u)"

definition filter_keys :: "(string \<Rightarrow> bool) \<Rightarrow> (string \<times> 'b) list \<Rightarrow> (string \<times> 'b) list" where
  "filter_keys P m = filter (\<lambda>e. P (fst e)) m"

lemma map_of_filter_keys [simp]: "map_of (filter_keys P m) k = (if P k then map_of m k else None)"
  by (induction m) (auto simp: filter_keys_def)

definition keys_with :: "('b \<Rightarrow> bool) \<Rightarrow> (string \<times> 'b) list \<Rightarrow> string list" where
  "keys_with Q m = remdups (map fst (filter (\<lambda>e. map_of m (fst e) = Some (snd e) \<and> Q (snd e)) m))"

lemma keys_with [simp]: "distinct (keys_with Q m)" "set (keys_with Q m) = {k. \<exists>v. map_of m k = Some v \<and> Q v}"
  by (auto simp: keys_with_def image_iff dest: map_of_SomeD) (metis map_of_SomeD fst_conv snd_conv)?

definition demo_disk_api :: "demo_disks disk_api" where
  "demo_disk_api = \<lparr>task_calls = no_tasks d_ok (\<lambda>b x. x\<lparr>d_ok := b\<rparr>),
     vm_calls = \<lparr>session_ok = d_ok, clear_error = (\<lambda>x. x\<lparr>d_ok := True\<rparr>), vm_get_all = (\<lambda>x. answer x (Some (map fst (d_vms x)))),
       vm_get_record = (\<lambda>vm x. answer x (map_option plain_vm (demo_known x vm))),
       vm_get_by_uuid = (\<lambda>u x. answer x (demo_known x u)), host_get_address = (\<lambda>h x. (None, x))\<rparr>,
     vm_get_power_state = (\<lambda>vm x. answer x (map_of (d_vms x) vm)),
     vm_do = (\<lambda>op vm x. demo_error x), error_of = (\<lambda>x. \<lparr>ok = d_ok x, error_description = None\<rparr>),
     vm_get_vbds = (\<lambda>vm x. answer x (if demo_known x vm = None then None
       else Some (keys_with (\<lambda>v. fst v = vm) (d_vbds x)))),
     vbd_get_vdi = (\<lambda>b x. answer x (case map_of (d_vbds x) b of None \<Rightarrow> None | Some e \<Rightarrow> snd e)),
     vdi_get_vbds = (\<lambda>d x. answer x (if map_of (d_vdis x) d = None then None
       else Some (keys_with (\<lambda>v. snd v = Some d) (d_vbds x)))),
     vdi_get_read_only = (\<lambda>d x. answer x (map_option fst (map_of (d_vdis x) d))),
     vdi_get_sharable = (\<lambda>d x. answer x (map_option snd (map_of (d_vdis x) d))),
     xen_vdi_destroy = (\<lambda>d x. if d_ok x \<and> map_of (d_vdis x) d \<noteq> None
       then (True, x\<lparr>d_vdis := filter_keys (\<lambda>k. k \<noteq> d) (d_vdis x)\<rparr>) else (False, demo_error x)),
     xen_vbd_destroy = (\<lambda>b x. if d_ok x \<and> map_of (d_vbds x) b \<noteq> None
       then (True, x\<lparr>d_vbds := filter_keys (\<lambda>k. k \<noteq> b) (d_vbds x)\<rparr>) else (False, demo_error x)),
     xen_vm_destroy = (\<lambda>vm x. if d_ok x \<and> map_of (d_vms x) vm \<noteq> None
       then (True, x\<lparr>d_vms := filter_keys (\<lambda>k. k \<noteq> vm) (d_vms x),
         d_vbds := filter_keys (\<lambda>k. map_option fst (map_of (d_vbds x) k) \<noteq> Some vm) (d_vbds x)\<rparr>)
       else (False, demo_error x))\<rparr>"

lemma demo_view_simps [simp]:
  "vm_of (demo_view x) = map_of (d_vms x)" "vbd_of (demo_view x) = map_of (d_vbds x)" "vdi_of (demo_view x) = map_of (d_vdis x)"
  "demo_view (demo_error x) = demo_view x" "demo_view (x\<lparr>d_ok := b\<rparr>) = demo_view x"
  by (simp_all add: demo_view_def demo_error_def)

lemma answer_query: "(\<And>x k v. r x k = Some v \<Longrightarrow> ans (demo_view x) k v) \<Longrightarrow> query_call demo_view (\<lambda>k x. answer x (r x k)) ans"
  by (auto simp: query_call_def answer_def split: if_splits)

lemma demo_disk_service: "disk_service demo_disk_api demo_view"
  unfolding disk_service_def
proof (intro conjI allI)
  show "demo_view (clear_error (vm_calls demo_disk_api) x) = demo_view x" for x by (simp add: demo_disk_api_def)
  show "query_call demo_view (vm_get_vbds demo_disk_api) (\<lambda>S vm bs. distinct bs \<and> set bs = devices S vm)"
    unfolding demo_disk_api_def disk_api.simps
    by (rule answer_query) (auto simp: devices_def split: if_splits)
  show "query_call demo_view (vbd_get_vdi demo_disk_api) (\<lambda>S b d. b \<in> users S d)"
    unfolding demo_disk_api_def disk_api.simps by (rule answer_query) (auto simp: users_def split: option.splits)
  show "query_call demo_view (vdi_get_vbds demo_disk_api) (\<lambda>S d bs. distinct bs \<and> set bs = users S d)"
    unfolding demo_disk_api_def disk_api.simps
    by (rule answer_query) (auto simp: users_def split: if_splits)
  show "query_call demo_view (vdi_get_read_only demo_disk_api) (\<lambda>S d v. map_option fst (vdi_of S d) = Some v)"
    unfolding demo_disk_api_def disk_api.simps by (rule answer_query) simp
  show "query_call demo_view (vdi_get_sharable demo_disk_api) (\<lambda>S d v. map_option snd (vdi_of S d) = Some v)"
    unfolding demo_disk_api_def disk_api.simps by (rule answer_query) simp
  show "change_call demo_view (xen_vdi_destroy demo_disk_api) (\<lambda>S d. S\<lparr>vdi_of := (vdi_of S)(d := None)\<rparr>)"
    by (auto simp: change_call_def demo_disk_api_def demo_view_def demo_error_def fun_eq_iff split: if_splits)
  show "change_call demo_view (xen_vbd_destroy demo_disk_api) (\<lambda>S b. S\<lparr>vbd_of := (vbd_of S)(b := None)\<rparr>)"
    by (auto simp: change_call_def demo_disk_api_def demo_view_def demo_error_def fun_eq_iff split: if_splits)
  show "change_call demo_view (xen_vm_destroy demo_disk_api) without_vm"
    by (auto simp: change_call_def demo_disk_api_def demo_view_def demo_error_def fun_eq_iff without_vm_def
        restrict_map_def devices_def split: if_splits)
qed

lemma demo_lookups: "vm_lookups demo_disk_api demo_view"
  unfolding vm_lookups_def demo_disk_api_def vm_api.simps sdk.simps
  by (intro conjI answer_query) simp_all

lemma demo_reliable: "reliable demo_disk_api demo_view"
  unfolding reliable_def Let_def demo_disk_api_def vm_api.simps disk_api.simps sdk.simps
  by (intro conjI allI impI) (auto simp: answer_def demo_known_def)

definition demo_store :: demo_disks where
  "demo_store = \<lparr>d_ok = True, d_vms = [(''vm1'', Halted), (''vm2'', Running)],
     d_vbds = [(''b1'', ''vm1'', Some ''root''), (''b2'', ''vm1'', Some ''iso''), (''b3'', ''vm1'', None),
       (''b4'', ''vm2'', Some ''data''), (''b5'', ''vm1'', Some ''data''), (''b6'', ''vm1'', Some ''root'')],
     d_vdis = [(''root'', False, False), (''iso'', True, False), (''data'', False, False)]\<rparr>"

definition demo_args :: "(unit, unit) method_args" where
  "demo_args n = (if n = ''AffectedSystem'' then (CMPI_RC_OK, Some (A_string ''vm1'')) else (CMPI_RC_ERR_NOT_FOUND, None))"

lemma demo_affected:
  "xen_utils_get_affectedsystem (vm_calls demo_disk_api) (\<lambda>p n. (CMPI_RC_OK, None)) demo_args demo_store =
    (CMPI_RC_OK, Some (''vm1'', Some (plain_vm ''vm1'')), demo_store)"
  by (simp add: xen_utils_get_affectedsystem_def GetArgument_def demo_args_def demo_disk_api_def answer_def demo_known_def
    demo_store_def)

lemma demo_closed: "closed (demo_view demo_store)"
  by (auto simp: closed_def demo_store_def split: if_splits)

lemma demo_vbds:
  "vbd_of (demo_view demo_store) b = Some (v, d) \<longleftrightarrow>
     (b, v, d) \<in> {(''b1'', ''vm1'', Some ''root''), (''b2'', ''vm1'', Some ''iso''), (''b3'', ''vm1'', None),
       (''b4'', ''vm2'', Some ''data''), (''b5'', ''vm1'', Some ''data''), (''b6'', ''vm1'', Some ''root'')}"
  by (auto simp: demo_store_def)

lemma demo_devices: "devices (demo_view demo_store) ''vm1'' = {''b1'', ''b2'', ''b3'', ''b5'', ''b6''}"
  unfolding devices_def demo_vbds by auto

lemma demo_users:
  "users (demo_view demo_store) ''root'' = {''b1'', ''b6''}" "users (demo_view demo_store) ''data'' = {''b4'', ''b5''}"
  unfolding users_def demo_vbds by auto

lemma demo_own: "own_disks (demo_view demo_store) ''vm1'' = {''root''}"
proof (rule set_eqI)
  fix d
  have vdi: "vdi_of (demo_view demo_store) d = Some (False, False) \<longleftrightarrow> d = ''root'' \<or> d = ''data''"
    by (simp add: demo_store_def)
  consider "d = ''root''" | "d = ''data''" | "\<not> (d = ''root'' \<or> d = ''data'')" by blast
  then show "d \<in> own_disks (demo_view demo_store) ''vm1'' \<longleftrightarrow> d \<in> {''root''}"
  proof cases
    case 1
    then show ?thesis using vdi by (simp add: own_disks_def demo_devices demo_users del: demo_view_simps)
  next
    case 2
    then show ?thesis by (simp add: own_disks_def demo_devices demo_users del: demo_view_simps)
  next
    case 3
    then show ?thesis using vdi by (simp add: own_disks_def del: demo_view_simps)
  qed
qed

lemma demo_destroyed:
  "dom (vdi_of (destroyed (demo_view demo_store) ''vm1'')) = {''iso'', ''data''} \<and>
   dom (vbd_of (destroyed (demo_view demo_store) ''vm1'')) = {''b4''} \<and>
   dom (vm_of (destroyed (demo_view demo_store) ''vm1'')) = {''vm2''}"
proof -
  have "dom (vdi_of (demo_view demo_store)) = {''root'', ''iso'', ''data''}"
    "dom (vbd_of (demo_view demo_store)) = {''b1'', ''b2'', ''b3'', ''b4'', ''b5'', ''b6''}"
    "dom (vm_of (demo_view demo_store)) = {''vm1'', ''vm2''}"
    by (simp_all add: demo_store_def dom_map_of_conv_image_fst del: dom_fun_upd map_of.simps)
  then have "dom (vdi_of (destroyed (demo_view demo_store) ''vm1'')) = {''root'', ''iso'', ''data''} - {''root''}"
    "dom (vbd_of (destroyed (demo_view demo_store) ''vm1'')) =
      {''b1'', ''b2'', ''b3'', ''b4'', ''b5'', ''b6''} - {''b1'', ''b2'', ''b3'', ''b5'', ''b6''}"
    "dom (vm_of (destroyed (demo_view demo_store) ''vm1'')) = {''vm1'', ''vm2''} - {''vm1''}"
    by (simp_all add: destroyed_def without_vm_def demo_devices demo_own Diff_eq del: demo_view_simps)
  then show ?thesis by auto
qed

theorem halted_system_destroyed_witness:
  "\<exists>x'. DestroySystem demo_disk_api (\<lambda>p n. (CMPI_RC_OK, None)) demo_args 1 demo_store = (VSMS_Completed, (CMPI_RC_OK, []), x') \<and>
     dom (vdi_of (demo_view x')) = {''iso'', ''data''} \<and> dom (vbd_of (demo_view x')) = {''b4''} \<and>
     dom (vm_of (demo_view x')) = {''vm2''}"
proof -
  have "vm_get_power_state demo_disk_api ''vm1'' demo_store = (Some Halted, demo_store)"
    by (simp add: demo_disk_api_def answer_def demo_store_def)
  from halted_system_destroyed [OF demo_disk_service demo_lookups demo_reliable demo_closed demo_affected this] demo_destroyed
  show ?thesis by metis
qed

lemma sparesD:
  "spares S vm S' \<Longrightarrow> v \<noteq> vm \<Longrightarrow> vm_of S' v = vm_of S v"
  "spares S vm S' \<Longrightarrow> d \<notin> own_disks S vm \<Longrightarrow> vdi_of S' d = vdi_of S d"
  by (auto simp: spares_def)

theorem destroy_spares_others_witness:
  "\<exists>rc st x'. DestroySystem demo_disk_api (\<lambda>p n. (CMPI_RC_OK, None)) demo_args 1 demo_store = (rc, st, x') \<and>
     vdi_of (demo_view x') ''data'' = Some (False, False) \<and> vm_of (demo_view x') ''vm2'' = Some Running"
proof -
  obtain rc st x' where run: "DestroySystem demo_disk_api (\<lambda>p n. (CMPI_RC_OK, None)) demo_args 1 demo_store = (rc, st, x')"
    by (cases "DestroySystem demo_disk_api (\<lambda>p n. (CMPI_RC_OK, None)) demo_args 1 demo_store")
  have "''data'' \<notin> own_disks (demo_view demo_store) ''vm1''" by (simp add: demo_own)
  moreover have "vdi_of (demo_view demo_store) ''data'' = Some (False, False)" "vm_of (demo_view demo_store) ''vm2'' = Some Running"
    by (simp_all add: demo_store_def)
  moreover have "demo_view x' = demo_view demo_store \<or> spares (demo_view demo_store) ''vm1'' (demo_view x')"
    using destroy_spares_others [OF demo_disk_service demo_lookups run] by (auto simp: demo_affected simp del: demo_view_simps)
  ultimately have "vdi_of (demo_view x') ''data'' = Some (False, False) \<and> vm_of (demo_view x') ''vm2'' = Some Running"
    using sparesD [of "demo_view demo_store" "''vm1''" "demo_view x'"] by (auto simp del: demo_view_simps)
  with run show ?thesis by blast
qed

end
