(* ===== verification/VmSettings.thy ===== *)
theory VmSettings
  imports SystemDestroy
begin

text \<open>
  The settings of a VM (\<^verbatim>\<open>src/Xen_VirtualSystemSettingData.c\<close>): the actions of the
  profile and those of Xen, the change of settings from a CIM instance, and the method
  \<^verbatim>\<open>ModifySystemSettings\<close> (\<^verbatim>\<open>src/Xen_VirtualSystemManagementService.c\<close>)
  around it, in a build with \<^verbatim>\<open>XENAPI_VERSION\<close> 500 and without
  \<^verbatim>\<open>SFCB\<close>, as the configuration script sets it up. The setters of the SDK are one
  call with the field as its argument.
\<close>

section \<open>Actions\<close>

datatype normal_exit = Exit_destroy | Exit_restart | Exit_undefined

datatype crash_behaviour = Crash_restart | Crash_undefined | Crash_other nat

definition actions_after_reboot_map :: "(int \<times> normal_exit) list" where
  "actions_after_reboot_map = [(2, Exit_undefined), (3, Exit_restart), (4, Exit_restart)]"

definition actions_after_shutdown_map :: "(int \<times> normal_exit) list" where
  "actions_after_shutdown_map = [(2, Exit_destroy), (3, Exit_undefined), (4, Exit_destroy)]"

definition actions_after_crash_map :: "(int \<times> crash_behaviour) list" where
  "actions_after_crash_map = [(2, Crash_undefined), (3, Crash_restart), (4, Crash_restart)]"

text \<open>The first row with the value, or the first row of all.\<close>

definition map_action_xen :: "(int \<times> 'a) list \<Rightarrow> int \<Rightarrow> 'a" where
  "map_action_xen m dmtf_value =
     (case find (\<lambda>row. fst row = dmtf_value) m of Some row \<Rightarrow> snd row | None \<Rightarrow> snd (hd m))"

definition map_action_dmtf :: "(int \<times> 'a) list \<Rightarrow> 'a \<Rightarrow> int" where
  "map_action_dmtf m xen_value =
     (case find (\<lambda>row. snd row = xen_value) m of Some row \<Rightarrow> fst row | None \<Rightarrow> fst (hd m))"

section \<open>Changing settings\<close>

text \<open>The value of a property, by the type that its tag names; an integer is read from the union at 16 bits.\<close>

datatype 'r setting_data =
    D_string string | D_int cmpi_type "64 word" | D_real64 'r | D_boolean bool
  | D_array "('r, unit) cmpi_data list" | D_other cmpi_type

datatype 'r vm_field =
    F_description "string option" | F_label "string option" | F_kernel "string option" | F_ramdisk "string option"
  | F_args "string option" | F_legacy_args "string option" | F_bootloader "string option"
  | F_bootloader_args "string option" | F_boot_params string_map | F_boot_policy "string option"
  | F_platform string_map | F_after_shutdown normal_exit | F_after_reboot normal_exit
  | F_after_crash crash_behaviour | F_shadow_multiplier 'r | F_xenstore_data string_map
  | F_other_config string_map | F_affinity string

record ('x, 'r) settings_api = "'x vm_api" +
  vm_set :: "'r vm_field \<Rightarrow> string \<Rightarrow> 'x \<Rightarrow> 'x"
  vm_get_other_config :: "string \<Rightarrow> 'x \<Rightarrow> string_map option \<times> 'x"
  host_get_by_uuid :: "string \<Rightarrow> 'x \<Rightarrow> string option \<times> 'x"

text \<open>A null map is not set; reading another member of the union than the one that was written is undefined.\<close>

definition set_map ::
    "('x, 'r, 'z) settings_api_scheme \<Rightarrow> string \<Rightarrow> (string_map \<Rightarrow> 'r vm_field) \<Rightarrow> 'r setting_data \<Rightarrow> 'x \<Rightarrow> 'x outcome" where
  "set_map A vm f data x =
     (case data of
        D_array arr \<Rightarrow>
          bind_outcome (xen_utils_convert_CMPIArray_to_string_string_map arr)
            (\<lambda>mp. Ret (case mp of None \<Rightarrow> x | Some m \<Rightarrow> vm_set A (f m) vm x))
      | _ \<Rightarrow> Undefined)"

definition set_action ::
    "('x, 'r, 'z) settings_api_scheme \<Rightarrow> string \<Rightarrow> (int \<Rightarrow> 'r vm_field) \<Rightarrow> 'r setting_data \<Rightarrow> 'x \<Rightarrow> 'x outcome" where
  "set_action A vm f data x =
     (case data of D_int t n \<Rightarrow> Ret (vm_set A (f (uint (ucast n :: 16 word))) vm x) | _ \<Rightarrow> Undefined)"

text \<open>The new entries are added to the configuration that the VM has.\<close>

definition set_other_config ::
    "('x, 'r, 'z) settings_api_scheme \<Rightarrow> string \<Rightarrow> 'r setting_data \<Rightarrow> 'x \<Rightarrow> 'x outcome" where
  "set_other_config A vm data x =
     (case data of
        D_array arr \<Rightarrow>
          bind_outcome (xen_utils_convert_CMPIArray_to_string_string_map arr)
            (\<lambda>mp. case mp of
               None \<Rightarrow> Ret x
             | Some m \<Rightarrow>
                 (case vm_get_other_config A vm x of
                    (cfg, x1) \<Rightarrow>
                      Ret (case fold (\<lambda>(k, v). put_entry k v) m cfg of
                             None \<Rightarrow> x1 | Some c \<Rightarrow> vm_set A (F_other_config c) vm x1)))
      | _ \<Rightarrow> Undefined)"

definition set_affinity ::
    "('x, 'r, 'z) settings_api_scheme \<Rightarrow> string \<Rightarrow> 'r setting_data \<Rightarrow> 'x \<Rightarrow> 'x outcome" where
  "set_affinity A vm data x =
     (case data of
        D_string u \<Rightarrow>
          Ret (case host_get_by_uuid A u x of (None, x1) \<Rightarrow> x1 | (Some h, x1) \<Rightarrow> vm_set A (F_affinity h) vm x1)
      | _ \<Rightarrow> Undefined)"

text \<open>The properties that are passed on as a string, null where the value is of another type.\<close>

definition string_fields :: "(string \<times> (string option \<Rightarrow> 'r vm_field)) list" where
  "string_fields =
     [(''Description'', F_description), (''ElementName'', F_label), (''PV_Kernel'', F_kernel),
      (''PV_RAMDisk'', F_ramdisk), (''PV_Args'', F_args), (''PV_Legacy_Args'', F_legacy_args),
      (''PV_Bootloader'', F_bootloader), (''PV_Bootloader_Args'', F_bootloader_args),
      (''HVM_Boot_Policy'', F_boot_policy)]"

definition modify_vm_setting ::
    "('x, 'r, 'z) settings_api_scheme \<Rightarrow> string \<Rightarrow> string \<Rightarrow> 'r setting_data \<Rightarrow> 'x \<Rightarrow> (bool \<times> 'x) outcome" where
  "modify_vm_setting A vm name data x =
     bind_outcome
       (case map_of string_fields name of
          Some f \<Rightarrow> Ret (vm_set A (f (case data of D_string s \<Rightarrow> Some s | _ \<Rightarrow> None)) vm x)
        | None \<Rightarrow>
            if name = ''HVM_Boot_Params'' then set_map A vm F_boot_params data x
            else if name = ''Platform'' then set_map A vm F_platform data x
            else if name = ''AutomaticShutdownAction''
            then set_action A vm (\<lambda>n. F_after_shutdown (map_action_xen actions_after_shutdown_map n)) data x
            else if name = ''AutomaticStartupAction''
            then set_action A vm (\<lambda>n. F_after_reboot (map_action_xen actions_after_reboot_map n)) data x
            else if name = ''AutomaticRecoveryAction''
            then set_action A vm (\<lambda>n. F_after_crash (map_action_xen actions_after_crash_map n)) data x
            else if name = ''HVM_ShadowMultiplier''
            then (case data of D_real64 r \<Rightarrow> Ret (vm_set A (F_shadow_multiplier r) vm x) | _ \<Rightarrow> Undefined)
            else if name = ''Xenstore_Data'' then set_map A vm F_xenstore_data data x
            else if name = ''Other_Config'' then set_other_config A vm data x
            else if name = ''HostAffinity'' then set_affinity A vm data x
            else Ret x)
       (\<lambda>x1. Ret (session_ok (vm_calls A) x1, x1))"

text \<open>An instance: what the broker answers for a name, and its properties by index; a null value is none.\<close>

record 'r vssd =
  property_of :: "string \<Rightarrow> cmpi_rc \<times> 'r setting_data option"
  properties_at :: "(cmpi_rc \<times> string option \<times> 'r setting_data option) list"

text \<open>With a list of names: all of them, up to the first that fails.\<close>

fun modify_named ::
    "('x, 'r, 'z) settings_api_scheme \<Rightarrow> string \<Rightarrow> 'r vssd \<Rightarrow> string list \<Rightarrow> 'x \<Rightarrow> (bool \<times> 'x) outcome" where
  "modify_named A vm i [] x = Ret (True, x)"
| "modify_named A vm i (p # ps) x =
     (case property_of i p of
        (CMPI_RC_OK, Some data) \<Rightarrow>
          bind_outcome (modify_vm_setting A vm p data x)
            (\<lambda>(good, x1). if good then modify_named A vm i ps x1 else Ret (False, x1))
      | _ \<Rightarrow> Ret (False, x))"

text \<open>
  Without one: every property that is not null, whatever becomes of it. Its value is fetched again by
  name, and used even if it is null then.
\<close>

fun modify_all ::
    "('x, 'r, 'z) settings_api_scheme \<Rightarrow> string \<Rightarrow> 'r vssd \<Rightarrow> (cmpi_rc \<times> string option \<times> 'r setting_data option) list \<Rightarrow>
     'x \<Rightarrow> 'x outcome" where
  "modify_all A vm i [] x = Ret x"
| "modify_all A vm i (e # es) x =
     (case e of
        (CMPI_RC_OK, Some p, Some _) \<Rightarrow>
          (case property_of i p of
             (_, Some data) \<Rightarrow>
               bind_outcome (modify_vm_setting A vm p data x) (\<lambda>(good, x1). modify_all A vm i es x1)
           | (_, None) \<Rightarrow> Undefined)
      | _ \<Rightarrow> modify_all A vm i es x)"

definition vssd_modify ::
    "('x, 'r, 'z) settings_api_scheme \<Rightarrow> string \<Rightarrow> 'r vssd \<Rightarrow> string list option \<Rightarrow> 'x \<Rightarrow> (bool \<times> 'x) outcome" where
  "vssd_modify A vm i properties x =
     (case properties of
        Some ps \<Rightarrow> modify_named A vm i ps x
      | None \<Rightarrow> bind_outcome (modify_all A vm i (properties_at i) x) (\<lambda>x1. Ret (True, x1)))"

section \<open>The method\<close>

text \<open>
  The VM of a setting data path. The status of the key is overwritten before it is looked at; an
  InstanceID that cannot be parsed leaves the buffer uninitialised; the trace reads the record, which is null
  when it could not be fetched.
\<close>

definition vssd_find_vm ::
    "'x sdk \<Rightarrow> string option \<Rightarrow> 'x \<Rightarrow> (cmpi_rc \<times> (string \<times> vm_record) option \<times> 'x) outcome" where
  "vssd_find_vm K inst_id x =
     (case inst_id of
        None \<Rightarrow> Ret (CMPI_RC_ERR_INVALID_PARAMETER, None, x)
      | Some s \<Rightarrow>
          (case CMPIStrncpySystemNameFromID True s 128 of
             None \<Rightarrow> Undefined
           | Some uuid \<Rightarrow>
               (case vm_get_by_uuid K uuid x of
                  (None, x1) \<Rightarrow> Ret (CMPI_RC_ERR_NOT_FOUND, None, x1)
                | (Some vm, x1) \<Rightarrow>
                    (case vm_get_record K vm x1 of
                       (None, x2) \<Rightarrow> Undefined
                     | (Some rec, x2) \<Rightarrow> Ret (CMPI_RC_OK, Some (vm, rec), x2)))))"

text \<open>
  The path is made from the property InstanceID of the instance, which must be a string. The result of the
  change is not looked at.
\<close>

definition ModifySystemSettings ::
    "('x, 'r, 'z) settings_api_scheme \<Rightarrow> (string \<Rightarrow> 'r vssd option) \<Rightarrow> ('p, 'r vssd) method_args \<Rightarrow> nat \<Rightarrow> 'x \<Rightarrow>
     (int \<times> (cmpi_rc \<times> string) \<times> 'x) outcome" where
  "ModifySystemSettings A parse argsin argsInCount x =
     (let ends = (\<lambda>rc st msg y. Ret (rc, method_status (error_of A y) st msg, y));
          refuse = (\<lambda>msg. ends VSMS_Invalid_Parameter CMPI_RC_ERR_INVALID_PARAMETER msg x);
          change = (\<lambda>i. case property_of i ''InstanceID'' of
              (_, Some (D_string inst_id)) \<Rightarrow>
                bind_outcome (vssd_find_vm (vm_calls A) (Some inst_id) x)
                  (\<lambda>(st, found, x1). case found of
                     None \<Rightarrow> ends VSMS_Invalid_Parameter CMPI_RC_ERR_NOT_FOUND
                       ''ERROR: Couldnt find the Xen_ComputerSystem associated with the VSSD.'' x1
                   | Some (vm, rec) \<Rightarrow>
                       bind_outcome (vssd_modify A vm i None x1)
                         (\<lambda>(_, x2). ends VSMS_Completed CMPI_RC_OK unknown_error x2))
            | _ \<Rightarrow> Undefined)
      in if argsInCount \<noteq> 1 then refuse ''ERROR: Incorrect number of method arguments, Expecting 1.''
         else (case GetArgument argsin ''SystemSettings'' CMPI_instance of
            (_, Some (A_instance i)) \<Rightarrow> change i
          | _ \<Rightarrow>
              (case GetArgument argsin ''SystemSettings'' CMPI_string of
                 (_, Some (A_string str)) \<Rightarrow>
                   (case parse str of
                      None \<Rightarrow> refuse (''ERROR: Error parsing the '' @ [CHR 0x27] @ ''SystemSettings'' @ [CHR 0x27] @ '' parameter'')
                    | Some i \<Rightarrow> change i)
               | _ \<Rightarrow> refuse ''ERROR: Missing SystemSettings parameter.'')))"

section \<open>The specification\<close>

record 'r vm_settings =
  s_description :: "string option"
  s_label :: "string option"
  s_kernel :: "string option"
  s_ramdisk :: "string option"
  s_args :: "string option"
  s_legacy_args :: "string option"
  s_bootloader :: "string option"
  s_bootloader_args :: "string option"
  s_boot_params :: string_map
  s_boot_policy :: "string option"
  s_platform :: string_map
  s_after_shutdown :: normal_exit
  s_after_reboot :: normal_exit
  s_after_crash :: crash_behaviour
  s_shadow_multiplier :: 'r
  s_xenstore_data :: string_map
  s_config :: string_map
  s_affinity :: "string option"

fun apply_field :: "'r vm_field \<Rightarrow> 'r vm_settings \<Rightarrow> 'r vm_settings" where
  "apply_field (F_description v) s = s\<lparr>s_description := v\<rparr>"
| "apply_field (F_label v) s = s\<lparr>s_label := v\<rparr>"
| "apply_field (F_kernel v) s = s\<lparr>s_kernel := v\<rparr>"
| "apply_field (F_ramdisk v) s = s\<lparr>s_ramdisk := v\<rparr>"
| "apply_field (F_args v) s = s\<lparr>s_args := v\<rparr>"
| "apply_field (F_legacy_args v) s = s\<lparr>s_legacy_args := v\<rparr>"
| "apply_field (F_bootloader v) s = s\<lparr>s_bootloader := v\<rparr>"
| "apply_field (F_bootloader_args v) s = s\<lparr>s_bootloader_args := v\<rparr>"
| "apply_field (F_boot_params m) s = s\<lparr>s_boot_params := m\<rparr>"
| "apply_field (F_boot_policy v) s = s\<lparr>s_boot_policy := v\<rparr>"
| "apply_field (F_platform m) s = s\<lparr>s_platform := m\<rparr>"
| "apply_field (F_after_shutdown a) s = s\<lparr>s_after_shutdown := a\<rparr>"
| "apply_field (F_after_reboot a) s = s\<lparr>s_after_reboot := a\<rparr>"
| "apply_field (F_after_crash a) s = s\<lparr>s_after_crash := a\<rparr>"
| "apply_field (F_shadow_multiplier r) s = s\<lparr>s_shadow_multiplier := r\<rparr>"
| "apply_field (F_xenstore_data m) s = s\<lparr>s_xenstore_data := m\<rparr>"
| "apply_field (F_other_config m) s = s\<lparr>s_config := m\<rparr>"
| "apply_field (F_affinity h) s = s\<lparr>s_affinity := Some h\<rparr>"

text \<open>A map that survives its way through an array of strings.\<close>

definition good_map :: "string_map \<Rightarrow> bool" where
  "good_map m \<longleftrightarrow> m \<noteq> [] \<and> distinct (map fst m) \<and> (\<forall>e \<in> set m. clean_entry e \<and> has_value e)"

definition map_data :: "string_map \<Rightarrow> 'r setting_data" where
  "map_data m = D_array (string_elements (map entry_text m))"

definition supported :: "string list" where
  "supported = map fst (string_fields :: (string \<times> (string option \<Rightarrow> unit vm_field)) list) @
     [''HVM_Boot_Params'', ''Platform'', ''AutomaticShutdownAction'', ''AutomaticStartupAction'',
      ''AutomaticRecoveryAction'', ''HVM_ShadowMultiplier'', ''Xenstore_Data'', ''Other_Config'', ''HostAffinity'']"

text \<open>
  What a property asks for: a field, which for the other configuration depends on the one the VM has, or
  nothing. The numbers of the actions are those of the profile: turn off, save, shut down; none, restart
  if previously active, always; none, restart, revert to a snapshot.
\<close>

inductive means :: "(string \<Rightarrow> string option) \<Rightarrow> string \<Rightarrow> 'r setting_data \<Rightarrow> ('r vm_settings \<Rightarrow> 'r vm_field option) \<Rightarrow> bool"
  for hostref :: "string \<Rightarrow> string option" where
  string_field: "(n, f) \<in> set string_fields \<Longrightarrow> means hostref n (D_string v) (\<lambda>s. Some (f (Some v)))"
| boot_params: "good_map m \<Longrightarrow> means hostref ''HVM_Boot_Params'' (map_data m) (\<lambda>s. Some (F_boot_params m))"
| platform: "good_map m \<Longrightarrow> means hostref ''Platform'' (map_data m) (\<lambda>s. Some (F_platform m))"
| xenstore: "good_map m \<Longrightarrow> means hostref ''Xenstore_Data'' (map_data m) (\<lambda>s. Some (F_xenstore_data m))"
| other_config: "good_map m \<Longrightarrow> means hostref ''Other_Config'' (map_data m)
    (\<lambda>s. Some (F_other_config (entries (fold (\<lambda>(k, v). put_entry k v) m (Some (s_config s))))))"
| shutdown: "(n, a) \<in> {(2, Exit_destroy), (3, Exit_undefined), (4, Exit_destroy)} \<Longrightarrow>
    means hostref ''AutomaticShutdownAction'' (D_int t n) (\<lambda>s. Some (F_after_shutdown a))"
| startup: "(n, a) \<in> {(2, Exit_undefined), (3, Exit_restart), (4, Exit_restart)} \<Longrightarrow>
    means hostref ''AutomaticStartupAction'' (D_int t n) (\<lambda>s. Some (F_after_reboot a))"
| recovery: "(n, a) \<in> {(2, Crash_undefined), (3, Crash_restart), (4, Crash_restart)} \<Longrightarrow>
    means hostref ''AutomaticRecoveryAction'' (D_int t n) (\<lambda>s. Some (F_after_crash a))"
| shadow: "means hostref ''HVM_ShadowMultiplier'' (D_real64 r) (\<lambda>s. Some (F_shadow_multiplier r))"
| affinity: "hostref u = Some h \<Longrightarrow> means hostref ''HostAffinity'' (D_string u) (\<lambda>s. Some (F_affinity h))"
| ignored: "n \<notin> set supported \<Longrightarrow> means hostref n d (\<lambda>s. None)"

text \<open>The settings after a list of such wishes, of which the daemon admits some: the first that it refuses is the last.\<close>

fun settle :: "('r vm_field \<Rightarrow> bool) \<Rightarrow> ('r vm_settings \<Rightarrow> 'r vm_field option) list \<Rightarrow> 'r vm_settings \<Rightarrow> 'r vm_settings" where
  "settle adm [] s = s"
| "settle adm (g # gs) s =
     (case g s of None \<Rightarrow> settle adm gs s | Some f \<Rightarrow> if adm f then settle adm gs (apply_field f s) else s)"

text \<open>
  The SDK and the daemon: a session with an error does nothing; a setter has its effect where the daemon
  admits the field, and fails elsewhere; the queries answer what is there.
\<close>

definition settings_service ::
    "('x, 'r, 'z) settings_api_scheme \<Rightarrow> ('x \<Rightarrow> string \<Rightarrow> 'r vm_settings option) \<Rightarrow> ('r vm_field \<Rightarrow> bool) \<Rightarrow>
     (string \<Rightarrow> string option) \<Rightarrow> bool" where
  "settings_service A view adm hostref \<longleftrightarrow>
     (\<forall>x f vm. \<not> session_ok (vm_calls A) x \<longrightarrow> vm_set A f vm x = x) \<and>
     (\<forall>x f vm s. session_ok (vm_calls A) x \<and> view x vm = Some s \<longrightarrow>
        view (vm_set A f vm x) = (if adm f then (view x)(vm \<mapsto> apply_field f s) else view x) \<and>
        session_ok (vm_calls A) (vm_set A f vm x) = adm f) \<and>
     (\<forall>x vm s. session_ok (vm_calls A) x \<and> view x vm = Some s \<longrightarrow>
        (\<exists>x'. vm_get_other_config A vm x = (Some (s_config s), x') \<and> view x' = view x \<and> session_ok (vm_calls A) x')) \<and>
     (\<forall>x u h. session_ok (vm_calls A) x \<and> hostref u = Some h \<longrightarrow>
        (\<exists>x'. host_get_by_uuid A u x = (Some h, x') \<and> view x' = view x \<and> session_ok (vm_calls A) x')) \<and>
     (\<forall>x vm. \<not> session_ok (vm_calls A) x \<longrightarrow> vm_get_other_config A vm x = (None, x)) \<and>
     (\<forall>x u. \<not> session_ok (vm_calls A) x \<longrightarrow> host_get_by_uuid A u x = (None, x))"

lemma settings_serviceD:
  assumes "settings_service A view adm hostref"
  shows "\<not> session_ok (vm_calls A) x \<Longrightarrow> vm_set A f vm x = x"
    and "session_ok (vm_calls A) x \<Longrightarrow> view x vm = Some s \<Longrightarrow>
      view (vm_set A f vm x) = (if adm f then (view x)(vm \<mapsto> apply_field f s) else view x)"
    and "session_ok (vm_calls A) x \<Longrightarrow> view x vm = Some s \<Longrightarrow> session_ok (vm_calls A) (vm_set A f vm x) = adm f"
    and "session_ok (vm_calls A) x \<Longrightarrow> view x vm = Some s \<Longrightarrow>
      \<exists>x'. vm_get_other_config A vm x = (Some (s_config s), x') \<and> view x' = view x \<and> session_ok (vm_calls A) x'"
    and "session_ok (vm_calls A) x \<Longrightarrow> hostref u = Some h \<Longrightarrow>
      \<exists>x'. host_get_by_uuid A u x = (Some h, x') \<and> view x' = view x \<and> session_ok (vm_calls A) x'"
    and "\<not> session_ok (vm_calls A) x \<Longrightarrow> vm_get_other_config A vm x = (None, x)"
    and "\<not> session_ok (vm_calls A) x \<Longrightarrow> host_get_by_uuid A u x = (None, x)"
  using assms unfolding settings_service_def by blast+

section \<open>The changes meet the specification\<close>

lemma map_data_read: "good_map m \<Longrightarrow>
  xen_utils_convert_CMPIArray_to_string_string_map (string_elements (map entry_text m)) = Ret (Some m)"
  by (simp add: good_map_def xen_utils_convert_CMPIArray_to_string_string_map_def array_to_map_entries fold_put_nonempty
    del: map_map)

lemma set_map_read: "good_map m \<Longrightarrow> set_map A vm f (map_data m) x = Ret (vm_set A (f m) vm x)"
  by (simp add: set_map_def map_data_def map_data_read del: map_map)

lemma set_other_config_read:
  "good_map m \<Longrightarrow> vm_get_other_config A vm x = (cfg, x1) \<Longrightarrow> fold (\<lambda>(k, v). put_entry k v) m cfg = Some c \<Longrightarrow>
   set_other_config A vm (map_data m) x = Ret (vm_set A (F_other_config c) vm x1)"
  by (simp add: set_other_config_def map_data_def map_data_read del: map_map)

lemma string_fields_names: "(n, f) \<in> set string_fields \<Longrightarrow> map_of string_fields n = Some f"
  by (rule map_of_is_SomeI) (simp_all add: string_fields_def)

lemma other_names [simp]:
  "map_of string_fields ''HVM_Boot_Params'' = None" "map_of string_fields ''Platform'' = None"
  "map_of string_fields ''AutomaticShutdownAction'' = None" "map_of string_fields ''AutomaticStartupAction'' = None"
  "map_of string_fields ''AutomaticRecoveryAction'' = None" "map_of string_fields ''HVM_ShadowMultiplier'' = None"
  "map_of string_fields ''Xenstore_Data'' = None" "map_of string_fields ''Other_Config'' = None"
  "map_of string_fields ''HostAffinity'' = None"
  by (simp_all add: string_fields_def)

lemma modify_unsupported:
  "n \<notin> set supported \<Longrightarrow> modify_vm_setting A vm n d x = Ret (session_ok (vm_calls A) x, x)"
  by (simp add: modify_vm_setting_def supported_def string_fields_def)

lemma actions_read:
  "(n, a) \<in> {(2, Exit_destroy), (3, Exit_undefined), (4, Exit_destroy)} \<Longrightarrow>
     map_action_xen actions_after_shutdown_map (uint (ucast (n :: 64 word) :: 16 word)) = a"
  "(n, b) \<in> {(2, Exit_undefined), (3, Exit_restart), (4, Exit_restart)} \<Longrightarrow>
     map_action_xen actions_after_reboot_map (uint (ucast (n :: 64 word) :: 16 word)) = b"
  "(n, c) \<in> {(2, Crash_undefined), (3, Crash_restart), (4, Crash_restart)} \<Longrightarrow>
     map_action_xen actions_after_crash_map (uint (ucast (n :: 64 word) :: 16 word)) = c"
  by (auto simp: map_action_xen_def actions_after_shutdown_map_def actions_after_reboot_map_def actions_after_crash_map_def)

lemma fold_put_some: "\<exists>c. fold (\<lambda>(k, v). put_entry k v) m (Some cfg) = Some c"
proof (induction m arbitrary: cfg)
  case (Cons e m)
  obtain k v where e: "e = (k, v)" by (cases e)
  obtain c where "put_entry k v (Some cfg) = Some c"
    by (cases "replace_value k v cfg") (auto simp: xen_utils_add_to_string_string_map_def)
  with Cons [of c] e show ?case by simp
qed simp

text \<open>What one property does to a session that is good, and to one that is not.\<close>

definition settled :: "('x, 'r, 'z) settings_api_scheme \<Rightarrow> ('x \<Rightarrow> string \<Rightarrow> 'r vm_settings option) \<Rightarrow> ('r vm_field \<Rightarrow> bool) \<Rightarrow>
    string \<Rightarrow> 'r vm_settings \<Rightarrow> 'r vm_field option \<Rightarrow> 'x \<Rightarrow> 'x \<Rightarrow> bool" where
  "settled A view adm vm s w x x' \<longleftrightarrow>
     (case w of
        None \<Rightarrow> view x' = view x \<and> session_ok (vm_calls A) x'
      | Some f \<Rightarrow> view x' = (if adm f then (view x)(vm \<mapsto> apply_field f s) else view x) \<and>
          session_ok (vm_calls A) x' = adm f)"

lemma vm_set_settled:
  "settings_service A view adm hostref \<Longrightarrow> session_ok (vm_calls A) x \<Longrightarrow> view x vm = Some s \<Longrightarrow>
   settled A view adm vm s (Some f) x (vm_set A f vm x)"
  by (simp add: settled_def settings_serviceD(2,3))

lemma settled_trans: "view y = view x \<Longrightarrow> settled A view adm vm s w y x' \<Longrightarrow> settled A view adm vm s w x x'"
  by (simp add: settled_def split: option.splits)

lemma modify_means:
  assumes V: "settings_service A view adm hostref" and m: "means hostref n d g"
    and x: "session_ok (vm_calls A) x" and s: "view x vm = Some s"
  shows "\<exists>good x'. modify_vm_setting A vm n d x = Ret (good, x') \<and> settled A view adm vm s (g s) x x'"
  using m
proof cases
  case (string_field f v)
  then show ?thesis using vm_set_settled [OF V x s]
    by (auto simp: modify_vm_setting_def string_fields_names)
next
  case (other_config m)
  obtain x1 where x1: "vm_get_other_config A vm x = (Some (s_config s), x1)" "view x1 = view x" "session_ok (vm_calls A) x1"
    using settings_serviceD(4) [OF V x s] by blast
  obtain c where c: "fold (\<lambda>(k, v). put_entry k v) m (Some (s_config s)) = Some c"
    using fold_put_some by blast
  have "settled A view adm vm s (Some (F_other_config c)) x (vm_set A (F_other_config c) vm x1)"
    using settled_trans [OF x1(2) vm_set_settled [OF V x1(3)]] s x1(2) by simp
  then show ?thesis using other_config x1 c
    by (simp add: modify_vm_setting_def set_other_config_read entries_def)
next
  case (affinity u h)
  obtain x1 where x1: "host_get_by_uuid A u x = (Some h, x1)" "view x1 = view x" "session_ok (vm_calls A) x1"
    using settings_serviceD(5) [OF V x affinity(4)] by blast
  have "settled A view adm vm s (Some (F_affinity h)) x (vm_set A (F_affinity h) vm x1)"
    using settled_trans [OF x1(2) vm_set_settled [OF V x1(3)]] s x1(2) by simp
  then show ?thesis using affinity x1 by (simp add: modify_vm_setting_def set_affinity_def)
next
  case ignored
  then show ?thesis using modify_unsupported [of n A vm d x] x by (auto simp: settled_def)
qed (use vm_set_settled [OF V x s] in
    \<open>simp_all add: modify_vm_setting_def set_map_read set_action_def actions_read\<close>)

lemma modify_means_error:
  assumes V: "settings_service A view adm hostref" and m: "means hostref n d g" and x: "\<not> session_ok (vm_calls A) x"
  shows "modify_vm_setting A vm n d x = Ret (False, x)"
  using m
proof cases
  case (other_config m)
  have "fold (\<lambda>(k, v). put_entry k v) m None = Some m" using other_config(4) by (simp add: good_map_def fold_put_nonempty)
  then show ?thesis using other_config settings_serviceD(1,6) [OF V x] x
    by (simp add: modify_vm_setting_def set_other_config_read)
next
  case ignored
  then show ?thesis using modify_unsupported [of n A vm d x] x by simp
qed (use settings_serviceD(1,7) [OF V x] x in
    \<open>simp_all add: modify_vm_setting_def string_fields_names set_map_read set_action_def actions_read set_affinity_def\<close>)

text \<open>The properties of an instance, each with what it means.\<close>

definition wishes :: "(string \<Rightarrow> string option) \<Rightarrow> 'r vssd \<Rightarrow> (string \<times> 'r setting_data \<times> ('r vm_settings \<Rightarrow> 'r vm_field option)) list \<Rightarrow> bool" where
  "wishes hostref i ps \<longleftrightarrow> properties_at i = map (\<lambda>(n, d, g). (CMPI_RC_OK, Some n, Some d)) ps \<and>
     (\<forall>(n, d, g) \<in> set ps. property_of i n = (CMPI_RC_OK, Some d) \<and> means hostref n d g)"

lemma modify_all_settles:
  assumes V: "settings_service A view adm hostref"
  shows "\<forall>(n, d, g) \<in> set ps. property_of i n = (CMPI_RC_OK, Some d) \<and> means hostref n d g \<Longrightarrow>
    (\<not> session_ok (vm_calls A) x \<longrightarrow> modify_all A vm i (map (\<lambda>(n, d, g). (CMPI_RC_OK, Some n, Some d)) ps) x = Ret x) \<and>
    (session_ok (vm_calls A) x \<longrightarrow> view x vm = Some s \<longrightarrow>
      (\<exists>x'. modify_all A vm i (map (\<lambda>(n, d, g). (CMPI_RC_OK, Some n, Some d)) ps) x = Ret x' \<and>
        view x' = (view x)(vm \<mapsto> settle adm (map (\<lambda>(n, d, g). g) ps) s)))"
proof (induction ps arbitrary: x s)
  case (Cons p ps)
  obtain n d g where p: "p = (n, d, g)" by (cases p)
  from Cons.prems p have m: "means hostref n d g" and pr: "property_of i n = (CMPI_RC_OK, Some d)" by auto
  from Cons.prems have ps: "\<forall>(n, d, g) \<in> set ps. property_of i n = (CMPI_RC_OK, Some d) \<and> means hostref n d g" by simp
  show ?case
  proof (intro conjI impI)
    assume x: "\<not> session_ok (vm_calls A) x"
    then show "modify_all A vm i (map (\<lambda>(n, d, g). (CMPI_RC_OK, Some n, Some d)) (p # ps)) x = Ret x"
      using Cons.IH [OF ps, of x s] modify_means_error [OF V m x] pr by (simp add: p)
  next
    assume x: "session_ok (vm_calls A) x" and s: "view x vm = Some s"
    obtain good x1 where run: "modify_vm_setting A vm n d x = Ret (good, x1)" and st: "settled A view adm vm s (g s) x x1"
      using modify_means [OF V m x s] by blast
    consider "g s = None" | f where "g s = Some f" "adm f" | f where "g s = Some f" "\<not> adm f" by (cases "g s") auto
    then show "\<exists>x'. modify_all A vm i (map (\<lambda>(n, d, g). (CMPI_RC_OK, Some n, Some d)) (p # ps)) x = Ret x' \<and>
        view x' = (view x)(vm \<mapsto> settle adm (map (\<lambda>(n, d, g). g) (p # ps)) s)"
    proof cases
      case 1
      then have v: "view x1 = view x" "session_ok (vm_calls A) x1" using st by (simp_all add: settled_def)
      have up: "(view x1)(vm \<mapsto> w) = (view x)(vm \<mapsto> w)" for w by (simp only: v)
      have "view x1 vm = Some s" using s v(1) by simp
      from Cons.IH [OF ps, of x1 s, THEN conjunct2, unfolded up, THEN mp, OF v(2), THEN mp, OF this]
      show ?thesis using 1 run pr by (simp add: p fun_upd_def)
    next
      case 2
      then have v: "view x1 = (view x)(vm \<mapsto> apply_field f s)" "session_ok (vm_calls A) x1"
        using st by (simp_all add: settled_def)
      have up: "(view x1)(vm \<mapsto> w) = (view x)(vm \<mapsto> w)" for w unfolding v by simp
      have "view x1 vm = Some (apply_field f s)" using v(1) by simp
      from Cons.IH [OF ps, of x1 "apply_field f s", THEN conjunct2, unfolded up, THEN mp, OF v(2), THEN mp, OF this]
      show ?thesis using 2 run pr by (simp add: p fun_upd_def)
    next
      case 3
      then have v: "view x1 = view x" "\<not> session_ok (vm_calls A) x1" using st by (simp_all add: settled_def)
      have "view x = (view x)(vm \<mapsto> s)" using s by (simp add: fun_upd_idem)
      then show ?thesis using Cons.IH [OF ps, of x1 s] 3 run pr v by (simp add: p)
    qed
  qed
next
  case Nil
  then show ?case by (simp add: fun_upd_idem)
qed

section \<open>Properties\<close>

text \<open>C9. ModifySystemSettings changes the settings of the VM to what the properties of the instance ask for, in their
  order, up to the first that the daemon refuses: that one and all behind it are lost, and the method
  reports success nevertheless. Other VMs are left alone.\<close>

theorem modify_system_settings:
  assumes V: "settings_service A view adm hostref" and i: "wishes hostref i ps"
    and arg: "argsin ''SystemSettings'' = (CMPI_RC_OK, Some (A_instance i)) \<or>
      argsin ''SystemSettings'' = (CMPI_RC_OK, Some (A_string txt)) \<and> parse txt = Some i"
    and ident: "property_of i ''InstanceID'' = (CMPI_RC_OK, Some (D_string inst_id))"
    and vm: "vssd_find_vm (vm_calls A) (Some inst_id) x = Ret (CMPI_RC_OK, Some (vm, rec), x1)"
    and x1: "session_ok (vm_calls A) x1" "view x1 vm = Some s"
  shows "\<exists>x'. ModifySystemSettings A parse argsin 1 x = Ret (VSMS_Completed, (CMPI_RC_OK, []), x') \<and>
    view x' = (view x1)(vm \<mapsto> settle adm (map (\<lambda>(n, d, g). g) ps) s)"
proof -
  from modify_all_settles [OF V, of ps i x1 vm s] i x1
  obtain x' where "modify_all A vm i (properties_at i) x1 = Ret x'"
    "view x' = (view x1)(vm \<mapsto> settle adm (map (\<lambda>(n, d, g). g) ps) s)"
    by (auto simp: wishes_def)
  with arg ident vm show ?thesis
    by (auto simp: ModifySystemSettings_def GetArgument_def vssd_modify_def method_status_def xen_utils_set_status_def)
qed

section \<open>Witnesses\<close>

text \<open>A daemon with one VM, that refuses a change of the platform.\<close>

record demo_settings =
  n_ok :: bool
  n_vms :: "string \<Rightarrow> int vm_settings option"

fun demo_admits :: "int vm_field \<Rightarrow> bool" where
  "demo_admits (F_platform m) = False"
| "demo_admits f = True"

definition demo_settings_api :: "(demo_settings, int) settings_api" where
  "demo_settings_api = \<lparr>task_calls = no_tasks n_ok (\<lambda>b x. x\<lparr>n_ok := b\<rparr>),
     vm_calls = \<lparr>session_ok = n_ok, clear_error = (\<lambda>x. x\<lparr>n_ok := True\<rparr>), vm_get_all = (\<lambda>x. (None, x)),
       vm_get_record = (\<lambda>vm x. (Some (plain_vm vm), x)), vm_get_by_uuid = (\<lambda>u x. (Some u, x)),
       host_get_address = (\<lambda>h x. (None, x))\<rparr>,
     vm_get_power_state = (\<lambda>vm x. (None, x)), vm_do = (\<lambda>op vm x. x),
     error_of = (\<lambda>x. \<lparr>ok = n_ok x, error_description = None\<rparr>),
     vm_set = (\<lambda>f vm x. if n_ok x
       then (case n_vms x vm of
               Some s \<Rightarrow> if demo_admits f then x\<lparr>n_vms := (n_vms x)(vm \<mapsto> apply_field f s)\<rparr> else x\<lparr>n_ok := False\<rparr>
             | None \<Rightarrow> x\<lparr>n_ok := False\<rparr>)
       else x),
     vm_get_other_config = (\<lambda>vm x. if n_ok x then (map_option s_config (n_vms x vm), x) else (None, x)),
     host_get_by_uuid = (\<lambda>u x. if n_ok x then (Some u, x) else (None, x))\<rparr>"

lemma demo_settings_service: "settings_service demo_settings_api n_vms demo_admits Some"
  unfolding settings_service_def demo_settings_api_def settings_api.simps vm_api.simps sdk.simps
  by (intro conjI allI impI) simp_all

definition demo_old :: "int vm_settings" where
  "demo_old = \<lparr>s_description = None, s_label = Some ''vm'', s_kernel = None, s_ramdisk = None, s_args = None,
     s_legacy_args = None, s_bootloader = None, s_bootloader_args = None, s_boot_params = [], s_boot_policy = None,
     s_platform = [], s_after_shutdown = Exit_destroy, s_after_reboot = Exit_restart, s_after_crash = Crash_restart,
     s_shadow_multiplier = 1, s_xenstore_data = [], s_config = [], s_affinity = None\<rparr>"

definition demo_wishes :: "(string \<times> int setting_data \<times> (int vm_settings \<Rightarrow> int vm_field option)) list" where
  "demo_wishes =
     [(''InstanceID'', D_string ''Xen:u1'', \<lambda>s. None),
      (''AutomaticShutdownAction'', D_int CMPI_uint16 3, \<lambda>s. Some (F_after_shutdown Exit_undefined)),
      (''Platform'', map_data [(''pae'', ''true'')], \<lambda>s. Some (F_platform [(''pae'', ''true'')])),
      (''ElementName'', D_string ''web'', \<lambda>s. Some (F_label (Some ''web'')))]"

definition demo_vssd :: "int vssd" where
  "demo_vssd = \<lparr>property_of = (\<lambda>n. (CMPI_RC_OK, map_option fst (map_of demo_wishes n))),
     properties_at = map (\<lambda>(n, d, g). (CMPI_RC_OK, Some n, Some d)) demo_wishes\<rparr>"

lemma demo_wishes: "wishes Some demo_vssd demo_wishes"
proof -
  have "means Some ''InstanceID'' (D_string ''Xen:u1'') (\<lambda>s. None)"
    by (rule means.ignored) (simp add: supported_def string_fields_def)
  moreover have "means Some ''AutomaticShutdownAction'' (D_int CMPI_uint16 3) (\<lambda>s. Some (F_after_shutdown Exit_undefined))"
    by (rule means.shutdown) simp
  moreover have "means Some ''Platform'' (map_data [(''pae'', ''true'')]) (\<lambda>s. Some (F_platform [(''pae'', ''true'')]))"
    by (rule means.platform) (simp add: good_map_def clean_entry_def)
  moreover have "means Some ''ElementName'' (D_string ''web'') (\<lambda>s. Some (F_label (Some ''web'')))"
    by (rule means.string_field) (simp add: string_fields_def)
  ultimately show ?thesis by (simp add: wishes_def demo_vssd_def demo_wishes_def)
qed

text \<open>The action is set, the platform is refused, the name is lost, and the method reports success.\<close>

theorem modify_system_settings_witness:
  "\<exists>x'. ModifySystemSettings demo_settings_api (\<lambda>s. None)
       (\<lambda>n. (CMPI_RC_OK, if n = ''SystemSettings'' then Some (A_instance demo_vssd :: (unit, int vssd) arg_value) else None)) 1
       \<lparr>n_ok = True, n_vms = [''u1'' \<mapsto> demo_old]\<rparr> = Ret (VSMS_Completed, (CMPI_RC_OK, []), x') \<and>
     n_vms x' ''u1'' = Some (demo_old\<lparr>s_after_shutdown := Exit_undefined\<rparr>)"
proof -
  let ?x = "\<lparr>n_ok = True, n_vms = [''u1'' \<mapsto> demo_old]\<rparr>"
  let ?args = "\<lambda>n. (CMPI_RC_OK, if n = ''SystemSettings'' then Some (A_instance demo_vssd :: (unit, int vssd) arg_value) else None)"
  have ident: "property_of demo_vssd ''InstanceID'' = (CMPI_RC_OK, Some (D_string ''Xen:u1''))"
    by (simp add: demo_vssd_def demo_wishes_def)
  have "CMPIStrncpySystemNameFromID True ''Xen:u1'' 128 = Some ''u1''"
    by (simp add: CMPIStrncpySystemNameFromID_def strchr_def strrchr_split_def)
  then have vm: "vssd_find_vm (vm_calls demo_settings_api) (Some ''Xen:u1'') ?x = Ret (CMPI_RC_OK, Some (''u1'', plain_vm ''u1''), ?x)"
    by (simp add: vssd_find_vm_def demo_settings_api_def)
  have "settle demo_admits (map (\<lambda>(n, d, g). g) demo_wishes) demo_old = demo_old\<lparr>s_after_shutdown := Exit_undefined\<rparr>"
    by (simp add: demo_wishes_def)
  note st = this
  have arg: "?args ''SystemSettings'' = (CMPI_RC_OK, Some (A_instance demo_vssd)) \<or>
      ?args ''SystemSettings'' = (CMPI_RC_OK, Some (A_string [])) \<and> None = Some demo_vssd" by simp
  have good: "session_ok (vm_calls demo_settings_api) ?x" by (simp add: demo_settings_api_def)
  have old: "n_vms ?x ''u1'' = Some demo_old" by simp
  obtain x' where "ModifySystemSettings demo_settings_api (\<lambda>s. None) ?args 1 ?x = Ret (VSMS_Completed, (CMPI_RC_OK, []), x')"
    and v: "n_vms x' = (n_vms ?x)(''u1'' \<mapsto> settle demo_admits (map (\<lambda>(n, d, g). g) demo_wishes) demo_old)"
    using modify_system_settings [of _ _ _ _ _ _ ?args "[]" "\<lambda>s. None",
        OF demo_settings_service demo_wishes arg ident vm good old] by blast
  moreover have "n_vms x' ''u1'' = Some (demo_old\<lparr>s_after_shutdown := Exit_undefined\<rparr>)" unfolding v st by simp
  ultimately show ?thesis by blast
qed

end
