(* ===== verification/VmRecord.thy ===== *)
theory VmRecord
  imports VmSettings
begin

text \<open>
  The record of a new VM from a CIM instance of its settings, and the CIM properties of a VM from its
  record (\<^verbatim>\<open>src/Xen_VirtualSystemSettingData.c\<close>).
\<close>

section \<open>The record of a new VM\<close>

text \<open>A field that was not written is none: null, or the zero of an allocated record.\<close>

record 'r new_vm =
  r_label :: "string option"
  r_description :: "string option"
  r_uuid :: "string option"
  r_after_shutdown :: "normal_exit option"
  r_after_reboot :: "normal_exit option"
  r_after_crash :: "crash_behaviour option"
  r_affinity :: "string option"
  r_other_config :: "string_map option"
  r_platform :: "string_map option"
  r_shadow_multiplier :: "'r option"
  r_boot_params :: "string_map option"
  r_boot_policy :: "string option"
  r_bootloader :: "string option"
  r_bootloader_args :: "string option"
  r_kernel :: "string option"
  r_ramdisk :: "string option"
  r_args :: "string option"
  r_legacy_args :: "string option"
  r_xenstore_data :: "string_map option"

definition blank_vm :: "'r new_vm" where
  "blank_vm = \<lparr>r_label = None, r_description = None, r_uuid = None, r_after_shutdown = None, r_after_reboot = None,
     r_after_crash = None, r_affinity = None, r_other_config = None, r_platform = None, r_shadow_multiplier = None,
     r_boot_params = None, r_boot_policy = None, r_bootloader = None, r_bootloader_args = None, r_kernel = None,
     r_ramdisk = None, r_args = None, r_legacy_args = None, r_xenstore_data = None\<rparr>"

text \<open>
  The broker's class hierarchy, the masks \<^verbatim>\<open>CMPI_INTEGER\<close> and \<^verbatim>\<open>CMPI_REAL\<close>
  of its header, which the code compares with the type of a value, and the number 1.0.
\<close>

record 'r vssd_lib =
  class_isa :: "string \<Rightarrow> string \<Rightarrow> bool"
  INTEGER_mask :: cmpi_type
  REAL_mask :: cmpi_type
  real_one :: 'r

text \<open>A property that is there, not null, and a string; an array of strings; an integer whose type is the mask.\<close>

definition string_of :: "'r vssd \<Rightarrow> string \<Rightarrow> string option" where
  "string_of i n = (case property_of i n of (CMPI_RC_OK, Some (D_string s)) \<Rightarrow> Some s | _ \<Rightarrow> None)"

definition action_of :: "'r vssd_lib \<Rightarrow> 'r vssd \<Rightarrow> string \<Rightarrow> (int \<times> 'a) list \<Rightarrow> 'a option" where
  "action_of L i n m =
     (case property_of i n of
        (CMPI_RC_OK, Some (D_int t v)) \<Rightarrow>
          if t = INTEGER_mask L then Some (map_action_xen m (uint (ucast v :: 16 word))) else None
      | _ \<Rightarrow> None)"

definition map_of_property :: "'r vssd \<Rightarrow> string \<Rightarrow> string_map option outcome" where
  "map_of_property i n =
     (case property_of i n of
        (CMPI_RC_OK, Some (D_array arr)) \<Rightarrow> xen_utils_convert_CMPIArray_to_string_string_map arr
      | _ \<Rightarrow> Ret None)"

text \<open>Whatever is given is taken for an array; by default there is one entry.\<close>

definition get_vm_platform_config :: "'r vssd \<Rightarrow> string_map option \<Rightarrow> string_map option outcome" where
  "get_vm_platform_config i platform =
     (case property_of i ''Platform'' of
        (CMPI_RC_OK, Some data) \<Rightarrow>
          (case data of D_array arr \<Rightarrow> xen_utils_convert_CMPIArray_to_string_string_map arr | _ \<Rightarrow> Undefined)
      | _ \<Rightarrow>
          Ret (if xen_utils_get_from_string_string_map platform ''stdvga'' = None
               then put_entry ''stdvga'' ''false'' platform else platform))"

text \<open>
  A kernel is honoured if there is no bootloader; otherwise the bootloader is freed, if there is one, and
  set to pygrub.
\<close>

definition pv_record :: "'r vssd \<Rightarrow> 'r new_vm \<Rightarrow> 'r new_vm" where
  "pv_record i rec =
     (let loader = string_of i ''PV_Bootloader'';
          loader_args = (if loader = None then None else string_of i ''PV_Bootloader_Args'');
          kernel = (if loader = None then string_of i ''PV_Kernel'' else None)
      in rec\<lparr>r_boot_params := Some [], r_boot_policy := Some [],
           r_bootloader := (if kernel = None then Some ''pygrub'' else loader),
           r_bootloader_args := loader_args,
           r_kernel := kernel,
           r_ramdisk := (if kernel = None then None else string_of i ''PV_RAMDisk''),
           r_args := Some (case string_of i ''PV_Args'' of Some a \<Rightarrow> a | None \<Rightarrow> ''Term=xterm''),
           r_legacy_args := string_of i ''PV_Legacy_Args''\<rparr>)"

text \<open>With strict checks, boot parameters that are not a string are replaced; what is left is read as an array.\<close>

definition hvm_record :: "'r vssd_lib \<Rightarrow> 'r vssd \<Rightarrow> bool \<Rightarrow> 'r new_vm \<Rightarrow> 'r new_vm outcome" where
  "hvm_record L i strict_checks rec =
     bind_outcome
       (if string_of i ''HVM_Boot_Params'' = None \<and> strict_checks
        then Ret (xen_utils_convert_string_to_string_map (Some ''order=dc'') '','')
        else (case property_of i ''HVM_Boot_Params'' of
           (_, Some (D_array arr)) \<Rightarrow> xen_utils_convert_CMPIArray_to_string_string_map arr
         | _ \<Rightarrow> Undefined))
       (\<lambda>params. Ret (rec\<lparr>r_boot_params := params,
          r_boot_policy := Some (case string_of i ''HVM_Boot_Policy'' of Some p \<Rightarrow> p | None \<Rightarrow> ''BIOS order''),
          r_shadow_multiplier := Some (case property_of i ''HVM_ShadowMultiplier'' of
             (CMPI_RC_OK, Some (D_real64 r)) \<Rightarrow> if REAL_mask L = CMPI_real64 then r else real_one L
           | _ \<Rightarrow> real_one L)\<rparr>))"

text \<open>The part that depends on the type of the VM; none is an error.\<close>

definition type_record :: "'r vssd_lib \<Rightarrow> 'r vssd \<Rightarrow> bool \<Rightarrow> 'r new_vm \<Rightarrow> 'r new_vm option outcome" where
  "type_record L i strict_checks rec =
     (case string_of i ''VirtualSystemType'' of
        None \<Rightarrow> Ret (if strict_checks then None else Some rec)
      | Some vsType \<Rightarrow>
          if vsType = [] then Ret (if strict_checks then None else Some rec)
          else if contains vsType ''PV'' then Ret (Some (pv_record i rec))
          else if contains vsType ''HVM'' then bind_outcome (hvm_record L i strict_checks rec) (\<lambda>r. Ret (Some r))
          else Ret None)"

text \<open>The uuid is taken without a look at the type of the property.\<close>

definition uuid_of :: "'r vssd \<Rightarrow> string option outcome" where
  "uuid_of i =
     (case property_of i ''VirtualSystemIdentifier'' of
        (CMPI_RC_OK, Some data) \<Rightarrow> (case data of D_string u \<Rightarrow> Ret (Some u) | _ \<Rightarrow> Undefined)
      | _ \<Rightarrow> Ret None)"

definition basic_record :: "'r vssd_lib \<Rightarrow> 'r vssd \<Rightarrow> string \<Rightarrow> string option \<Rightarrow> 'r new_vm" where
  "basic_record L i label uuid =
     blank_vm\<lparr>r_label := Some label, r_description := string_of i ''Description'', r_uuid := uuid,
       r_after_shutdown := action_of L i ''AutomaticShutdownAction'' actions_after_shutdown_map,
       r_after_reboot := Some (case action_of L i ''AutomaticStartupAction'' actions_after_reboot_map of
           Some a \<Rightarrow> a | None \<Rightarrow> Exit_restart),
       r_after_crash := action_of L i ''AutomaticRecoveryAction'' actions_after_crash_map\<rparr>"

text \<open>None where no host was asked for; an error where there is no such host.\<close>

definition affinity_of ::
    "('x, 'r, 'z) settings_api_scheme \<Rightarrow> 'r vssd \<Rightarrow> 'x \<Rightarrow> string option option \<times> 'x" where
  "affinity_of A i x =
     (case string_of i ''HostAffinity'' of
        None \<Rightarrow> (Some None, x)
      | Some u \<Rightarrow>
          (case host_get_by_uuid A u x of
             (None, x1) \<Rightarrow> (None, x1)
           | (Some h, x1) \<Rightarrow> (Some (Some h), x1)))"

definition vssd_to_vm_rec ::
    "'r vssd_lib \<Rightarrow> ('x, 'r, 'z) settings_api_scheme \<Rightarrow> bool \<Rightarrow> string \<Rightarrow> 'r vssd \<Rightarrow> bool \<Rightarrow> 'x \<Rightarrow>
     (cmpi_rc \<times> 'r new_vm option \<times> 'x) outcome" where
  "vssd_to_vm_rec L A mem settingclassname i strict_checks x =
     (if \<not> class_isa L settingclassname ''CIM_VirtualSystemSettingData''
      then Ret (CMPI_RC_ERR_INVALID_PARAMETER, None, x)
      else if \<not> mem then Ret (CMPI_RC_ERROR_SYSTEM, None, x)
      else (case string_of i ''ElementName'' of
         None \<Rightarrow> Ret (CMPI_RC_ERR_INVALID_PARAMETER, None, x)
       | Some label \<Rightarrow>
           bind_outcome (uuid_of i) (\<lambda>uuid.
             case affinity_of A i x of
               (None, x1) \<Rightarrow> Ret (CMPI_RC_OK, None, x1)
             | (Some hostref, x1) \<Rightarrow>
                 bind_outcome (map_of_property i ''Other_Config'') (\<lambda>config.
                   if strict_checks \<and> string_of i ''VirtualSystemType'' = None
                   then Ret (CMPI_RC_ERR_INVALID_PARAMETER, None, x1)
                   else bind_outcome (get_vm_platform_config i None) (\<lambda>platform.
                     bind_outcome
                       (type_record L i strict_checks
                          ((basic_record L i label uuid)\<lparr>r_affinity := hostref,
                             r_other_config := (case property_of i ''Other_Config'' of
                                 (CMPI_RC_OK, Some (D_array arr)) \<Rightarrow> config | _ \<Rightarrow> Some []),
                             r_platform := platform, r_shadow_multiplier := Some (real_one L)\<rparr>))
                       (\<lambda>typed. case typed of
                          None \<Rightarrow> Ret (CMPI_RC_ERR_INVALID_PARAMETER, None, x1)
                        | Some rec \<Rightarrow>
                            bind_outcome (map_of_property i ''Xenstore_Data'')
                              (\<lambda>data. Ret (CMPI_RC_OK, Some (rec\<lparr>r_xenstore_data := data\<rparr>), x1))))))))"

text \<open>The update of an existing VM from such a record; what is zero or null is left alone.\<close>

definition update_vm_from_vm_rec ::
    "('x, 'r, 'z) settings_api_scheme \<Rightarrow> 'r new_vm \<Rightarrow> string \<Rightarrow> 'x \<Rightarrow> 'x" where
  "update_vm_from_vm_rec A rec vm x =
     (let put = (\<lambda>f y. case f of None \<Rightarrow> y | Some g \<Rightarrow> vm_set A g vm y);
          nonzero = (\<lambda>a. if a = Some Exit_destroy then None else a)
      in put (map_option F_after_crash (r_after_crash rec))
          (put (map_option F_after_reboot (nonzero (r_after_reboot rec)))
            (put (map_option F_after_shutdown (nonzero (r_after_shutdown rec)))
              (put (map_option (\<lambda>d. F_description (Some d)) (r_description rec))
                (put (map_option (\<lambda>l. F_label (Some l)) (r_label rec)) x)))))"

end
