(* ===== verification/VmView.thy ===== *)
theory VmView
  imports VmRecord
begin

text \<open>
  The CIM properties of a VM, a template or a snapshot from its record
  (\<^verbatim>\<open>vssd_from_vm_rec\<close> of \<^verbatim>\<open>src/Xen_VirtualSystemSettingData.c\<close>), and what
  of the settings that a VM was created with can be read back from it.
\<close>

section \<open>Paths\<close>

type_synonym vm_path = "string \<times> (string \<times> string) list"

definition vssd_create_instance_id :: "string \<Rightarrow> nat \<Rightarrow> string" where
  "vssd_create_instance_id uuid buf_len = CMPICreateNewSystemInstanceID buf_len uuid"

definition vm_create_ref :: "string \<Rightarrow> vm_path" where
  "vm_create_ref uuid = (''Xen_ComputerSystem'', [(''CreationClassName'', ''Xen_ComputerSystem''), (''Name'', uuid)])"

definition snapshot_create_ref :: "string \<Rightarrow> vm_path" where
  "snapshot_create_ref uuid = (''Xen_ComputerSystemSnapshot'', [(''InstanceID'', vssd_create_instance_id uuid 129)])"

definition vssd_create_ref :: "string \<Rightarrow> vm_path" where
  "vssd_create_ref uuid = (''Xen_ComputerSystemSettingData'', [(''InstanceID'', vssd_create_instance_id uuid 129)])"

definition template_create_ref :: "string \<Rightarrow> vm_path" where
  "template_create_ref uuid = (''Xen_ComputerSystemTemplate'', [(''InstanceID'', vssd_create_instance_id uuid 129)])"

section \<open>The record and the SDK\<close>

text \<open>A link to another VM is a handle or a record; the links to hosts are handles.\<close>

datatype vm_link = Handle string | Inline vm_record

record 'r full_vm = "'r new_vm" +
  f_resident_on :: "string option"
  f_parent :: "vm_link option"
  f_children :: "vm_link list option"
  f_snapshot_of :: "vm_link option"
  f_snapshot_time :: "64 word"
  f_operations :: "vm_operation list option"

text \<open>The times are those of installation and start; the guest's are its drivers, its system, and whether
  the drivers are up to date.\<close>

record ('x, 'r) view_api = "('x, 'r) settings_api" +
  vm_get_metrics :: "string \<Rightarrow> 'x \<Rightarrow> string option \<times> 'x"
  metrics_times :: "string \<Rightarrow> 'x \<Rightarrow> (64 word \<times> 64 word) option \<times> 'x"
  host_get_uuid :: "string \<Rightarrow> 'x \<Rightarrow> string option \<times> 'x"
  allowed_vbd_devices :: "string \<Rightarrow> 'x \<Rightarrow> string_set option \<times> 'x"
  allowed_vif_devices :: "string \<Rightarrow> 'x \<Rightarrow> string_set option \<times> 'x"
  vm_get_guest_metrics :: "string \<Rightarrow> 'x \<Rightarrow> string option \<times> 'x"
  guest_metrics_record :: "string \<Rightarrow> 'x \<Rightarrow> (string_map option \<times> string_map option \<times> bool) option \<times> 'x"

text \<open>The broker prints paths; the comparison of a number with zero is that of the processor.\<close>

record 'r view_lib =
  path_text :: "vm_path \<Rightarrow> string"
  is_zero :: "'r \<Rightarrow> bool"

text \<open>A property that is set: null is a string of its own.\<close>

datatype 'r prop_value = P_chars "string option" | P_array "('r, unit) cmpi_data list" | P_date "64 word"
  | P_real 'r | P_bool bool | P_uint16 int

type_synonym 'r prop_writes = "(string \<times> 'r prop_value) list"

definition XAPI_NULL_REF :: string where
  "XAPI_NULL_REF = ''OpaqueRef:NULL''"

section \<open>The parts of the conversion\<close>

definition metrics_properties ::
    "('x, 'r, 'z) view_api_scheme \<Rightarrow> string \<Rightarrow> 'x \<Rightarrow> 'r prop_writes \<times> 'x" where
  "metrics_properties A vm x =
     (case vm_get_metrics A vm x of
        (None, x1) \<Rightarrow> ([], x1)
      | (Some h, x1) \<Rightarrow>
          (case metrics_times A h x1 of
             (None, x2) \<Rightarrow> ([], x2)
           | (Some (install, start), x2) \<Rightarrow>
               ((''CreationTime'', P_date (xen_utils_time_t_to_binary install)) #
                  (if start = 0 then [] else [(''StartTime'', P_date (xen_utils_time_t_to_binary start))]), x2)))"

definition host_uuid_of ::
    "('x, 'r, 'z) view_api_scheme \<Rightarrow> string option \<Rightarrow> 'x \<Rightarrow> string option \<times> 'x" where
  "host_uuid_of A link x =
     (case link of
        None \<Rightarrow> (None, x)
      | Some h \<Rightarrow>
          if h = XAPI_NULL_REF then (None, x)
          else (case host_get_uuid A h x of (u, x1) \<Rightarrow> (u, RESET_XEN_ERROR (vm_calls A) x1)))"

text \<open>A text that is set unless it is null or empty; a map unless it is null.\<close>

definition text_property :: "string \<Rightarrow> string option \<Rightarrow> 'r prop_writes" where
  "text_property n v = (case v of None \<Rightarrow> [] | Some s \<Rightarrow> if s = [] then [] else [(n, P_chars (Some s))])"

definition map_property :: "string \<Rightarrow> string_map option \<Rightarrow> 'r prop_writes" where
  "map_property n mp =
     (case xen_utils_convert_string_string_map_to_CMPIArray mp of None \<Rightarrow> [] | Some arr \<Rightarrow> [(n, P_array arr)])"

definition type_properties :: "'r view_lib \<Rightarrow> ('r, 'y) new_vm_scheme \<Rightarrow> 'r prop_writes" where
  "type_properties V r =
     (if xen_utils_get_from_string_string_map (r_boot_params r) ''order'' \<noteq> None
      then (''VirtualSystemType'', P_chars (Some ''DMTF:Xen:HVM'')) # map_property ''HVM_Boot_Params'' (r_boot_params r) @
        text_property ''HVM_Boot_Policy'' (r_boot_policy r) @
        (case r_shadow_multiplier r of
           None \<Rightarrow> [] | Some m \<Rightarrow> if is_zero V m then [] else [(''HVM_ShadowMultiplier'', P_real m)])
      else (''VirtualSystemType'', P_chars (Some ''DMTF:Xen:PV'')) # text_property ''PV_Kernel'' (r_kernel r) @
        text_property ''PV_RAMDisk'' (r_ramdisk r) @ text_property ''PV_Args'' (r_args r) @
        text_property ''PV_Legacy_Args'' (r_legacy_args r) @ text_property ''PV_Bootloader'' (r_bootloader r) @
        text_property ''PV_Bootloader_Args'' (r_bootloader_args r))"

definition linked_record :: "'x sdk \<Rightarrow> vm_link \<Rightarrow> 'x \<Rightarrow> vm_record option \<times> 'x" where
  "linked_record K l x =
     (case l of
        Inline r \<Rightarrow> (Some r, x)
      | Handle h \<Rightarrow> if h = XAPI_NULL_REF then (None, x) else vm_get_record K h x)"

text \<open>The path of a VM by what it is, and as a URI.\<close>

definition relative_path :: "vm_record \<Rightarrow> vm_path" where
  "relative_path r =
     (if is_a_snapshot r then snapshot_create_ref (vm_uuid r)
      else if is_a_template r then template_create_ref (vm_uuid r)
      else vm_create_ref (vm_uuid r))"

definition relative_uri :: "'r view_lib \<Rightarrow> vm_path \<Rightarrow> string option" where
  "relative_uri V p = xen_utils_CMPIObjectPath_to_WBEM_URI (path_text V p)"

definition parent_property ::
    "'r view_lib \<Rightarrow> 'x sdk \<Rightarrow> vm_link option \<Rightarrow> 'x \<Rightarrow> 'r prop_writes \<times> 'x" where
  "parent_property V K link x =
     (case link of
        None \<Rightarrow> ([], x)
      | Some l \<Rightarrow>
          (case linked_record K l x of
             (None, x1) \<Rightarrow> ([], x1)
           | (Some r, x1) \<Rightarrow> ([(''Parent'', P_chars (relative_uri V (relative_path r)))], x1)))"

text \<open>A child whose path has no URI makes the set copy a null string.\<close>

fun children_uris ::
    "'r view_lib \<Rightarrow> 'x sdk \<Rightarrow> vm_link list \<Rightarrow> string_set option \<Rightarrow> 'x \<Rightarrow> (string_set option \<times> 'x) outcome" where
  "children_uris V K [] st x = Ret (st, x)"
| "children_uris V K (l # ls) st x =
     (case linked_record K l x of
        (None, x1) \<Rightarrow> children_uris V K ls st x1
      | (Some r, x1) \<Rightarrow>
          (case relative_uri V (relative_path r) of
             None \<Rightarrow> Undefined
           | Some u \<Rightarrow> children_uris V K ls (snd (xen_utils_add_to_string_set True u st)) x1))"

definition children_property ::
    "'r view_lib \<Rightarrow> 'x sdk \<Rightarrow> vm_link list option \<Rightarrow> 'x \<Rightarrow> ('r prop_writes \<times> 'x) outcome" where
  "children_property V K links x =
     (case links of
        None \<Rightarrow> Ret ([], x)
      | Some ls \<Rightarrow>
          bind_outcome (children_uris V K ls None x)
            (\<lambda>(st, x1). Ret (case st of
                 None \<Rightarrow> []
               | Some s \<Rightarrow> [(''Children'', P_array (the (xen_utils_convert_string_set_to_CMPIArray (Some s))))], x1)))"

definition snapshot_properties ::
    "'r view_lib \<Rightarrow> 'x sdk \<Rightarrow> ('r, 'y) full_vm_scheme \<Rightarrow> 'x \<Rightarrow> 'r prop_writes \<times> 'x" where
  "snapshot_properties V K r x =
     (let (ws, x1) = (case f_snapshot_of r of
              None \<Rightarrow> ([], x)
            | Some l \<Rightarrow>
                (case linked_record K l x of
                   (None, x1) \<Rightarrow> ([], x1)
                 | (Some o_rec, x1) \<Rightarrow> ([(''SnapshotOf'', P_chars (relative_uri V (vm_create_ref (vm_uuid o_rec))))], x1)))
      in (ws @ (if f_snapshot_time r = 0 then []
                else [(''SnapshotTime'', P_date (xen_utils_time_t_to_binary (f_snapshot_time r)))]),
          RESET_XEN_ERROR K x1))"

definition devices_property ::
    "string \<Rightarrow> string_set option \<times> 'x \<Rightarrow> ('r prop_writes \<times> 'x) outcome" where
  "devices_property n found =
     (case found of
        (None, x1) \<Rightarrow> Ret ([], x1)
      | (Some st, x1) \<Rightarrow>
          bind_outcome (xen_utils_flatten_string_set (Some st) '','') (\<lambda>v. Ret ([(n, P_chars v)], x1)))"

definition active_properties ::
    "('x, 'r, 'z) view_api_scheme \<Rightarrow> string \<Rightarrow> ('r, 'y) full_vm_scheme \<Rightarrow> string option \<Rightarrow> string option \<Rightarrow> 'x \<Rightarrow>
     ('r prop_writes \<times> 'x) outcome" where
  "active_properties A vm r hostid affinity_id x =
     bind_outcome (devices_property ''AvailableBlockDeviceSlots'' (allowed_vbd_devices A vm x))
       (\<lambda>(vbds, x1). bind_outcome (devices_property ''AvailableNetworkInterfaceSlots'' (allowed_vif_devices A vm x1))
          (\<lambda>(vifs, x2). Ret
             ((case hostid of None \<Rightarrow> [] | Some u \<Rightarrow> [(''Host'', P_chars (Some u))]) @
              (case affinity_id of None \<Rightarrow> [] | Some u \<Rightarrow> [(''HostAffinity'', P_chars (Some u))]) @
              (if r_xenstore_data r = None \<or> r_xenstore_data r = Some [] then []
               else map_property ''Xenstore_Data'' (r_xenstore_data r)) @
              vbds @ vifs @
              [(''Xen_Tools_AreRunning'', P_bool (case f_operations r of
                  None \<Rightarrow> False | Some ops \<Rightarrow> OP_CLEAN_SHUTDOWN \<in> set ops))], x2)))"

definition guest_properties ::
    "('x, 'r, 'z) view_api_scheme \<Rightarrow> string \<Rightarrow> 'x \<Rightarrow> 'r prop_writes \<times> 'x" where
  "guest_properties A vm x =
     (case vm_get_guest_metrics A vm x of
        (None, x1) \<Rightarrow> ([], x1)
      | (Some h, x1) \<Rightarrow>
          if h = XAPI_NULL_REF then ([], x1)
          else (case guest_metrics_record A h x1 of
             (None, x2) \<Rightarrow> ([], x2)
           | (Some (drivers, os, uptodate), x2) \<Rightarrow>
               (map_property ''PV_Drivers_Version'' drivers @ map_property ''OS_Version'' os @
                [(''PV_Drivers_UpToDate'', P_bool uptodate)], x2)))"

text \<open>A field of an action that was never written is the first value of its enumeration.\<close>

definition action_properties :: "('r, 'y) new_vm_scheme \<Rightarrow> 'r prop_writes" where
  "action_properties r =
     (let exit_of = (\<lambda>a. case a of None \<Rightarrow> Exit_destroy | Some e \<Rightarrow> e)
      in [(''AutomaticShutdownAction'', P_uint16 (map_action_dmtf actions_after_shutdown_map (exit_of (r_after_shutdown r)))),
          (''AutomaticStartupAction'', P_uint16 (map_action_dmtf actions_after_reboot_map (exit_of (r_after_reboot r)))),
          (''AutomaticRecoveryAction'', P_uint16 (map_action_dmtf actions_after_crash_map
             (case r_after_crash r of None \<Rightarrow> Crash_other 0 | Some c \<Rightarrow> c)))])"

section \<open>The conversion\<close>

definition caption_of :: "string \<Rightarrow> string" where
  "caption_of cn =
     (if cn = ''Xen_ComputerSystemTemplate'' then ''Template for a Xen virtual machine''
      else if cn = ''Xen_ComputerSystemSnapshot'' then ''Settings for a Snapshot of a Xen virtual machine''
      else ''Active Settings of a Xen virtual machine'')"

text \<open>The properties in the order in which they are set; the record has a uuid.\<close>

definition vssd_from_vm_rec ::
    "'r view_lib \<Rightarrow> ('x, 'r, 'z) view_api_scheme \<Rightarrow> string \<Rightarrow> string \<Rightarrow> string \<Rightarrow> ('r, 'y) full_vm_scheme \<Rightarrow> bool \<Rightarrow> 'x \<Rightarrow>
     ('r prop_writes \<times> 'x) outcome" where
  "vssd_from_vm_rec V A cn vm uuid r ref_only x =
     (let ident = [(''InstanceID'', P_chars (Some (vssd_create_instance_id uuid 128)))];
          reset = RESET_XEN_ERROR (vm_calls A)
      in if ref_only then Ret (ident, x)
         else
           let (metrics, x1) = metrics_properties A vm x;
               (affinity_id, x2) = host_uuid_of A (r_affinity r) (reset x1);
               (hostid, x3) = host_uuid_of A (f_resident_on r) x2;
               (parent, x4) = parent_property V (vm_calls A) (f_parent r) x3;
               names = [(''Caption'', P_chars (Some (caption_of cn))), (''Description'', P_chars (r_description r)),
                 (''ElementName'', P_chars (r_label r)), (''VirtualSystemIdentifier'', P_chars (Some uuid))];
               is_snapshot = (cn = ''Xen_ComputerSystemSnapshot'');
               is_cssd = (\<not> is_snapshot \<and> cn \<noteq> ''Xen_ComputerSystemTemplate'')
           in bind_outcome (children_property V (vm_calls A) (f_children r) x4)
             (\<lambda>(children, x5).
               let (snap, x6) = (if is_snapshot then snapshot_properties V (vm_calls A) r (reset x5) else ([], reset x5))
               in bind_outcome (if is_cssd then active_properties A vm r hostid affinity_id x6 else Ret ([], x6))
                 (\<lambda>(active, x7).
                   let (guest, x8) = (if is_cssd \<or> is_snapshot then guest_properties A vm (reset x7) else ([], reset x7))
                   in Ret (ident @ metrics @ names @ type_properties V r @ parent @ children @ snap @ active @ guest @
                       map_property ''Other_Config'' (r_other_config r) @ map_property ''Platform'' (r_platform r) @
                       action_properties r @ [(''SystemName'', P_chars (Some uuid))], reset x8))))"

section \<open>What is read back\<close>

text \<open>What is shown for a property: what it was set to last.\<close>

definition shown :: "'r prop_writes \<Rightarrow> string \<Rightarrow> 'r prop_value option" where
  "shown ws n = map_of (rev ws) n"

text \<open>The names that a part of the conversion sets.\<close>

definition sets_only :: "'r prop_writes \<Rightarrow> string set \<Rightarrow> bool" where
  "sets_only ws N \<longleftrightarrow> fst ` set ws \<subseteq> N"

lemma sets_only_simps [simp]:
  "sets_only [] N" "sets_only ((n, v) # ws) N \<longleftrightarrow> n \<in> N \<and> sets_only ws N"
  "sets_only (vs @ ws) N \<longleftrightarrow> sets_only vs N \<and> sets_only ws N"
  by (auto simp: sets_only_def)

lemma shown_append: "shown (vs @ ws) n = (case shown ws n of Some v \<Rightarrow> Some v | None \<Rightarrow> shown vs n)"
  by (simp add: shown_def map_add_def split: option.splits)

lemma shown_Nil [simp]: "shown [] n = None"
  by (simp add: shown_def)

lemma shown_Cons: "shown ((k, v) # ws) n = (case shown ws n of Some u \<Rightarrow> Some u | None \<Rightarrow> if n = k then Some v else None)"
  by (simp add: shown_def map_add_def split: option.splits)

lemma shown_other: "sets_only ws N \<Longrightarrow> n \<notin> N \<Longrightarrow> shown ws n = None"
  unfolding shown_def sets_only_def by (auto simp: map_of_eq_None_iff)

lemma text_property_sets: "n \<in> N \<Longrightarrow> sets_only (text_property n v) N"
  by (simp add: text_property_def split: option.splits)

lemma map_property_sets: "n \<in> N \<Longrightarrow> sets_only (map_property n m) N"
  by (simp add: map_property_def split: option.splits)

lemmas property_sets = text_property_sets map_property_sets

lemma metrics_sets: "metrics_properties A vm x = (ws, x') \<Longrightarrow> sets_only ws {''CreationTime'', ''StartTime''}"
  by (auto simp: metrics_properties_def split: prod.splits option.splits if_splits)

lemma parent_sets: "parent_property V K l x = (ws, x') \<Longrightarrow> sets_only ws {''Parent''}"
  by (auto simp: parent_property_def split: prod.splits option.splits)

lemma children_sets: "children_property V K l x = Ret (ws, x') \<Longrightarrow> sets_only ws {''Children''}"
  by (auto simp: children_property_def bind_outcome_Ret_iff split: prod.splits option.splits)

lemma snapshot_sets: "snapshot_properties V K r x = (ws, x') \<Longrightarrow> sets_only ws {''SnapshotOf'', ''SnapshotTime''}"
  by (auto simp: snapshot_properties_def split: prod.splits option.splits if_splits)

lemma guest_sets: "guest_properties A vm x = (ws, x') \<Longrightarrow>
    sets_only ws {''PV_Drivers_Version'', ''OS_Version'', ''PV_Drivers_UpToDate''}"
  by (auto simp: guest_properties_def property_sets split: prod.splits option.splits if_splits)

lemma devices_sets: "devices_property n a = Ret (ws, x') \<Longrightarrow> n \<in> N \<Longrightarrow> sets_only ws N"
  by (auto simp: devices_property_def bind_outcome_Ret_iff split: prod.splits option.splits)

lemmas part_sets = metrics_sets parent_sets children_sets snapshot_sets guest_sets

text \<open>What the settings of an active VM show, part by part.\<close>

lemma active_shows:
  assumes "active_properties A vm r hostid aff x = Ret (ws, x')"
  shows "sets_only ws {''Host'', ''HostAffinity'', ''Xenstore_Data'', ''AvailableBlockDeviceSlots'',
      ''AvailableNetworkInterfaceSlots'', ''Xen_Tools_AreRunning''}"
    and "r_xenstore_data r = Some m \<Longrightarrow> m \<noteq> [] \<Longrightarrow>
      shown ws ''Xenstore_Data'' = shown (map_property ''Xenstore_Data'' (Some m)) ''Xenstore_Data''"
proof -
  from assms obtain vbds x1 vifs x2 where
    d: "devices_property ''AvailableBlockDeviceSlots'' (allowed_vbd_devices A vm x) = Ret (vbds, x1)"
       "devices_property ''AvailableNetworkInterfaceSlots'' (allowed_vif_devices A vm x1) = Ret (vifs, x2)"
    and ws: "ws = (case hostid of None \<Rightarrow> [] | Some u \<Rightarrow> [(''Host'', P_chars (Some u))]) @
              (case aff of None \<Rightarrow> [] | Some u \<Rightarrow> [(''HostAffinity'', P_chars (Some u))]) @
              (if r_xenstore_data r = None \<or> r_xenstore_data r = Some [] then []
               else map_property ''Xenstore_Data'' (r_xenstore_data r)) @
              vbds @ vifs @
              [(''Xen_Tools_AreRunning'', P_bool (case f_operations r of
                  None \<Rightarrow> False | Some ops \<Rightarrow> OP_CLEAN_SHUTDOWN \<in> set ops))]"
    by (auto simp: active_properties_def bind_outcome_Ret_iff)
  show "sets_only ws {''Host'', ''HostAffinity'', ''Xenstore_Data'', ''AvailableBlockDeviceSlots'',
      ''AvailableNetworkInterfaceSlots'', ''Xen_Tools_AreRunning''}"
    unfolding ws using devices_sets [OF d(1)] devices_sets [OF d(2)]
    by (auto simp: property_sets split: option.splits)
  show "shown ws ''Xenstore_Data'' = shown (map_property ''Xenstore_Data'' (Some m)) ''Xenstore_Data''"
    if "r_xenstore_data r = Some m" "m \<noteq> []"
    unfolding ws using that shown_other [OF devices_sets [OF d(1)], of "{''AvailableBlockDeviceSlots''}" "''Xenstore_Data''"]
      shown_other [OF devices_sets [OF d(2)], of "{''AvailableNetworkInterfaceSlots''}" "''Xenstore_Data''"]
    by (auto simp: shown_append shown_Cons split: option.splits)
qed
text \<open>The conversion with its parts named.\<close>

lemma vssd_from_vm_rec_parts:
  assumes "vssd_from_vm_rec V A cn vm uuid r False x = Ret (ws, x')"
  obtains metrics parent children snap active guest where
    "ws = (''InstanceID'', P_chars (Some (vssd_create_instance_id uuid 128))) # metrics @
       [(''Caption'', P_chars (Some (caption_of cn))), (''Description'', P_chars (r_description r)),
        (''ElementName'', P_chars (r_label r)), (''VirtualSystemIdentifier'', P_chars (Some uuid))] @
       type_properties V r @ parent @ children @ snap @ active @ guest @
       map_property ''Other_Config'' (r_other_config r) @ map_property ''Platform'' (r_platform r) @
       action_properties r @ [(''SystemName'', P_chars (Some uuid))]"
    and "sets_only metrics {''CreationTime'', ''StartTime''}" "sets_only parent {''Parent''}"
      "sets_only children {''Children''}" "sets_only snap {''SnapshotOf'', ''SnapshotTime''}"
      "sets_only guest {''PV_Drivers_Version'', ''OS_Version'', ''PV_Drivers_UpToDate''}"
      "sets_only active {''Host'', ''HostAffinity'', ''Xenstore_Data'', ''AvailableBlockDeviceSlots'',
        ''AvailableNetworkInterfaceSlots'', ''Xen_Tools_AreRunning''}"
    and "\<And>m. cn \<noteq> ''Xen_ComputerSystemTemplate'' \<Longrightarrow> cn \<noteq> ''Xen_ComputerSystemSnapshot'' \<Longrightarrow>
      r_xenstore_data r = Some m \<Longrightarrow> m \<noteq> [] \<Longrightarrow>
      shown active ''Xenstore_Data'' = shown (map_property ''Xenstore_Data'' (Some m)) ''Xenstore_Data''"
proof -
  let ?reset = "RESET_XEN_ERROR (vm_calls A)"
  obtain metrics x1 where m: "metrics_properties A vm x = (metrics, x1)" by fastforce
  obtain aff x2 where a: "host_uuid_of A (r_affinity r) (?reset x1) = (aff, x2)" by fastforce
  obtain hid x3 where h: "host_uuid_of A (f_resident_on r) x2 = (hid, x3)" by fastforce
  obtain parent x4 where p: "parent_property V (vm_calls A) (f_parent r) x3 = (parent, x4)" by fastforce
  from assms m a h p obtain children x5 where c: "children_property V (vm_calls A) (f_children r) x4 = Ret (children, x5)"
    by (auto simp: vssd_from_vm_rec_def Let_def bind_outcome_Ret_iff)
  obtain snap x6 where s: "(if cn = ''Xen_ComputerSystemSnapshot'' then snapshot_properties V (vm_calls A) r (?reset x5)
      else ([], ?reset x5)) = (snap, x6)" by fastforce
  obtain active x7 where
    k: "(if cn \<noteq> ''Xen_ComputerSystemSnapshot'' \<and> cn \<noteq> ''Xen_ComputerSystemTemplate''
      then active_properties A vm r hid aff x6 else Ret ([], x6)) = Ret (active, x7)" (is "?act = _")
  proof (cases ?act)
    case (Ret y)
    then show thesis using that by (cases y) simp
  next
    case Undefined
    then show thesis using assms m a h p c s by (simp add: vssd_from_vm_rec_def Let_def)
  qed
  obtain guest x8 where g: "(if cn \<noteq> ''Xen_ComputerSystemTemplate'' then guest_properties A vm (?reset x7)
      else ([], ?reset x7)) = (guest, x8)" by fastforce
  show thesis
  proof (rule that)
    show "ws = (''InstanceID'', P_chars (Some (vssd_create_instance_id uuid 128))) # metrics @
       [(''Caption'', P_chars (Some (caption_of cn))), (''Description'', P_chars (r_description r)),
        (''ElementName'', P_chars (r_label r)), (''VirtualSystemIdentifier'', P_chars (Some uuid))] @
       type_properties V r @ parent @ children @ snap @ active @ guest @
       map_property ''Other_Config'' (r_other_config r) @ map_property ''Platform'' (r_platform r) @
       action_properties r @ [(''SystemName'', P_chars (Some uuid))]"
      using assms m a h p c s k g by (cases "cn = ''Xen_ComputerSystemSnapshot''"; cases "cn = ''Xen_ComputerSystemTemplate''")
        (auto simp: vssd_from_vm_rec_def Let_def)
    show "sets_only active {''Host'', ''HostAffinity'', ''Xenstore_Data'', ''AvailableBlockDeviceSlots'',
        ''AvailableNetworkInterfaceSlots'', ''Xen_Tools_AreRunning''}"
      using k active_shows(1) by (fastforce split: if_splits)
    show "shown active ''Xenstore_Data'' = shown (map_property ''Xenstore_Data'' (Some mp)) ''Xenstore_Data''"
      if "cn \<noteq> ''Xen_ComputerSystemTemplate''" "cn \<noteq> ''Xen_ComputerSystemSnapshot''"
        "r_xenstore_data r = Some mp" "mp \<noteq> []" for mp
      using k that active_shows(2) [OF _ that(3,4)] by (auto split: if_splits)
  qed (use m p c s g part_sets in \<open>fastforce split: if_splits\<close>)+
qed

text \<open>What the record alone decides.\<close>

lemma type_sets: "sets_only (type_properties V r) {''VirtualSystemType'', ''HVM_Boot_Params'', ''HVM_Boot_Policy'',
    ''HVM_ShadowMultiplier'', ''PV_Kernel'', ''PV_RAMDisk'', ''PV_Args'', ''PV_Legacy_Args'', ''PV_Bootloader'',
    ''PV_Bootloader_Args''}"
  by (auto simp: type_properties_def property_sets split: option.splits)

lemma action_sets: "sets_only (action_properties r)
    {''AutomaticShutdownAction'', ''AutomaticStartupAction'', ''AutomaticRecoveryAction''}"
  by (simp add: action_properties_def Let_def)

text \<open>Any part that does not set a name can be left out.\<close>

lemma shown_skip: "sets_only vs N \<Longrightarrow> n \<notin> N \<Longrightarrow> shown (vs @ ws) n = shown ws n"
  "sets_only ws N \<Longrightarrow> n \<notin> N \<Longrightarrow> shown (vs @ ws) n = shown vs n"
  by (simp_all add: shown_append shown_other split: option.splits)

lemma shown_map_property_other [simp]: "n \<noteq> k \<Longrightarrow> shown (map_property k m) n = None"
  by (rule shown_other [OF map_property_sets [of k "{k}"]]) simp_all

lemma shown_text_property: "shown (text_property k v) n = (if n = k then (case v of None \<Rightarrow> None
    | Some s \<Rightarrow> if s = [] then None else Some (P_chars (Some s))) else None)"
  by (simp add: text_property_def shown_Cons split: option.splits)

lemma settings_shown:
  assumes run: "vssd_from_vm_rec V A cn vm uuid r False x = Ret (ws, x')"
  shows "shown ws ''Description'' = Some (P_chars (r_description r))"
    and "shown ws ''ElementName'' = Some (P_chars (r_label r))"
    and "shown ws ''VirtualSystemIdentifier'' = Some (P_chars (Some uuid))"
    and "n \<in> {''VirtualSystemType'', ''HVM_Boot_Params'', ''HVM_Boot_Policy'', ''HVM_ShadowMultiplier'', ''PV_Kernel'',
      ''PV_RAMDisk'', ''PV_Args'', ''PV_Legacy_Args'', ''PV_Bootloader'', ''PV_Bootloader_Args''} \<Longrightarrow>
      shown ws n = shown (type_properties V r) n"
    and "n \<in> {''AutomaticShutdownAction'', ''AutomaticStartupAction'', ''AutomaticRecoveryAction''} \<Longrightarrow>
      shown ws n = shown (action_properties r) n"
    and "n \<in> {''Other_Config'', ''Platform''} \<Longrightarrow>
      shown ws n = shown (map_property n (if n = ''Platform'' then r_platform r else r_other_config r)) n"
    and "cn \<noteq> ''Xen_ComputerSystemTemplate'' \<Longrightarrow> cn \<noteq> ''Xen_ComputerSystemSnapshot'' \<Longrightarrow>
      r_xenstore_data r = Some m \<Longrightarrow> m \<noteq> [] \<Longrightarrow>
      shown ws ''Xenstore_Data'' = shown (map_property ''Xenstore_Data'' (Some m)) ''Xenstore_Data''"
proof -
  from run obtain metrics parent children snap active guest where
    ws: "ws = (''InstanceID'', P_chars (Some (vssd_create_instance_id uuid 128))) # metrics @
       [(''Caption'', P_chars (Some (caption_of cn))), (''Description'', P_chars (r_description r)),
        (''ElementName'', P_chars (r_label r)), (''VirtualSystemIdentifier'', P_chars (Some uuid))] @
       type_properties V r @ parent @ children @ snap @ active @ guest @
       map_property ''Other_Config'' (r_other_config r) @ map_property ''Platform'' (r_platform r) @
       action_properties r @ [(''SystemName'', P_chars (Some uuid))]"
    and parts: "sets_only metrics {''CreationTime'', ''StartTime''}" "sets_only parent {''Parent''}"
      "sets_only children {''Children''}" "sets_only snap {''SnapshotOf'', ''SnapshotTime''}"
      "sets_only guest {''PV_Drivers_Version'', ''OS_Version'', ''PV_Drivers_UpToDate''}"
      "sets_only active {''Host'', ''HostAffinity'', ''Xenstore_Data'', ''AvailableBlockDeviceSlots'',
        ''AvailableNetworkInterfaceSlots'', ''Xen_Tools_AreRunning''}"
    and store: "\<And>m. cn \<noteq> ''Xen_ComputerSystemTemplate'' \<Longrightarrow> cn \<noteq> ''Xen_ComputerSystemSnapshot'' \<Longrightarrow>
      r_xenstore_data r = Some m \<Longrightarrow> m \<noteq> [] \<Longrightarrow>
      shown active ''Xenstore_Data'' = shown (map_property ''Xenstore_Data'' (Some m)) ''Xenstore_Data''"
    by (rule vssd_from_vm_rec_parts) blast
  note others = shown_other [OF parts(1)] shown_other [OF parts(2)] shown_other [OF parts(3)] shown_other [OF parts(4)]
    shown_other [OF parts(5)] shown_other [OF parts(6)] shown_other [OF type_sets] shown_other [OF action_sets]
  show "shown ws ''Description'' = Some (P_chars (r_description r))"
    "shown ws ''ElementName'' = Some (P_chars (r_label r))"
    "shown ws ''VirtualSystemIdentifier'' = Some (P_chars (Some uuid))"
    by (simp_all add: ws shown_append shown_Cons others)
  show "shown ws n = shown (type_properties V r) n" if "n \<in> {''VirtualSystemType'', ''HVM_Boot_Params'',
      ''HVM_Boot_Policy'', ''HVM_ShadowMultiplier'', ''PV_Kernel'', ''PV_RAMDisk'', ''PV_Args'', ''PV_Legacy_Args'',
      ''PV_Bootloader'', ''PV_Bootloader_Args''}" for n
    using that by (elim insertE emptyE; simp add: ws shown_append shown_Cons others split: option.split)
  show "shown ws n = shown (action_properties r) n"
    if "n \<in> {''AutomaticShutdownAction'', ''AutomaticStartupAction'', ''AutomaticRecoveryAction''}" for n
    using that by (elim insertE emptyE; simp add: ws shown_append shown_Cons others split: option.split)
  show "shown ws n = shown (map_property n (if n = ''Platform'' then r_platform r else r_other_config r)) n"
    if "n \<in> {''Other_Config'', ''Platform''}" for n
    using that by (elim insertE emptyE; simp add: ws shown_append shown_Cons others split: option.split)
  show "shown ws ''Xenstore_Data'' = shown (map_property ''Xenstore_Data'' (Some m)) ''Xenstore_Data''"
    if "cn \<noteq> ''Xen_ComputerSystemTemplate''" "cn \<noteq> ''Xen_ComputerSystemSnapshot''"
      "r_xenstore_data r = Some m" "m \<noteq> []" for m
    using store [OF that] by (simp add: ws shown_append shown_Cons others split: option.split)
qed
text \<open>The settings of a new HVM guest, as an instance.\<close>

record hvm_settings =
  h_name :: string
  h_description :: string
  h_uuid :: string
  h_boot :: string_map
  h_policy :: string
  h_config :: string_map
  h_platform :: string_map
  h_data :: string_map

text \<open>Maps as above whose entries fit the buffer of the conversion.\<close>

definition short_map :: "string_map \<Rightarrow> bool" where
  "short_map m \<longleftrightarrow> good_map m \<and> (\<forall>e \<in> set m. length (entry_text e) < 511)"

definition describes :: "'r vssd_lib \<Rightarrow> 'r vssd \<Rightarrow> hvm_settings \<Rightarrow> bool" where
  "describes L i g \<longleftrightarrow>
     (\<forall>(n, d) \<in> set [(''ElementName'', D_string (h_name g)), (''Description'', D_string (h_description g)),
        (''VirtualSystemIdentifier'', D_string (h_uuid g)), (''VirtualSystemType'', D_string ''DMTF:Xen:HVM''),
        (''HVM_Boot_Params'', map_data (h_boot g)), (''HVM_Boot_Policy'', D_string (h_policy g)),
        (''Other_Config'', map_data (h_config g)), (''Platform'', map_data (h_platform g)),
        (''Xenstore_Data'', map_data (h_data g))]. property_of i n = (CMPI_RC_OK, Some d)) \<and>
     string_of i ''HostAffinity'' = None \<and>
     (\<forall>n rc t v. property_of i n = (rc, Some (D_int t v)) \<longrightarrow> t \<noteq> INTEGER_mask L) \<and>
     short_map (h_boot g) \<and> ''order'' \<in> fst ` set (h_boot g) \<and> h_policy g \<noteq> [] \<and>
     short_map (h_config g) \<and> short_map (h_platform g) \<and> short_map (h_data g)"

definition map_value :: "string_map \<Rightarrow> 'r prop_value" where
  "map_value m = P_array (string_elements (map entry_text m))"

lemma no_action: "\<forall>n rc t v. property_of i n = (rc, Some (D_int t v)) \<longrightarrow> t \<noteq> INTEGER_mask L \<Longrightarrow> action_of L i n m = None"
  by (auto simp: action_of_def split: prod.splits cmpi_rc.splits option.splits setting_data.splits)

text \<open>The record of such a guest.\<close>

definition hvm_guest :: "'r vssd_lib \<Rightarrow> 'r vssd \<Rightarrow> hvm_settings \<Rightarrow> 'r new_vm" where
  "hvm_guest L i g = blank_vm\<lparr>r_label := Some (h_name g), r_description := Some (h_description g),
     r_uuid := Some (h_uuid g), r_after_reboot := Some Exit_restart, r_other_config := Some (h_config g),
     r_platform := Some (h_platform g), r_boot_params := Some (h_boot g), r_boot_policy := Some (h_policy g),
     r_shadow_multiplier := Some (case property_of i ''HVM_ShadowMultiplier'' of
             (CMPI_RC_OK, Some (D_real64 r)) \<Rightarrow> if REAL_mask L = CMPI_real64 then r else real_one L
           | _ \<Rightarrow> real_one L), r_xenstore_data := Some (h_data g)\<rparr>"

lemma hvm_type: "contains ''DMTF:Xen:HVM'' ''HVM''" "\<not> contains ''DMTF:Xen:HVM'' ''PV''"
  by code_simp+

lemma hvm_guest_created:
  assumes d: "describes L i g" and isa: "class_isa L cls ''CIM_VirtualSystemSettingData''"
  shows "vssd_to_vm_rec L A True cls i False x = Ret (CMPI_RC_OK, Some (hvm_guest L i g), x)"
proof -
  from d have p: "property_of i ''ElementName'' = (CMPI_RC_OK, Some (D_string (h_name g)))"
     "property_of i ''Description'' = (CMPI_RC_OK, Some (D_string (h_description g)))"
     "property_of i ''VirtualSystemIdentifier'' = (CMPI_RC_OK, Some (D_string (h_uuid g)))"
     "property_of i ''VirtualSystemType'' = (CMPI_RC_OK, Some (D_string ''DMTF:Xen:HVM''))"
     "property_of i ''HVM_Boot_Params'' = (CMPI_RC_OK, Some (map_data (h_boot g)))"
     "property_of i ''HVM_Boot_Policy'' = (CMPI_RC_OK, Some (D_string (h_policy g)))"
     "property_of i ''Other_Config'' = (CMPI_RC_OK, Some (map_data (h_config g)))"
     "property_of i ''Platform'' = (CMPI_RC_OK, Some (map_data (h_platform g)))"
     "property_of i ''Xenstore_Data'' = (CMPI_RC_OK, Some (map_data (h_data g)))"
    and aff: "string_of i ''HostAffinity'' = None"
    and maps: "good_map (h_boot g)" "good_map (h_config g)" "good_map (h_platform g)" "good_map (h_data g)"
    by (simp_all add: describes_def short_map_def)
  have "\<forall>n rc t v. property_of i n = (rc, Some (D_int t v)) \<longrightarrow> t \<noteq> INTEGER_mask L"
    using d by (simp add: describes_def)
  note acts = no_action [OF this]
  have strs: "string_of i ''ElementName'' = Some (h_name g)" "string_of i ''Description'' = Some (h_description g)"
    "string_of i ''VirtualSystemType'' = Some ''DMTF:Xen:HVM''" "string_of i ''HVM_Boot_Policy'' = Some (h_policy g)"
    by (simp_all add: string_of_def p)
  have ms: "map_of_property i ''Other_Config'' = Ret (Some (h_config g))"
    "map_of_property i ''Xenstore_Data'' = Ret (Some (h_data g))"
    "get_vm_platform_config i None = Ret (Some (h_platform g))"
    using maps by (simp_all add: map_of_property_def get_vm_platform_config_def p map_data_def map_data_read del: map_map)
  have conf: "(case property_of i ''Other_Config'' of (CMPI_RC_OK, Some (D_array arr)) \<Rightarrow> c | _ \<Rightarrow> Some []) = c" for c
    by (simp add: p map_data_def)
  have boot: "xen_utils_convert_CMPIArray_to_string_string_map (string_elements (map entry_text (h_boot g))) = Ret (Some (h_boot g))"
    using maps(1) by (rule map_data_read)
  have hvm: "hvm_record L i False r = Ret (r\<lparr>r_boot_params := Some (h_boot g), r_boot_policy := Some (h_policy g),
      r_shadow_multiplier := Some (case property_of i ''HVM_ShadowMultiplier'' of
             (CMPI_RC_OK, Some (D_real64 r)) \<Rightarrow> if REAL_mask L = CMPI_real64 then r else real_one L
           | _ \<Rightarrow> real_one L)\<rparr>)" for r
    by (simp add: hvm_record_def p map_data_def boot strs del: map_map)
  show ?thesis
    using isa by (simp add: vssd_to_vm_rec_def strs uuid_of_def p(3) affinity_of_def aff ms type_record_def hvm_type hvm
        basic_record_def acts hvm_guest_def conf blank_vm_def)
qed

lemma short_map_shown: "short_map m \<Longrightarrow> shown (map_property n (Some m)) n = Some (map_value m)"
  by (simp add: map_property_def short_map_def map_to_array_entries map_value_def shown_Cons del: map_map)

section \<open>Properties\<close>


text \<open>C11. Creation ignores what is asked for: two instances that differ only in their automatic actions, and in the
  bootloader that both of them name, give the same record, so every guest turns off when it shuts down,
  restarts when it reboots, and every one with a bootloader gets pygrub.\<close>

theorem creation_ignores_choices:
  assumes same: "\<forall>n. n \<notin> {''AutomaticShutdownAction'', ''AutomaticStartupAction'', ''AutomaticRecoveryAction'', ''PV_Bootloader''} \<longrightarrow>
      property_of i n = property_of j n"
    and loader: "string_of i ''PV_Bootloader'' = None \<longleftrightarrow> string_of j ''PV_Bootloader'' = None"
    and types: "\<forall>n rc t v. property_of i n = (rc, Some (D_int t v)) \<longrightarrow> t \<noteq> INTEGER_mask L"
      "\<forall>n rc t v. property_of j n = (rc, Some (D_int t v)) \<longrightarrow> t \<noteq> INTEGER_mask L"
  shows "vssd_to_vm_rec L A mem cls i strict x = vssd_to_vm_rec L A mem cls j strict x"
proof -
  have p: "property_of i n = property_of j n" if "n \<notin> {''AutomaticShutdownAction'', ''AutomaticStartupAction'',
      ''AutomaticRecoveryAction'', ''PV_Bootloader''}" for n
    using same that by blast
  have s: "string_of i n = string_of j n" if "n \<notin> {''AutomaticShutdownAction'', ''AutomaticStartupAction'',
      ''AutomaticRecoveryAction'', ''PV_Bootloader''}" for n
    using p [OF that] by (simp add: string_of_def)
  have "pv_record i r = pv_record j r" for r
  proof (cases "string_of i ''PV_Bootloader''")
    case None
    then have "string_of j ''PV_Bootloader'' = None" using loader by simp
    with None show ?thesis by (simp add: pv_record_def s Let_def cong: if_cong)
  next
    case (Some a)
    then obtain b where "string_of j ''PV_Bootloader'' = Some b" using loader by auto
    with Some show ?thesis by (simp add: pv_record_def s Let_def)
  qed
  moreover have "hvm_record L i b r = hvm_record L j b r" for b r
    by (simp add: hvm_record_def s p)
  ultimately have typed: "type_record L i b r = type_record L j b r" for b r
    by (cases "string_of j ''VirtualSystemType''") (simp_all add: type_record_def s)
  have strs: "string_of i ''ElementName'' = string_of j ''ElementName''"
    "string_of i ''VirtualSystemType'' = string_of j ''VirtualSystemType''"
    "property_of i ''Other_Config'' = property_of j ''Other_Config''"
    by (simp_all add: s p)
  have parts: "uuid_of i = uuid_of j" "affinity_of A i = affinity_of A j" "map_of_property i ''Other_Config'' = map_of_property j ''Other_Config''"
    "map_of_property i ''Xenstore_Data'' = map_of_property j ''Xenstore_Data''" "get_vm_platform_config i m = get_vm_platform_config j m" for m
    by (simp_all add: uuid_of_def affinity_of_def map_of_property_def get_vm_platform_config_def s p fun_eq_iff)
  have basic: "basic_record L i l u = basic_record L j l u" for l u
    by (simp add: basic_record_def s no_action [OF types(1)] no_action [OF types(2)])
  show ?thesis unfolding vssd_to_vm_rec_def strs parts basic typed ..
qed

section \<open>Witnesses\<close>

definition demo_guest :: hvm_settings where
  "demo_guest = \<lparr>h_name = ''web'', h_description = ''server'', h_uuid = ''u1'', h_boot = [(''order'', ''dc'')],
     h_policy = ''BIOS order'', h_config = [(''a'', ''b'')], h_platform = [(''pae'', ''true'')],
     h_data = [(''vm-data'', ''x'')]\<rparr>"

definition demo_vssd_lib :: "int vssd_lib" where
  "demo_vssd_lib = \<lparr>class_isa = (\<lambda>c d. True), INTEGER_mask = CMPI_null, REAL_mask = CMPI_null, real_one = 1\<rparr>"

definition guest_instance :: "int setting_data list \<Rightarrow> (string \<times> int setting_data) list \<Rightarrow> int vssd" where
  "guest_instance acts others = \<lparr>property_of = (\<lambda>n. (CMPI_RC_OK, map_of
     (zip [''AutomaticShutdownAction'', ''AutomaticStartupAction'', ''AutomaticRecoveryAction''] acts @ others) n)),
     properties_at = []\<rparr>"

definition guest_properties_of :: "hvm_settings \<Rightarrow> (string \<times> int setting_data) list" where
  "guest_properties_of g = [(''ElementName'', D_string (h_name g)), (''Description'', D_string (h_description g)),
        (''VirtualSystemIdentifier'', D_string (h_uuid g)), (''VirtualSystemType'', D_string ''DMTF:Xen:HVM''),
        (''HVM_Boot_Params'', map_data (h_boot g)), (''HVM_Boot_Policy'', D_string (h_policy g)),
        (''Other_Config'', map_data (h_config g)), (''Platform'', map_data (h_platform g)),
        (''Xenstore_Data'', map_data (h_data g))]"

definition demo_instance :: "int vssd" where
  "demo_instance = guest_instance [D_int CMPI_uint16 3, D_int CMPI_uint16 2, D_int CMPI_uint16 4]
     (guest_properties_of demo_guest)"

lemma demo_ints: "property_of demo_instance n = (rc, Some (D_int t v)) \<Longrightarrow> t = CMPI_uint16"
  by (auto simp: demo_instance_def guest_instance_def guest_properties_of_def map_data_def split: if_splits)

lemma demo_describes: "describes demo_vssd_lib demo_instance demo_guest"
  unfolding describes_def
proof (intro conjI)
  show "\<forall>(n, d) \<in> set [(''ElementName'', D_string (h_name demo_guest)), (''Description'', D_string (h_description demo_guest)),
        (''VirtualSystemIdentifier'', D_string (h_uuid demo_guest)), (''VirtualSystemType'', D_string ''DMTF:Xen:HVM''),
        (''HVM_Boot_Params'', map_data (h_boot demo_guest)), (''HVM_Boot_Policy'', D_string (h_policy demo_guest)),
        (''Other_Config'', map_data (h_config demo_guest)), (''Platform'', map_data (h_platform demo_guest)),
        (''Xenstore_Data'', map_data (h_data demo_guest))]. property_of demo_instance n = (CMPI_RC_OK, Some d)"
    by (simp add: demo_instance_def guest_instance_def guest_properties_of_def)
  show "\<forall>n rc t v. property_of demo_instance n = (rc, Some (D_int t v)) \<longrightarrow> t \<noteq> INTEGER_mask demo_vssd_lib"
    using demo_ints by (fastforce simp: demo_vssd_lib_def)
qed (simp_all add: demo_instance_def guest_instance_def guest_properties_of_def string_of_def demo_guest_def short_map_def good_map_def
    clean_entry_def entry_text_def)

definition demo_view_api :: "(bool, int) view_api" where
  "demo_view_api = \<lparr>task_calls = no_tasks (\<lambda>x. x) (\<lambda>b x. b),
     vm_calls = \<lparr>session_ok = (\<lambda>x. x), clear_error = (\<lambda>x. True), vm_get_all = (\<lambda>x. (None, x)),
       vm_get_record = (\<lambda>vm x. (None, x)), vm_get_by_uuid = (\<lambda>u x. (None, x)), host_get_address = (\<lambda>h x. (None, x))\<rparr>,
     vm_get_power_state = (\<lambda>vm x. (None, x)), vm_do = (\<lambda>op vm x. x),
     error_of = (\<lambda>x. \<lparr>ok = x, error_description = None\<rparr>), vm_set = (\<lambda>f vm x. x),
     vm_get_other_config = (\<lambda>vm x. (None, x)), host_get_by_uuid = (\<lambda>u x. (None, x)),
     vm_get_metrics = (\<lambda>vm x. (None, x)), metrics_times = (\<lambda>h x. (None, x)), host_get_uuid = (\<lambda>h x. (None, x)),
     allowed_vbd_devices = (\<lambda>vm x. (None, x)), allowed_vif_devices = (\<lambda>vm x. (None, x)),
     vm_get_guest_metrics = (\<lambda>vm x. (None, x)), guest_metrics_record = (\<lambda>h x. (None, x))\<rparr>"

definition demo_view_lib :: "int view_lib" where
  "demo_view_lib = \<lparr>path_text = fst, is_zero = (\<lambda>r. r = 0)\<rparr>"


text \<open>Another bootloader and other actions make no difference.\<close>

theorem creation_ignores_choices_witness:
  "vssd_to_vm_rec demo_vssd_lib demo_view_api True ''Xen_ComputerSystemSettingData''
       (guest_instance [D_int CMPI_uint16 3] [(''ElementName'', D_string ''web''), (''VirtualSystemType'', D_string ''PV''),
          (''PV_Bootloader'', D_string ''grub'')]) True True =
     vssd_to_vm_rec demo_vssd_lib demo_view_api True ''Xen_ComputerSystemSettingData''
       (guest_instance [D_int CMPI_uint16 2] [(''ElementName'', D_string ''web''), (''VirtualSystemType'', D_string ''PV''),
          (''PV_Bootloader'', D_string ''lilo'')]) True True"
  by (rule creation_ignores_choices)
    (auto simp: guest_instance_def string_of_def demo_vssd_lib_def split: if_splits)

end
