(* ===== verification/HardwareData.thy ===== *)
theory HardwareData
  imports VmView
begin

text \<open>
  Memory and processors as resource allocation setting data
  (\<^verbatim>\<open>src/Xen_MemorySettingData.c\<close>, \<^verbatim>\<open>src/Xen_ProcessorSettingData.c\<close>):
  from an instance to the record of a VM, from the record to the properties of an instance, and the
  change of a VM. Sizes are signed 64-bit numbers, whose overflow is undefined where the code computes with
  signed operands and wraps where it computes with unsigned ones.
\<close>

section \<open>Reading an instance\<close>

text \<open>Null for a property that is not there; another member of the union than the one that was written must not be read.\<close>

definition string_given :: "'r vssd \<Rightarrow> string \<Rightarrow> string option outcome" where
  "string_given i n =
     (case property_of i n of
        (CMPI_RC_OK, Some data) \<Rightarrow> (case data of D_string s \<Rightarrow> Ret (Some s) | _ \<Rightarrow> Undefined)
      | _ \<Rightarrow> Ret None)"

definition number_given :: "'r vssd \<Rightarrow> string \<Rightarrow> 64 word option outcome" where
  "number_given i n =
     (case property_of i n of
        (CMPI_RC_OK, Some data) \<Rightarrow> (case data of D_int t v \<Rightarrow> Ret (Some v) | _ \<Rightarrow> Undefined)
      | _ \<Rightarrow> Ret None)"

section \<open>The part of a VM record\<close>

record vm_hardware =
  static_max :: "64 word"
  static_min :: "64 word"
  dynamic_max :: "64 word"
  dynamic_min :: "64 word"
  vcpus_max :: "64 word"
  vcpus_at_startup :: "64 word"
  vcpus_params :: "string_map option"

datatype vm_resource_operation = resource_add | resource_delete | resource_modify

text \<open>Arithmetic on signed operands.\<close>

definition in_int64 :: "int \<Rightarrow> bool" where
  "in_int64 n \<longleftrightarrow> - (2 ^ 63) \<le> n \<and> n < 2 ^ 63"

definition signed64 :: "int \<Rightarrow> 64 word outcome" where
  "signed64 n = (if in_int64 n then Ret (word_of_int n) else Undefined)"

section \<open>Memory\<close>

definition apply_size :: "vm_resource_operation \<Rightarrow> 64 word \<Rightarrow> 64 word \<Rightarrow> 64 word outcome" where
  "apply_size op old amount =
     (case op of
        resource_add \<Rightarrow> signed64 (sint old + sint amount)
      | resource_delete \<Rightarrow> signed64 (sint old - sint amount)
      | resource_modify \<Rightarrow> Ret amount)"

text \<open>The units are taken from the second property where the first cannot be had; none are bytes.\<close>

definition memory_units :: "'r vssd \<Rightarrow> nat option outcome" where
  "memory_units i =
     (let n = (if fst (property_of i ''AllocationUnits'') = CMPI_RC_OK then ''AllocationUnits'' else ''VirtualQuantityUnits'')
      in bind_outcome (string_given i n)
        (\<lambda>units. Ret (case units of
             None \<Rightarrow> Some 1
           | Some u \<Rightarrow> if xen_utils_get_alloc_units u = 0 then None else Some (xen_utils_get_alloc_units u))))"

text \<open>A size that is zero or not there is the one of the virtual quantity.\<close>

definition memory_size :: "'r vssd \<Rightarrow> string \<Rightarrow> nat \<Rightarrow> 64 word \<Rightarrow> 64 word outcome" where
  "memory_size i n multiplier mem_size =
     bind_outcome (number_given i n)
       (\<lambda>v. Ret (case v of None \<Rightarrow> mem_size | Some q \<Rightarrow> if q = 0 then mem_size else q * of_nat multiplier))"

definition memory_rasd_to_vm_rec :: "'r vssd \<Rightarrow> vm_hardware \<Rightarrow> vm_resource_operation \<Rightarrow> (bool \<times> vm_hardware) outcome" where
  "memory_rasd_to_vm_rec i rec op =
     bind_outcome (memory_units i) (\<lambda>units.
       case units of
         None \<Rightarrow> Ret (False, rec)
       | Some multiplier \<Rightarrow>
           bind_outcome (number_given i ''VirtualQuantity'') (\<lambda>quantity.
             case quantity of
               None \<Rightarrow> Ret (False, rec)
             | Some q \<Rightarrow>
                 bind_outcome (signed64 (sint q * int multiplier)) (\<lambda>mem_size.
                 bind_outcome (memory_size i ''Reservation'' multiplier mem_size) (\<lambda>reserve.
                 bind_outcome (memory_size i ''Limit'' multiplier mem_size) (\<lambda>limit.
                 bind_outcome (apply_size op (static_max rec) mem_size) (\<lambda>smax.
                 bind_outcome (apply_size op (static_min rec) reserve) (\<lambda>smin.
                 bind_outcome (apply_size op (dynamic_max rec) limit) (\<lambda>dmax.
                 bind_outcome (apply_size op (dynamic_min rec) reserve) (\<lambda>dmin.
                   Ret (True, rec\<lparr>static_max := smax, static_min := smin, dynamic_max := dmax, dynamic_min := dmin\<rparr>))))))))))"

text \<open>
  Rounding to a number of significant bits, half to even, as a conversion to a floating-point type does
  it: 53 bits for \<^verbatim>\<open>double\<close>, 24 for \<^verbatim>\<open>float\<close>.
\<close>

fun bit_length :: "nat \<Rightarrow> nat" where
  "bit_length m = (if m = 0 then 0 else Suc (bit_length (m div 2)))"

declare bit_length.simps [simp del]

definition round_bits :: "nat \<Rightarrow> nat \<Rightarrow> nat" where
  "round_bits p m =
     (if m < 2 ^ p then m
      else let u = 2 ^ (bit_length m - p); q = m div u; r = m mod u
        in (if 2 * r < u \<or> 2 * r = u \<and> even q then q else q + 1) * u)"

text \<open>
  The size over the unit is exact as a double, because the unit is a power of two; \<^verbatim>\<open>ceilf\<close> takes a
  float, and its result is multiplied as an integer.
\<close>

abbreviation ONE_MB :: nat where "ONE_MB \<equiv> 1048576"

definition round_memory :: "64 word \<Rightarrow> 64 word" where
  "round_memory memory =
     (if sint memory > int ONE_MB
      then of_nat ((round_bits 24 (round_bits 53 (nat (sint memory))) + (ONE_MB - 1)) div ONE_MB * ONE_MB)
      else of_nat ONE_MB)"

definition in_MB :: "64 word \<Rightarrow> 64 word" where
  "in_MB memory = word_of_int (sint (round_memory memory) div int ONE_MB)"

datatype hw_value = H_chars "string option" | H_uint64 "64 word" | H_uint32 "32 word" | H_uint16 nat | H_bool bool
  | H_array "string list"

definition memory_caption :: "vm_record \<Rightarrow> string" where
  "memory_caption rec =
     (if is_a_template rec then ''Xen Template Memory Setting Data''
      else if is_a_snapshot rec then ''Xen Snapshot Memory Setting Data''
      else ''Xen Domain Memory Setting Data'')"

text \<open>The actual size is that of the metrics, zero where there are none.\<close>

definition memory_rasd_from_vm_rec :: "vm_record \<Rightarrow> vm_hardware \<Rightarrow> 64 word \<Rightarrow> (string \<times> hw_value) list" where
  "memory_rasd_from_vm_rec rec hw metrics_actual =
     (let actual_mem = (if metrics_actual = 0 then static_max hw else metrics_actual)
      in [(''InstanceID'', H_chars (Some (CMPICreateNewDeviceInstanceID 128 (vm_uuid rec) ''Memory''))),
          (''Caption'', H_chars (Some (memory_caption rec))), (''ElementName'', H_chars (Some (vm_name_label rec))),
          (''ResourceType'', H_uint16 4), (''ConsumerVisibility'', H_uint16 2),
          (''Reservation'', H_uint64 (in_MB (dynamic_min hw))), (''VirtualQuantity'', H_uint64 (in_MB actual_mem)),
          (''Limit'', H_uint64 (in_MB (dynamic_max hw))), (''AllocationUnits'', H_chars (Some ''byte*2^20'')),
          (''VirtualQuantityUnits'', H_chars (Some ''byte*2^20'')), (''AutomaticAllocation'', H_bool True),
          (''AutomaticDeallocation'', H_bool True)])"

definition set_memory_defaults :: "vm_hardware \<Rightarrow> vm_hardware" where
  "set_memory_defaults rec =
     rec\<lparr>dynamic_max := 268435456, static_max := 268435456, dynamic_min := 268435456, static_min := 134217728\<rparr>"

section \<open>Processors\<close>

abbreviation VCPUS_MAX :: int where "VCPUS_MAX \<equiv> 8"

text \<open>The counts are added as unsigned numbers, and compared with the limit as signed ones.\<close>

definition apply_count :: "vm_resource_operation \<Rightarrow> 64 word \<Rightarrow> 64 word \<Rightarrow> 64 word" where
  "apply_count op old n =
     (case op of resource_add \<Rightarrow> old + n | resource_delete \<Rightarrow> old - n | resource_modify \<Rightarrow> n)"

text \<open>A parameter of the scheduler, printed as a signed number, where it is given and not zero.\<close>

definition vcpu_param :: "'r vssd \<Rightarrow> string \<Rightarrow> string \<Rightarrow> (64 word \<Rightarrow> int) \<Rightarrow> string_map option \<Rightarrow> string_map option outcome" where
  "vcpu_param i n key num params =
     bind_outcome (number_given i n)
       (\<lambda>v. Ret (case v of
            None \<Rightarrow> params
          | Some q \<Rightarrow> if q = 0 then params else put_entry key (snprintf 64 (show_int (num q))) params))"

definition proc_rasd_to_vm_rec :: "'r vssd \<Rightarrow> vm_hardware \<Rightarrow> vm_resource_operation \<Rightarrow> (bool \<times> vm_hardware) outcome" where
  "proc_rasd_to_vm_rec i rec operation =
     bind_outcome (number_given i ''VirtualQuantity'') (\<lambda>quantity.
       case quantity of
         None \<Rightarrow> Ret (False, rec)
       | Some q \<Rightarrow>
           let most = apply_count operation (vcpus_max rec) q
           in bind_outcome (number_given i ''Reservation'') (\<lambda>reserved.
             let start = (case reserved of
                     None \<Rightarrow> most
                   | Some n \<Rightarrow> if n = 0 then most else apply_count operation (vcpus_at_startup rec) n);
                 rec1 = rec\<lparr>vcpus_max := most, vcpus_at_startup := start\<rparr>
             in if sint start > VCPUS_MAX \<or> sint most > VCPUS_MAX then Ret (False, rec1)
                else
                  bind_outcome (vcpu_param i ''Limit'' ''cap'' sint (vcpus_params rec)) (\<lambda>params.
                  bind_outcome (vcpu_param i ''Weight'' ''weight'' (\<lambda>q. sint (ucast q :: 32 word)) params) (\<lambda>params2.
                    Ret (True, rec1\<lparr>vcpus_params := (if params2 = None then Some [] else params2)\<rparr>)))))"

definition proc_caption :: "vm_record \<Rightarrow> string" where
  "proc_caption rec =
     (if is_a_snapshot rec then ''Xen Snapshot Processor Setting Data''
      else if is_a_template rec then ''Xen Template Processor Setting Data''
      else ''Xen Domain Processor Setting Data'')"

text \<open>The uuid of the host the VM runs on, if it has one, is the pool; nothing follows the counts where there are no parameters.\<close>

definition proc_rasd_from_vm_rec ::
    "vm_record \<Rightarrow> vm_hardware \<Rightarrow> string option \<Rightarrow> cmpi_rc \<times> (string \<times> hw_value) list" where
  "proc_rasd_from_vm_rec rec hw host_id =
     (let basic = [(''InstanceID'', H_chars (Some (CMPICreateNewDeviceInstanceID 128 (vm_uuid rec) ''Processor''))),
          (''ElementName'', H_chars (Some (vm_name_label rec))), (''Caption'', H_chars (Some (proc_caption rec))),
          (''AllocationUnits'', H_chars (Some ''count'')), (''ResourceType'', H_uint16 3),
          (''ConsumerVisibility'', H_uint16 3), (''AutomaticAllocation'', H_bool True),
          (''AutomaticDeallocation'', H_bool True)] @
          (case host_id of None \<Rightarrow> [] | Some u \<Rightarrow> [(''PoolID'', H_chars (Some u))]) @
          [(''Reservation'', H_uint64 (vcpus_at_startup hw)), (''VirtualQuantity'', H_uint64 (vcpus_max hw))];
          param = (\<lambda>key f. case xen_utils_get_from_string_string_map (vcpus_params hw) key of None \<Rightarrow> [] | Some v \<Rightarrow> [f v])
      in if vcpus_params hw = None then (CMPI_RC_ERR_FAILED, basic)
         else (CMPI_RC_OK, basic @ param ''weight'' (\<lambda>v. (''Weight'', H_uint32 (word_of_int (atoi v)))) @
           param ''cap'' (\<lambda>v. (''Limit'', H_uint64 (word_of_int (atoi v))))))"

definition set_processor_defaults :: "vm_hardware \<Rightarrow> vm_hardware" where
  "set_processor_defaults rec =
     rec\<lparr>vcpus_params := put_entry ''weight'' ''512'' (put_entry ''cap'' ''100'' (vcpus_params rec)),
         vcpus_max := 1, vcpus_at_startup := 1\<rparr>"

section \<open>Changing a VM\<close>

record ('x, 'r) hw_api = "('x, 'r) settings_api" +
  vm_get_hardware :: "string \<Rightarrow> 'x \<Rightarrow> (vm_record \<times> vm_hardware) option \<times> 'x"
  set_memory_limits :: "string \<Rightarrow> 64 word \<times> 64 word \<times> 64 word \<times> 64 word \<Rightarrow> 'x \<Rightarrow> bool \<times> 'x"
  set_static_max :: "string \<Rightarrow> 64 word \<Rightarrow> 'x \<Rightarrow> bool \<times> 'x"
  set_static_min :: "string \<Rightarrow> 64 word \<Rightarrow> 'x \<Rightarrow> bool \<times> 'x"
  set_dynamic_max :: "string \<Rightarrow> 64 word \<Rightarrow> 'x \<Rightarrow> bool \<times> 'x"
  set_dynamic_min :: "string \<Rightarrow> 64 word \<Rightarrow> 'x \<Rightarrow> bool \<times> 'x"
  set_vcpus_max :: "string \<Rightarrow> 64 word \<Rightarrow> 'x \<Rightarrow> bool \<times> 'x"
  set_vcpus_at_startup :: "string \<Rightarrow> 64 word \<Rightarrow> 'x \<Rightarrow> bool \<times> 'x"
  set_vcpus_params :: "string \<Rightarrow> string_map option \<Rightarrow> 'x \<Rightarrow> bool \<times> 'x"
  get_vcpus_max :: "string \<Rightarrow> 'x \<Rightarrow> 64 word option \<times> 'x"
  get_vcpus_at_startup :: "string \<Rightarrow> 'x \<Rightarrow> 64 word option \<times> 'x"

text \<open>What is zero in the template is left as it is.\<close>

definition merge_size :: "64 word \<Rightarrow> 64 word \<Rightarrow> 64 word" where
  "merge_size wanted current = (if wanted \<noteq> 0 \<and> wanted \<noteq> current then wanted else current)"

definition merge_memory :: "vm_hardware \<Rightarrow> vm_hardware \<Rightarrow> vm_hardware" where
  "merge_memory tmpl rec =
     rec\<lparr>static_max := merge_size (static_max tmpl) (static_max rec), static_min := merge_size (static_min tmpl) (static_min rec),
         dynamic_max := merge_size (dynamic_max tmpl) (dynamic_max rec), dynamic_min := merge_size (dynamic_min tmpl) (dynamic_min rec)\<rparr>"

text \<open>A chain of calls that ends with the first that fails.\<close>

fun all_calls :: "('x \<Rightarrow> bool \<times> 'x) list \<Rightarrow> 'x \<Rightarrow> bool \<times> 'x" where
  "all_calls [] x = (True, x)"
| "all_calls (f # fs) x = (case f x of (False, x1) \<Rightarrow> (False, x1) | (True, x1) \<Rightarrow> all_calls fs x1)"

text \<open>The four limits are set with one call, and one by one if that fails; a VM that needs no change counts as a failure.\<close>

definition memory_rasd_modify :: "('x, 'r, 'z) hw_api_scheme \<Rightarrow> string \<Rightarrow> vm_hardware \<Rightarrow> 'x \<Rightarrow> bool \<times> 'x" where
  "memory_rasd_modify A vm vm_template x =
     (case vm_get_hardware A vm x of
        (None, x1) \<Rightarrow> (False, x1)
      | (Some (rec, current), x1) \<Rightarrow>
          let m = merge_memory vm_template current
          in if m = current then (False, x1)
             else (case set_memory_limits A vm (static_min m, static_max m, dynamic_min m, dynamic_max m) x1 of
               (rc, x2) \<Rightarrow>
                 if session_ok (vm_calls A) x2 then (rc, x2)
                 else all_calls [set_static_max A vm (static_max m), set_static_min A vm (static_min m),
                   set_dynamic_max A vm (dynamic_max m), set_dynamic_min A vm (dynamic_min m)]
                   (RESET_XEN_ERROR (vm_calls A) x2)))"

text \<open>Compares a count with the one the daemon has, and sets it if it differs; the variable is not set if the daemon cannot say.\<close>

definition update_count ::
    "(string \<Rightarrow> 'x \<Rightarrow> 64 word option \<times> 'x) \<Rightarrow> (string \<Rightarrow> 64 word \<Rightarrow> 'x \<Rightarrow> bool \<times> 'x) \<Rightarrow> string \<Rightarrow> 64 word \<Rightarrow> 'x \<Rightarrow>
     (bool \<times> 'x) outcome" where
  "update_count getter setter vm wanted x =
     (case getter vm x of
        (None, x1) \<Rightarrow> Undefined
      | (Some current, x1) \<Rightarrow> Ret (if wanted \<noteq> current then setter vm wanted x1 else (True, x1)))"

text \<open>The VM starts with one processor until the maximum is known; no number at startup means the maximum.\<close>

definition proc_rasd_modify :: "('x, 'r, 'z) hw_api_scheme \<Rightarrow> string \<Rightarrow> vm_hardware \<Rightarrow> 'x \<Rightarrow> (bool \<times> 'x) outcome" where
  "proc_rasd_modify A vm rec x =
     (case set_vcpus_at_startup A vm 1 (RESET_XEN_ERROR (vm_calls A) x) of
        (rc, x1) \<Rightarrow>
          bind_outcome (if vcpus_max rec \<noteq> 0 then update_count (get_vcpus_max A) (set_vcpus_max A) vm (vcpus_max rec) x1 else Ret (rc, x1))
            (\<lambda>(rc1, x2). update_count (get_vcpus_at_startup A) (set_vcpus_at_startup A) vm
               (if vcpus_at_startup rec \<noteq> 0 then vcpus_at_startup rec else vcpus_max rec) x2))"

definition memory_rasd_create_ref :: "string \<Rightarrow> vm_path" where
  "memory_rasd_create_ref uuid =
     (''Xen_MemorySettingData'', [(''InstanceID'', CMPICreateNewDeviceInstanceID 128 uuid ''Memory'')])"

definition proc_rasd_create_ref :: "string \<Rightarrow> vm_path" where
  "proc_rasd_create_ref uuid =
     (''Xen_ProcessorSettingData'', [(''InstanceID'', CMPICreateNewDeviceInstanceID 128 uuid ''Processor'')])"

section \<open>Sizes\<close>

lemma bit_length_le: "m < 2 ^ n \<Longrightarrow> bit_length m \<le> n"
proof (induction m arbitrary: n rule: bit_length.induct)
  case (1 m)
  show ?case
  proof (cases "m = 0")
    case False
    then obtain k where n: "n = Suc k" using "1.prems" by (cases n) auto
    with "1.prems" have "m div 2 < 2 ^ k" by simp
    with "1.IH" [OF False] False n show ?thesis by (subst bit_length.simps) simp
  qed (simp add: bit_length.simps)
qed

text \<open>A number with few enough significant bits is not changed.\<close>

lemma round_bits_exact:
  assumes "k < 2 ^ p"
  shows "round_bits p (k * 2 ^ j) = k * 2 ^ j"
proof (cases "k * 2 ^ j < 2 ^ p")
  case True
  then show ?thesis by (simp add: round_bits_def)
next
  case False
  have "k * 2 ^ j < 2 ^ (p + j)" using assms by (simp add: power_add)
  then have "bit_length (k * 2 ^ j) \<le> p + j" by (rule bit_length_le)
  then have "(2 :: nat) ^ (bit_length (k * 2 ^ j) - p) dvd 2 ^ j" by (intro le_imp_power_dvd) simp
  then have d: "(2 :: nat) ^ (bit_length (k * 2 ^ j) - p) dvd k * 2 ^ j" by (rule dvd_mult)
  then show ?thesis using False by (simp add: round_bits_def Let_def dvd_imp_mod_0)
qed

text \<open>A whole number of megabytes that a float can hold.\<close>

definition whole_MB :: "64 word \<Rightarrow> nat \<Rightarrow> bool" where
  "whole_MB memory k \<longleftrightarrow> 0 < k \<and> k < 2 ^ 24 \<and> memory = of_nat (k * ONE_MB)"

lemma whole_MB_sint: "whole_MB memory k \<Longrightarrow> sint memory = int (k * ONE_MB)"
proof -
  assume w: "whole_MB memory k"
  then have "k * ONE_MB < 2 ^ 24 * ONE_MB" by (simp add: whole_MB_def)
  then have "int (k * ONE_MB) < 2 ^ 63" by simp
  then show ?thesis using w by (simp add: whole_MB_def signed_of_nat signed_take_bit_int_eq_self del: of_nat_mult)
qed

lemma round_memory_whole: "whole_MB memory k \<Longrightarrow> round_memory memory = memory"
proof -
  assume w: "whole_MB memory k"
  then have k: "k < 2 ^ 24" "0 < k" and m: "memory = of_nat (k * ONE_MB)" by (simp_all add: whole_MB_def)
  have mb: "ONE_MB = 2 ^ 20" by simp
  have r: "round_bits 53 (k * ONE_MB) = k * ONE_MB" "round_bits 24 (k * ONE_MB) = k * ONE_MB"
    unfolding mb using k by (simp_all only: round_bits_exact) (rule round_bits_exact, simp)
  have s: "nat (sint memory) = k * ONE_MB" by (simp add: whole_MB_sint [OF w])
  show ?thesis
  proof (cases "k = 1")
    case True
    then show ?thesis using whole_MB_sint [OF w] by (simp add: round_memory_def m)
  next
    case False
    have "round_bits 24 (round_bits 53 (nat (sint memory))) = k * ONE_MB" by (simp only: s r)
    then have "(round_bits 24 (round_bits 53 (nat (sint memory))) + (ONE_MB - 1)) div ONE_MB * ONE_MB = k * ONE_MB"
      by simp
    moreover have "int ONE_MB < sint memory" using False k by (simp add: whole_MB_sint [OF w])
    ultimately show ?thesis by (simp only: round_memory_def if_True m)
  qed
qed

lemma in_MB_whole: "whole_MB memory k \<Longrightarrow> in_MB memory = of_nat k"
  by (simp add: in_MB_def round_memory_whole whole_MB_sint)

section \<open>The daemon\<close>

text \<open>A setter that succeeds on a good session.\<close>

definition setter_call ::
    "('x \<Rightarrow> bool) \<Rightarrow> ('x \<Rightarrow> string \<Rightarrow> 'h option) \<Rightarrow> (string \<Rightarrow> 'v \<Rightarrow> 'x \<Rightarrow> bool \<times> 'x) \<Rightarrow> ('v \<Rightarrow> 'h \<Rightarrow> 'h) \<Rightarrow> bool" where
  "setter_call good view f upd \<longleftrightarrow>
     (\<forall>vm v x h. good x \<and> view x vm = Some h \<longrightarrow>
        (\<exists>x'. f vm v x = (True, x') \<and> good x' \<and> view x' = (view x)(vm \<mapsto> upd v h)))"

definition getter_call ::
    "('x \<Rightarrow> bool) \<Rightarrow> ('x \<Rightarrow> string \<Rightarrow> 'h option) \<Rightarrow> (string \<Rightarrow> 'x \<Rightarrow> 'v option \<times> 'x) \<Rightarrow> ('h \<Rightarrow> 'v \<Rightarrow> bool) \<Rightarrow> bool" where
  "getter_call good view f fits \<longleftrightarrow>
     (\<forall>vm x h. good x \<and> view x vm = Some h \<longrightarrow>
        (\<exists>v x'. f vm x = (Some v, x') \<and> fits h v \<and> good x' \<and> view x' = view x))"

lemma setter_callE:
  assumes "setter_call good view f upd" and "good x" and "view x vm = Some h"
  obtains x' where "f vm v x = (True, x')" "good x'" "view x' = (view x)(vm \<mapsto> upd v h)"
  using assms unfolding setter_call_def by blast

lemma getter_callE:
  assumes "getter_call good view f fits" and "good x" and "view x vm = Some h"
  obtains v x' where "f vm x = (Some v, x')" "fits h v" "good x'" "view x' = view x"
  using assms unfolding getter_call_def by blast

text \<open>
  A daemon that answers and obeys; the call that sets all limits of the memory at once may be
  unknown to it, and then fails without an effect.
\<close>

definition hw_service :: "('x, 'r, 'z) hw_api_scheme \<Rightarrow> ('x \<Rightarrow> string \<Rightarrow> vm_hardware option) \<Rightarrow> bool" where
  "hw_service A view \<longleftrightarrow>
     (let good = session_ok (vm_calls A)
      in (\<forall>x. good (clear_error (vm_calls A) x) \<and> view (clear_error (vm_calls A) x) = view x) \<and>
         getter_call good view (vm_get_hardware A) (\<lambda>h v. snd v = h) \<and>
         getter_call good view (get_vcpus_max A) (\<lambda>h v. v = vcpus_max h) \<and>
         getter_call good view (get_vcpus_at_startup A) (\<lambda>h v. v = vcpus_at_startup h) \<and>
         setter_call good view (set_vcpus_max A) (\<lambda>v h. h\<lparr>vcpus_max := v\<rparr>) \<and>
         setter_call good view (set_vcpus_at_startup A) (\<lambda>v h. h\<lparr>vcpus_at_startup := v\<rparr>) \<and>
         setter_call good view (set_static_max A) (\<lambda>v h. h\<lparr>static_max := v\<rparr>) \<and>
         setter_call good view (set_static_min A) (\<lambda>v h. h\<lparr>static_min := v\<rparr>) \<and>
         setter_call good view (set_dynamic_max A) (\<lambda>v h. h\<lparr>dynamic_max := v\<rparr>) \<and>
         setter_call good view (set_dynamic_min A) (\<lambda>v h. h\<lparr>dynamic_min := v\<rparr>) \<and>
         (setter_call good view (set_memory_limits A)
            (\<lambda>(smin, smax, dmin, dmax) h. h\<lparr>static_max := smax, static_min := smin, dynamic_max := dmax, dynamic_min := dmin\<rparr>) \<or>
          (\<forall>vm v x. good x \<longrightarrow> fst (set_memory_limits A vm v x) = False \<and>
             \<not> good (snd (set_memory_limits A vm v x)) \<and> view (snd (set_memory_limits A vm v x)) = view x)))"

lemma hw_serviceD:
  assumes "hw_service A view"
  shows "session_ok (vm_calls A) (clear_error (vm_calls A) x)" "view (clear_error (vm_calls A) x) = view x"
    and "getter_call (session_ok (vm_calls A)) view (vm_get_hardware A) (\<lambda>h v. snd v = h)"
    and "getter_call (session_ok (vm_calls A)) view (get_vcpus_max A) (\<lambda>h v. v = vcpus_max h)"
    and "getter_call (session_ok (vm_calls A)) view (get_vcpus_at_startup A) (\<lambda>h v. v = vcpus_at_startup h)"
    and "setter_call (session_ok (vm_calls A)) view (set_vcpus_max A) (\<lambda>v h. h\<lparr>vcpus_max := v\<rparr>)"
    and "setter_call (session_ok (vm_calls A)) view (set_vcpus_at_startup A) (\<lambda>v h. h\<lparr>vcpus_at_startup := v\<rparr>)"
    and "setter_call (session_ok (vm_calls A)) view (set_static_max A) (\<lambda>v h. h\<lparr>static_max := v\<rparr>)"
    and "setter_call (session_ok (vm_calls A)) view (set_static_min A) (\<lambda>v h. h\<lparr>static_min := v\<rparr>)"
    and "setter_call (session_ok (vm_calls A)) view (set_dynamic_max A) (\<lambda>v h. h\<lparr>dynamic_max := v\<rparr>)"
    and "setter_call (session_ok (vm_calls A)) view (set_dynamic_min A) (\<lambda>v h. h\<lparr>dynamic_min := v\<rparr>)"
    and "setter_call (session_ok (vm_calls A)) view (set_memory_limits A)
            (\<lambda>(smin, smax, dmin, dmax) h. h\<lparr>static_max := smax, static_min := smin, dynamic_max := dmax, dynamic_min := dmin\<rparr>) \<or>
          (\<forall>vm v x. session_ok (vm_calls A) x \<longrightarrow> fst (set_memory_limits A vm v x) = False \<and>
             \<not> session_ok (vm_calls A) (snd (set_memory_limits A vm v x)) \<and> view (snd (set_memory_limits A vm v x)) = view x)"
  using assms unfolding hw_service_def Let_def by blast+

text \<open>The processors that a template asks for.\<close>

definition merge_vcpus :: "vm_hardware \<Rightarrow> vm_hardware \<Rightarrow> vm_hardware" where
  "merge_vcpus tmpl h =
     h\<lparr>vcpus_max := (if vcpus_max tmpl \<noteq> 0 then vcpus_max tmpl else vcpus_max h),
       vcpus_at_startup := (if vcpus_at_startup tmpl \<noteq> 0 then vcpus_at_startup tmpl else vcpus_max tmpl)\<rparr>"

text \<open>An update of a count leaves the count as wanted.\<close>

lemma update_count_sets:
  assumes g: "getter_call good view getter (\<lambda>h v. v = field h)" and s: "setter_call good view setter upd"
    and same: "\<And>h. upd (field h) h = h" and x: "good x" "view x vm = Some h"
  obtains x' where "update_count getter setter vm v x = Ret (True, x')" "good x'" "view x' = (view x)(vm \<mapsto> upd v h)"
proof -
  obtain x1 where x1: "getter vm x = (Some (field h), x1)" "good x1" "view x1 = view x"
    using getter_callE [OF g x] by metis
  show thesis
  proof (cases "v = field h")
    case True
    then have "view x1 = (view x)(vm \<mapsto> upd v h)" using x x1 same [of h] by (simp add: fun_upd_idem)
    then show thesis using that x1 True by (simp add: update_count_def)
  next
    case False
    have "view x1 vm = Some h" using x1 x by simp
    from setter_callE [OF s x1(2) this] obtain x2 where
      "setter vm v x1 = (True, x2)" "good x2" "view x2 = (view x1)(vm \<mapsto> upd v h)" by metis
    then show thesis using that x1 False by (simp add: update_count_def)
  qed
qed

lemma proc_modify_sets:
  assumes S: "hw_service A view" and h: "view x vm = Some h"
  obtains rc x' where "proc_rasd_modify A vm tmpl x = Ret (rc, x')" "session_ok (vm_calls A) x'"
    "view x' = (view x)(vm \<mapsto> merge_vcpus tmpl h)"
proof -
  note d = hw_serviceD [OF S]
  let ?good = "session_ok (vm_calls A)" and ?x0 = "RESET_XEN_ERROR (vm_calls A) x"
  have x0: "?good ?x0" "view ?x0 = view x" using d(1,2) by (simp_all add: RESET_XEN_ERROR_def)
  with h have "view ?x0 vm = Some h" by simp
  from setter_callE [OF d(7) x0(1) this] obtain x1 where
    x1: "set_vcpus_at_startup A vm 1 ?x0 = (True, x1)" "?good x1" "view x1 = (view x)(vm \<mapsto> h\<lparr>vcpus_at_startup := 1\<rparr>)"
    unfolding x0(2) by metis
  let ?h1 = "h\<lparr>vcpus_at_startup := 1, vcpus_max := (if vcpus_max tmpl \<noteq> 0 then vcpus_max tmpl else vcpus_max h)\<rparr>"
  obtain rc x2 where
    x2: "(if vcpus_max tmpl \<noteq> 0 then update_count (get_vcpus_max A) (set_vcpus_max A) vm (vcpus_max tmpl) x1 else Ret (True, x1)) = Ret (rc, x2)"
      "?good x2" "view x2 = (view x)(vm \<mapsto> ?h1)"
  proof (cases "vcpus_max tmpl = 0")
    case True
    have "h\<lparr>vcpus_at_startup := 1\<rparr> = ?h1" using True by simp
    then show thesis using that True x1 by simp
  next
    case False
    have "view x1 vm = Some (h\<lparr>vcpus_at_startup := 1\<rparr>)" by (simp add: x1)
    from update_count_sets [OF d(4,6) _ x1(2) this, of "vcpus_max tmpl"] obtain y where
      "update_count (get_vcpus_max A) (set_vcpus_max A) vm (vcpus_max tmpl) x1 = Ret (True, y)" "?good y"
      "view y = (view x1)(vm \<mapsto> h\<lparr>vcpus_at_startup := 1, vcpus_max := vcpus_max tmpl\<rparr>)" by auto
    then show thesis using that False x1(3) by simp
  qed
  have "view x2 vm = Some ?h1" by (simp add: x2(3))
  from update_count_sets [OF d(5,7) _ x2(2) this, of "if vcpus_at_startup tmpl \<noteq> 0 then vcpus_at_startup tmpl else vcpus_max tmpl"]
  obtain x3 where x3: "update_count (get_vcpus_at_startup A) (set_vcpus_at_startup A) vm
      (if vcpus_at_startup tmpl \<noteq> 0 then vcpus_at_startup tmpl else vcpus_max tmpl) x2 = Ret (True, x3)" "?good x3"
    "view x3 = (view x2)(vm \<mapsto> ?h1\<lparr>vcpus_at_startup := (if vcpus_at_startup tmpl \<noteq> 0 then vcpus_at_startup tmpl else vcpus_max tmpl)\<rparr>)"
    by auto
  show thesis
  proof (rule that)
    show "proc_rasd_modify A vm tmpl x = Ret (True, x3)"
      by (simp add: proc_rasd_modify_def x1(1) x2(1) x3(1) del: if_split)
    show "view x3 = (view x)(vm \<mapsto> merge_vcpus tmpl h)"
      unfolding x3(3) x2(3) by (simp add: merge_vcpus_def)
  qed (rule x3(2))
qed

lemma memory_modify_sets:
  assumes S: "hw_service A view" and x: "session_ok (vm_calls A) x" "view x vm = Some h"
  shows "\<exists>x'. memory_rasd_modify A vm tmpl x = (merge_memory tmpl h \<noteq> h, x') \<and> session_ok (vm_calls A) x' \<and>
    view x' = (view x)(vm \<mapsto> merge_memory tmpl h)"
proof -
  note d = hw_serviceD [OF S]
  let ?good = "session_ok (vm_calls A)" and ?m = "merge_memory tmpl h"
  obtain rec x1 where x1: "vm_get_hardware A vm x = (Some (rec, h), x1)" "?good x1" "view x1 = view x"
    using getter_callE [OF d(3) x] by (metis prod.collapse)
  have v1: "view x1 vm = Some h" using x1 x by simp
  let ?set = "\<lambda>y. y\<lparr>static_max := static_max ?m, static_min := static_min ?m, dynamic_max := dynamic_max ?m, dynamic_min := dynamic_min ?m\<rparr>"
  have m: "?set h = ?m" by (simp add: merge_memory_def)
  let ?lim = "(static_min ?m, static_max ?m, dynamic_min ?m, dynamic_max ?m)"
  show ?thesis
  proof (cases "?m = h")
    case True
    then have "view x1 = (view x)(vm \<mapsto> ?m)" using x x1 by (simp add: fun_upd_idem)
    then show ?thesis using x1 True by (simp add: memory_rasd_modify_def)
  next
    case False
    from d(12) show ?thesis
    proof
      assume "setter_call ?good view (set_memory_limits A)
            (\<lambda>(smin, smax, dmin, dmax) h. h\<lparr>static_max := smax, static_min := smin, dynamic_max := dmax, dynamic_min := dmin\<rparr>)"
      from setter_callE [OF this x1(2) v1, of ?lim] obtain x2 where
        "set_memory_limits A vm ?lim x1 = (True, x2)" "?good x2" "view x2 = (view x1)(vm \<mapsto> ?set h)" by auto
      then show ?thesis using x1 False m by (simp add: memory_rasd_modify_def Let_def)
    next
      assume old: "\<forall>vm v x. ?good x \<longrightarrow> fst (set_memory_limits A vm v x) = False \<and>
             \<not> ?good (snd (set_memory_limits A vm v x)) \<and> view (snd (set_memory_limits A vm v x)) = view x"
      obtain x2 where x2: "set_memory_limits A vm ?lim x1 = (False, x2)" "\<not> ?good x2" "view x2 = view x1"
      proof (rule that)
        show "set_memory_limits A vm ?lim x1 = (False, snd (set_memory_limits A vm ?lim x1))"
          using old [rule_format, OF x1(2)] by (simp add: prod_eq_iff)
      qed (use old [rule_format, OF x1(2)] in simp_all)
      let ?x2 = "RESET_XEN_ERROR (vm_calls A) x2"
      have r: "?good ?x2" "view ?x2 vm = Some h" "view ?x2 = view x"
        using d(1,2) x2 v1 x1(3) by (simp_all add: RESET_XEN_ERROR_def)
      obtain x3 where x3: "set_static_max A vm (static_max ?m) ?x2 = (True, x3)" "?good x3"
        "view x3 = (view x)(vm \<mapsto> h\<lparr>static_max := static_max ?m\<rparr>)"
        using setter_callE [OF d(8) r(1,2), of "static_max ?m"] unfolding r(3) by metis
      have "view x3 vm = Some (h\<lparr>static_max := static_max ?m\<rparr>)" by (simp add: x3(3))
      from setter_callE [OF d(9) x3(2) this, of "static_min ?m"] obtain x4 where
        x4: "set_static_min A vm (static_min ?m) x3 = (True, x4)" "?good x4"
        "view x4 = (view x)(vm \<mapsto> h\<lparr>static_max := static_max ?m, static_min := static_min ?m\<rparr>)"
        unfolding x3(3) by (metis fun_upd_upd)
      have "view x4 vm = Some (h\<lparr>static_max := static_max ?m, static_min := static_min ?m\<rparr>)" by (simp add: x4(3))
      from setter_callE [OF d(10) x4(2) this, of "dynamic_max ?m"] obtain x5 where
        x5: "set_dynamic_max A vm (dynamic_max ?m) x4 = (True, x5)" "?good x5"
        "view x5 = (view x)(vm \<mapsto> h\<lparr>static_max := static_max ?m, static_min := static_min ?m, dynamic_max := dynamic_max ?m\<rparr>)"
        unfolding x4(3) by (metis fun_upd_upd)
      have "view x5 vm = Some (h\<lparr>static_max := static_max ?m, static_min := static_min ?m, dynamic_max := dynamic_max ?m\<rparr>)"
        by (simp add: x5(3))
      from setter_callE [OF d(11) x5(2) this, of "dynamic_min ?m"] obtain x6 where
        x6: "set_dynamic_min A vm (dynamic_min ?m) x5 = (True, x6)" "?good x6" "view x6 = (view x)(vm \<mapsto> ?set h)"
        unfolding x5(3) by (metis fun_upd_upd)
      have "memory_rasd_modify A vm tmpl x = (True, x6)"
        using x1 x2 x3(1) x4(1) x5(1) x6(1) False by (simp add: memory_rasd_modify_def Let_def)
      then show ?thesis using x6(2,3) False by (simp add: m)
    qed
  qed
qed

section \<open>Properties\<close>

text \<open>An instance with the properties that a conversion sets.\<close>

fun value_data :: "hw_value \<Rightarrow> 'r setting_data option" where
  "value_data (H_chars v) = map_option D_string v"
| "value_data (H_uint64 q) = Some (D_int CMPI_uint64 q)"
| "value_data (H_uint32 q) = Some (D_int CMPI_uint32 (ucast q))"
| "value_data (H_uint16 n) = Some (D_int CMPI_uint16 (of_nat n))"
| "value_data (H_bool b) = Some (D_boolean b)"
| "value_data (H_array ss) = Some (D_array (string_elements ss))"

definition has_properties :: "'r vssd \<Rightarrow> (string \<times> hw_value) list \<Rightarrow> bool" where
  "has_properties i ws \<longleftrightarrow> (\<forall>(n, v) \<in> set ws. property_of i n = (CMPI_RC_OK, value_data v))"

lemma megabyte_units: "xen_utils_get_alloc_units ''byte*2^20'' = 1048576"
proof -
  have "contains ''byte*2^20'' ''2^20''" "\<not> contains ''byte*2^20'' ''Kilo''" "\<not> contains ''byte*2^20'' ''KB''"
    "\<not> contains ''byte*2^20'' ''2^10''"
    by code_simp+
  then show ?thesis by (simp add: xen_utils_get_alloc_units_def)
qed



section \<open>Witnesses\<close>

definition demo_hardware :: vm_hardware where
  "demo_hardware = \<lparr>static_max = of_nat (512 * ONE_MB), static_min = of_nat (64 * ONE_MB), dynamic_max = of_nat (256 * ONE_MB),
     dynamic_min = of_nat (128 * ONE_MB), vcpus_max = 2, vcpus_at_startup = 1, vcpus_params = None\<rparr>"

definition as_instance :: "(string \<times> hw_value) list \<Rightarrow> unit vssd" where
  "as_instance ws = \<lparr>property_of = (\<lambda>n. (CMPI_RC_OK, case map_of ws n of None \<Rightarrow> None | Some v \<Rightarrow> value_data v)),
     properties_at = []\<rparr>"

lemma as_instance_has: "distinct (map fst ws) \<Longrightarrow> has_properties (as_instance ws) ws"
  by (auto simp: has_properties_def as_instance_def)


text \<open>A daemon that does not know the call for all limits.\<close>

record demo_hw =
  w_ok :: bool
  w_vms :: "string \<Rightarrow> vm_hardware option"

definition demo_setter :: "('v \<Rightarrow> vm_hardware \<Rightarrow> vm_hardware) \<Rightarrow> string \<Rightarrow> 'v \<Rightarrow> demo_hw \<Rightarrow> bool \<times> demo_hw" where
  "demo_setter upd vm v x =
     (case w_vms x vm of
        None \<Rightarrow> (False, x\<lparr>w_ok := False\<rparr>)
      | Some h \<Rightarrow> if w_ok x then (True, x\<lparr>w_vms := (w_vms x)(vm \<mapsto> upd v h)\<rparr>) else (False, x))"

definition demo_getter :: "(vm_hardware \<Rightarrow> 'v) \<Rightarrow> string \<Rightarrow> demo_hw \<Rightarrow> 'v option \<times> demo_hw" where
  "demo_getter f vm x = (if w_ok x then (map_option f (w_vms x vm), x) else (None, x))"

definition demo_hw_api :: "(demo_hw, unit) hw_api" where
  "demo_hw_api = \<lparr>task_calls = no_tasks w_ok (\<lambda>b x. x\<lparr>w_ok := b\<rparr>),
     vm_calls = \<lparr>session_ok = w_ok, clear_error = (\<lambda>x. x\<lparr>w_ok := True\<rparr>), vm_get_all = (\<lambda>x. (None, x)),
       vm_get_record = (\<lambda>vm x. (None, x)), vm_get_by_uuid = (\<lambda>u x. (None, x)), host_get_address = (\<lambda>h x. (None, x))\<rparr>,
     vm_get_power_state = (\<lambda>vm x. (None, x)), vm_do = (\<lambda>op vm x. x),
     error_of = (\<lambda>x. \<lparr>ok = w_ok x, error_description = None\<rparr>), vm_set = (\<lambda>f vm x. x),
     vm_get_other_config = (\<lambda>vm x. (None, x)), host_get_by_uuid = (\<lambda>u x. (None, x)),
     vm_get_hardware = demo_getter (\<lambda>h. (plain_vm ''u1'', h)), set_memory_limits = (\<lambda>vm v x. (False, x\<lparr>w_ok := False\<rparr>)),
     set_static_max = demo_setter (\<lambda>v h. h\<lparr>static_max := v\<rparr>), set_static_min = demo_setter (\<lambda>v h. h\<lparr>static_min := v\<rparr>),
     set_dynamic_max = demo_setter (\<lambda>v h. h\<lparr>dynamic_max := v\<rparr>), set_dynamic_min = demo_setter (\<lambda>v h. h\<lparr>dynamic_min := v\<rparr>),
     set_vcpus_max = demo_setter (\<lambda>v h. h\<lparr>vcpus_max := v\<rparr>),
     set_vcpus_at_startup = demo_setter (\<lambda>v h. h\<lparr>vcpus_at_startup := v\<rparr>),
     set_vcpus_params = demo_setter (\<lambda>v h. h\<lparr>vcpus_params := v\<rparr>),
     get_vcpus_max = demo_getter vcpus_max, get_vcpus_at_startup = demo_getter vcpus_at_startup\<rparr>"

lemma demo_hw_calls: "setter_call w_ok w_vms (demo_setter upd) upd"
  "(\<And>h. fits h (f h)) \<Longrightarrow> getter_call w_ok w_vms (demo_getter f) fits"
  by (auto simp: setter_call_def getter_call_def demo_setter_def demo_getter_def)

lemma demo_hw_service: "hw_service demo_hw_api w_vms"
  by (simp add: hw_service_def demo_hw_api_def demo_hw_calls)


end
