(* ===== verification/DeviceData.thy ===== *)
theory DeviceData
  imports HardwareData
begin

text \<open>
  Disks, network ports, consoles and key-value pairs as resource allocation setting data
  (\<^verbatim>\<open>src/Xen_DiskSettingData.c\<close>, \<^verbatim>\<open>src/Xen_NetworkPortSettingData.c\<close>,
  \<^verbatim>\<open>src/Xen_ConsoleSettingData.c\<close> and \<^verbatim>\<open>_kvp_rasd_to_kvp\<close> of
  \<^verbatim>\<open>src/Xen_VirtualSystemManagementService.c\<close>): the records of devices from instances,
  the properties of instances from records, and the change of disks and ports. Allocations succeed.
\<close>

section \<open>Records\<close>

datatype vbd_type = VBD_disk | VBD_cd

datatype vbd_mode = Mode_RO | Mode_RW

record vbd_record =
  d_uuid :: "string option"
  d_device :: "string option"
  d_bootable :: bool
  d_mode :: vbd_mode
  d_type :: vbd_type
  d_empty :: bool

record vdi_record =
  i_uuid :: "string option"
  i_label :: "string option"
  i_description :: "string option"
  i_size :: "64 word"
  i_sharable :: bool

record vif_record =
  n_uuid :: "string option"
  n_mac :: "string option"
  n_device :: "string option"
  n_network :: "string option"
  n_config :: string_map

datatype console_protocol = VT100 | RFB | RDP

record console_record =
  c_uuid :: "string option"
  c_protocol :: console_protocol
  c_location :: "string option"
  c_config :: string_map

record 'x dev_api = "'x disk_api" +
  sr_get_by_uuid :: "string \<Rightarrow> 'x \<Rightarrow> string option \<times> 'x"
  network_get_by_uuid :: "string \<Rightarrow> 'x \<Rightarrow> string option \<times> 'x"
  vbd_get_by_uuid :: "string option \<Rightarrow> 'x \<Rightarrow> string option \<times> 'x"
  vdi_get_by_uuid :: "string \<Rightarrow> 'x \<Rightarrow> string option \<times> 'x"
  vbd_get_record :: "string \<Rightarrow> 'x \<Rightarrow> vbd_record option \<times> 'x"
  vdi_get_record :: "string \<Rightarrow> 'x \<Rightarrow> vdi_record option \<times> 'x"
  vbd_get_empty :: "string \<Rightarrow> 'x \<Rightarrow> bool option \<times> 'x"
  vbd_eject :: "string \<Rightarrow> 'x \<Rightarrow> 'x"
  vbd_insert :: "string \<times> string option \<Rightarrow> 'x \<Rightarrow> 'x"
  vbd_set_userdevice :: "string \<times> string \<Rightarrow> 'x \<Rightarrow> 'x"
  vdi_set_name_label :: "string option \<times> string \<Rightarrow> 'x \<Rightarrow> 'x"
  vdi_set_name_description :: "string option \<times> string \<Rightarrow> 'x \<Rightarrow> 'x"
  vdi_resize :: "string option \<times> 64 word \<Rightarrow> 'x \<Rightarrow> 'x"
  vif_get_by_uuid :: "string option \<Rightarrow> 'x \<Rightarrow> string option \<times> 'x"
  vif_get_record :: "string \<Rightarrow> 'x \<Rightarrow> vif_record option \<times> 'x"
  vif_set_other_config :: "string \<times> string_map option \<Rightarrow> 'x \<Rightarrow> 'x"
  vif_get_uuid :: "string \<Rightarrow> 'x \<Rightarrow> string option \<times> 'x"
  vbd_get_uuid :: "string \<Rightarrow> 'x \<Rightarrow> string option \<times> 'x"
  console_get_uuid :: "string \<Rightarrow> 'x \<Rightarrow> string option \<times> 'x"

section \<open>Disks\<close>

text \<open>The device of an InstanceID; a buffer that is not written is read all the same.\<close>

definition device_given :: "'r vssd \<Rightarrow> string \<Rightarrow> string option outcome" where
  "device_given i n =
     bind_outcome (string_given i n)
       (\<lambda>v. case v of
            None \<Rightarrow> Ret None
          | Some s \<Rightarrow> (case CMPIStrncpyDeviceNameFromID (Some s) 128 of None \<Rightarrow> Undefined | Some d \<Rightarrow> Ret (Some d)))"

text \<open>
  The disk that the first host resource refers to. Here the buffer is cleared first, so a DeviceID
  that cannot be parsed gives an empty name; without a reference there is a second chance.
\<close>

definition make_path :: "string \<Rightarrow> string \<Rightarrow> vm_path option" where
  "make_path ns cn = Some (cn, [])"

definition add_path_key :: "string \<Rightarrow> string \<Rightarrow> vm_path \<Rightarrow> vm_path" where
  "add_path_key k v p = (fst p, snd p @ [(k, v)])"

definition disk_of_uri :: "string \<Rightarrow> string option" where
  "disk_of_uri uri =
     (case xen_utils_WBEM_URI_to_CMPIObjectPath make_path add_path_key (Some uri) of
        None \<Rightarrow> None
      | Some p \<Rightarrow>
          (case map_of (snd p) ''DeviceID'' of
             None \<Rightarrow> None
           | Some ident \<Rightarrow> Some (case CMPIStrncpyDeviceNameFromID (Some ident) 128 of None \<Rightarrow> [] | Some d \<Rightarrow> d)))"

definition vdi_given :: "'r vssd \<Rightarrow> string option outcome" where
  "vdi_given i =
     bind_outcome
       (case property_of i ''HostResource'' of
          (CMPI_RC_OK, Some data) \<Rightarrow>
            (case data of
               D_array (e # es) \<Rightarrow> (case content e of V_string (Some uri) \<Rightarrow> Ret (disk_of_uri uri) | _ \<Rightarrow> Undefined)
             | _ \<Rightarrow> Undefined)
        | _ \<Rightarrow> Ret None)
       (\<lambda>v. case v of Some u \<Rightarrow> Ret (Some u) | None \<Rightarrow> string_given i ''HostExtentName'')"

definition resource_type :: "'r vssd \<Rightarrow> nat option outcome" where
  "resource_type i = bind_outcome (number_given i ''ResourceType'') (\<lambda>v. Ret (map_option (\<lambda>n. unat (ucast n :: 16 word)) v))"

definition bool_given :: "'r vssd \<Rightarrow> string \<Rightarrow> bool option outcome" where
  "bool_given i n =
     (case property_of i n of
        (CMPI_RC_OK, Some data) \<Rightarrow> (case data of D_boolean b \<Rightarrow> Ret (Some b) | _ \<Rightarrow> Undefined)
      | _ \<Rightarrow> Ret None)"

text \<open>The size, minus one where there is none; none of the units is an error.\<close>

definition disk_size_given :: "'r vssd \<Rightarrow> 64 word option outcome" where
  "disk_size_given i =
     bind_outcome (string_given i ''AllocationUnits'') (\<lambda>units.
       let multiplier = (case units of None \<Rightarrow> 1 | Some u \<Rightarrow> xen_utils_get_alloc_units u)
       in if multiplier = 0 then Ret None
          else bind_outcome (number_given i ''VirtualQuantity'')
            (\<lambda>q. Ret (Some (case q of None \<Rightarrow> - 1 | Some v \<Rightarrow> v * of_nat multiplier))))"

text \<open>
  The storage is looked up last. If that fails, the description of the disk, the name of the device
  and the uuid of the device are freed, and then once more with the records.
\<close>

definition find_storage ::
    "('x, 'z) dev_api_scheme \<Rightarrow> string option \<Rightarrow> vbd_record \<Rightarrow> vdi_record \<Rightarrow> 'x \<Rightarrow>
     ((vbd_record \<times> vdi_record \<times> string option) option \<times> 'x) outcome" where
  "find_storage A pool vbd vdi x =
     (case pool of
        None \<Rightarrow> Ret (Some (vbd, vdi, None), x)
      | Some label \<Rightarrow>
          (case sr_get_by_uuid A label x of
             (Some sr, x1) \<Rightarrow> Ret (Some (vbd, vdi, Some sr), x1)
           | (None, x1) \<Rightarrow>
               if i_description vdi \<noteq> None \<or> d_device vbd \<noteq> None \<or> d_uuid vbd \<noteq> None then Undefined
               else Ret (None, x1)))"

definition disk_rasd_to_vbd ::
    "('x, 'z) dev_api_scheme \<Rightarrow> 'r vssd \<Rightarrow> 'x \<Rightarrow> ((vbd_record \<times> vdi_record \<times> string option) option \<times> 'x) outcome" where
  "disk_rasd_to_vbd A i x =
     bind_outcome (resource_type i) (\<lambda>res_type.
       case res_type of
         None \<Rightarrow> Ret (None, x)
       | Some t \<Rightarrow>
           if t \<notin> {15, 16, 17, 19} then Ret (None, x)
           else
             let cd = (t = 15 \<or> t = 16)
             in bind_outcome (device_given i ''InstanceID'') (\<lambda>vbd_uuid.
                bind_outcome (vdi_given i) (\<lambda>vdi_uuid.
                bind_outcome (string_given i ''AddressOnParent'') (\<lambda>vbd_device.
                bind_outcome (bool_given i ''Bootable'') (\<lambda>bootable.
                bind_outcome (number_given i ''Access'') (\<lambda>acc.
                bind_outcome (string_given i ''PoolID'') (\<lambda>pool.
                bind_outcome (string_given i ''ElementName'') (\<lambda>label.
                bind_outcome (string_given i ''Description'') (\<lambda>descr.
                bind_outcome (disk_size_given i) (\<lambda>disk_size.
                  case disk_size of
                    None \<Rightarrow> Ret (None, x)
                  | Some nbytes \<Rightarrow>
                      find_storage A (if pool = Some [] then None else pool)
                        \<lparr>d_uuid = vbd_uuid, d_device = vbd_device, d_bootable = (bootable = Some True),
                         d_mode = (if cd \<or> map_option (\<lambda>n. ucast n :: 16 word) acc = Some 1 then Mode_RO else Mode_RW),
                         d_type = (if cd then VBD_cd else VBD_disk), d_empty = False\<rparr>
                        \<lparr>i_uuid = vdi_uuid, i_label = label, i_description = descr, i_size = nbytes, i_sharable = cd\<rparr> x))))))))))"

text \<open>The properties of a disk; what follows the device may lack its disk, but a disk must have its storage.\<close>

definition disk_image_create_ref :: "string \<Rightarrow> string \<Rightarrow> vm_path" where
  "disk_image_create_ref sr_uuid vdi_uuid =
     (''Xen_DiskImage'', [(''DeviceID'', CMPICreateNewDeviceInstanceID 128 sr_uuid vdi_uuid),
        (''CreationClassName'', ''Xen_DiskImage''), (''SystemCreationClassName'', ''Xen_StoragePool''),
        (''SystemName'', sr_uuid)])"

text \<open>A disk with its utilisation and the uuid of its storage, if that could be had.\<close>

record shown_disk =
  s_disk :: vdi_record
  s_used :: "64 word"
  s_storage :: "string option"

definition vdi_properties :: "(vm_path \<Rightarrow> string) \<Rightarrow> shown_disk \<Rightarrow> (string \<times> hw_value) list outcome" where
  "vdi_properties path_printer sd =
     (case (s_storage sd, i_uuid (s_disk sd)) of
        (Some sr, Some u) \<Rightarrow>
          Ret ([(''ElementName'', H_chars (i_label (s_disk sd))), (''Description'', H_chars (i_description (s_disk sd)))] @
            (case xen_utils_CMPIObjectPath_to_WBEM_URI (path_printer (disk_image_create_ref sr u)) of
               None \<Rightarrow> [] | Some uri \<Rightarrow> [(''HostResource'', H_array [uri])]) @
            [(''HostExtentName'', H_chars (Some u)), (''HostExtentNameFormat'', H_uint16 1),
             (''OtherHostExtentNameFormat'', H_chars (Some ''Xen VDI UUID'')), (''HostExtentNameNamespace'', H_uint16 1),
             (''OtherHostExtentNameNamespace'', H_chars (Some ''Xen UUID''))])
      | _ \<Rightarrow> Undefined)"

definition disk_rasd_from_vbd ::
    "(vm_path \<Rightarrow> string) \<Rightarrow> string \<Rightarrow> vbd_record \<Rightarrow> shown_disk option \<Rightarrow> (string \<times> hw_value) list outcome" where
  "disk_rasd_from_vbd path_printer vm_id vbd disk =
     (let cd = (d_type vbd = VBD_cd);
          limit = (case disk of None \<Rightarrow> 1 | Some sd \<Rightarrow> i_size (s_disk sd));
          units = (if cd then ''count'' else ''byte'')
      in bind_outcome (case disk of None \<Rightarrow> Ret [] | Some sd \<Rightarrow> vdi_properties path_printer sd)
        (\<lambda>config. Ret (
          [(''InstanceID'', H_chars (Some (CMPICreateNewDeviceInstanceID 128 vm_id (case d_uuid vbd of None \<Rightarrow> [] | Some u \<Rightarrow> u)))),
           (''Caption'', H_chars (Some ''Extended Settings for a Xen Virtual Disk'')),
           (''ResourceType'', H_uint16 (if cd then 16 else 19)), (''ResourceSubType'', H_chars (Some ''DMTF:xen:vbd'')),
           (''Access'', H_uint16 (if d_mode vbd = Mode_RW then 3 else 1)), (''AddressOnParent'', H_chars (d_device vbd)),
           (''AllocationUnits'', H_chars (Some units)), (''AutomaticAllocation'', H_bool False),
           (''AutomaticDeallocation'', H_bool False), (''ConsumerVisibility'', H_uint16 3),
           (''VirtualQuantity'', H_uint64 (if cd then 1 else limit)), (''VirtualQuantityUnits'', H_chars (Some units)),
           (''Reservation'', H_uint64 limit), (''Limit'', H_uint64 limit), (''VirtualResourceBlockSize'', H_uint64 1),
           (''HostResourceBlockSize'', H_uint64 1)] @ config @
          [(''MappingBehavior'', H_uint16 (case disk of None \<Rightarrow> 3 | Some sd \<Rightarrow> if i_sharable (s_disk sd) then 5 else 3))] @
          (case disk of None \<Rightarrow> [] | Some sd \<Rightarrow> [(''PoolID'', H_chars (s_storage sd))]) @
          [(''Bootable'', H_bool (d_bootable vbd))])))"

text \<open>
  The change of a disk: the medium first, where a disk is named that is not the one in the device, or where
  the device is empty; an empty name ejects.
\<close>

definition change_medium ::
    "('x, 'z) dev_api_scheme \<Rightarrow> string \<Rightarrow> string option \<Rightarrow> string option \<Rightarrow> vdi_record option \<Rightarrow> bool \<Rightarrow> 'x \<Rightarrow> 'x" where
  "change_medium A vbd vdi wanted current is_empty x =
     (case wanted of
        None \<Rightarrow> x
      | Some u \<Rightarrow>
          if is_empty \<or> (case current of Some c \<Rightarrow> i_uuid c \<noteq> Some u | None \<Rightarrow> False)
          then let x1 = (if is_empty then x else vbd_eject A vbd x)
            in if u \<noteq> [] then vbd_insert A (vbd, vdi) x1 else x1
          else x)"

definition change_name ::
    "(string option \<times> string \<Rightarrow> 'x \<Rightarrow> 'x) \<Rightarrow> string option \<Rightarrow> string option \<Rightarrow> string option \<Rightarrow> 'x \<Rightarrow> 'x" where
  "change_name setter vdi wanted current x =
     (case wanted of None \<Rightarrow> x | Some v \<Rightarrow> if current \<noteq> Some v then setter (vdi, v) x else x)"

text \<open>Names and size go to the disk that was named, which is none if none was.\<close>

definition change_disk ::
    "('x, 'z) dev_api_scheme \<Rightarrow> string option \<Rightarrow> vdi_record \<Rightarrow> vdi_record \<Rightarrow> 'x \<Rightarrow> 'x" where
  "change_disk A vdi tmpl current x =
     (let x1 = change_name (vdi_set_name_label A) vdi (i_label tmpl) (i_label current) x;
          x2 = change_name (vdi_set_name_description A) vdi (i_description tmpl) (i_description current) x1
      in if sint (i_size tmpl) > 0 \<and> i_size current \<noteq> i_size tmpl then vdi_resize A (vdi, i_size tmpl) x2 else x2)"

definition disk_rasd_modify ::
    "('x, 'z) dev_api_scheme \<Rightarrow> vbd_record \<Rightarrow> vdi_record \<Rightarrow> 'x \<Rightarrow> (bool \<times> 'x) outcome" where
  "disk_rasd_modify A vbd_tmpl vdi_tmpl x =
     (case vbd_get_by_uuid A (d_uuid vbd_tmpl) x of
        (None, x1) \<Rightarrow> Ret (False, x1)
      | (Some vbd, x1) \<Rightarrow>
          let (vdi, x2) = (case i_uuid vdi_tmpl of
                None \<Rightarrow> (None, x1)
              | Some u \<Rightarrow>
                  (case vdi_get_by_uuid A u x1 of
                     (Some h, y) \<Rightarrow> (Some h, y)
                   | (None, y) \<Rightarrow> (None, if u = [] then RESET_XEN_ERROR (vm_calls A) y else y)));
              (current_vbd, x3) = vbd_get_record A vbd x2;
              (em, x4) = vbd_get_empty A vbd x3;
              is_empty = (em = Some True);
              (current_vdi, x5) = (if is_empty then (None, x4) else vbd_get_vdi A vbd x4);
              (current, x6) = (case current_vdi of None \<Rightarrow> (None, x5) | Some h \<Rightarrow> vdi_get_record A h x5);
              x7 = (if is_empty \<or> current \<noteq> None then change_medium A vbd vdi (i_uuid vdi_tmpl) current is_empty x6 else x6);
              x8 = (case current_vbd of
                    Some c \<Rightarrow> (case d_device vbd_tmpl of
                        None \<Rightarrow> x7 | Some dv \<Rightarrow> if d_device c \<noteq> Some dv then vbd_set_userdevice A (vbd, dv) x7 else x7)
                  | None \<Rightarrow> x7)
          in (case current of
                None \<Rightarrow> Ret (session_ok (vm_calls A) x8, x8)
              | Some c \<Rightarrow>
                  (case current_vbd of
                     None \<Rightarrow> Undefined
                   | Some b \<Rightarrow>
                       let x9 = (if d_type b \<noteq> VBD_cd then change_disk A vdi vdi_tmpl c x8 else x8)
                       in Ret (session_ok (vm_calls A) x9, x9))))"

definition device_ref :: "string \<Rightarrow> string \<Rightarrow> string option \<times> 'x \<Rightarrow> vm_path option \<times> 'x" where
  "device_ref cn vm_id found =
     (case found of
        (None, x1) \<Rightarrow> (None, x1)
      | (Some u, x1) \<Rightarrow> (Some (cn, [(''InstanceID'', CMPICreateNewDeviceInstanceID 128 vm_id u)]), x1))"

definition disk_rasd_create_ref :: "('x, 'z) dev_api_scheme \<Rightarrow> string \<Rightarrow> string \<Rightarrow> 'x \<Rightarrow> vm_path option \<times> 'x" where
  "disk_rasd_create_ref A vm_id vbd x = device_ref ''Xen_DiskSettingData'' vm_id (vbd_get_uuid A vbd x)"

section \<open>Network ports\<close>

text \<open>The VLAN is read, but not used; the array must have a second element, whatever it is.\<close>

definition vlan_read :: "'r vssd \<Rightarrow> unit outcome" where
  "vlan_read i =
     (case property_of i ''Connection'' of
        (CMPI_RC_OK, Some data) \<Rightarrow> (case data of D_array es \<Rightarrow> Ret () | _ \<Rightarrow> Undefined)
      | _ \<Rightarrow> Ret ())"

definition vif_uuid_given :: "'r vssd \<Rightarrow> string option outcome" where
  "vif_uuid_given i =
     (case string_of i ''InstanceID'' of None \<Rightarrow> Ret None | Some s \<Rightarrow> device_given i ''InstanceID'')"

text \<open>A new port needs a network, an existing one an InstanceID.\<close>

definition network_rasd_to_vif ::
    "('x, 'z) dev_api_scheme \<Rightarrow> 'r vssd \<Rightarrow> bool \<Rightarrow> 'x \<Rightarrow> (vif_record option \<times> 'x) outcome" where
  "network_rasd_to_vif A i new_vif x =
     bind_outcome (string_given i ''Address'') (\<lambda>mac.
     bind_outcome (vif_uuid_given i) (\<lambda>vif_uuid.
       if vif_uuid = None \<and> \<not> new_vif then Ret (None, x)
       else let net = string_of i ''PoolID''
         in if new_vif \<and> net = None then Ret (None, x)
            else
              bind_outcome (vlan_read i) (\<lambda>_.
              bind_outcome (string_given i ''AddressOnParent'') (\<lambda>device.
                (case net of
                   None \<Rightarrow> Ret (Some \<lparr>n_uuid = vif_uuid, n_mac = mac, n_device = device, n_network = None, n_config = []\<rparr>, x)
                 | Some u \<Rightarrow>
                     (case network_get_by_uuid A u x of
                        (None, x1) \<Rightarrow> Ret (None, x1)
                      | (Some h, x1) \<Rightarrow>
                          Ret (Some \<lparr>n_uuid = vif_uuid, n_mac = mac, n_device = device, n_network = Some h, n_config = []\<rparr>, x1)))))))"

text \<open>Only the other configuration of a port is changed.\<close>

definition network_rasd_modify :: "('x, 'z) dev_api_scheme \<Rightarrow> vif_record \<Rightarrow> 'x \<Rightarrow> bool \<times> 'x" where
  "network_rasd_modify A tmpl x =
     (case vif_get_by_uuid A (n_uuid tmpl) x of
        (None, x1) \<Rightarrow> (False, x1)
      | (Some vif, x1) \<Rightarrow>
          (case vif_get_record A vif x1 of
             (None, x2) \<Rightarrow> (False, x2)
           | (Some rec, x2) \<Rightarrow>
               (True, if n_config tmpl = [] then x2
                  else vif_set_other_config A (vif, fold (\<lambda>(k, v). put_entry k v) (n_config tmpl) (Some (n_config rec))) x2)))"

definition network_rasd_create_ref :: "('x, 'z) dev_api_scheme \<Rightarrow> string \<Rightarrow> string \<Rightarrow> 'x \<Rightarrow> vm_path option \<times> 'x" where
  "network_rasd_create_ref A vm_id vif x = device_ref ''Xen_NetworkPortSettingData'' vm_id (vif_get_uuid A vif x)"

section \<open>Consoles\<close>

text \<open>The record that the caller is left with; after most errors it has been freed.\<close>

datatype parsed_console = Con_none | Con_live console_record | Con_freed

fun console_options :: "string list \<Rightarrow> string_map option" where
  "console_options [] = Some []"
| "console_options (t # ts) =
     (if CHR ''='' \<notin> set t then None
      else map_option (\<lambda>m. (takeWhile (\<lambda>c. c \<noteq> CHR ''='') t, drop 1 (dropWhile (\<lambda>c. c \<noteq> CHR ''='') t)) # m)
        (console_options ts))"

definition console_protocol_of :: "nat \<Rightarrow> console_protocol option" where
  "console_protocol_of n = (if n = 0 then Some VT100 else if n = 1 then Some RFB else if n = 2 then Some RDP else None)"

definition console_rasd_to_console_rec :: "'r vssd \<Rightarrow> (bool \<times> parsed_console) outcome" where
  "console_rasd_to_console_rec i =
     (let blank = \<lparr>c_uuid = None, c_protocol = VT100, c_location = None, c_config = []\<rparr>
      in bind_outcome (number_given i ''Protocol'') (\<lambda>protocol.
        case protocol of
          None \<Rightarrow> Ret (False, Con_live blank)
        | Some n \<Rightarrow>
            (case console_protocol_of (unat (ucast n :: 16 word)) of
               None \<Rightarrow> Ret (False, Con_freed)
             | Some pr \<Rightarrow>
                 bind_outcome (device_given i ''InstanceID'') (\<lambda>uuid.
                 bind_outcome (string_given i ''ConsoleConfigInfo'') (\<lambda>info.
                   let rec = blank\<lparr>c_protocol := pr, c_uuid := uuid\<rparr>
                   in (case info of
                      None \<Rightarrow> Ret (True, Con_live rec)
                    | Some s \<Rightarrow>
                        (case (if tokens '','' s = [] then None else console_options (tokens '','' s)) of
                           None \<Rightarrow> Ret (False, Con_freed)
                         | Some m \<Rightarrow> Ret (True, Con_live (rec\<lparr>c_config := m\<rparr>)))))))))"

definition console_rasd_create_ref :: "('x, 'z) dev_api_scheme \<Rightarrow> string \<Rightarrow> string \<Rightarrow> 'x \<Rightarrow> vm_path option \<times> 'x" where
  "console_rasd_create_ref A vm_id con x = device_ref ''Xen_ConsoleSettingData'' vm_id (console_get_uuid A con x)"

text \<open>The properties of a console; a VM whose record cannot be had is shown as unknown.\<close>

definition console_rec_to_console_rasd :: "vm_record option \<Rightarrow> console_record \<Rightarrow> (string \<times> hw_value) list" where
  "console_rec_to_console_rasd vm con =
     (let vm_id = (case vm of None \<Rightarrow> ''NoHost'' | Some r \<Rightarrow> vm_uuid r)
      in [(''InstanceID'', H_chars (Some (CMPICreateNewDeviceInstanceID 128 vm_id (case c_uuid con of None \<Rightarrow> [] | Some u \<Rightarrow> u)))),
          (''Caption'', H_chars (Some ''Xen Console Settings'')),
          (''Description'', H_chars (Some (case vm of None \<Rightarrow> ''No VM description available'' | Some r \<Rightarrow> vm_name_description r))),
          (''ElementName'', H_chars (Some (case vm of None \<Rightarrow> ''No VM information available'' | Some r \<Rightarrow> vm_name_label r))),
          (''ResourceType'', H_uint16 24), (''ConsumerVisibility'', H_uint16 3), (''Reservation'', H_uint64 1),
          (''Limit'', H_uint64 1), (''VirtualQuantity'', H_uint64 1), (''AllocationUnits'', H_chars (Some ''count'')),
          (''VirtualQuantityUnits'', H_chars (Some ''count'')), (''AutomaticAllocation'', H_bool True),
          (''AutomaticDeallocation'', H_bool True),
          (''Protocol'', H_uint16 (case c_protocol con of VT100 \<Rightarrow> 0 | RFB \<Rightarrow> 1 | RDP \<Rightarrow> 2))] @
         (case c_location con of None \<Rightarrow> [] | Some l \<Rightarrow> if l = [] then [] else [(''URI'', H_chars (Some l))]))"

section \<open>Key-value pairs\<close>

text \<open>
  The key and the VM of a DeviceID, in buffers that are read also where the DeviceID cannot be parsed.
  The key may be given apart, the value may be missing.
\<close>

definition device_id_parts :: "'r vssd \<Rightarrow> (string \<times> string) option outcome" where
  "device_id_parts i =
     bind_outcome (string_given i ''DeviceID'')
       (\<lambda>v. case v of
            None \<Rightarrow> Ret None
          | Some s \<Rightarrow>
              (case (CMPIStrncpyDeviceNameFromID (Some s) 128, CMPIStrncpySystemNameFromID True s 128) of
                 (Some k, Some vm) \<Rightarrow> Ret (Some (k, vm)) | _ \<Rightarrow> Undefined))"

definition key_fits :: "string \<Rightarrow> bool" where
  "key_fits k \<longleftrightarrow> 1 \<le> length k \<and> length k \<le> 256"

definition value_fits :: "string \<Rightarrow> bool" where
  "value_fits v \<longleftrightarrow> 1 \<le> length v \<and> length v \<le> 40000"

definition kvp_rasd_to_kvp :: "'r vssd \<Rightarrow> kvp option outcome" where
  "kvp_rasd_to_kvp i =
     bind_outcome (string_given i ''Key'') (\<lambda>key.
     bind_outcome (string_given i ''Value'') (\<lambda>val.
     bind_outcome (device_id_parts i) (\<lambda>parts.
       let k = (case key of Some s \<Rightarrow> Some s | None \<Rightarrow> map_option fst parts)
       in (case k of
             None \<Rightarrow> Ret None
           | Some s \<Rightarrow>
               if key_fits s \<and> (case val of None \<Rightarrow> True | Some v \<Rightarrow> value_fits v)
               then Ret (Some \<lparr>kvp_key = Some s, kvp_value = val, kvp_vm = map_option snd parts\<rparr>) else Ret None))))"


section \<open>Lemmas\<close>

text \<open>The uuids of the daemon.\<close>

definition plain_uuid :: "string \<Rightarrow> bool" where
  "plain_uuid u \<longleftrightarrow> u \<noteq> [] \<and> CHR ''/'' \<notin> set u \<and> CHR '','' \<notin> set u \<and> CHR ''='' \<notin> set u \<and> length u < 60"

lemma device_id_read:
  "plain_uuid sys \<Longrightarrow> plain_uuid dev \<Longrightarrow>
   CMPIStrncpyDeviceNameFromID (Some (CMPICreateNewDeviceInstanceID 128 sys dev)) 128 = Some dev"
  by (rule device_name_of_device_id) (simp_all add: plain_uuid_def)

text \<open>The broker prints a path as namespace, class and quoted keys.\<close>

definition prints_paths :: "(vm_path \<Rightarrow> string) \<Rightarrow> bool" where
  "prints_paths path_printer \<longleftrightarrow>
     (\<forall>p. xen_utils_CMPIObjectPath_to_WBEM_URI (path_printer p) = Some (DEFAULT_NS @ '':'' @ uri_tail (fst p) (snd p)))"

lemma path_fold: "fold (\<lambda>(k, v). add_path_key k v) kvs (cn, ks) = (cn, ks @ kvs)"
  by (induction kvs arbitrary: ks) (auto simp: add_path_key_def)

lemma path_read:
  assumes "cn \<noteq> []" and "CHR ''.'' \<notin> set cn" and "kvs \<noteq> []" and "distinct (map fst kvs)"
    and "\<forall>e \<in> set kvs. clean_attr CHR '','' e"
  shows "xen_utils_WBEM_URI_to_CMPIObjectPath make_path add_path_key (Some (DEFAULT_NS @ '':'' @ uri_tail cn kvs)) = Some (cn, kvs)"
  using assms convert_quoted [of kvs "CHR '',''"] wbem_split_tail [OF assms(1,2,3,5) disjI2 [OF refl]]
  by (simp add: xen_utils_WBEM_URI_to_CMPIObjectPath_def make_path_def path_fold)

lemma disk_of_its_uri:
  assumes "plain_uuid sr" and "plain_uuid u"
  shows "disk_of_uri (DEFAULT_NS @ '':'' @ uri_tail (fst (disk_image_create_ref sr u)) (snd (disk_image_create_ref sr u))) = Some u"
proof -
  let ?kvs = "snd (disk_image_create_ref sr u)"
  have i: "CMPICreateNewDeviceInstanceID 128 sr u = ''Xen:'' @ sr @ ''/'' @ u"
    using assms by (simp add: CMPICreateNewDeviceInstanceID_def snprintf_fits plain_uuid_def)
  have "xen_utils_WBEM_URI_to_CMPIObjectPath make_path add_path_key
      (Some (DEFAULT_NS @ '':'' @ uri_tail ''Xen_DiskImage'' ?kvs)) = Some (''Xen_DiskImage'', ?kvs)"
    using assms by (intro path_read) (simp_all add: disk_image_create_ref_def i clean_attr_def plain_uuid_def)
  then show ?thesis using device_id_read [OF assms] by (simp add: disk_of_uri_def disk_image_create_ref_def)
qed

section \<open>Properties\<close>


text \<open>A disk whose pool does not exist makes the provider free its description, the name of its device and the uuid of its device
  twice, and crash, as soon as the setting data have one of them; only without all three is it refused.\<close>

lemma unknown_pool_crashes:
  assumes pool: "property_of i ''PoolID'' = (CMPI_RC_OK, Some (D_string sr))" "sr \<noteq> []" "sr_get_by_uuid A sr x = (None, x1)"
    and parsed: "resource_type i = Ret (Some t)" "t \<in> {15, 16, 17, 19}" "device_given i ''InstanceID'' = Ret b" "vdi_given i = Ret u"
      "string_given i ''AddressOnParent'' = Ret dv" "bool_given i ''Bootable'' = Ret boot" "number_given i ''Access'' = Ret acc"
      "string_given i ''ElementName'' = Ret label" "string_given i ''Description'' = Ret descr" "disk_size_given i = Ret (Some n)"
  shows "disk_rasd_to_vbd A i x = (if b = None \<and> dv = None \<and> descr = None then Ret (None, x1) else Undefined)"
proof -
  have "string_given i ''PoolID'' = Ret (Some sr)" by (simp add: string_given_def pool)
  then show ?thesis using parsed pool by (simp add: disk_rasd_to_vbd_def find_storage_def Let_def)
qed

text \<open>What the calls do to the disks: reading does nothing, and a call for no disk fails.\<close>

definition null_disk_refused :: "('x, 'z) dev_api_scheme \<Rightarrow> ('x \<Rightarrow> 'd) \<Rightarrow> bool" where
  "null_disk_refused A disks \<longleftrightarrow>
     (\<forall>x u. disks (snd (vbd_get_by_uuid A u x)) = disks x) \<and> (\<forall>x b. disks (snd (vbd_get_record A b x)) = disks x) \<and>
     (\<forall>x b. disks (snd (vbd_get_empty A b x)) = disks x) \<and> (\<forall>x b. disks (snd (vbd_get_vdi A b x)) = disks x) \<and>
     (\<forall>x d. disks (snd (vdi_get_record A d x)) = disks x) \<and> (\<forall>x bd. disks (vbd_set_userdevice A bd x) = disks x) \<and>
     (\<forall>x v. disks (vdi_set_name_label A (None, v) x) = disks x \<and> \<not> session_ok (vm_calls A) (vdi_set_name_label A (None, v) x)) \<and>
     (\<forall>x v. disks (vdi_set_name_description A (None, v) x) = disks x \<and>
        \<not> session_ok (vm_calls A) (vdi_set_name_description A (None, v) x)) \<and>
     (\<forall>x n. disks (vdi_resize A (None, n) x) = disks x \<and> \<not> session_ok (vm_calls A) (vdi_resize A (None, n) x))"

text \<open>What a template asks of a disk.\<close>

definition asks_change :: "vdi_record \<Rightarrow> vdi_record \<Rightarrow> bool" where
  "asks_change tmpl current \<longleftrightarrow>
     i_label tmpl \<noteq> None \<and> i_label tmpl \<noteq> i_label current \<or>
     i_description tmpl \<noteq> None \<and> i_description tmpl \<noteq> i_description current \<or>
     sint (i_size tmpl) > 0 \<and> i_size tmpl \<noteq> i_size current"

lemma change_disk_null:
  assumes "null_disk_refused A disks"
  shows "disks (change_disk A None tmpl c x) = disks x"
    and "asks_change tmpl c \<Longrightarrow> \<not> session_ok (vm_calls A) (change_disk A None tmpl c x)"
  using assms by (auto simp: null_disk_refused_def change_disk_def change_name_def asks_change_def Let_def split: option.splits)

text \<open>A new name, description or size for a disk that the setting data identify by its device only is sent for no disk at all: the change
  fails and every disk stays as it was.\<close>

lemma unnamed_disk_not_changed:
  assumes S: "null_disk_refused A disks" and tmpl: "i_uuid vdi_tmpl = None" "asks_change vdi_tmpl current"
    and found: "vbd_get_by_uuid A (d_uuid vbd_tmpl) x = (Some vbd, x1)" "vbd_get_record A vbd x1 = (Some b, x2)" "d_type b = VBD_disk"
      "vbd_get_empty A vbd x2 = (Some False, x3)" "vbd_get_vdi A vbd x3 = (Some h, x4)" "vdi_get_record A h x4 = (Some current, x5)"
  shows "\<exists>x'. disk_rasd_modify A vbd_tmpl vdi_tmpl x = Ret (False, x') \<and> disks x' = disks x"
proof -
  have v: "disks x1 = disks x" "disks x2 = disks x1" "disks x3 = disks x2" "disks x4 = disks x3" "disks x5 = disks x4"
    using S found unfolding null_disk_refused_def by (metis snd_conv)+
  let ?x8 = "case d_device vbd_tmpl of None \<Rightarrow> x5
    | Some dv \<Rightarrow> if d_device b \<noteq> Some dv then vbd_set_userdevice A (vbd, dv) x5 else x5"
  have "disks ?x8 = disks x5" using S by (simp add: null_disk_refused_def split: option.split)
  moreover have "disk_rasd_modify A vbd_tmpl vdi_tmpl x =
      Ret (session_ok (vm_calls A) (change_disk A None vdi_tmpl current ?x8), change_disk A None vdi_tmpl current ?x8)"
    using found tmpl by (cases "d_device vbd_tmpl") (simp_all add: disk_rasd_modify_def change_medium_def Let_def)
  ultimately show ?thesis using v change_disk_null [OF S] tmpl(2) by auto
qed

section \<open>Witnesses\<close>

text \<open>A daemon with one disk that knows one pool.\<close>

record demo_dev =
  v_ok :: bool
  v_disk :: vdi_record

definition demo_vbd :: vbd_record where
  "demo_vbd = \<lparr>d_uuid = Some ''b1'', d_device = Some ''0'', d_bootable = True, d_mode = Mode_RW, d_type = VBD_disk, d_empty = False\<rparr>"

definition demo_disk :: vdi_record where
  "demo_disk = \<lparr>i_uuid = Some ''d1'', i_label = Some ''root'', i_description = None, i_size = 1073741824, i_sharable = False\<rparr>"

definition refuse_null :: "(vdi_record \<Rightarrow> 'v \<Rightarrow> vdi_record) \<Rightarrow> string option \<times> 'v \<Rightarrow> demo_dev \<Rightarrow> demo_dev" where
  "refuse_null upd hv x = (case hv of (None, v) \<Rightarrow> x\<lparr>v_ok := False\<rparr> | (Some h, v) \<Rightarrow> x\<lparr>v_disk := upd (v_disk x) v\<rparr>)"

definition demo_dev_api :: "demo_dev dev_api" where
  "demo_dev_api = \<lparr>task_calls = no_tasks v_ok (\<lambda>b x. x\<lparr>v_ok := b\<rparr>),
     vm_calls = \<lparr>session_ok = v_ok, clear_error = (\<lambda>x. x\<lparr>v_ok := True\<rparr>), vm_get_all = (\<lambda>x. (None, x)),
       vm_get_record = (\<lambda>vm x. (None, x)), vm_get_by_uuid = (\<lambda>u x. (None, x)), host_get_address = (\<lambda>h x. (None, x))\<rparr>,
     vm_get_power_state = (\<lambda>vm x. (None, x)), vm_do = (\<lambda>op vm x. x),
     error_of = (\<lambda>x. \<lparr>ok = v_ok x, error_description = None\<rparr>),
     vm_get_vbds = (\<lambda>vm x. (Some [''vbd1''], x)), vbd_get_vdi = (\<lambda>b x. (Some ''vdi1'', x)),
     vdi_get_vbds = (\<lambda>d x. (Some [''vbd1''], x)), vdi_get_read_only = (\<lambda>d x. (Some False, x)),
     vdi_get_sharable = (\<lambda>d x. (Some False, x)), xen_vdi_destroy = (\<lambda>d x. (False, x)), xen_vbd_destroy = (\<lambda>b x. (False, x)),
     xen_vm_destroy = (\<lambda>vm x. (False, x)),
     sr_get_by_uuid = (\<lambda>u x. if u = ''sr1'' then (Some ''srref1'', x) else (None, x\<lparr>v_ok := False\<rparr>)),
     network_get_by_uuid = (\<lambda>u x. (None, x)), vbd_get_by_uuid = (\<lambda>u x. (Some ''vbd1'', x)),
     vdi_get_by_uuid = (\<lambda>u x. (Some ''vdi1'', x)), vbd_get_record = (\<lambda>b x. (Some demo_vbd, x)),
     vdi_get_record = (\<lambda>d x. (Some (v_disk x), x)), vbd_get_empty = (\<lambda>b x. (Some False, x)),
     vbd_eject = (\<lambda>b x. x), vbd_insert = (\<lambda>bd x. x), vbd_set_userdevice = (\<lambda>bd x. x),
     vdi_set_name_label = refuse_null (\<lambda>d v. d\<lparr>i_label := Some v\<rparr>),
     vdi_set_name_description = refuse_null (\<lambda>d v. d\<lparr>i_description := Some v\<rparr>),
     vdi_resize = refuse_null (\<lambda>d v. d\<lparr>i_size := v\<rparr>), vif_get_by_uuid = (\<lambda>u x. (None, x)),
     vif_get_record = (\<lambda>v x. (None, x)), vif_set_other_config = (\<lambda>vm x. x), vif_get_uuid = (\<lambda>v x. (None, x)),
     vbd_get_uuid = (\<lambda>b x. (Some ''b1'', x)), console_get_uuid = (\<lambda>c x. (None, x))\<rparr>"

definition demo_printer :: "vm_path \<Rightarrow> string" where
  "demo_printer p = DEFAULT_NS @ '':'' @ uri_tail (fst p) (snd p)"

lemma strstr_front: "strstr (k @ s) k = Some 0"
  using strstr_first [of k "k @ s" "[]"] by simp

lemma demo_printer_prints: "prints_paths demo_printer"
  unfolding prints_paths_def demo_printer_def xen_utils_CMPIObjectPath_to_WBEM_URI_def strstr_front by simp

definition demo_shown :: shown_disk where
  "demo_shown = \<lparr>s_disk = demo_disk, s_used = 4096, s_storage = Some ''sr1''\<rparr>"


theorem unknown_pool_crashes_witness:
  "disk_rasd_to_vbd demo_dev_api (as_instance [(''ResourceType'', H_uint16 19), (''PoolID'', H_chars (Some ''lost'')),
     (''Description'', H_chars (Some ''data''))]) \<lparr>v_ok = True, v_disk = demo_disk\<rparr> = Undefined"
proof -
  let ?i = "as_instance [(''ResourceType'', H_uint16 19), (''PoolID'', H_chars (Some ''lost'')),
     (''Description'', H_chars (Some ''data''))]"
  have "disk_rasd_to_vbd demo_dev_api ?i \<lparr>v_ok = True, v_disk = demo_disk\<rparr> =
      (if (None :: string option) = None \<and> (None :: string option) = None \<and> Some ''data'' = None
       then Ret (None, \<lparr>v_ok = False, v_disk = demo_disk\<rparr>) else Undefined)"
    by (rule unknown_pool_crashes [where sr = "''lost''" and t = 19 and n = "- 1"])
      (simp_all add: as_instance_def demo_dev_api_def resource_type_def number_given_def device_given_def string_given_def
        vdi_given_def bool_given_def disk_size_given_def)
  then show ?thesis by simp
qed

theorem unnamed_disk_not_changed_witness:
  "\<exists>x'. disk_rasd_modify demo_dev_api demo_vbd (demo_disk\<lparr>i_uuid := None, i_size := 2147483648\<rparr>) \<lparr>v_ok = True, v_disk = demo_disk\<rparr> =
     Ret (False, x') \<and> v_disk x' = demo_disk"
proof -
  have S: "null_disk_refused demo_dev_api v_disk"
    by (simp add: null_disk_refused_def demo_dev_api_def refuse_null_def)
  let ?x = "\<lparr>v_ok = True, v_disk = demo_disk\<rparr>"
  have "\<exists>x'. disk_rasd_modify demo_dev_api demo_vbd (demo_disk\<lparr>i_uuid := None, i_size := 2147483648\<rparr>) ?x = Ret (False, x') \<and>
      v_disk x' = v_disk ?x"
    by (rule unnamed_disk_not_changed [OF S, of _ demo_disk _ _ "''vbd1''" ?x demo_vbd ?x ?x "''vdi1''" ?x ?x])
      (simp_all add: demo_dev_api_def asks_change_def demo_disk_def demo_vbd_def)
  then show ?thesis by simp
qed

end
