(* ===== verification/Provision.thy ===== *)
theory Provision
  imports DeviceData
begin

text \<open>
  The disks of a VM that is made from a template
  (\<^verbatim>\<open>_vm_provision_disks\<close> and \<^verbatim>\<open>_sr_find_default\<close> of
  \<^verbatim>\<open>src/Xen_VirtualSystemManagementService.c\<close>): the template describes them as XML in
  its other configuration, in which every empty storage attribute is replaced before the daemon
  provisions them. The replacement is a loop on fixed buffers, which need not end; it is a partial function.
\<close>

section \<open>The loop\<close>

definition empty_sr :: string where
  "empty_sr = ''sr='' @ [CHR 0x22, CHR 0x22]"

definition sr_attribute :: "string \<Rightarrow> string" where
  "sr_attribute uuid = ''sr='' @ [CHR 0x22] @ uuid @ [CHR 0x22]"

partial_function (option) rewrite_disks :: "string \<Rightarrow> string \<Rightarrow> string option" where
  "rewrite_disks sr_id buf =
     (case strstr buf empty_sr of
        None \<Rightarrow> Some buf
      | Some i \<Rightarrow> rewrite_disks sr_id (snprintf 512 (take i buf @ sr_attribute sr_id @ drop (i + 5) buf)))"

text \<open>A configuration that does not fit the buffers is not terminated there, and is read beyond them.\<close>

definition rewrite_config :: "string \<Rightarrow> string \<Rightarrow> string option outcome" where
  "rewrite_config sr_id disk_config =
     (if length disk_config < 512 then Ret (rewrite_disks sr_id disk_config) else Undefined)"

section \<open>The operations\<close>

record ('x, 'r) vsms_api = "('x, 'r) hw_api" +
  dev :: "'x dev_api"
  pool_get_all :: "'x \<Rightarrow> string list option \<times> 'x"
  pool_get_default_sr :: "string \<Rightarrow> 'x \<Rightarrow> string option \<times> 'x"
  sr_get_uuid :: "string option \<Rightarrow> 'x \<Rightarrow> string option \<times> 'x"
  vm_provision :: "string \<Rightarrow> 'x \<Rightarrow> bool \<times> 'x"

definition sr_find_default :: "('x, 'r, 'z) vsms_api_scheme \<Rightarrow> 'x \<Rightarrow> string option \<times> 'x" where
  "sr_find_default A x =
     (case pool_get_all A x of
        (Some [pool], x1) \<Rightarrow> pool_get_default_sr A pool x1
      | (_, x1) \<Rightarrow> (None, x1))"

text \<open>
  The result, none where the loop does not end. Where there is no storage to name, the function fails
  without setting the status: no status is written then.
\<close>

definition vm_provision_disks ::
    "('x, 'r, 'z) vsms_api_scheme \<Rightarrow> string \<Rightarrow> string_map option \<Rightarrow> string option \<Rightarrow> 'x \<Rightarrow>
     (bool \<times> (nat \<times> string) option \<times> string_map option \<times> 'x) option outcome" where
  "vm_provision_disks A vm config sr_to_use x =
     (let provision = (\<lambda>cfg y.
            case vm_provision A vm y of
              (good, y1) \<Rightarrow>
                Ret (Some (good, Some (xen_utils_set_status (if good then 0 else 2)
                  ''ERROR: Provisioning disks for the VM'' (Some (error_of A y1))), cfg, y1)))
      in (case xen_utils_get_from_string_string_map config ''disks'' of
            None \<Rightarrow> provision config x
          | Some disk_config \<Rightarrow>
              (case (case sr_to_use of Some s \<Rightarrow> (Some s, x) | None \<Rightarrow> sr_find_default A x) of
                 (sr, x1) \<Rightarrow>
                   (case sr_get_uuid A sr x1 of
                      (None, x2) \<Rightarrow> Ret (Some (False, None, config, x2))
                    | (Some sr_id, x2) \<Rightarrow>
                        bind_outcome (rewrite_config sr_id disk_config)
                          (\<lambda>res. case res of
                             None \<Rightarrow> Ret None
                           | Some buf2 \<Rightarrow>
                               let cfg = put_entry ''disks'' buf2 config
                               in provision cfg (case cfg of None \<Rightarrow> x2 | Some c \<Rightarrow> vm_set A (F_other_config c) vm x2))))))"

section \<open>The specification of the loop\<close>

text \<open>Every empty attribute replaced, from left to right.\<close>

function replace_all :: "string \<Rightarrow> string \<Rightarrow> string" where
  "replace_all u s =
     (if prefix empty_sr s then sr_attribute u @ replace_all u (drop 5 s)
      else (case s of [] \<Rightarrow> [] | c # cs \<Rightarrow> c # replace_all u cs))"
  by pat_completeness auto
termination
proof (relation "measure (\<lambda>(u, s). length s)")
  show "((u, drop 5 s), u, s) \<in> measure (\<lambda>(u, s). length s)" if "prefix empty_sr s" for u s
    using prefix_length_le [OF that] by (simp add: empty_sr_def)
qed auto

declare replace_all.simps [simp del]

text \<open>A uuid can be named in an attribute.\<close>

definition attribute_text :: "string \<Rightarrow> bool" where
  "attribute_text u \<longleftrightarrow> u \<noteq> [] \<and> CHR 0x22 \<notin> set u \<and> CHR ''='' \<notin> set u"

text \<open>A text in which no empty attribute begins, whatever follows it.\<close>

definition sealed :: "string \<Rightarrow> bool" where
  "sealed d \<longleftrightarrow> (\<forall>t. \<forall>i < length d. \<not> prefix empty_sr (drop i (d @ t)))"

lemma sealed_attribute:
  assumes u: "attribute_text u"
  shows "sealed (sr_attribute u)"
  unfolding sealed_def
proof (intro allI impI notI)
  fix t i
  assume i: "i < length (sr_attribute u)" and p: "prefix empty_sr (drop i (sr_attribute u @ t))"
  let ?s = "sr_attribute u @ t"
  have at: "i + k < length ?s \<and> ?s ! (i + k) = empty_sr ! k" if "k < 5" for k
  proof -
    obtain z where z: "drop i ?s = empty_sr @ z" using p by (auto simp: prefix_def)
    have k: "k < length empty_sr" using that by (simp add: empty_sr_def)
    have "i \<le> length ?s" using i by simp
    moreover have "length ?s - i = length empty_sr + length z" using arg_cong [OF z, of length] by (simp only: length_drop length_append)
    ultimately have "i + k < length ?s" using k by linarith
    moreover have "drop i ?s ! k = empty_sr ! k" unfolding z using k by (rule nth_append_left)
    ultimately show ?thesis using \<open>i \<le> length ?s\<close> by (metis nth_drop)
  qed
  have s: "?s ! i = CHR ''s''" and e: "?s ! (i + 2) = CHR ''=''" and q: "?s ! (i + 4) = CHR 0x22"
    using at [of 0] at [of 2] at [of 4] by (simp_all add: empty_sr_def eval_nat_numeral)
  show False
  proof (cases "i < 4")
    case True
    then have "i = 0" using s by (auto simp: sr_attribute_def less_Suc_eq eval_nat_numeral)
    then have "u ! 0 = CHR 0x22" using q u by (simp add: sr_attribute_def attribute_text_def nth_append)
    then show False using u by (cases u) (auto simp: attribute_text_def)
  next
    case False
    define j where "j = i - 4"
    have ij: "i = 4 + j" and j: "j \<le> length u" using False i by (auto simp: j_def sr_attribute_def)
    have nth: "?s ! (4 + k) = (u @ CHR 0x22 # t) ! k" for k by (simp add: sr_attribute_def)
    have "j \<noteq> length u" using s by (auto simp: ij nth)
    then have "j < length u" using j by simp
    have "(u @ CHR 0x22 # t) ! (j + 1) = CHR ''r''"
      using at [of 1] nth [of "j + 1"] by (simp add: ij empty_sr_def)
    then have "j + 1 \<noteq> length u" by (auto simp: nth_append)
    then have "j + 1 < length u" using \<open>j < length u\<close> by simp
    have eq: "(u @ CHR 0x22 # t) ! (j + 2) = CHR ''=''" using e nth [of "j + 2"] by (simp add: ij)
    then have "j + 2 \<noteq> length u" by (auto simp: nth_append)
    then have "j + 2 < length u" using \<open>j + 1 < length u\<close> by simp
    then have "u ! (j + 2) = CHR ''=''" using eq by (simp add: nth_append)
    then show False using u \<open>j + 2 < length u\<close> by (auto simp: attribute_text_def in_set_conv_nth)
  qed
qed


lemma length_empty_sr: "length empty_sr = 5"
  by (simp add: empty_sr_def)

lemma behind_occurrence: "drop i s = empty_sr @ z \<Longrightarrow> drop (i + 5) s = z"
  by (metis add.commute append_eq_conv_conj drop_drop length_empty_sr)

lemma strstr_least: "strstr s k = Some i \<Longrightarrow> j < i \<Longrightarrow> \<not> prefix k (drop j s)"
proof (induction s arbitrary: i j)
  case (Cons x xs)
  then show ?case by (cases j) (auto split: if_splits)
qed (simp split: if_splits)

lemma prefix_take: "prefix k s \<longleftrightarrow> take (length k) s = k"
  by (metis append_eq_conv_conj prefix_def)

lemma take_attribute: "n \<le> 4 \<Longrightarrow> take n (sr_attribute u @ s) = take n (empty_sr @ t)"
  by (auto simp: empty_sr_def sr_attribute_def le_Suc_eq eval_nat_numeral)

text \<open>What was searched without success stays so when an attribute with a name follows.\<close>

lemma sealed_append:
  assumes d: "sealed d" and u: "attribute_text u" and pre: "strstr (pre @ empty_sr @ post) empty_sr = Some (length pre)"
  shows "sealed (d @ pre @ sr_attribute u)"
  unfolding sealed_def
proof (intro allI impI notI)
  fix t i
  assume i: "i < length (d @ pre @ sr_attribute u)"
    and p: "prefix empty_sr (drop i ((d @ pre @ sr_attribute u) @ t))"
  consider "i < length d" | j where "i = length d + j" "j < length pre"
    | k where "i = length d + length pre + k" "k < length (sr_attribute u)"
    using i by (metis add.assoc add_diff_inverse_nat length_append nat_add_left_cancel_less)
  then show False
  proof cases
    case 1
    then show ?thesis using d p by (auto simp: sealed_def)
  next
    case 2
    have "prefix empty_sr (drop j pre @ sr_attribute u @ t)" using p 2 by simp
    moreover have "length empty_sr - length (drop j pre) \<le> 4" using 2 by (simp add: empty_sr_def)
    ultimately have "prefix empty_sr (drop j (pre @ empty_sr @ post))"
      using 2 take_attribute [of "length empty_sr - length (drop j pre)" u t post]
      by (simp add: prefix_take del: append_assoc take_append) (simp add: append_eq_append_conv2 take_append)
    then show ?thesis using strstr_least [OF pre] 2 by blast
  next
    case 3
    then have "drop i ((d @ pre @ sr_attribute u) @ t) = drop k (sr_attribute u @ t)" by simp
    then show ?thesis using sealed_attribute [OF u] p 3 by (auto simp: sealed_def)
  qed
qed

lemma replace_all_Nil [simp]: "replace_all u [] = []"
  by (subst replace_all.simps) (simp add: empty_sr_def)

lemma replace_all_unmatched:
  "strstr s empty_sr = None \<Longrightarrow> replace_all u s = s"
proof (induction s)
  case (Cons c cs)
  then show ?case by (subst replace_all.simps) (auto split: if_splits)
qed simp

lemma replace_all_first:
  "strstr (pre @ empty_sr @ post) empty_sr = Some (length pre) \<Longrightarrow>
   replace_all u (pre @ empty_sr @ post) = pre @ sr_attribute u @ replace_all u post"
proof (induction pre)
  case Nil
  show ?case by (subst replace_all.simps) (simp add: empty_sr_def)
next
  case (Cons c cs)
  then show ?case by (subst (1) replace_all.simps) (auto split: if_splits)
qed

text \<open>Cutting a text before or after the replacement shows the same characters.\<close>

lemma take_replace_all:
  "attribute_text u \<Longrightarrow> take m (replace_all u (take m s)) = take m (replace_all u s)"
proof (induction s arbitrary: m rule: length_induct)
  case (1 s)
  show ?case
  proof (cases "prefix empty_sr s")
    case True
    then obtain r where s: "s = empty_sr @ r" by (auto simp: prefix_def)
    have all: "replace_all u (empty_sr @ r') = sr_attribute u @ replace_all u r'" for r'
      by (subst replace_all.simps) (simp add: empty_sr_def)
    show ?thesis
    proof (cases "m < 5")
      case True
      have "replace_all u (take m empty_sr) = take m empty_sr"
        by (rule replace_all_unmatched)
          (use True in \<open>auto simp: strstr_None empty_sr_def dest!: sublist_length_le\<close>)
      moreover have "take m (replace_all u s) = take m empty_sr"
        using True take_attribute [of m u "replace_all u r" "[]"] by (simp add: s all)
      moreover have "take m s = take m empty_sr"
        unfolding s using True by (subst take_append) (simp add: empty_sr_def)
      ultimately show ?thesis by simp
    next
      case False
      then have "take m empty_sr = empty_sr" by (simp add: empty_sr_def)
      then have cut: "take m s = empty_sr @ take (m - 5) r"
        using False unfolding s by (simp only: take_append length_empty_sr)
      have "length r < length s" by (simp add: s empty_sr_def)
      then have "take (m - 5) (replace_all u (take (m - 5) r)) = take (m - 5) (replace_all u r)"
        using 1 by blast
      then have "take (min (m - length (sr_attribute u)) (m - 5)) (replace_all u (take (m - 5) r)) =
          take (min (m - length (sr_attribute u)) (m - 5)) (replace_all u r)"
        by (metis take_take)
      moreover have "min (m - length (sr_attribute u)) (m - 5) = m - length (sr_attribute u)"
        by (simp add: sr_attribute_def)
      ultimately show ?thesis unfolding cut unfolding s all by simp
    qed
  next
    case False
    show ?thesis
    proof (cases s)
      case (Cons c cs)
      show ?thesis
      proof (cases m)
        case (Suc k)
        have "\<not> prefix empty_sr (c # take k cs)"
          using False unfolding Cons by (metis prefix_order.trans take_Suc_Cons take_is_prefix)
        then have "replace_all u (take m s) = c # replace_all u (take k cs)"
          unfolding Cons Suc by (subst replace_all.simps) simp
        moreover have "replace_all u s = c # replace_all u cs"
          using False unfolding Cons by (subst replace_all.simps) simp
        moreover have "take k (replace_all u (take k cs)) = take k (replace_all u cs)"
          using 1 Cons by simp
        ultimately show ?thesis by (simp add: Suc)
      qed simp
    qed simp
  qed
qed

lemma sealed_take:
  assumes "sealed s"
  shows "strstr (take n s) empty_sr = None"
proof (rule ccontr)
  assume "strstr (take n s) empty_sr \<noteq> None"
  then obtain k where k: "prefix empty_sr (drop k (take n s))" "k \<le> length (take n s)"
    using strstr_Some_drop by blast
  then have "drop k (take n s) \<noteq> []" by (auto simp: empty_sr_def)
  then have "k < length s" by simp
  moreover have "drop k s = drop k (take n s) @ drop n s"
    using k(2) by (metis append_take_drop_id drop_append diff_is_0_eq drop0)
  then have "prefix empty_sr (drop k (s @ []))" using k(1) by (simp add: prefix_prefix)
  ultimately show False using assms unfolding sealed_def by blast
qed

theorem rewrite_run:
  assumes u: "attribute_text u"
  shows "sealed d \<Longrightarrow> length (d @ t) < 512 \<Longrightarrow> rewrite_disks u (d @ t) = Some (take 511 (d @ replace_all u t))"
proof (induction t arbitrary: d rule: length_induct)
  case (1 t)
  have skip: "strstr (d @ r) empty_sr = map_option ((+) (length d)) (strstr r empty_sr)" if "sealed d" for d r
    using that
  proof (induction d)
    case (Cons c d)
    have "\<not> prefix empty_sr (drop i ((c # d) @ r'))" if "i < length (c # d)" for i r'
      using Cons.prems that by (simp only: sealed_def) blast
    from this [of 0] this [of "Suc _"] show ?case
      using Cons.IH by (auto simp: sealed_def option.map_comp comp_def)
  qed (cases "strstr r empty_sr", simp_all)
  show ?case
  proof (cases "strstr t empty_sr")
    case None
    then show ?thesis
      using 1 by (subst rewrite_disks.simps) (simp add: skip replace_all_unmatched)
  next
    case (Some i)
    then obtain post where t: "t = take i t @ empty_sr @ post" and i: "i \<le> length t"
      using strstr_Some_drop [OF Some] by (metis append_take_drop_id prefix_def)
    let ?pre = "take i t"
    have len: "length ?pre = i" using i by simp
    have found: "strstr (?pre @ empty_sr @ post) empty_sr = Some (length ?pre)"
      using Some t len by simp
    let ?d = "d @ ?pre @ sr_attribute u"
    have sealed': "sealed ?d" using sealed_append [OF _ u found] 1 by blast
    have "drop i t = empty_sr @ post" using t by (metis append_take_drop_id same_append_eq)
    then have cut: "take (length d + i) (d @ t) = d @ ?pre" "drop (length d + i + 5) (d @ t) = post"
      using behind_occurrence [of i t post] by (simp_all add: add.assoc)
    have step: "rewrite_disks u (d @ t) = rewrite_disks u (take 511 (?d @ post))"
      using 1 by (subst rewrite_disks.simps) (simp add: skip Some cut snprintf_def cut(2) [unfolded drop_append, simplified])
    have goal: "d @ replace_all u t = ?d @ replace_all u post"
      using replace_all_first [OF found, of u] t by simp
    show ?thesis
    proof (cases "length ?d \<le> 511")
      case True
      let ?post = "take (511 - length ?d) post"
      have "length ?post < length t" using arg_cong [OF t, of length] len by (simp add: length_empty_sr)
      moreover have "length (?d @ ?post) < 512" using True by simp
      ultimately have "rewrite_disks u (?d @ ?post) = Some (take 511 (?d @ replace_all u ?post))"
        using 1 sealed' by blast
      moreover have "take 511 (?d @ replace_all u ?post) = take 511 (?d @ replace_all u post)"
        using take_replace_all [OF u] by (simp only: take_append)
      moreover have "take 511 (?d @ post) = ?d @ ?post" by (simp only: take_append [of 511 ?d post] take_all [OF True])
      ultimately show ?thesis using step goal by simp
    next
      case False
      have same: "take 511 (?d @ x) = take 511 ?d" for x
        using False by (simp only: take_append [of 511 ?d x]) simp
      have "strstr (take 511 ?d) empty_sr = None" using sealed' by (rule sealed_take)
      then have "rewrite_disks u (take 511 ?d) = Some (take 511 ?d)"
        by (subst rewrite_disks.simps) (simp only: option.case)
      then show ?thesis using step goal by (simp only: same)
    qed
  qed
qed

lemma rewrite_diverges:
  "rewrite_disks u buf = Some y \<Longrightarrow> u = [] \<longrightarrow> length buf < 512 \<longrightarrow> strstr buf empty_sr = None"
proof (erule rewrite_disks.raw_induct [rotated], intro impI)
  fix rewrite :: "string \<Rightarrow> string \<Rightarrow> string option" and u buf y
  assume IH: "\<And>u buf y. rewrite u buf = Some y \<Longrightarrow> u = [] \<longrightarrow> length buf < 512 \<longrightarrow> strstr buf empty_sr = None"
    and run: "(case strstr buf empty_sr of
        None \<Rightarrow> Some buf
      | Some i \<Rightarrow> rewrite u (snprintf 512 (take i buf @ sr_attribute u @ drop (i + 5) buf))) = Some y"
    and u: "u = []" and len: "length buf < 512"
  show "strstr buf empty_sr = None"
  proof (rule ccontr)
    assume "strstr buf empty_sr \<noteq> None"
    then obtain i where i: "strstr buf empty_sr = Some i" by blast
    then obtain z where z: "drop i buf = empty_sr @ z" using strstr_Some_drop [OF i] by (auto simp: prefix_def)
    then have "drop (i + 5) buf = z" by (rule behind_occurrence)
    then have "take i buf @ sr_attribute u @ drop (i + 5) buf = buf"
      using z by (metis append_take_drop_id sr_attribute_def empty_sr_def append_Nil append_assoc append_Cons u)
    then have "rewrite u buf = Some y" using run len by (simp add: i snprintf_def)
    then show False using IH u len i by fastforce
  qed
qed

section \<open>Properties\<close>

text \<open>C20. The replacement of empty storage attributes ends exactly where the storage has a name
  or nothing is to be replaced (the empty name is inserted for itself for ever); then every empty
  attribute of the description is replaced, and the text is cut at the size of the buffer, also within
  an attribute.\<close>

theorem provisioning_loop_ends:
  assumes "length cfg < 512" and "CHR 0x22 \<notin> set uuid" and "CHR ''='' \<notin> set uuid"
  shows "rewrite_disks uuid cfg =
    (if uuid = [] \<and> contains cfg empty_sr then None else Some (take 511 (replace_all uuid cfg)))"
proof (cases "uuid = []")
  case True
  show ?thesis
  proof (cases "strstr cfg empty_sr")
    case None
    then show ?thesis
      using assms by (subst rewrite_disks.simps) (simp add: contains_def replace_all_unmatched)
  next
    case (Some i)
    then show ?thesis
      using True assms rewrite_diverges [of uuid cfg] by (cases "rewrite_disks uuid cfg") (auto simp: contains_def)
  qed
next
  case False
  then have "attribute_text uuid" using assms by (simp add: attribute_text_def)
  moreover have "sealed []" by (simp add: sealed_def)
  ultimately show ?thesis using rewrite_run [of uuid "[]" cfg] assms False by simp
qed

theorem provisioning_loop_ends_witness:
  "rewrite_disks ''u-1'' (''<disk '' @ empty_sr @ ''/>'' @ empty_sr) =
     Some (''<disk '' @ sr_attribute ''u-1'' @ ''/>'' @ sr_attribute ''u-1'') \<and>
   rewrite_disks [] (''<disk '' @ empty_sr) = None"
proof
  have "take 511 (replace_all ''u-1'' (''<disk '' @ empty_sr @ ''/>'' @ empty_sr)) =
      ''<disk '' @ sr_attribute ''u-1'' @ ''/>'' @ sr_attribute ''u-1''"
    by (simp add: replace_all.simps empty_sr_def sr_attribute_def)
  then show "rewrite_disks ''u-1'' (''<disk '' @ empty_sr @ ''/>'' @ empty_sr) =
     Some (''<disk '' @ sr_attribute ''u-1'' @ ''/>'' @ sr_attribute ''u-1'')"
    by (subst provisioning_loop_ends) (simp_all add: empty_sr_def)
  have "contains (''<disk '' @ empty_sr) empty_sr" by code_simp
  then show "rewrite_disks [] (''<disk '' @ empty_sr) = None"
    by (subst provisioning_loop_ends) (simp_all add: empty_sr_def)
qed

end
