(* ===== verification/Resources.thy ===== *)
theory Resources
  imports Provision Kvp
begin

text \<open>
  The methods that add, change and remove the resources of a VM, of
  \<^verbatim>\<open>src/Xen_VirtualSystemManagementService.c\<close>: the parsing of a list of setting
  data into records (\<^verbatim>\<open>_rasd_parse\<close>), the creation of devices, the job that creates them,
  and the methods. The broker's data and the client's instances are a record of parameters.
\<close>

section \<open>Parameters\<close>

record ('p, 'r) vsms_lib =
  parse_setting :: "string \<Rightarrow> 'r vssd option"
  path_of :: "'r vssd \<Rightarrow> 'p"
  fetch_setting :: "'p \<Rightarrow> 'r vssd option"
  class_of :: "'p \<Rightarrow> string"
  key_of :: "'p \<Rightarrow> string \<Rightarrow> cmpi_rc \<times> ('p, 'r vssd) arg_value option"
  printed :: "vm_path \<Rightarrow> string"
  pair_server :: http
  session_ref :: string

record ('x, 'r) resource_api = "('x, 'r) vsms_api" +
  get_allowed_vbd_devices :: "string \<Rightarrow> 'x \<Rightarrow> string list option \<times> 'x"
  get_allowed_vif_devices :: "string \<Rightarrow> 'x \<Rightarrow> string list option \<times> 'x"
  xen_vdi_create :: "string option \<times> vdi_record \<Rightarrow> 'x \<Rightarrow> string option \<times> 'x"
  xen_vbd_create :: "string \<times> string option \<times> vbd_record \<Rightarrow> 'x \<Rightarrow> string option \<times> 'x"
  xen_vif_create :: "string \<times> vif_record \<Rightarrow> 'x \<Rightarrow> string option \<times> 'x"
  xen_console_create :: "string \<times> console_record \<Rightarrow> 'x \<Rightarrow> string option \<times> 'x"
  xen_vif_destroy :: "string \<Rightarrow> 'x \<Rightarrow> bool \<times> 'x"
  task_add_to_other_config :: "string \<times> string \<times> string \<Rightarrow> 'x \<Rightarrow> 'x"

definition quoted :: "string \<Rightarrow> string" where
  "quoted s = [CHR 0x27] @ s @ [CHR 0x27]"

text \<open>The macro for the text of an error joins the parts without a separator in a buffer of 512 bytes.\<close>

definition error_string :: "xen_error \<Rightarrow> string" where
  "error_string err =
     fold (\<lambda>d buf. strncat buf d (512 - (length buf + 1)))
       (case error_description err of None \<Rightarrow> [] | Some ds \<Rightarrow> ds) []"

section \<open>Parsing a list of setting data\<close>

datatype setting_kind = K_processor | K_memory | K_disk | K_port | K_console | K_pair | K_unknown

definition rasd_kind :: "string \<Rightarrow> nat \<Rightarrow> setting_kind" where
  "rasd_kind cn t =
     (let generic = (cn = ''CIM_ResourceAllocationSettingData'')
      in if cn = ''Xen_ProcessorSettingData'' \<or> generic \<and> t = 3 then K_processor
         else if cn = ''Xen_MemorySettingData'' \<or> generic \<and> t = 4 then K_memory
         else if cn = ''Xen_DiskSettingData'' \<or> generic \<and> t \<in> {19, 16, 15, 17} then K_disk
         else if cn = ''Xen_NetworkPortSettingData'' \<or> generic \<and> t = 33 then K_port
         else if cn = ''Xen_ConsoleSettingData'' \<or> generic \<and> t = 24 then K_console
         else if cn = ''Xen_KVP'' then K_pair else K_unknown)"

definition type_given :: "'r vssd \<Rightarrow> nat" where
  "type_given i =
     (case property_of i ''ResourceType'' of
        (CMPI_RC_OK, Some data) \<Rightarrow> (case data of D_int t v \<Rightarrow> unat (ucast v :: 16 word) | _ \<Rightarrow> 0)
      | _ \<Rightarrow> 0)"

text \<open>
  What was parsed so far: the VM with its record, the disks (three parallel lists in the code), the ports,
  the console and the pair that came last.
\<close>

record parsed =
  p_vm :: "string option"
  p_rec :: "(vm_record \<times> vm_hardware) option"
  p_disks :: "(vbd_record \<times> vdi_record \<times> string option) list"
  p_ports :: "vif_record list"
  p_console :: parsed_console
  p_pair :: "kvp option"

definition nothing_parsed :: "string option \<Rightarrow> (vm_record \<times> vm_hardware) option \<Rightarrow> parsed" where
  "nothing_parsed vm vmr = \<lparr>p_vm = vm, p_rec = vmr, p_disks = [], p_ports = [], p_console = Con_none, p_pair = None\<rparr>"

text \<open>
  Without a record, the VM is the one that the instance names. A name that cannot be copied into
  the buffer leaves it uninitialised.
\<close>

definition named_vm ::
    "('x, 'r, 'z) hw_api_scheme \<Rightarrow> 'r setting_data \<Rightarrow> parsed \<Rightarrow> 'x \<Rightarrow> (bool \<times> parsed \<times> 'x) outcome" where
  "named_vm A data ps x =
     (case data of
        D_string s \<Rightarrow>
          (case CMPIStrncpySystemNameFromID True s 64 of
             None \<Rightarrow> Undefined
           | Some u \<Rightarrow>
               (case vm_get_by_uuid (vm_calls A) u x of
                  (None, x1) \<Rightarrow> Ret (False, ps, x1)
                | (Some vm, x1) \<Rightarrow>
                    (case vm_get_hardware A vm x1 of
                       (None, x2) \<Rightarrow> Ret (False, ps\<lparr>p_vm := Some vm\<rparr>, x2)
                     | (Some vmr, x2) \<Rightarrow> Ret (True, ps\<lparr>p_vm := Some vm, p_rec := Some vmr\<rparr>, x2))))
      | _ \<Rightarrow> Undefined)"

definition rasd_vm ::
    "('x, 'r, 'z) hw_api_scheme \<Rightarrow> 'r vssd \<Rightarrow> parsed \<Rightarrow> 'x \<Rightarrow> (bool \<times> parsed \<times> 'x) outcome" where
  "rasd_vm A i ps x =
     (case p_rec ps of
        Some _ \<Rightarrow> Ret (True, ps, x)
      | None \<Rightarrow>
          (case property_of i ''InstanceID'' of
             (CMPI_RC_OK, Some data) \<Rightarrow> named_vm A data ps x
           | _ \<Rightarrow>
               (case property_of i ''DeviceID'' of
                  (CMPI_RC_OK, Some data) \<Rightarrow> named_vm A data ps x
                | _ \<Rightarrow> Ret (False, ps, x))))"

text \<open>The setting data change the record or are appended; a console that fails after its allocation replaces the one before.\<close>

definition rasd_apply ::
    "('x, 'r, 'z) vsms_api_scheme \<Rightarrow> vm_resource_operation \<Rightarrow> bool \<Rightarrow> setting_kind \<Rightarrow> 'r vssd \<Rightarrow> parsed \<Rightarrow> 'x \<Rightarrow>
     (bool \<times> parsed \<times> 'x) outcome" where
  "rasd_apply A op strict kind i ps x =
     (let hardware = (\<lambda>conv. case p_rec ps of
            None \<Rightarrow> Undefined
          | Some (rec, hw) \<Rightarrow> bind_outcome (conv i hw op) (\<lambda>(good, hw1). Ret (good, ps\<lparr>p_rec := Some (rec, hw1)\<rparr>, x)))
      in (case kind of
            K_processor \<Rightarrow> hardware proc_rasd_to_vm_rec
          | K_memory \<Rightarrow> hardware memory_rasd_to_vm_rec
          | K_disk \<Rightarrow>
              bind_outcome (disk_rasd_to_vbd (dev A) i x) (\<lambda>(d, x1). case d of
                None \<Rightarrow> Ret (False, ps, x1) | Some disk \<Rightarrow> Ret (True, ps\<lparr>p_disks := p_disks ps @ [disk]\<rparr>, x1))
          | K_port \<Rightarrow>
              bind_outcome (network_rasd_to_vif (dev A) i strict x) (\<lambda>(v, x1). case v of
                None \<Rightarrow> Ret (False, ps, x1) | Some vif \<Rightarrow> Ret (True, ps\<lparr>p_ports := p_ports ps @ [vif]\<rparr>, x1))
          | K_console \<Rightarrow>
              bind_outcome (console_rasd_to_console_rec i) (\<lambda>(good, con). Ret (good, ps\<lparr>p_console := con\<rparr>, x))
          | K_pair \<Rightarrow>
              bind_outcome (kvp_rasd_to_kvp i) (\<lambda>pair. case pair of
                None \<Rightarrow> Ret (False, ps, x) | Some p \<Rightarrow> Ret (True, ps\<lparr>p_pair := Some p\<rparr>, x))
          | K_unknown \<Rightarrow> Ret (False, ps, x)))"

definition rasd_parse ::
    "('p, 'r) vsms_lib \<Rightarrow> ('x, 'r, 'z) vsms_api_scheme \<Rightarrow> vm_resource_operation \<Rightarrow> bool \<Rightarrow> ('p, 'r vssd) arg_value \<Rightarrow>
     parsed \<Rightarrow> 'x \<Rightarrow> (bool \<times> parsed \<times> 'x) outcome" where
  "rasd_parse L A op strict setting_data ps x =
     (case xen_utils_get_cmpi_instance (parse_setting L) (path_of L) (fetch_setting L) setting_data of
        None \<Rightarrow> Ret (False, ps, x)
      | Some (None, i) \<Rightarrow> Undefined
      | Some (Some p, i) \<Rightarrow>
          bind_outcome (rasd_vm A i ps x) (\<lambda>(found, ps1, x1).
            if found then rasd_apply A op strict (rasd_kind (class_of L p) (type_given i)) i ps1 x1
            else Ret (False, ps1, x1)))"

text \<open>The elements of an array in turn, up to the first that fails; a null element is a null reference.\<close>

fun rasd_parse_each ::
    "('p, 'r) vsms_lib \<Rightarrow> ('x, 'r, 'z) vsms_api_scheme \<Rightarrow> vm_resource_operation \<Rightarrow> bool \<Rightarrow> ('p, 'r vssd) arg_value list \<Rightarrow>
     parsed \<Rightarrow> 'x \<Rightarrow> (bool \<times> parsed \<times> 'x) outcome" where
  "rasd_parse_each L A op strict [] ps x = Ret (True, ps, x)"
| "rasd_parse_each L A op strict (d # ds) ps x =
     (case d of
        A_ref None \<Rightarrow> Ret (False, ps, x)
      | _ \<Rightarrow> bind_outcome (rasd_parse L A op strict d ps x) (\<lambda>(good, ps1, x1).
          if good then rasd_parse_each L A op strict ds ps1 x1 else Ret (False, ps1, x1)))"

text \<open>
  The argument of the methods, an array of instances, texts or references, or one instance or text; an empty array is
  taken for one of instances.
\<close>

definition elements_of_type :: "cmpi_type \<Rightarrow> ('p, 'i) arg_value list \<Rightarrow> bool" where
  "elements_of_type t es \<longleftrightarrow> list_all (\<lambda>e. arg_type e = t \<or> (case e of A_ref None \<Rightarrow> True | _ \<Rightarrow> False)) es"

definition settings_given :: "('p, 'i) arg_value \<Rightarrow> bool" where
  "settings_given v =
     (case v of
        A_array (Some es) \<Rightarrow>
          elements_of_type CMPI_instance es \<or> elements_of_type CMPI_string es \<or> elements_of_type CMPI_ref es
      | A_array None \<Rightarrow> True
      | A_instance i \<Rightarrow> True
      | A_string s \<Rightarrow> True
      | _ \<Rightarrow> False)"

definition parse_settings ::
    "('p, 'r) vsms_lib \<Rightarrow> ('x, 'r, 'z) vsms_api_scheme \<Rightarrow> vm_resource_operation \<Rightarrow> bool \<Rightarrow> ('p, 'r vssd) arg_value \<Rightarrow>
     parsed \<Rightarrow> 'x \<Rightarrow> (bool \<times> parsed \<times> 'x) outcome" where
  "parse_settings L A op strict v ps x =
     (case v of
        A_array (Some es) \<Rightarrow> rasd_parse_each L A op strict es ps x
      | A_array None \<Rightarrow> Undefined
      | _ \<Rightarrow> rasd_parse L A op strict v ps x)"

text \<open>The VM that resources are added to; its record may be missing. A reference with another key passes a null pointer on.\<close>

definition get_affected_configuration ::
    "('p, 'r) vsms_lib \<Rightarrow> ('x, 'r, 'z) hw_api_scheme \<Rightarrow> ('p, 'r vssd) method_args \<Rightarrow> 'x \<Rightarrow>
     ((string \<times> (vm_record \<times> vm_hardware) option) option \<times> 'x) outcome" where
  "get_affected_configuration L A argsin x =
     (let find = (\<lambda>uuid. case vm_get_by_uuid (vm_calls A) uuid x of
            (None, x1) \<Rightarrow> Ret (None, x1)
          | (Some vm, x1) \<Rightarrow> (case vm_get_hardware A vm x1 of (vmr, x2) \<Rightarrow> Ret (Some (vm, vmr), x2)))
      in (case GetArgument argsin ''AffectedConfiguration'' CMPI_ref of
            (_, Some (A_ref (Some p))) \<Rightarrow>
              (case key_of L p ''InstanceID'' of
                 (_, Some (A_string s)) \<Rightarrow>
                   (case CMPIStrncpySystemNameFromID True s 128 of None \<Rightarrow> Undefined | Some u \<Rightarrow> find u)
               | _ \<Rightarrow> Undefined)
          | _ \<Rightarrow>
              (case GetArgument argsin ''AffectedConfiguration'' CMPI_string of
                 (_, Some (A_string u)) \<Rightarrow> find u
               | _ \<Rightarrow> Ret (None, x))))"

section \<open>Creating devices\<close>

text \<open>A failure is a message, a success a handle.\<close>

definition vdi_find_default ::
    "('x, 'r, 'z) resource_api_scheme \<Rightarrow> vdi_record \<Rightarrow> string option \<Rightarrow> 'x \<Rightarrow> (string + string) \<times> 'x" where
  "vdi_find_default A vdi_rec sr x =
     (case (case i_uuid vdi_rec of Some u \<Rightarrow> vdi_get_by_uuid (dev A) u x | None \<Rightarrow> xen_vdi_create A (sr, vdi_rec) x) of
        (Some vdi, x1) \<Rightarrow> (Inr vdi, x1)
      | (None, x1) \<Rightarrow> (Inl (error_string (error_of A x1)), x1))"

definition vbd_create ::
    "('x, 'r, 'z) resource_api_scheme \<Rightarrow> string \<Rightarrow> string option \<Rightarrow> vbd_record \<Rightarrow> 'x \<Rightarrow> (string + string) \<times> 'x" where
  "vbd_create A vm vdi vbd_rec x =
     (let make = (\<lambda>rec y. case xen_vbd_create A (vm, vdi, if vdi = None \<and> d_type rec = VBD_cd then rec\<lparr>d_empty := True\<rparr> else rec) y of
            (Some vbd, y1) \<Rightarrow> (Inr vbd, y1) | (None, y1) \<Rightarrow> (Inl ''Error creating VBD'', y1))
      in (case d_device vbd_rec of
            Some d \<Rightarrow> make vbd_rec x
          | None \<Rightarrow>
              (case get_allowed_vbd_devices A vm x of
                 (Some (d # ds), x1) \<Rightarrow> make (vbd_rec\<lparr>d_device := Some d\<rparr>) x1
               | (_, x1) \<Rightarrow> (Inl ''No more devices available in VM'', x1))))"

text \<open>
  The message that no device is left is returned before the record's pointer to the caller's stack is cleared. The flag
  tells it.
\<close>

definition vif_create ::
    "('x, 'r, 'z) resource_api_scheme \<Rightarrow> string \<Rightarrow> vif_record \<Rightarrow> 'x \<Rightarrow> ((string \<times> bool) + string) \<times> 'x" where
  "vif_create A vm vif_rec x =
     (let make = (\<lambda>rec y. case xen_vif_create A (vm, rec) y of
            (Some vif, y1) \<Rightarrow> (Inr vif, y1) | (None, y1) \<Rightarrow> (Inl (error_string (error_of A y1), False), y1))
      in (case n_device vif_rec of
            Some d \<Rightarrow> make vif_rec x
          | None \<Rightarrow>
              (case get_allowed_vif_devices A vm x of
                 (Some (d # ds), x1) \<Rightarrow> make (vif_rec\<lparr>n_device := Some d\<rparr>) x1
               | (_, x1) \<Rightarrow> (Inl (''No more VIF devices available in VM'', True), x1))))"

definition console_create ::
    "('x, 'r, 'z) resource_api_scheme \<Rightarrow> string \<Rightarrow> console_record \<Rightarrow> 'x \<Rightarrow> (string + string) \<times> 'x" where
  "console_create A vm con_rec x =
     (case xen_console_create A (vm, con_rec) x of
        (Some con, x1) \<Rightarrow> (Inr con, x1)
      | (None, x1) \<Rightarrow> (Inl (error_string (error_of A x1)), x1))"


section \<open>The job\<close>

record add_context =
  ctx_rec :: "vm_record \<times> vm_hardware"
  ctx_disks :: "(vbd_record \<times> vdi_record \<times> string option) list"
  ctx_ports :: "vif_record list"
  ctx_console :: parsed_console
  remove_vm_on_error :: bool
  provision_disks :: bool
  memory_and_proc_need_updating :: bool

text \<open>The path of a new resource is added to the set; a path that could not be made is a null pointer.\<close>

definition add_op_to_set ::
    "('p, 'r) vsms_lib \<Rightarrow> vm_path option \<times> 'x \<Rightarrow> string_set option \<Rightarrow> (string_set option \<times> 'x) outcome" where
  "add_op_to_set L found st =
     (case found of
        (None, x) \<Rightarrow> Undefined
      | (Some p, x) \<Rightarrow>
          Ret (case xen_utils_CMPIObjectPath_to_WBEM_URI (printed L p) of
                 None \<Rightarrow> st | Some uri \<Rightarrow> snd (xen_utils_add_to_string_set True uri st), x))"

fun add_ports ::
    "('p, 'r) vsms_lib \<Rightarrow> ('x, 'r, 'z) resource_api_scheme \<Rightarrow> string \<Rightarrow> string \<Rightarrow> vif_record list \<Rightarrow> string_set option \<Rightarrow> 'x \<Rightarrow>
     (((string \<times> bool) + string_set option) \<times> 'x) outcome" where
  "add_ports L A vm u [] st x = Ret (Inr st, x)"
| "add_ports L A vm u (v # vs) st x =
     (case vif_create A vm v x of
        (Inl e, x1) \<Rightarrow> Ret (Inl e, x1)
      | (Inr vif, x1) \<Rightarrow>
          bind_outcome (add_op_to_set L (network_rasd_create_ref (dev A) u vif x1) st)
            (\<lambda>(st1, x2). add_ports L A vm u vs st1 x2))"

definition add_console ::
    "('p, 'r) vsms_lib \<Rightarrow> ('x, 'r, 'z) resource_api_scheme \<Rightarrow> string \<Rightarrow> string \<Rightarrow> parsed_console \<Rightarrow> string_set option \<Rightarrow> 'x \<Rightarrow>
     (((string \<times> bool) + string_set option) \<times> 'x) outcome" where
  "add_console L A vm u con st x =
     (case con of
        Con_none \<Rightarrow> Ret (Inr st, x)
      | Con_freed \<Rightarrow> Undefined
      | Con_live rec \<Rightarrow>
          (case console_create A vm rec x of
             (Inl e, x1) \<Rightarrow> Ret (Inl (e, False), x1)
           | (Inr c, x1) \<Rightarrow>
               bind_outcome (add_op_to_set L (console_rasd_create_ref (dev A) u c x1) st) (\<lambda>(st1, x2). Ret (Inr st1, x2))))"

definition add_disk ::
    "('x, 'r, 'z) resource_api_scheme \<Rightarrow> string \<Rightarrow> vbd_record \<times> vdi_record \<times> string option \<Rightarrow> 'x \<Rightarrow> (string + string) \<times> 'x" where
  "add_disk A vm disk x =
     (case disk of (vbd_rec, vdi_rec, sr) \<Rightarrow>
       if sr \<noteq> None \<or> i_uuid vdi_rec \<noteq> None
       then (case vdi_find_default A vdi_rec sr x of
               (Inl e, x1) \<Rightarrow> (Inl e, x1)
             | (Inr vdi, x1) \<Rightarrow> vbd_create A vm (Some vdi) vbd_rec x1)
       else vbd_create A vm None vbd_rec x)"

fun add_disks ::
    "('p, 'r) vsms_lib \<Rightarrow> ('x, 'r, 'z) resource_api_scheme \<Rightarrow> string \<Rightarrow> string \<Rightarrow>
     (vbd_record \<times> vdi_record \<times> string option) list \<Rightarrow> string_set option \<Rightarrow> 'x \<Rightarrow>
     (((string \<times> bool) + string_set option) \<times> 'x) outcome" where
  "add_disks L A vm u [] st x = Ret (Inr st, x)"
| "add_disks L A vm u (d # ds) st x =
     (case add_disk A vm d x of
        (Inl e, x1) \<Rightarrow> Ret (Inl (e, False), x1)
      | (Inr vbd, x1) \<Rightarrow>
          bind_outcome (add_op_to_set L (disk_rasd_create_ref (dev A) u vbd x1) st)
            (\<lambda>(st1, x2). add_disks L A vm u ds st1 x2))"

text \<open>Ports, console and disks, up to the first failure.\<close>

definition then_add ::
    "((('e + string_set option) \<times> 'x) outcome) \<Rightarrow> (string_set option \<Rightarrow> 'x \<Rightarrow> (('e + string_set option) \<times> 'x) outcome) \<Rightarrow>
     (('e + string_set option) \<times> 'x) outcome" where
  "then_add first next_one =
     bind_outcome first (\<lambda>(r, x). case r of Inl e \<Rightarrow> Ret (Inl e, x) | Inr st \<Rightarrow> next_one st x)"

definition add_devices ::
    "('p, 'r) vsms_lib \<Rightarrow> ('x, 'r, 'z) resource_api_scheme \<Rightarrow> string \<Rightarrow> add_context \<Rightarrow> 'x \<Rightarrow>
     (((string \<times> bool) + string_set option) \<times> 'x) outcome" where
  "add_devices L A vm c x =
     (let u = vm_uuid (fst (ctx_rec c))
      in then_add (then_add (add_ports L A vm u (ctx_ports c) None x) (add_console L A vm u (ctx_console c)))
           (add_disks L A vm u (ctx_disks c)))"

text \<open>
  The result, none where the provisioning does not end: success, the status if one was written, whether
  a port record is left with a pointer to the stack.
\<close>

definition update_hardware ::
    "('x, 'r, 'z) hw_api_scheme \<Rightarrow> string \<Rightarrow> add_context \<Rightarrow> 'x \<Rightarrow> 'x outcome" where
  "update_hardware A vm c x =
     (if memory_and_proc_need_updating c
      then bind_outcome (proc_rasd_modify A vm (snd (ctx_rec c)) (snd (memory_rasd_modify A vm (snd (ctx_rec c)) x)))
        (\<lambda>(_, x1). Ret x1)
      else Ret x)"

definition vm_add_resources ::
    "('p, 'r) vsms_lib \<Rightarrow> ('x, 'r, 'z) resource_api_scheme \<Rightarrow> string \<Rightarrow> add_context \<Rightarrow> 'x \<Rightarrow>
     (bool \<times> (nat \<times> string) option \<times> bool \<times> 'x) option outcome" where
  "vm_add_resources L A job_task c x =
     (case vm_get_by_uuid (vm_calls A) (vm_uuid (fst (ctx_rec c))) x of
        (None, x1) \<Rightarrow> Ret (Some (False, Some (1, ''Failed to find virtual system''), False, x1))
      | (Some vm, x1) \<Rightarrow>
          let failed = (\<lambda>st dangling y. Ret (Some (False, st, dangling,
                if remove_vm_on_error c then snd (vm_destroy (dev A) vm True y) else y)))
          in bind_outcome (if provision_disks c then vm_provision_disks A vm (other_config (fst (ctx_rec c))) None x1
                 else Ret (Some (True, None, None, x1)))
              (\<lambda>res. case res of
                 None \<Rightarrow> Ret None
               | Some (False, st, _, x2) \<Rightarrow> failed st False x2
               | Some (True, st, _, x2) \<Rightarrow>
                   bind_outcome (update_hardware A vm c x2) (\<lambda>x3.
                   bind_outcome (add_devices L A vm c x3) (\<lambda>(r, x4). case r of
                     Inl (e, dangling) \<Rightarrow> failed (Some (1, e)) dangling x4
                   | Inr st \<Rightarrow>
                       bind_outcome (xen_utils_flatten_string_set st '';'') (\<lambda>paths.
                         Ret (Some (True, Some (0, []), False,
                           case paths of None \<Rightarrow> x4
                           | Some s \<Rightarrow> task_add_to_other_config A (job_task, ''AffectedResources'', s) x4)))))))"

text \<open>The records are freed at the end, also what they point to.\<close>

definition add_resources_job ::
    "('p, 'r) vsms_lib \<Rightarrow> ('x, 'r, 'z) resource_api_scheme \<Rightarrow> add_context xen_job \<Rightarrow> 'x \<Rightarrow> 'x option outcome" where
  "add_resources_job L A job x =
     bind_outcome (vm_add_resources L A (task_handle job) (callback job)
         (job_change_state (task_calls A) job Job_Running 0 0 None x))
       (\<lambda>res. case res of
          None \<Rightarrow> Ret None
        | Some (True, _, _, x1) \<Rightarrow> Ret (Some (job_change_state (task_calls A) job Job_Completed 100 0 (Some ''Successfull'') x1))
        | Some (False, st, dangling, x1) \<Rightarrow>
            (case st of
               None \<Rightarrow> Undefined
             | Some (rc, msg) \<Rightarrow>
                 if dangling then Undefined
                 else Ret (Some (job_change_state (task_calls A) job Job_Exception 100 (int rc) (Some msg) x1))))"

section \<open>Adding, changing and removing a list of resources\<close>

text \<open>One device after the other, with the error reset before each; the message of the last failure is kept.\<close>

fun on_each ::
    "('x, 'z) disk_api_scheme \<Rightarrow> ('d \<Rightarrow> 'x \<Rightarrow> (bool \<times> 'x) outcome) \<Rightarrow> string \<Rightarrow> 'd list \<Rightarrow> string option \<Rightarrow> 'x \<Rightarrow>
     (string option \<times> 'x) outcome" where
  "on_each D act failure [] msg x = Ret (msg, x)"
| "on_each D act failure (d # ds) msg x =
     bind_outcome (act d (reset_disks D x)) (\<lambda>(good, x1). on_each D act failure ds (if good then msg else Some failure) x1)"

definition remove_disk :: "('x, 'z) dev_api_scheme \<Rightarrow> vbd_record \<times> vdi_record \<times> string option \<Rightarrow> 'x \<Rightarrow> (bool \<times> 'x) outcome" where
  "remove_disk D disk x =
     (case vbd_get_by_uuid D (d_uuid (fst disk)) x of
        (None, x1) \<Rightarrow> Ret (False, x1)
      | (Some vbd, x1) \<Rightarrow> Ret (vbd_destroy D vbd False x1))"

definition remove_port :: "('x, 'r, 'z) resource_api_scheme \<Rightarrow> vif_record \<Rightarrow> 'x \<Rightarrow> (bool \<times> 'x) outcome" where
  "remove_port A vif_rec x =
     (case vif_get_by_uuid (dev A) (n_uuid vif_rec) x of
        (None, x1) \<Rightarrow> Ret (False, x1)
      | (Some vif, x1) \<Rightarrow> Ret (xen_vif_destroy A vif x1))"

definition change_devices ::
    "('x, 'r, 'z) resource_api_scheme \<Rightarrow> vm_resource_operation \<Rightarrow> parsed \<Rightarrow> 'x \<Rightarrow> (string option \<times> 'x) outcome" where
  "change_devices A op ps x =
     (if op = resource_modify
      then bind_outcome (on_each (dev A) (\<lambda>(vbd, vdi, sr). disk_rasd_modify (dev A) vbd vdi)
             ''ERROR: Failed to modify at least one disk resource'' (p_disks ps) None x)
           (\<lambda>(msg, x1). on_each (dev A) (\<lambda>vif y. Ret (network_rasd_modify (dev A) vif y))
             ''ERROR: Failed to modify at least one network interface resource'' (p_ports ps) msg x1)
      else bind_outcome (on_each (dev A) (remove_disk (dev A)) ''ERROR: Failed to delete at least one disk resource'' (p_disks ps) None x)
           (\<lambda>(msg, x1). on_each (dev A) (remove_port A) ''Failed to delete at least one NetworkPort resource'' (p_ports ps) msg x1))"

text \<open>Processors first, then memory.\<close>

definition change_hardware ::
    "('x, 'r, 'z) hw_api_scheme \<Rightarrow> string \<Rightarrow> vm_hardware \<Rightarrow> 'x \<Rightarrow> 'x outcome" where
  "change_hardware A vm hw x =
     bind_outcome (proc_rasd_modify A vm hw x) (\<lambda>(_, x1). Ret (snd (memory_rasd_modify A vm hw x1)))"

definition parse_failed :: string where
  "parse_failed = ''ERROR: Couldn'' @ [CHR 0x27] @ ''t parse the '' @ quoted ''ResourceSettings'' @ '' parameter array''"

type_synonym 'x method_result = "(int \<times> (cmpi_rc \<times> string) \<times> (add_context xen_job \<times> string \<times> string) option \<times> 'x) outcome"

definition ends_with ::
    "('x, 'z) vm_api_scheme \<Rightarrow> int \<Rightarrow> cmpi_rc \<Rightarrow> string \<Rightarrow> (add_context xen_job \<times> string \<times> string) option \<Rightarrow> 'x \<Rightarrow> 'x method_result" where
  "ends_with A rc st msg job x = Ret (rc, method_status (error_of A x) st msg, job, x)"

definition change_resources ::
    "('p, 'r) vsms_lib \<Rightarrow> ('x, 'r, 'z) resource_api_scheme \<Rightarrow> vm_resource_operation \<Rightarrow> parsed \<Rightarrow> 'x \<Rightarrow> 'x method_result" where
  "change_resources L A op ps x =
     (let devices = (\<lambda>y. bind_outcome (change_devices A op ps y) (\<lambda>(msg, y1). case msg of
              None \<Rightarrow> ends_with A VSMS_Completed CMPI_RC_OK parse_failed None y1
            | Some m \<Rightarrow> ends_with A VSMS_Failed CMPI_RC_ERR_FAILED m None y1))
      in (case (op = resource_delete, p_pair ps) of
            (True, Some kv) \<Rightarrow>
              bind_outcome (xen_utils_delete_kvp (pair_server L) (vm_calls A) (session_ref L) kv x) (\<lambda>(rc, x1).
                if rc \<noteq> Kvp_ok
                then ends_with A VSMS_Failed CMPI_RC_ERR_FAILED
                  ''ERROR: Failed to delete KVP. Please check the guest service is running.'' None x1
                else ends_with A VSMS_Completed CMPI_RC_OK parse_failed None x1)
          | _ \<Rightarrow>
              (case p_rec ps of
                 None \<Rightarrow> devices x
               | Some (rec, hw) \<Rightarrow>
                   (case p_vm ps of
                      None \<Rightarrow> Undefined
                    | Some vm \<Rightarrow>
                        bind_outcome (change_hardware A vm hw x) (\<lambda>x1.
                          if session_ok (vm_calls A) x1 then devices x1
                          else ends_with A VSMS_Completed CMPI_RC_ERR_INVALID_PARAMETER parse_failed None x1)))))"

text \<open>A pair is sent at once, and the rest is dropped; else a job adds the devices.\<close>

definition add_resources ::
    "('p, 'r) vsms_lib \<Rightarrow> ('x, 'r, 'z) resource_api_scheme \<Rightarrow> bool \<Rightarrow> parsed \<Rightarrow> 'x \<Rightarrow> 'x method_result" where
  "add_resources L A mem ps x =
     (case (p_vm ps, p_rec ps) of
        (Some vm, Some (rec, hw)) \<Rightarrow>
          (case p_pair ps of
             Some kv \<Rightarrow>
               bind_outcome (xen_utils_push_kvp (pair_server L) (vm_calls A) (session_ref L) (kv\<lparr>kvp_vm := Some (vm_uuid rec)\<rparr>) x)
                 (\<lambda>(rc, x1).
                   if rc \<noteq> Kvp_ok then ends_with A VSMS_Invalid_Parameter CMPI_RC_ERR_INVALID_PARAMETER parse_failed None x1
                   else ends_with A VSMS_Completed CMPI_RC_OK parse_failed None x1)
           | None \<Rightarrow>
               bind_outcome (change_hardware A vm hw x) (\<lambda>x1.
               bind_outcome (job_create (task_calls A) mem ''Xen_VirtualSystemModifyResourcesJob'' (vm_name_label rec)
                   \<lparr>ctx_rec = (rec, hw), ctx_disks = p_disks ps, ctx_ports = p_ports ps, ctx_console = p_console ps,
                    remove_vm_on_error = False, provision_disks = False, memory_and_proc_need_updating = False\<rparr> x1)
                 (\<lambda>(made, x2). case made of
                    None \<Rightarrow> ends_with A VSMS_Invalid_Parameter CMPI_RC_ERR_INVALID_PARAMETER
                      (''ERROR: Couldnt'' @ [CHR 0x27] @ '' prepare the AddResource job'') None x2
                  | Some job \<Rightarrow> ends_with A VSMS_Job_Started CMPI_RC_OK parse_failed (Some job) x2)))
      | _ \<Rightarrow> Undefined)"

definition AddDeleteOrModifyResourceSettings ::
    "('p, 'r) vsms_lib \<Rightarrow> ('x, 'r, 'z) resource_api_scheme \<Rightarrow> bool \<Rightarrow> vm_resource_operation \<Rightarrow> ('p, 'r vssd) method_args \<Rightarrow> nat \<Rightarrow> 'x \<Rightarrow>
     'x method_result" where
  "AddDeleteOrModifyResourceSettings L A mem op argsin argsInCount x =
     (let refuse = (\<lambda>msg. ends_with A VSMS_Invalid_Parameter CMPI_RC_ERR_INVALID_PARAMETER msg None);
          settings = (\<lambda>ps y. case argsin ''ResourceSettings'' of
              (CMPI_RC_OK, Some v) \<Rightarrow>
                if settings_given v
                then bind_outcome (parse_settings L A op (op = resource_add) v ps y) (\<lambda>(good, ps1, y1).
                  if \<not> good then refuse parse_failed y1
                  else if op = resource_add then add_resources L A mem ps1 y1
                  else change_resources L A op ps1 y1)
                else refuse (''ERROR: Couldn'' @ [CHR 0x27] @ ''t find the '' @ quoted ''ResourceSettings'' @ '' parameter.'') y
            | _ \<Rightarrow> refuse (''ERROR: Couldn'' @ [CHR 0x27] @ ''t find the '' @ quoted ''ResourceSettings'' @ '' parameter.'') y)
      in if argsInCount \<noteq> (if op = resource_add then 2 else 1)
         then refuse ''ERROR: Wrong number of arguments passed in. Expecting 2.'' x
         else if op = resource_add
         then bind_outcome (get_affected_configuration L A argsin x) (\<lambda>(found, x1). case found of
             None \<Rightarrow> refuse (''ERROR: Couldn'' @ [CHR 0x27] @ ''t get the '' @ quoted ''AffectedConfiguration'' @ '' parameter'') x1
           | Some (vm, vmr) \<Rightarrow> settings (nothing_parsed (Some vm) vmr) x1)
         else settings (nothing_parsed None None) x)"

section \<open>Adding one resource\<close>

text \<open>
  The kind is chosen otherwise than for a list: the class of processors, memory and ports counts only
  with the matching type, and consoles are unknown. The type is read without a test that it was given.
\<close>

definition add_kind :: "string \<Rightarrow> nat \<Rightarrow> setting_kind" where
  "add_kind cn t =
     (let generic = (cn = ''CIM_ResourceAllocationSettingData'')
      in if (cn = ''Xen_ProcessorSettingData'' \<or> generic) \<and> t = 3 then K_processor
         else if (cn = ''Xen_MemorySettingData'' \<or> generic) \<and> t = 4 then K_memory
         else if cn = ''Xen_DiskSettingData'' \<or> generic \<and> t \<in> {19, 16, 15, 17} then K_disk
         else if (cn = ''Xen_NetworkPortSettingData'' \<or> generic) \<and> t = 33 then K_port
         else if cn = ''Xen_KVP'' then K_pair else K_unknown)"

definition type_read :: "string \<Rightarrow> 'r vssd \<Rightarrow> nat outcome" where
  "type_read cn i =
     (if cn \<in> {''Xen_ProcessorSettingData'', ''Xen_MemorySettingData'', ''Xen_NetworkPortSettingData'', ''CIM_ResourceAllocationSettingData''}
      then bind_outcome (resource_type i) (\<lambda>t. case t of None \<Rightarrow> Undefined | Some n \<Rightarrow> Ret n)
      else Ret 0)"

definition add_one_disk ::
    "('x, 'r, 'z) resource_api_scheme \<Rightarrow> string \<Rightarrow> string option \<Rightarrow> vbd_record \<times> vdi_record \<times> string option \<Rightarrow> 'x \<Rightarrow>
     (bool \<times> vm_path option \<times> 'x) outcome" where
  "add_one_disk A vm u disk x =
     (case disk of (vbd_rec, vdi_rec, sr) \<Rightarrow>
       let (sr1, x1) = (if sr = None \<and> i_uuid vdi_rec = None then sr_find_default A x else (sr, x));
           (new_vdi, x2) = (if sr1 \<noteq> None \<or> i_uuid vdi_rec \<noteq> None
             then (case vdi_find_default A vdi_rec sr1 x1 of (Inr vdi, y) \<Rightarrow> (Some vdi, y) | (Inl e, y) \<Rightarrow> (None, y))
             else (None, x1))
       in if session_ok (vm_calls A) x2
          then (case vbd_create A vm new_vdi vbd_rec x2 of
                  (Inl e, x3) \<Rightarrow> Ret (False, None, x3)
                | (Inr vbd, x3) \<Rightarrow>
                    (case u of
                       None \<Rightarrow> Undefined
                     | Some uuid \<Rightarrow> (case disk_rasd_create_ref (dev A) uuid vbd x3 of (p, x4) \<Rightarrow> Ret (True, p, x4))))
          else Ret (False, None, x2))"

definition vm_add_resource ::
    "('p, 'r) vsms_lib \<Rightarrow> ('x, 'r, 'z) resource_api_scheme \<Rightarrow> string \<Rightarrow> (vm_record \<times> vm_hardware) option \<Rightarrow> 'r vssd \<Rightarrow> 'x \<Rightarrow>
     (bool \<times> vm_path option \<times> 'x) outcome" where
  "vm_add_resource L A vm vmr i x =
     (let cn = class_of L (path_of L i);
          u = map_option (\<lambda>vr. vm_uuid (fst vr)) vmr;
          hardware = (\<lambda>conv calls ref. case vmr of
              None \<Rightarrow> Undefined
            | Some (rec, hw) \<Rightarrow>
                bind_outcome (conv i hw resource_add) (\<lambda>(good, hw1).
                  if \<not> good then Ret (False, None, x)
                  else (case all_calls (calls hw1) x of
                    (False, x1) \<Rightarrow> Ret (False, None, x1) | (True, x1) \<Rightarrow> Ret (True, Some (ref (vm_uuid rec)), x1))))
      in bind_outcome (type_read cn i) (\<lambda>t. case add_kind cn t of
           K_processor \<Rightarrow>
             hardware proc_rasd_to_vm_rec (\<lambda>h. [set_vcpus_max A vm (vcpus_max h), set_vcpus_at_startup A vm (vcpus_at_startup h),
               set_vcpus_params A vm (vcpus_params h)]) proc_rasd_create_ref
         | K_memory \<Rightarrow>
             hardware memory_rasd_to_vm_rec (\<lambda>h. [set_memory_limits A vm (static_min h, static_max h, dynamic_min h, dynamic_max h)])
               memory_rasd_create_ref
         | K_disk \<Rightarrow>
             bind_outcome (disk_rasd_to_vbd (dev A) i x) (\<lambda>(d, x1). case d of
               None \<Rightarrow> Ret (False, None, x1) | Some disk \<Rightarrow> add_one_disk A vm u disk x1)
         | K_port \<Rightarrow>
             bind_outcome (network_rasd_to_vif (dev A) i True x) (\<lambda>(v, x1). case v of
               None \<Rightarrow> Ret (False, None, x1)
             | Some vif_rec \<Rightarrow>
                 (case vif_create A vm vif_rec x1 of
                    (Inl e, x2) \<Rightarrow> Ret (False, None, x2)
                  | (Inr vif, x2) \<Rightarrow>
                      (case u of
                         None \<Rightarrow> Undefined
                       | Some uuid \<Rightarrow> (case network_rasd_create_ref (dev A) uuid vif x2 of (p, x3) \<Rightarrow> Ret (True, p, x3)))))
         | K_pair \<Rightarrow>
             bind_outcome (kvp_rasd_to_kvp i) (\<lambda>kv. case kv of
               None \<Rightarrow> Ret (False, None, x)
             | Some p \<Rightarrow>
                 (case u of
                    None \<Rightarrow> Undefined
                  | Some uuid \<Rightarrow>
                      bind_outcome (xen_utils_push_kvp (pair_server L) (vm_calls A) (session_ref L) (p\<lparr>kvp_vm := Some uuid\<rparr>) x)
                        (\<lambda>(rc, x1). Ret (rc = Kvp_ok, None, x1))))
         | _ \<Rightarrow> Ret (False, None, x)))"

text \<open>The hardware of the record that was fetched last, kept beside the state.\<close>

definition beside :: "('x \<Rightarrow> 'a \<times> 'x) \<Rightarrow> 'x \<times> 'h \<Rightarrow> 'a \<times> 'x \<times> 'h" where
  "beside f xh = (case xh of (x, h) \<Rightarrow> case f x of (r, x1) \<Rightarrow> (r, x1, h))"

definition with_hardware :: "('x, 'r, 'z) hw_api_scheme \<Rightarrow> ('x \<times> vm_hardware option) sdk" where
  "with_hardware A =
     (let K = vm_calls A
      in \<lparr>session_ok = (\<lambda>(x, h). session_ok K x), clear_error = (\<lambda>(x, h). (clear_error K x, h)), vm_get_all = beside (vm_get_all K),
          vm_get_record = (\<lambda>vm (x, h). case vm_get_hardware A vm x of
              (None, x1) \<Rightarrow> (None, x1, h) | (Some (rec, hw), x1) \<Rightarrow> (Some rec, x1, Some hw)),
          vm_get_by_uuid = (\<lambda>u. beside (vm_get_by_uuid K u)), host_get_address = (\<lambda>h. beside (host_get_address K h))\<rparr>)"

text \<open>The result with the reference of the new resource, which may be a null reference.\<close>

definition AddResourceSetting ::
    "('p, 'r) vsms_lib \<Rightarrow> ('x, 'r, 'z) resource_api_scheme \<Rightarrow> ('p, 'r vssd) method_args \<Rightarrow> nat \<Rightarrow> 'x \<Rightarrow>
     (int \<times> (cmpi_rc \<times> string) \<times> vm_path option option \<times> 'x) outcome" where
  "AddResourceSetting L A argsin argsInCount x =
     (let ends = (\<lambda>rc st msg ref y. Ret (rc, method_status (error_of A y) st msg, ref, y));
          refuse = (\<lambda>msg y. ends VSMS_Invalid_Parameter CMPI_RC_ERR_INVALID_PARAMETER msg None y);
          add = (\<lambda>vm vmr i y. bind_outcome (vm_add_resource L A vm vmr i y) (\<lambda>(good, p, y1).
              if good then ends VSMS_Completed CMPI_RC_OK unknown_error (Some p) y1
              else ends VSMS_Failed CMPI_RC_ERR_FAILED
                ''ERROR: Failed to add the resource to the Xen_ComputerSystem instance'' None y1))
      in if argsInCount \<noteq> 2
         then refuse ''ERROR: Wrong number of arguments passed into method. Expecting 2.'' x
         else (case xen_utils_get_affectedsystem (with_hardware A) (key_of L) argsin (x, None) of
            (_, None, x1, h) \<Rightarrow> refuse (''ERROR: Couldn'' @ [CHR 0x27] @ ''t get the '' @ quoted ''AffectedSystem'' @ '' parameter'') x1
          | (_, Some (vm, rec), x1, h) \<Rightarrow>
              let vmr = (case (rec, h) of (Some r, Some hw) \<Rightarrow> Some (r, hw) | _ \<Rightarrow> None)
              in (case GetArgument argsin ''ResourceSetting'' CMPI_instance of
                    (_, Some (A_instance i)) \<Rightarrow> add vm vmr i x1
                  | _ \<Rightarrow>
                      (case GetArgument argsin ''ResourceSetting'' CMPI_string of
                         (_, Some (A_string s)) \<Rightarrow>
                           (case parse_setting L s of
                              None \<Rightarrow> refuse (''ERROR: Failed to parse the '' @ quoted ''ResourceSetting'' @ '' parameter.'') x1
                            | Some i \<Rightarrow> add vm vmr i x1)
                       | _ \<Rightarrow> refuse (''ERROR: Couldn'' @ [CHR 0x27] @ ''t get the '' @ quoted ''ResourceSetting'' @ '' parameter'') x1))))"


section \<open>Lemmas\<close>

text \<open>Settings of processors and memory alone, and what they make of the hardware of a record.\<close>

definition setting_kind_of :: "('p, 'r) vsms_lib \<Rightarrow> 'r vssd \<Rightarrow> setting_kind" where
  "setting_kind_of L i = rasd_kind (class_of L (path_of L i)) (type_given i)"

definition setting_hardware ::
    "('p, 'r) vsms_lib \<Rightarrow> vm_resource_operation \<Rightarrow> 'r vssd \<Rightarrow> vm_hardware \<Rightarrow> vm_hardware option" where
  "setting_hardware L op i h =
     (case (case setting_kind_of L i of
              K_processor \<Rightarrow> proc_rasd_to_vm_rec i h op | K_memory \<Rightarrow> memory_rasd_to_vm_rec i h op | _ \<Rightarrow> Ret (False, h)) of
        Ret (good, h1) \<Rightarrow> if good then Some h1 else None
      | Undefined \<Rightarrow> None)"

fun settings_hardware ::
    "('p, 'r) vsms_lib \<Rightarrow> vm_resource_operation \<Rightarrow> 'r vssd list \<Rightarrow> vm_hardware \<Rightarrow> vm_hardware option" where
  "settings_hardware L op [] h = Some h"
| "settings_hardware L op (i # is) h =
     (case setting_hardware L op i h of None \<Rightarrow> None | Some h1 \<Rightarrow> settings_hardware L op is h1)"

lemma apply_hardware_setting:
  assumes "setting_hardware L op i h = Some h1" and "p_rec ps = Some (rec, h)"
  shows "rasd_apply A op strict (setting_kind_of L i) i ps x = Ret (True, ps\<lparr>p_rec := Some (rec, h1)\<rparr>, x)"
  using assms by (cases "setting_kind_of L i") (auto simp: setting_hardware_def rasd_apply_def split: if_splits outcome.splits)

lemma parse_hardware_settings:
  "settings_hardware L op is h = Some h' \<Longrightarrow> p_rec ps = Some (rec, h) \<Longrightarrow>
   rasd_parse_each L A op strict (map A_instance is) ps x = Ret (True, ps\<lparr>p_rec := Some (rec, h')\<rparr>, x)"
proof (induction "is" arbitrary: h ps)
  case (Cons i "is")
  obtain h1 where h1: "setting_hardware L op i h = Some h1" "settings_hardware L op is h1 = Some h'"
    using Cons.prems(1) by (auto split: option.splits)
  have "rasd_parse L A op strict (A_instance i) ps x = Ret (True, ps\<lparr>p_rec := Some (rec, h1)\<rparr>, x)"
    using Cons.prems(2) apply_hardware_setting [OF h1(1) Cons.prems(2), of A strict x]
    by (simp add: rasd_parse_def xen_utils_get_cmpi_instance_def rasd_vm_def setting_kind_of_def)
  then show ?case using Cons.IH [OF h1(2), of "ps\<lparr>p_rec := Some (rec, h1)\<rparr>"] by simp
qed simp

text \<open>The VM that an instance names.\<close>

definition names_vm :: "'r vssd \<Rightarrow> string \<Rightarrow> bool" where
  "names_vm i u \<longleftrightarrow> (\<exists>s. property_of i ''InstanceID'' = (CMPI_RC_OK, Some (D_string s)) \<and> CMPIStrncpySystemNameFromID True s 64 = Some u)"

lemma parse_first_setting:
  assumes i: "names_vm i u" and found: "vm_get_by_uuid (vm_calls A) u x = (Some vm, x1)" "vm_get_hardware A vm x1 = (Some (rec, h), x2)"
    and h': "settings_hardware L op (i # is) h = Some h'"
  shows "rasd_parse_each L A op strict (map A_instance (i # is)) (nothing_parsed None None) x =
    Ret (True, nothing_parsed (Some vm) (Some (rec, h')), x2)"
proof -
  let ?ps = "nothing_parsed (Some vm) (Some (rec, h))"
  obtain h1 where h1: "setting_hardware L op i h = Some h1" "settings_hardware L op is h1 = Some h'"
    using h' by (auto split: option.splits)
  have "p_rec ?ps = Some (rec, h)" by (simp add: nothing_parsed_def)
  note a = apply_hardware_setting [OF h1(1) this, of A strict x2]
  have "rasd_parse L A op strict (A_instance i) (nothing_parsed None None) x = Ret (True, ?ps\<lparr>p_rec := Some (rec, h1)\<rparr>, x2)"
    using i found a
    by (auto simp: rasd_parse_def xen_utils_get_cmpi_instance_def rasd_vm_def named_vm_def names_vm_def setting_kind_of_def nothing_parsed_def)
  then show ?thesis using parse_hardware_settings [OF h1(2), of "?ps\<lparr>p_rec := Some (rec, h1)\<rparr>" rec A strict x2]
    by (simp add: nothing_parsed_def)
qed

lemma change_hardware_sets:
  assumes S: "hw_service A view" and h: "view x vm = Some h"
  shows "\<exists>x'. change_hardware A vm hw x = Ret x' \<and> session_ok (vm_calls A) x' \<and>
    view x' = (view x)(vm \<mapsto> merge_memory hw (merge_vcpus hw h))"
proof -
  obtain rc y where y: "proc_rasd_modify A vm hw x = Ret (rc, y)" "session_ok (vm_calls A) y"
    "view y = (view x)(vm \<mapsto> merge_vcpus hw h)" using proc_modify_sets [OF S h] by metis
  have "view y vm = Some (merge_vcpus hw h)" by (simp add: y(3))
  from memory_modify_sets [OF S y(2) this, of hw] obtain z where
    z: "memory_rasd_modify A vm hw y = (merge_memory hw (merge_vcpus hw h) \<noteq> merge_vcpus hw h, z)" "session_ok (vm_calls A) z"
    "view z = (view y)(vm \<mapsto> merge_memory hw (merge_vcpus hw h))" by blast
  have "view z = (view x)(vm \<mapsto> merge_memory hw (merge_vcpus hw h))" unfolding z(3) y(3) by simp
  then show ?thesis using y(1) z by (simp add: change_hardware_def)
qed

text \<open>C13. Settings of processors and memory in one call of ModifyResourceSettings all go to the VM that the first one names:
  its hardware becomes what they ask for, one after the other, and no other VM changes, also if
  the later settings name others; the call reports success.\<close>

theorem settings_go_to_first_vm:
  assumes S: "hw_service A view" and h: "view x vm = Some h" and x: "session_ok (vm_calls A) x"
    and lookup: "names_vm i u" "vm_get_by_uuid (vm_calls A) u x = (Some vm, x1)" "session_ok (vm_calls A) x1" "view x1 = view x"
    and settings: "settings_hardware L resource_modify (i # is) h = Some h'"
    and arg: "argsin ''ResourceSettings'' = (CMPI_RC_OK, Some (A_array (Some (map A_instance (i # is)))))"
  shows "\<exists>x'. AddDeleteOrModifyResourceSettings L A mem resource_modify argsin 1 x = Ret (VSMS_Completed, (CMPI_RC_OK, []), None, x') \<and>
    view x' = (view x)(vm \<mapsto> merge_memory h' (merge_vcpus h' h))"
proof -
  have "view x1 vm = Some h" using h lookup(4) by simp
  then obtain v x2 where "vm_get_hardware A vm x1 = (Some v, x2)" "snd v = h" "view x2 = view x1"
    using getter_callE [OF hw_serviceD(3) [OF S] lookup(3)] by metis
  then obtain rec where x2: "vm_get_hardware A vm x1 = (Some (rec, h), x2)" "view x2 = view x1" by (cases v) auto
  let ?ps = "nothing_parsed (Some vm) (Some (rec, h'))"
  have parsed: "rasd_parse_each L A resource_modify False (map A_instance (i # is)) (nothing_parsed None None) x = Ret (True, ?ps, x2)"
    using parse_first_setting [OF lookup(1,2) x2(1) settings] by simp
  have given: "settings_given (the (snd (argsin ''ResourceSettings'')))"
    by (simp add: arg settings_given_def elements_of_type_def list_all_iff)
  have "view x2 vm = Some h" using h x2(2) lookup(4) by simp
  from change_hardware_sets [OF S this, of h'] obtain x3 where x3: "change_hardware A vm h' x2 = Ret x3"
    "session_ok (vm_calls A) x3" "view x3 = (view x2)(vm \<mapsto> merge_memory h' (merge_vcpus h' h))" by blast
  have "change_resources L A resource_modify ?ps x2 = Ret (VSMS_Completed, (CMPI_RC_OK, []), None, x3)"
    using x3 by (simp add: change_resources_def nothing_parsed_def change_devices_def ends_with_def method_status_def xen_utils_set_status_def Let_def)
  then have "AddDeleteOrModifyResourceSettings L A mem resource_modify argsin 1 x = Ret (VSMS_Completed, (CMPI_RC_OK, []), None, x3)"
    using given [unfolded arg snd_conv option.sel] parsed unfolding AddDeleteOrModifyResourceSettings_def Let_def arg
    by (simp only: parse_settings_def prod.case option.case cmpi_rc.case arg_value.case if_True vm_resource_operation.distinct
        bind_outcome.simps simp_thms if_False)
  moreover have "view x3 = (view x)(vm \<mapsto> merge_memory h' (merge_vcpus h' h))" using x3(3) x2(2) lookup(4) by simp
  ultimately show ?thesis by blast
qed


section \<open>What every call keeps\<close>

text \<open>A condition on the daemon that none of the calls of the job breaks is kept by the job.\<close>

definition keeps :: "('x \<Rightarrow> bool) \<Rightarrow> ('x \<Rightarrow> 'a \<times> 'x) \<Rightarrow> bool" where
  "keeps P f \<longleftrightarrow> (\<forall>x. P x \<longrightarrow> P (snd (f x)))"

lemma keepsD: "keeps P f \<Longrightarrow> P x \<Longrightarrow> f x = (r, y) \<Longrightarrow> P y"
  unfolding keeps_def by (metis snd_conv)

lemma keeps_snd: "keeps P f \<Longrightarrow> P x \<Longrightarrow> P (snd (f x))"
  by (simp add: keeps_def)

definition keeps_calls :: "('x, 'r, 'z) resource_api_scheme \<Rightarrow> ('x \<Rightarrow> bool) \<Rightarrow> bool" where
  "keeps_calls A P \<longleftrightarrow>
     (\<forall>x. P x \<longrightarrow> P (clear_error (vm_calls A) x)) \<and> (\<forall>f vm x. P x \<longrightarrow> P (vm_set A f vm x)) \<and>
     keeps P (pool_get_all A) \<and> (\<forall>p. keeps P (pool_get_default_sr A p)) \<and> (\<forall>s. keeps P (sr_get_uuid A s)) \<and>
     (\<forall>vm. keeps P (vm_provision A vm)) \<and> (\<forall>vm. keeps P (vm_get_hardware A vm)) \<and>
     (\<forall>vm v. keeps P (set_memory_limits A vm v)) \<and> (\<forall>vm v. keeps P (set_static_max A vm v)) \<and>
     (\<forall>vm v. keeps P (set_static_min A vm v)) \<and> (\<forall>vm v. keeps P (set_dynamic_max A vm v)) \<and>
     (\<forall>vm v. keeps P (set_dynamic_min A vm v)) \<and> (\<forall>vm v. keeps P (set_vcpus_max A vm v)) \<and>
     (\<forall>vm v. keeps P (set_vcpus_at_startup A vm v)) \<and> (\<forall>vm. keeps P (get_vcpus_max A vm)) \<and>
     (\<forall>vm. keeps P (get_vcpus_at_startup A vm)) \<and> (\<forall>u. keeps P (vdi_get_by_uuid (dev A) u)) \<and>
     (\<forall>v. keeps P (vif_get_uuid (dev A) v)) \<and> (\<forall>b. keeps P (vbd_get_uuid (dev A) b)) \<and>
     (\<forall>c. keeps P (console_get_uuid (dev A) c)) \<and> (\<forall>vm. keeps P (get_allowed_vbd_devices A vm)) \<and>
     (\<forall>vm. keeps P (get_allowed_vif_devices A vm)) \<and> (\<forall>r. keeps P (xen_vdi_create A r)) \<and>
     (\<forall>r. keeps P (xen_vbd_create A r)) \<and> (\<forall>r. keeps P (xen_vif_create A r)) \<and> (\<forall>r. keeps P (xen_console_create A r))"

lemma keeps_callsD:
  assumes "keeps_calls A P"
  shows "P x \<Longrightarrow> P (clear_error (vm_calls A) x)" "P x \<Longrightarrow> P (vm_set A f vm x)" "keeps P (pool_get_all A)"
    "keeps P (pool_get_default_sr A p)" "keeps P (sr_get_uuid A s)" "keeps P (vm_provision A vm)" "keeps P (vm_get_hardware A vm)"
    "keeps P (set_memory_limits A vm v)" "keeps P (set_static_max A vm w)" "keeps P (set_static_min A vm w)"
    "keeps P (set_dynamic_max A vm w)" "keeps P (set_dynamic_min A vm w)" "keeps P (set_vcpus_max A vm w)"
    "keeps P (set_vcpus_at_startup A vm w)" "keeps P (get_vcpus_max A vm)" "keeps P (get_vcpus_at_startup A vm)"
    "keeps P (vdi_get_by_uuid (dev A) u)" "keeps P (vif_get_uuid (dev A) u)" "keeps P (vbd_get_uuid (dev A) u)"
    "keeps P (console_get_uuid (dev A) u)" "keeps P (get_allowed_vbd_devices A vm)" "keeps P (get_allowed_vif_devices A vm)"
    "keeps P (xen_vdi_create A r)" "keeps P (xen_vbd_create A r2)" "keeps P (xen_vif_create A r3)" "keeps P (xen_console_create A r4)"
  using assms by (simp_all add: keeps_calls_def del: split_paired_All)

lemma sr_find_default_kept:
  assumes K: "keeps_calls A P"
  shows "keeps P (sr_find_default A)"
  unfolding keeps_def
proof (intro allI impI)
  fix x assume x: "P x"
  obtain ps x1 where ps: "pool_get_all A x = (ps, x1)" by fastforce
  then have x1: "P x1" using keepsD [OF keeps_callsD(3) [OF K] x] by blast
  then have "P (snd (pool_get_default_sr A p x1))" for p using keeps_snd [OF keeps_callsD(4) [OF K]] by blast
  then show "P (snd (sr_find_default A x))" using x1 by (simp add: sr_find_default_def ps split: option.split list.split)
qed

lemma vm_provision_disks_kept:
  assumes K: "keeps_calls A P" and x: "P x" and run: "vm_provision_disks A vm cfg sr x = Ret (Some (good, st, cfg', y))"
  shows "P y"
proof (cases "xen_utils_get_from_string_string_map cfg ''disks''")
  case None
  obtain g y1 where "vm_provision A vm x = (g, y1)" by fastforce
  then show ?thesis using run None keepsD [OF keeps_callsD(6) [OF K] x] by (simp add: vm_provision_disks_def Let_def)
next
  case (Some dc)
  obtain s1 x1 where s1: "(case sr of Some s \<Rightarrow> (Some s, x) | None \<Rightarrow> sr_find_default A x) = (s1, x1)" by fastforce
  then have x1: "P x1" using x keepsD [OF sr_find_default_kept [OF K] x] by (auto split: option.splits)
  obtain s2 x2 where s2: "sr_get_uuid A s1 x1 = (s2, x2)" by fastforce
  then have x2: "P x2" using keepsD [OF keeps_callsD(5) [OF K] x1] by blast
  show ?thesis
  proof (cases s2)
    case None
    then show ?thesis using run Some s1 s2 x2 by (simp add: vm_provision_disks_def)
  next
    case (Some u)
    obtain buf2 where buf2: "rewrite_config u dc = Ret (Some buf2)"
      using run \<open>xen_utils_get_from_string_string_map cfg ''disks'' = Some dc\<close> s1 s2 Some
      by (auto simp: vm_provision_disks_def Let_def bind_outcome_Ret_iff split: option.splits)
    let ?z = "case put_entry ''disks'' buf2 cfg of None \<Rightarrow> x2 | Some c \<Rightarrow> vm_set A (F_other_config c) vm x2"
    have z: "P ?z" using x2 keeps_callsD(2) [OF K x2] by (simp split: option.split)
    obtain g y1 where y1: "vm_provision A vm ?z = (g, y1)" by fastforce
    then have "y = y1" using run \<open>xen_utils_get_from_string_string_map cfg ''disks'' = Some dc\<close> s1 s2 Some buf2
      by (simp add: vm_provision_disks_def Let_def)
    then show ?thesis using keepsD [OF keeps_callsD(6) [OF K] z y1] by simp
  qed
qed

lemma all_calls_kept: "(\<And>f z. f \<in> set fs \<Longrightarrow> P z \<Longrightarrow> P (snd (f z))) \<Longrightarrow> P x \<Longrightarrow> P (snd (all_calls fs x))"
proof (induction fs arbitrary: x)
  case (Cons f fs)
  have "P (snd (f x))" using Cons.prems by simp
  moreover have "P z \<Longrightarrow> P (snd (all_calls fs z))" for z using Cons.IH [of z] Cons.prems(1) by simp
  ultimately show ?case by (auto split: prod.splits bool.splits)
qed simp

lemma memory_rasd_modify_kept:
  assumes K: "keeps_calls A P" and x: "P x"
  shows "P (snd (memory_rasd_modify A vm hw x))"
proof -
  note k = keeps_callsD [OF K]
  obtain h x1 where h: "vm_get_hardware A vm x = (h, x1)" by fastforce
  then have x1: "P x1" using keepsD [OF k(7) x] by blast
  show ?thesis
  proof (cases h)
    case None
    then show ?thesis using h x1 by (simp add: memory_rasd_modify_def)
  next
    case (Some rc)
    obtain rec current where rc: "rc = (rec, current)" by fastforce
    let ?m = "merge_memory hw current"
    let ?lim = "(static_min ?m, static_max ?m, dynamic_min ?m, dynamic_max ?m)"
    obtain rc2 x2 where lim: "set_memory_limits A vm ?lim x1 = (rc2, x2)" by fastforce
    then have x2: "P x2" using keepsD [OF k(8) x1] by blast
    let ?single = "all_calls [set_static_max A vm (static_max ?m), set_static_min A vm (static_min ?m),
       set_dynamic_max A vm (dynamic_max ?m), set_dynamic_min A vm (dynamic_min ?m)] (RESET_XEN_ERROR (vm_calls A) x2)"
    have "P (RESET_XEN_ERROR (vm_calls A) x2)" using k(1) x2 by (simp add: RESET_XEN_ERROR_def)
    then have "P (snd ?single)"
    proof (rule all_calls_kept [rotated])
      fix f z
      assume "f \<in> set [set_static_max A vm (static_max ?m), set_static_min A vm (static_min ?m),
         set_dynamic_max A vm (dynamic_max ?m), set_dynamic_min A vm (dynamic_min ?m)]" and z: "P z"
      then consider "f = set_static_max A vm (static_max ?m)" | "f = set_static_min A vm (static_min ?m)"
        | "f = set_dynamic_max A vm (dynamic_max ?m)" | "f = set_dynamic_min A vm (dynamic_min ?m)" by auto
      then have "keeps P f" by cases (simp_all only: k)
      then show "P (snd (f z))" using z by (rule keeps_snd)
    qed
    moreover have "memory_rasd_modify A vm hw x =
        (if ?m = current then (False, x1) else if session_ok (vm_calls A) x2 then (rc2, x2) else ?single)"
      unfolding memory_rasd_modify_def h Some rc Let_def by (simp only: prod.case option.case lim)
    ultimately show ?thesis using x1 x2 by (metis snd_conv)
  qed
qed

lemma update_count_kept:
  assumes g: "\<And>vm. keeps P (getter vm)" and s: "\<And>vm v. keeps P (setter vm v)" and x: "P x"
    and run: "update_count getter setter vm v x = Ret (r, y)"
  shows "P y"
proof -
  obtain c x1 where c: "getter vm x = (c, x1)" by fastforce
  then have x1: "P x1" using keepsD [OF g x] by blast
  show ?thesis
  proof (cases c)
    case None
    then show ?thesis using run c by (simp add: update_count_def)
  next
    case (Some n)
    then have "y = x1 \<or> y = snd (setter vm v x1)" using run c by (auto simp: update_count_def split: if_splits)
    then show ?thesis using x1 keeps_snd [OF s x1] by auto
  qed
qed

lemma proc_rasd_modify_kept:
  assumes K: "keeps_calls A P" and x: "P x" and run: "proc_rasd_modify A vm hw x = Ret (rc, y)"
  shows "P y"
proof -
  note k = keeps_callsD [OF K]
  let ?x0 = "RESET_XEN_ERROR (vm_calls A) x"
  have x0: "P ?x0" using k(1) x by (simp add: RESET_XEN_ERROR_def)
  obtain r1 x1 where s: "set_vcpus_at_startup A vm 1 ?x0 = (r1, x1)" by fastforce
  then have x1: "P x1" using keepsD [OF k(14) x0] by blast
  obtain r2 x2 where c: "(if vcpus_max hw \<noteq> 0 then update_count (get_vcpus_max A) (set_vcpus_max A) vm (vcpus_max hw) x1 else Ret (r1, x1)) = Ret (r2, x2)"
    and e: "update_count (get_vcpus_at_startup A) (set_vcpus_at_startup A) vm
               (if vcpus_at_startup hw \<noteq> 0 then vcpus_at_startup hw else vcpus_max hw) x2 = Ret (rc, y)"
    using run s unfolding proc_rasd_modify_def by (simp only: prod.case bind_outcome_Ret_iff) auto
  have "P x2"
  proof (cases "vcpus_max hw = 0")
    case True
    then show ?thesis using c x1 by simp
  next
    case False
    then have "update_count (get_vcpus_max A) (set_vcpus_max A) vm (vcpus_max hw) x1 = Ret (r2, x2)" using c by simp
    from update_count_kept [OF k(15) k(13) x1 this] show ?thesis .
  qed
  from update_count_kept [OF k(16) k(14) this e] show ?thesis .
qed

lemma update_hardware_kept:
  assumes K: "keeps_calls A P" and x: "P x" and run: "update_hardware A vm c x = Ret y"
  shows "P y"
proof (cases "memory_and_proc_need_updating c")
  case True
  let ?x1 = "snd (memory_rasd_modify A vm (snd (ctx_rec c)) x)"
  obtain rc where "proc_rasd_modify A vm (snd (ctx_rec c)) ?x1 = Ret (rc, y)"
    using run True by (auto simp: update_hardware_def bind_outcome_Ret_iff)
  from proc_rasd_modify_kept [OF K memory_rasd_modify_kept [OF K x] this] show ?thesis .
qed (use run x in \<open>simp add: update_hardware_def\<close>)

lemma vdi_find_default_kept:
  assumes K: "keeps_calls A P"
  shows "keeps P (vdi_find_default A rec sr)"
  unfolding keeps_def
proof (intro allI impI)
  fix x assume x: "P x"
  obtain v x1 where v: "(case i_uuid rec of Some u \<Rightarrow> vdi_get_by_uuid (dev A) u x | None \<Rightarrow> xen_vdi_create A (sr, rec) x) = (v, x1)"
    by fastforce
  then have "P x1"
    using keepsD [OF keeps_callsD(17) [OF K] x] keepsD [OF keeps_callsD(23) [OF K] x] by (auto split: option.splits)
  then show "P (snd (vdi_find_default A rec sr x))" by (simp add: vdi_find_default_def v split: option.split)
qed

lemma vbd_create_kept:
  assumes K: "keeps_calls A P"
  shows "keeps P (vbd_create A vm vdi rec)"
  unfolding keeps_def
proof (intro allI impI)
  fix x assume x: "P x"
  have c: "P (snd (case xen_vbd_create A r y of (Some vbd, y1) \<Rightarrow> (Inr vbd, y1) | (None, y1) \<Rightarrow> (Inl ''Error creating VBD'', y1)))"
    if "P y" for r y
    using keeps_snd [OF keeps_callsD(24) [OF K] that, of r] by (cases "xen_vbd_create A r y") (simp split: option.split)
  obtain ds x1 where ds: "get_allowed_vbd_devices A vm x = (ds, x1)" by fastforce
  then have "P x1" using keepsD [OF keeps_callsD(21) [OF K] x] by blast
  then show "P (snd (vbd_create A vm vdi rec x))"
    using x c by (simp add: vbd_create_def ds Let_def split: option.split list.split)
qed

lemma vif_create_kept:
  assumes K: "keeps_calls A P"
  shows "keeps P (vif_create A vm rec)"
  unfolding keeps_def
proof (intro allI impI)
  fix x assume x: "P x"
  have c: "P (snd (case xen_vif_create A r y of (Some vif, y1) \<Rightarrow> (Inr vif, y1) | (None, y1) \<Rightarrow> (Inl (error_string (error_of A y1), False), y1)))"
    if "P y" for r y
    using keeps_snd [OF keeps_callsD(25) [OF K] that, of r] by (cases "xen_vif_create A r y") (simp split: option.split)
  obtain ds x1 where ds: "get_allowed_vif_devices A vm x = (ds, x1)" by fastforce
  then have "P x1" using keepsD [OF keeps_callsD(22) [OF K] x] by blast
  then show "P (snd (vif_create A vm rec x))"
    using x c by (simp add: vif_create_def ds Let_def split: option.split list.split)
qed

lemma console_create_kept:
  assumes K: "keeps_calls A P"
  shows "keeps P (console_create A vm rec)"
  unfolding keeps_def
proof (intro allI impI)
  fix x assume "P x"
  then show "P (snd (console_create A vm rec x))"
    using keeps_snd [OF keeps_callsD(26) [OF K], of x "(vm, rec)"] 
    by (cases "xen_console_create A (vm, rec) x") (simp add: console_create_def split: option.split)
qed

lemma add_disk_kept:
  assumes K: "keeps_calls A P"
  shows "keeps P (add_disk A vm d)"
  unfolding keeps_def
proof (intro allI impI)
  fix x assume x: "P x"
  obtain vbd vdi sr where d: "d = (vbd, vdi, sr)" by (cases d)
  obtain r x1 where r: "vdi_find_default A vdi sr x = (r, x1)" by fastforce
  then have "P x1" using keepsD [OF vdi_find_default_kept [OF K] x] by blast
  then show "P (snd (add_disk A vm d x))"
    using x keeps_snd [OF vbd_create_kept [OF K]] by (simp add: add_disk_def d r split: sum.split)
qed

text \<open>A reference does not change the state but by its lookup.\<close>

lemma add_op_kept: "add_op_to_set L (device_ref cn u (f x)) st = Ret (st1, y) \<Longrightarrow> keeps P f \<Longrightarrow> P x \<Longrightarrow> P y"
  by (cases "f x") (auto simp: add_op_to_set_def device_ref_def dest: keepsD split: option.splits)

lemma add_ports_kept:
  assumes K: "keeps_calls A P"
  shows "P x \<Longrightarrow> add_ports L A vm u vs st x = Ret (r, y) \<Longrightarrow> P y"
proof (induction vs arbitrary: st x)
  case (Cons v vs)
  obtain e x1 where e: "vif_create A vm v x = (e, x1)" by fastforce
  then have x1: "P x1" using keepsD [OF vif_create_kept [OF K] Cons.prems(1)] by blast
  show ?case
  proof (cases e)
    case (Inl m)
    then show ?thesis using Cons.prems(2) e x1 by simp
  next
    case (Inr vif)
    then obtain st1 x2 where op: "add_op_to_set L (network_rasd_create_ref (dev A) u vif x1) st = Ret (st1, x2)"
      and rest: "add_ports L A vm u vs st1 x2 = Ret (r, y)"
      using Cons.prems(2) e by (auto simp: bind_outcome_Ret_iff)
    have "P x2" by (rule add_op_kept [OF op [unfolded network_rasd_create_ref_def] keeps_callsD(18) [OF K] x1])
    then show ?thesis using Cons.IH rest by blast
  qed
qed simp

lemma add_disks_kept:
  assumes K: "keeps_calls A P"
  shows "P x \<Longrightarrow> add_disks L A vm u ds st x = Ret (r, y) \<Longrightarrow> P y"
proof (induction ds arbitrary: st x)
  case (Cons d ds)
  obtain e x1 where e: "add_disk A vm d x = (e, x1)" by fastforce
  then have x1: "P x1" using keepsD [OF add_disk_kept [OF K] Cons.prems(1)] by blast
  show ?case
  proof (cases e)
    case (Inl m)
    then show ?thesis using Cons.prems(2) e x1 by simp
  next
    case (Inr vbd)
    then obtain st1 x2 where op: "add_op_to_set L (disk_rasd_create_ref (dev A) u vbd x1) st = Ret (st1, x2)"
      and rest: "add_disks L A vm u ds st1 x2 = Ret (r, y)"
      using Cons.prems(2) e by (auto simp: bind_outcome_Ret_iff)
    have "P x2" by (rule add_op_kept [OF op [unfolded disk_rasd_create_ref_def] keeps_callsD(19) [OF K] x1])
    then show ?thesis using Cons.IH rest by blast
  qed
qed simp

lemma add_console_kept:
  assumes K: "keeps_calls A P" and x: "P x" and run: "add_console L A vm u con st x = Ret (r, y)"
  shows "P y"
proof (cases con)
  case (Con_live rec)
  obtain e x1 where e: "console_create A vm rec x = (e, x1)" by fastforce
  then have x1: "P x1" using keepsD [OF console_create_kept [OF K] x] by blast
  show ?thesis
  proof (cases e)
    case (Inr c)
    then obtain st1 where op: "add_op_to_set L (console_rasd_create_ref (dev A) u c x1) st = Ret (st1, y)"
      using run e Con_live by (auto simp: add_console_def bind_outcome_Ret_iff)
    show ?thesis by (rule add_op_kept [OF op [unfolded console_rasd_create_ref_def] keeps_callsD(20) [OF K] x1])
  qed (use run e Con_live x1 in \<open>simp add: add_console_def\<close>)
qed (use run x in \<open>simp_all add: add_console_def\<close>)

lemma then_add_kept:
  assumes "then_add first next_one = Ret (r, y)" and "\<And>r1 y1. first = Ret (r1, y1) \<Longrightarrow> P y1"
    and "\<And>st y1. P y1 \<Longrightarrow> next_one st y1 = Ret (r, y) \<Longrightarrow> P y"
  shows "P y"
proof -
  obtain r1 y1 where f: "first = Ret (r1, y1)"
    and n: "(case r1 of Inl e \<Rightarrow> Ret (Inl e, y1) | Inr st \<Rightarrow> next_one st y1) = Ret (r, y)"
    using assms(1) by (auto simp: then_add_def bind_outcome_Ret_iff)
  then show ?thesis using assms(2) [OF f] assms(3) by (cases r1) auto
qed

lemma add_devices_kept:
  assumes K: "keeps_calls A P" and x: "P x" and run: "add_devices L A vm c x = Ret (r, y)"
  shows "P y"
proof -
  let ?u = "vm_uuid (fst (ctx_rec c))"
  have two: "P y1" if "then_add (add_ports L A vm ?u (ctx_ports c) None x) (add_console L A vm ?u (ctx_console c)) = Ret (r1, y1)" for r1 y1
    using that by (rule then_add_kept) (auto dest: add_ports_kept [OF K x] add_console_kept [OF K])
  show ?thesis
    using run [unfolded add_devices_def Let_def] by (rule then_add_kept) (auto dest: two add_disks_kept [OF K])
qed


section \<open>Properties of the job\<close>


text \<open>When no device name is left for a port, the job crashes: the record of the port still points to the
  stack of the function that returned, and is freed with what it points to.\<close>

lemma no_port_left_crashes:
  assumes found: "vm_get_by_uuid (vm_calls A) (vm_uuid (fst (ctx_rec c))) (job_change_state (task_calls A) job Job_Running 0 0 None x) = (Some vm, x1)"
    and c: "callback job = c" "\<not> provision_disks c" "\<not> memory_and_proc_need_updating c"
    and port: "ctx_ports c = v # vs" "n_device v = None" "get_allowed_vif_devices A vm x1 = (Some [], x2)"
  shows "add_resources_job L A job x = Undefined"
proof -
  have "vif_create A vm v x1 = (Inl (''No more VIF devices available in VM'', True), x2)"
    using port by (simp add: vif_create_def Let_def)
  then have "add_devices L A vm c x1 = Ret (Inl (''No more VIF devices available in VM'', True), x2)"
    by (simp add: add_devices_def then_add_def port Let_def)
  then have "\<exists>y. vm_add_resources L A (task_handle job) c (job_change_state (task_calls A) job Job_Running 0 0 None x) =
      Ret (Some (False, Some (1, ''No more VIF devices available in VM''), True, y))"
    using found c by (simp add: vm_add_resources_def update_hardware_def Let_def)
  then show ?thesis using c by (auto simp: add_resources_job_def)
qed


section \<open>Witnesses\<close>

text \<open>Calls that do nothing, and a daemon put together from its parts.\<close>

definition no_answer :: "'k \<Rightarrow> 'x \<Rightarrow> 'v option \<times> 'x" where
  "no_answer k x = (None, x)"

definition refused :: "'k \<Rightarrow> 'x \<Rightarrow> bool \<times> 'x" where
  "refused k x = (False, x)"

definition idle_hw :: "'x vm_api \<Rightarrow> ('x, unit) hw_api" where
  "idle_hw V = settings_api.extend (vm_api.extend V (settings_api.fields (\<lambda>f vm x. x) no_answer no_answer))
     (hw_api.fields no_answer (\<lambda>vm. refused) (\<lambda>vm. refused) (\<lambda>vm. refused) (\<lambda>vm. refused) (\<lambda>vm. refused) (\<lambda>vm. refused)
       (\<lambda>vm. refused) (\<lambda>vm. refused) no_answer no_answer)"

definition some_devices :: "'x disk_api \<Rightarrow> (string \<Rightarrow> 'x \<Rightarrow> string option \<times> 'x) \<Rightarrow> 'x dev_api" where
  "some_devices D find_vdi = disk_api.extend D
     (dev_api.fields no_answer no_answer no_answer find_vdi no_answer no_answer no_answer (\<lambda>b x. x) (\<lambda>b x. x) (\<lambda>b x. x)
       (\<lambda>d x. x) (\<lambda>d x. x) (\<lambda>d x. x) no_answer no_answer (\<lambda>v x. x) no_answer (\<lambda>b x. (Some b, x)) no_answer)"

definition idle_disks :: "'x vm_api \<Rightarrow> 'x disk_api" where
  "idle_disks V = vm_api.extend V (disk_api.fields no_answer no_answer no_answer no_answer no_answer refused refused refused)"

definition some_resources ::
    "('x, unit) hw_api \<Rightarrow> 'x dev_api \<Rightarrow> (string \<times> string option \<times> vbd_record \<Rightarrow> 'x \<Rightarrow> string option \<times> 'x) \<Rightarrow> ('x, unit) resource_api" where
  "some_resources H D make_vbd = vsms_api.extend
     (hw_api.extend H (vsms_api.fields D (\<lambda>x. (None, x)) no_answer no_answer refused))
     (resource_api.fields no_answer (\<lambda>vm x. (Some [], x)) no_answer make_vbd no_answer no_answer refused (\<lambda>t x. x))"

lemma some_resources_simps [simp]:
  "vm_calls (some_resources H D m) = vm_calls H" "task_calls (some_resources H D m) = task_calls H"
  "dev (some_resources H D m) = D" "error_of (some_resources H D m) = error_of H"
  "vm_get_hardware (some_resources H D m) = vm_get_hardware H" "vm_set (some_resources H D m) = vm_set H"
  "set_memory_limits (some_resources H D m) = set_memory_limits H" "set_static_max (some_resources H D m) = set_static_max H"
  "set_static_min (some_resources H D m) = set_static_min H" "set_dynamic_max (some_resources H D m) = set_dynamic_max H"
  "set_dynamic_min (some_resources H D m) = set_dynamic_min H" "set_vcpus_max (some_resources H D m) = set_vcpus_max H"
  "set_vcpus_at_startup (some_resources H D m) = set_vcpus_at_startup H" "get_vcpus_max (some_resources H D m) = get_vcpus_max H"
  "get_vcpus_at_startup (some_resources H D m) = get_vcpus_at_startup H"
  "pool_get_all (some_resources H D m) = (\<lambda>x. (None, x))" "pool_get_default_sr (some_resources H D m) = no_answer"
  "sr_get_uuid (some_resources H D m) = no_answer" "vm_provision (some_resources H D m) = refused"
  "get_allowed_vbd_devices (some_resources H D m) = no_answer" "get_allowed_vif_devices (some_resources H D m) = (\<lambda>vm x. (Some [], x))"
  "xen_vdi_create (some_resources H D m) = no_answer" "xen_vbd_create (some_resources H D m) = m"
  "xen_vif_create (some_resources H D m) = no_answer" "xen_console_create (some_resources H D m) = no_answer"
  by (simp_all add: some_resources_def vsms_api.defs hw_api.defs resource_api.defs)

lemma idle_hw_simps [simp]:
  "vm_calls (idle_hw V) = vm_calls V" "task_calls (idle_hw V) = task_calls V" "vm_get_hardware (idle_hw V) = no_answer"
  "vm_set (idle_hw V) = (\<lambda>f vm x. x)" "set_memory_limits (idle_hw V) = (\<lambda>vm. refused)" "set_static_max (idle_hw V) = (\<lambda>vm. refused)"
  "set_static_min (idle_hw V) = (\<lambda>vm. refused)" "set_dynamic_max (idle_hw V) = (\<lambda>vm. refused)"
  "set_dynamic_min (idle_hw V) = (\<lambda>vm. refused)" "set_vcpus_max (idle_hw V) = (\<lambda>vm. refused)"
  "set_vcpus_at_startup (idle_hw V) = (\<lambda>vm. refused)" "get_vcpus_max (idle_hw V) = no_answer"
  "get_vcpus_at_startup (idle_hw V) = no_answer" "error_of (idle_hw V) = error_of V"
  by (simp_all add: idle_hw_def settings_api.defs vm_api.defs hw_api.defs)

lemma some_devices_simps [simp]:
  "vm_calls (some_devices D f) = vm_calls D" "vdi_get_by_uuid (some_devices D f) = f" "vif_get_uuid (some_devices D f) = no_answer"
  "vbd_get_uuid (some_devices D f) = (\<lambda>b x. (Some b, x))" "console_get_uuid (some_devices D f) = no_answer"
  "disk_api.truncate (some_devices D f) = D"
  by (simp_all add: some_devices_def disk_api.defs dev_api.defs)

text \<open>What is known of the disk calls of a part is known of the whole.\<close>

lemma some_devices_services:
  "disk_service (some_devices D f) view = disk_service D view" "reliable (some_devices D f) view = reliable D view"
  by (simp_all add: disk_service_def reliable_def some_devices_def disk_api.defs)

lemma some_resources_hw: "hw_service (some_resources H D m) view = hw_service H view"
  by (simp add: hw_service_def)

definition demo_lib :: "string \<Rightarrow> (unit, unit) vsms_lib" where
  "demo_lib cn = \<lparr>parse_setting = (\<lambda>s. None), path_of = (\<lambda>i. ()), fetch_setting = (\<lambda>p. None), class_of = (\<lambda>p. cn),
     key_of = (\<lambda>p n. (CMPI_RC_OK, None)), printed = demo_printer, pair_server = \<lparr>http_get = (\<lambda>u. (404, [])), http_post = (\<lambda>u d. 404), http_curl = True\<rparr>,
     session_ref = ''session''\<rparr>"

text \<open>Two settings of processors: the second names another VM.\<close>

definition demo_processors :: "string \<Rightarrow> 64 word \<Rightarrow> unit vssd" where
  "demo_processors u n = as_instance [(''InstanceID'', H_chars (Some (''Xen:'' @ u @ ''/Processor''))), (''VirtualQuantity'', H_uint64 n)]"

definition two_vms :: "(demo_hw, unit) hw_api" where
  "two_vms = demo_hw_api\<lparr>vm_calls := (vm_calls demo_hw_api)\<lparr>vm_get_by_uuid :=
     (\<lambda>u x. if u = ''u1'' then (Some ''vm1'', x) else if u = ''u2'' then (Some ''vm2'', x) else (None, x))\<rparr>\<rparr>"

definition two_vms_api :: "(demo_hw, unit) resource_api" where
  "two_vms_api = some_resources two_vms (some_devices (idle_disks (vm_api.truncate two_vms)) no_answer) no_answer"

theorem settings_go_to_first_vm_witness:
  "\<exists>x'. AddDeleteOrModifyResourceSettings (demo_lib ''Xen_ProcessorSettingData'') two_vms_api True resource_modify
       (\<lambda>n. (CMPI_RC_OK, Some (A_array (Some (map A_instance [demo_processors ''u1'' 2, demo_processors ''u2'' 4]))))) 1
       \<lparr>w_ok = True, w_vms = [''vm1'' \<mapsto> demo_hardware, ''vm2'' \<mapsto> demo_hardware]\<rparr> = Ret (VSMS_Completed, (CMPI_RC_OK, []), None, x') \<and>
     map_option vcpus_max (w_vms x' ''vm1'') = Some 4 \<and> w_vms x' ''vm2'' = Some demo_hardware"
proof -
  let ?x = "\<lparr>w_ok = True, w_vms = [''vm1'' \<mapsto> demo_hardware, ''vm2'' \<mapsto> demo_hardware]\<rparr>"
  let ?L = "demo_lib ''Xen_ProcessorSettingData''"
  let ?h = "demo_hardware\<lparr>vcpus_max := 4, vcpus_at_startup := 4, vcpus_params := Some []\<rparr>"
  have S: "hw_service two_vms_api w_vms"
    unfolding two_vms_api_def some_resources_hw by (simp add: hw_service_def two_vms_def demo_hw_api_def demo_hw_calls)
  have k: "setting_kind_of ?L (demo_processors u n) = K_processor" for u n
    by (simp add: setting_kind_of_def demo_lib_def rasd_kind_def)
  have p: "proc_rasd_to_vm_rec (demo_processors u n) h resource_modify =
      Ret (True, h\<lparr>vcpus_max := n, vcpus_at_startup := n, vcpus_params := (if vcpus_params h = None then Some [] else vcpus_params h)\<rparr>)"
    if "sint n \<le> VCPUS_MAX" for u n h
    using that by (simp add: proc_rasd_to_vm_rec_def demo_processors_def number_given_def as_instance_def vcpu_param_def apply_count_def)
  have settings: "settings_hardware ?L resource_modify [demo_processors ''u1'' 2, demo_processors ''u2'' 4] demo_hardware = Some ?h"
    by (simp add: setting_hardware_def k p demo_hardware_def)
  have named: "names_vm (demo_processors ''u1'' 2) ''u1''"
    unfolding names_vm_def demo_processors_def as_instance_def by (simp add: CMPIStrncpySystemNameFromID_def) code_simp
  have known: "w_vms ?x ''vm1'' = Some demo_hardware" "session_ok (vm_calls two_vms_api) ?x"
    "vm_get_by_uuid (vm_calls two_vms_api) ''u1'' ?x = (Some ''vm1'', ?x)"
    by (simp_all add: two_vms_api_def two_vms_def demo_hw_api_def)
  from settings_go_to_first_vm [OF S known(1,2) named known(3,2) refl settings,
      where argsin = "\<lambda>n. (CMPI_RC_OK, Some (A_array (Some (map A_instance [demo_processors ''u1'' 2, demo_processors ''u2'' 4]))))"
        and mem = True, OF refl]
  obtain x' where r: "AddDeleteOrModifyResourceSettings ?L two_vms_api True resource_modify
       (\<lambda>n. (CMPI_RC_OK, Some (A_array (Some (map A_instance [demo_processors ''u1'' 2, demo_processors ''u2'' 4]))))) 1 ?x =
      Ret (VSMS_Completed, (CMPI_RC_OK, []), None, x')"
    "w_vms x' = (w_vms ?x)(''vm1'' \<mapsto> merge_memory ?h (merge_vcpus ?h demo_hardware))" by blast
  show ?thesis
  proof (intro exI conjI)
    show "map_option vcpus_max (w_vms x' ''vm1'') = Some 4" "w_vms x' ''vm2'' = Some demo_hardware"
      by (simp_all add: r(2) merge_memory_def merge_vcpus_def)
  qed (rule r(1))
qed

text \<open>
  A daemon with a halted VM and a disk that no device uses. Devices can be made for disks that exist; disks cannot
  be made.
\<close>

definition make_vbd :: "string \<times> string option \<times> vbd_record \<Rightarrow> demo_disks \<Rightarrow> string option \<times> demo_disks" where
  "make_vbd r x = (case r of (vm, vdi, rec) \<Rightarrow>
     if map_of (d_vbds x) ''new'' = None \<and> map_of (d_vms x) vm \<noteq> None \<and> (case vdi of None \<Rightarrow> False | Some d \<Rightarrow> map_of (d_vdis x) d \<noteq> None)
     then (Some ''new'', x\<lparr>d_vbds := (''new'', vm, vdi) # d_vbds x\<rparr>) else (None, demo_error x))"

definition find_vdi :: "string \<Rightarrow> demo_disks \<Rightarrow> string option \<times> demo_disks" where
  "find_vdi u x = (if map_of (d_vdis x) u = None then (None, demo_error x) else (Some u, x))"

definition creating_api :: "(demo_disks, unit) resource_api" where
  "creating_api = some_resources (idle_hw (vm_api.truncate demo_disk_api)) (some_devices demo_disk_api find_vdi) make_vbd"

definition new_world :: demo_disks where
  "new_world = \<lparr>d_ok = True, d_vms = [(''vm1'', Halted)], d_vbds = [], d_vdis = [(''keep'', False, False)]\<rparr>"

definition disk_for :: "string option \<Rightarrow> string option \<Rightarrow> vbd_record \<times> vdi_record \<times> string option" where
  "disk_for vdi sr =
     (\<lparr>d_uuid = None, d_device = Some ''0'', d_bootable = False, d_mode = Mode_RW, d_type = VBD_disk, d_empty = False\<rparr>,
      \<lparr>i_uuid = vdi, i_label = None, i_description = None, i_size = 1073741824, i_sharable = False\<rparr>, sr)"

definition creation :: add_context where
  "creation = \<lparr>ctx_rec = (plain_vm ''vm1'', demo_hardware), ctx_disks = [disk_for (Some ''keep'') None, disk_for None (Some ''sr1'')],
     ctx_ports = [], ctx_console = Con_none, remove_vm_on_error = True, provision_disks = False, memory_and_proc_need_updating = False\<rparr>"

lemma closed_make: "closed (demo_view x) \<Longrightarrow> closed (demo_view (snd (make_vbd r x)))"
  by (auto simp: closed_def make_vbd_def demo_error_def split: prod.split option.split if_splits)

lemma keeps_nothing [simp]: "keeps P (no_answer k)" "keeps P (refused k)" "keeps P (Pair v)"
  by (simp_all add: keeps_def no_answer_def refused_def)

lemma creating_keeps: "keeps_calls creating_api (\<lambda>y. vm_of (demo_view y) ''vm1'' \<noteq> None \<and> closed (demo_view y))"
proof -
  let ?P = "\<lambda>y. vm_of (demo_view y) ''vm1'' \<noteq> None \<and> closed (demo_view y)"
  have "keeps ?P (find_vdi u)" for u by (simp add: keeps_def find_vdi_def demo_error_def)
  moreover have "keeps ?P (make_vbd r)" for r
    using closed_make by (auto simp: keeps_def make_vbd_def demo_error_def split: prod.split)
  ultimately show ?thesis by (simp add: keeps_calls_def creating_api_def demo_disk_api_def vm_api.defs del: split_paired_All)
qed


theorem no_port_left_crashes_witness:
  "add_resources_job (demo_lib []) creating_api
     \<lparr>job_name = ''job'', domain_name = ''web'', ref_cn = [], ref_ns = [], job_uuid = None, task_handle = ''task'',
      callback = creation\<lparr>ctx_ports := [\<lparr>n_uuid = None, n_mac = None, n_device = None, n_network = None, n_config = []\<rparr>]\<rparr>\<rparr>
     new_world = Undefined"
proof -
  let ?c = "creation\<lparr>ctx_ports := [\<lparr>n_uuid = None, n_mac = None, n_device = None, n_network = None, n_config = []\<rparr>]\<rparr>"
  let ?job = "\<lparr>job_name = ''job'', domain_name = ''web'', ref_cn = [], ref_ns = [], job_uuid = None, task_handle = ''task'', callback = ?c\<rparr>"
  let ?x = "job_change_state (task_calls creating_api) ?job Job_Running 0 0 None new_world"
  have "d_ok ?x \<and> d_vms ?x = d_vms new_world"
    by (simp add: job_change_state_def creating_api_def demo_disk_api_def vm_api.defs no_tasks_def new_world_def reset_task_error_def Let_def)
  then have "vm_get_by_uuid (vm_calls creating_api) (vm_uuid (fst (ctx_rec ?c))) ?x = (Some ''vm1'', ?x)"
    by (simp add: creating_api_def demo_disk_api_def vm_api.defs creation_def plain_vm_def answer_def demo_known_def new_world_def)
  then show ?thesis
    by (rule no_port_left_crashes [where c = ?c and vs = "[]" and v = "\<lparr>n_uuid = None, n_mac = None, n_device = None, n_network = None, n_config = []\<rparr>"]) (simp_all add: creation_def creating_api_def)
qed

end
