(* ===== verification/VmCreate.thy ===== *)
theory VmCreate
  imports Resources VmView StateChange
begin

text \<open>
  The methods that create VMs and the rest of the methods of the VM management service, of
  \<^verbatim>\<open>src/Xen_VirtualSystemManagementService.c\<close>: \<^verbatim>\<open>DefineSystem\<close>,
  \<^verbatim>\<open>CopySystem\<close> with its job, \<^verbatim>\<open>ConvertToXenTemplate\<close>, the search for hosts,
  the two methods of the service itself, and their dispatch. The handle that the SDK sends for a null
  pointer is a parameter.
\<close>

section \<open>The daemon\<close>

record ('x, 'r) create_api = "('x, 'r) resource_api" +
  null_vm :: string
  vm_clone :: "string \<times> string \<Rightarrow> 'x \<Rightarrow> string option \<times> 'x"
  vm_copy :: "string \<times> string \<times> string option \<Rightarrow> 'x \<Rightarrow> string option \<times> 'x"
  xen_vm_create :: "'r new_vm \<times> vm_hardware \<Rightarrow> 'x \<Rightarrow> string option \<times> 'x"
  vm_get_is_a_template :: "string \<Rightarrow> 'x \<Rightarrow> bool option \<times> 'x"
  vm_set_is_a_template :: "string \<times> bool \<Rightarrow> 'x \<Rightarrow> bool \<times> 'x"
  host_get_all :: "'x \<Rightarrow> string list option \<times> 'x"
  assert_can_boot_here :: "string \<times> string \<Rightarrow> 'x \<Rightarrow> bool \<times> 'x"
  xen_host_get_uuid :: "string \<Rightarrow> 'x \<Rightarrow> string option \<times> 'x"
  session_get_this_host :: "'x \<Rightarrow> string option \<times> 'x"
  host_enable :: "string \<Rightarrow> 'x \<Rightarrow> bool \<times> 'x"
  host_disable :: "string \<Rightarrow> 'x \<Rightarrow> bool \<times> 'x"

section \<open>The reference configuration\<close>

text \<open>
  The VM or template to copy from, with the status: not found where the argument is missing, but also
  where the object path names no VM.
\<close>

definition get_reference_configuration ::
    "('p, 'r) vsms_lib \<Rightarrow> 'x sdk \<Rightarrow> ('p, 'r vssd) method_args \<Rightarrow> 'x \<Rightarrow> (cmpi_rc \<times> string option \<times> 'x) outcome" where
  "get_reference_configuration L K argsin x =
     (case GetArgument argsin ''ReferenceConfiguration'' CMPI_ref of
        (_, Some (A_ref (Some p))) \<Rightarrow>
          bind_outcome
            (case key_of L p ''InstanceID'' of
               (_, None) \<Rightarrow> vssd_find_vm K None x
             | (_, Some (A_string s)) \<Rightarrow> vssd_find_vm K (Some s) x
             | _ \<Rightarrow> Undefined)
            (\<lambda>(st, found, x1). Ret (if found = None then st else CMPI_RC_OK, map_option fst found, x1))
      | _ \<Rightarrow>
          (case GetArgument argsin ''ReferenceConfiguration'' CMPI_string of
             (_, Some (A_string u)) \<Rightarrow> (case vm_get_by_uuid K u x of (vm, x1) \<Rightarrow> Ret (CMPI_RC_OK, vm, x1))
           | _ \<Rightarrow> Ret (CMPI_RC_ERR_NOT_FOUND, None, x)))"

section \<open>Defining a system\<close>

definition blank_hardware :: vm_hardware where
  "blank_hardware = \<lparr>static_max = 0, static_min = 0, dynamic_max = 0, dynamic_min = 0, vcpus_max = 0, vcpus_at_startup = 0,
     vcpus_params = None\<rparr>"

text \<open>
  The resources of the new VM: an array must be parsed completely, and asks for a job if it has elements; a single
  resource may fail, and asks for none. The result has the message of an error.
\<close>

definition settings_failed :: string where
  "settings_failed = ''ERROR: Couldn'' @ [CHR 0x27] @ ''t parse the '' @ quoted ''ResourceSettings'' @ '' array''"

fun parse_new_each ::
    "('p, 'r) vsms_lib \<Rightarrow> ('x, 'r, 'z) vsms_api_scheme \<Rightarrow> ('p, 'r vssd) arg_value list \<Rightarrow> parsed \<Rightarrow> 'x \<Rightarrow>
     (string option \<times> parsed \<times> 'x) outcome" where
  "parse_new_each L A [] ps x = Ret (None, ps, x)"
| "parse_new_each L A (d # ds) ps x =
     (case d of
        A_ref None \<Rightarrow> Ret (Some (''ERROR: Couldn'' @ [CHR 0x27] @ ''t parse the ResourceSettings array''), ps, x)
      | _ \<Rightarrow> bind_outcome (rasd_parse L A resource_modify True d ps x) (\<lambda>(good, ps1, x1).
          if good then parse_new_each L A ds ps1 x1 else Ret (Some settings_failed, ps1, x1)))"

definition parse_new_resources ::
    "('p, 'r) vsms_lib \<Rightarrow> ('x, 'r, 'z) vsms_api_scheme \<Rightarrow> ('p, 'r vssd) method_args \<Rightarrow> parsed \<Rightarrow> 'x \<Rightarrow>
     (string option \<times> parsed \<times> bool \<times> 'x) outcome" where
  "parse_new_resources L A argsin ps x =
     (case argsin ''ResourceSettings'' of
        (CMPI_RC_OK, Some v) \<Rightarrow>
          (case v of
             A_array (Some es) \<Rightarrow>
               bind_outcome (parse_new_each L A es ps x) (\<lambda>(msg, ps1, x1). Ret (msg, ps1, es \<noteq> [], x1))
           | A_array None \<Rightarrow> Undefined
           | _ \<Rightarrow> bind_outcome (rasd_parse L A resource_modify True v ps x) (\<lambda>(good, ps1, x1). Ret (None, ps1, False, x1)))
      | _ \<Rightarrow> Ret (None, ps, False, x))"

text \<open>The hardware that was asked for replaces the template's, all but the parameters of the scheduler.\<close>

definition replace_hardware :: "vm_hardware \<Rightarrow> vm_hardware \<Rightarrow> vm_hardware" where
  "replace_hardware hw tmpl = hw\<lparr>vcpus_params := vcpus_params tmpl\<rparr>"

definition default_hardware :: "vm_hardware \<Rightarrow> vm_hardware" where
  "default_hardware hw =
     (let hw1 = (if vcpus_max hw = 0 then set_processor_defaults hw else hw)
      in if static_max hw1 = 0 then set_memory_defaults hw1 else hw1)"

text \<open>The new VM with its record. A record that cannot be read is used through a null pointer.\<close>

definition clone_template ::
    "('x, 'r, 'z) create_api_scheme \<Rightarrow> string \<Rightarrow> 'r vssd \<Rightarrow> string \<Rightarrow> vm_hardware \<Rightarrow> 'x \<Rightarrow>
     ((string \<times> vm_record \<times> vm_hardware) option \<times> 'x) outcome" where
  "clone_template A tmpl i label hw x =
     (case vm_clone A (tmpl, label) x of
        (None, x1) \<Rightarrow> Ret (None, x1)
      | (Some vm, x1) \<Rightarrow>
          (case vm_get_hardware A vm x1 of
             (None, x2) \<Rightarrow> Undefined
           | (Some (rec, h), x2) \<Rightarrow>
               bind_outcome (vssd_modify A vm i None x2) (\<lambda>(_, x3). Ret (Some (vm, rec, replace_hardware hw h), x3))))"

definition create_from_settings ::
    "('x, 'r, 'z) create_api_scheme \<Rightarrow> 'r new_vm \<Rightarrow> vm_hardware \<Rightarrow> 'x \<Rightarrow> ((string \<times> vm_record \<times> vm_hardware) option \<times> 'x) outcome" where
  "create_from_settings A made hw x =
     (case xen_vm_create A (made, default_hardware hw) x of
        (None, x1) \<Rightarrow> Ret (None, x1)
      | (Some vm, x1) \<Rightarrow>
          (case vm_get_hardware A vm x1 of
             (None, x2) \<Rightarrow> Undefined
           | (Some (rec, h), x2) \<Rightarrow> bind_outcome (change_hardware A vm h x2) (\<lambda>x3. Ret (Some (vm, rec, h), x3))))"

type_synonym 'x definition_result =
  "(int \<times> (cmpi_rc \<times> string) \<times> vm_path option \<times> (add_context xen_job \<times> string \<times> string) option \<times> 'x) outcome"

text \<open>
  The common exit: an error that is still set destroys the VM, also none. The parsed records are
  freed where no job takes them; a console that was freed before is freed twice then.
\<close>

definition define_exit ::
    "('x, 'r, 'z) create_api_scheme \<Rightarrow> parsed_console option \<Rightarrow> string option \<Rightarrow> int \<Rightarrow> cmpi_rc \<Rightarrow> string \<Rightarrow> vm_path option \<Rightarrow>
     (add_context xen_job \<times> string \<times> string) option \<Rightarrow> 'x \<Rightarrow> 'x definition_result" where
  "define_exit A console vm rc st msg sys job x =
     (if console = Some Con_freed then Undefined
      else Ret (rc, method_status (error_of A x) st msg, sys, job,
        if session_ok (vm_calls A) x then x
        else snd (vm_destroy (dev A) (case vm of None \<Rightarrow> null_vm A | Some h \<Rightarrow> h) True x)))"

text \<open>The last part: the VM is created, then the job started. A call that creates nothing has set the error.\<close>

definition define_vm ::
    "('x, 'r, 'z) create_api_scheme \<Rightarrow> bool \<Rightarrow> string option \<Rightarrow> 'r vssd \<Rightarrow> 'r new_vm \<Rightarrow> string \<Rightarrow> vm_hardware \<Rightarrow> parsed \<Rightarrow> bool \<Rightarrow> 'x \<Rightarrow>
     'x definition_result" where
  "define_vm A mem tmpl i made label hw ps spawn x =
     bind_outcome (case tmpl of Some t \<Rightarrow> clone_template A t i label hw x | None \<Rightarrow> create_from_settings A made hw x)
       (\<lambda>(created, x1).
          let con = Some (p_console ps);
              failed = define_exit A con (map_option fst created) VSMS_Failed CMPI_RC_ERR_FAILED
          in (case created of
                None \<Rightarrow> failed unknown_error None None x1
              | Some (vm, rec, h) \<Rightarrow>
                  if \<not> session_ok (vm_calls A) x1 then failed unknown_error None None x1
                  else let sys = Some (vm_create_ref (vm_uuid rec))
                    in if spawn \<or> tmpl \<noteq> None
                       then bind_outcome (job_create (task_calls A) mem ''Xen_VirtualSystemModifyResourcesJob'' (vm_name_label rec)
                              \<lparr>ctx_rec = (rec, h), ctx_disks = p_disks ps, ctx_ports = p_ports ps, ctx_console = p_console ps,
                               remove_vm_on_error = True, provision_disks = (tmpl \<noteq> None), memory_and_proc_need_updating = (tmpl \<noteq> None)\<rparr> x1)
                            (\<lambda>(job, x2). case job of
                               None \<Rightarrow> failed
                                 ''ERROR: Couldnt create the CIM_VirtualSystemManagementServiceJob to schedule an async operation'' sys None x2
                             | Some j \<Rightarrow> define_exit A None (Some vm) VSMS_Job_Started CMPI_RC_OK [] sys (Some j) x2)
                       else define_exit A con (Some vm) VSMS_Completed CMPI_RC_OK [] sys None x1))"

definition DefineSystem ::
    "('p, 'r) vsms_lib \<Rightarrow> 'r vssd_lib \<Rightarrow> ('x, 'r, 'z) create_api_scheme \<Rightarrow> bool \<Rightarrow> ('p, 'r vssd) method_args \<Rightarrow> 'x \<Rightarrow> 'x definition_result" where
  "DefineSystem L V A mem argsin x =
     (let refuse = (\<lambda>console msg. define_exit A console None VSMS_Invalid_Parameter CMPI_RC_ERR_INVALID_PARAMETER msg None None)
      in bind_outcome (get_reference_configuration L (vm_calls A) argsin x) (\<lambda>(st, tmpl, x1).
           if tmpl = None \<and> st \<noteq> CMPI_RC_ERR_NOT_FOUND
           then refuse None (''ERROR: Couldnt get the '' @ quoted ''ReferenceConfiguration'' @ '' parameter'') x1
           else (case xen_utils_get_vssd_param (parse_setting L) argsin ''SystemSettings'' of
             (_, None) \<Rightarrow>
               refuse None (''ERROR: Couldn'' @ [CHR 0x27] @ ''t find or parse the '' @ quoted ''SystemSettings'' @ '' parameter'') x1
           | (_, Some i) \<Rightarrow>
               bind_outcome (vssd_to_vm_rec V A mem (class_of L (path_of L i)) i (tmpl = None) x1) (\<lambda>(_, made, x2).
                 case made of
                   None \<Rightarrow> refuse None (''ERROR: '' @ quoted ''SystemSettings'' @ '' parameter doesnt contain enough properties to create a VM'') x2
                 | Some m \<Rightarrow>
                     (case r_label m of
                        None \<Rightarrow> Undefined
                      | Some label \<Rightarrow>
                          bind_outcome (parse_new_resources L A argsin
                              (nothing_parsed None (Some ((plain_vm [])\<lparr>vm_name_label := label\<rparr>, blank_hardware))) x2)
                            (\<lambda>(bad, ps, spawn, x3). case bad of
                               Some msg \<Rightarrow> refuse (Some (p_console ps)) msg x3
                             | None \<Rightarrow>
                                 (case p_rec ps of
                                    None \<Rightarrow> Undefined
                                  | Some (_, hw) \<Rightarrow>
                                      define_vm A mem tmpl i m label hw ps spawn (RESET_XEN_ERROR (vm_calls A) x3))))))))"

section \<open>Copying a system\<close>

record 'r copy_context =
  cp_settings :: "'r vssd"
  cp_label :: string
  cp_from :: string
  cp_sr :: "string option"

text \<open>The storage: a name that does not fit the buffer leaves it empty, so that no storage is named; a text is cut.\<close>

definition copy_storage ::
    "('p, 'r) vsms_lib \<Rightarrow> ('x, 'r, 'z) vsms_api_scheme \<Rightarrow> ('p, 'r vssd) method_args \<Rightarrow> 'x \<Rightarrow> (string option \<times> 'x) outcome" where
  "copy_storage L A argsin x =
     bind_outcome
       (case GetArgument argsin ''StoragePool'' CMPI_ref of
          (_, Some (A_ref (Some p))) \<Rightarrow>
            (case key_of L p ''InstanceID'' of
               (_, Some (A_string s)) \<Rightarrow> Ret (case CMPIStrncpyDeviceNameFromID (Some s) 127 of None \<Rightarrow> [] | Some n \<Rightarrow> n)
             | _ \<Rightarrow> Undefined)
        | _ \<Rightarrow>
            (case GetArgument argsin ''StoragePool'' CMPI_string of
               (_, Some (A_string s)) \<Rightarrow> Ret (take 127 s)
             | _ \<Rightarrow> Ret []))
       (\<lambda>buf. Ret (if buf \<noteq> [] then sr_get_by_uuid (dev A) buf x else (None, x)))"

definition CopySystem ::
    "('p, 'r) vsms_lib \<Rightarrow> 'r vssd_lib \<Rightarrow> ('x, 'r, 'z) create_api_scheme \<Rightarrow> bool \<Rightarrow> ('p, 'r vssd) method_args \<Rightarrow> 'x \<Rightarrow>
     (int \<times> (cmpi_rc \<times> string) \<times> ('r copy_context xen_job \<times> string \<times> string) option \<times> 'x) outcome" where
  "CopySystem L V A mem argsin x =
     (let ends = (\<lambda>rc st msg job y. Ret (rc, method_status (error_of A y) st msg, job, y));
          refuse = (\<lambda>msg. ends VSMS_Invalid_Parameter CMPI_RC_ERR_INVALID_PARAMETER msg None)
      in bind_outcome (copy_storage L A argsin x) (\<lambda>(sr, x1).
         bind_outcome (get_reference_configuration L (vm_calls A) argsin x1) (\<lambda>(_, tmpl, x2).
           case tmpl of
             None \<Rightarrow> refuse (''ERROR: Couldnt get the '' @ quoted ''ReferenceConfiguration'' @ '' parameter'') x2
           | Some vm \<Rightarrow>
               (case xen_utils_get_vssd_param (parse_setting L) argsin ''SystemSettings'' of
                  (_, None) \<Rightarrow>
                    refuse (''ERROR: Couldn'' @ [CHR 0x27] @ ''t find or parse the '' @ quoted ''SystemSettings'' @ '' parameter'') x2
                | (_, Some i) \<Rightarrow>
                    bind_outcome (vssd_to_vm_rec V A mem (class_of L (path_of L i)) i False x2) (\<lambda>(_, made, x3).
                      case made of
                        None \<Rightarrow> refuse (''ERROR: '' @ quoted ''SystemSettings'' @ '' parameter doesnt contain enough properties to create a VM'') x3
                      | Some m \<Rightarrow>
                          (case r_label m of
                             None \<Rightarrow> Undefined
                           | Some label \<Rightarrow>
                               bind_outcome (job_create (task_calls A) mem ''Xen_VirtualSystemCreateJob'' label
                                   \<lparr>cp_settings = i, cp_label = label, cp_from = vm, cp_sr = sr\<rparr> x3)
                                 (\<lambda>(job, x4). case job of
                                    None \<Rightarrow> ends VSMS_Failed CMPI_RC_ERR_FAILED unknown_error None x4
                                  | Some j \<Rightarrow> ends VSMS_Job_Started CMPI_RC_OK unknown_error (Some j) x4)))))))"

text \<open>The end of the job. The state of the job is written first, and writing it resets the error, before the copy is removed.\<close>

definition copy_ends ::
    "('x, 'r, 'z) create_api_scheme \<Rightarrow> 'a xen_job \<Rightarrow> string option \<Rightarrow> job_state \<Rightarrow> int \<Rightarrow> string \<Rightarrow> 'x \<Rightarrow> 'x" where
  "copy_ends A job result_vm state code description x =
     (let x1 = job_change_state (task_calls A) job state 100 code (Some description) x
      in case (session_ok (vm_calls A) x1, result_vm) of
           (False, Some vm) \<Rightarrow> snd (xen_vm_destroy (dev A) vm x1)
         | _ \<Rightarrow> x1)"

text \<open>On an error the first part of its description is read, which must be there.\<close>

definition copy_failed ::
    "('x, 'r, 'z) create_api_scheme \<Rightarrow> 'a xen_job \<Rightarrow> string option \<Rightarrow> 'x \<Rightarrow> 'x option outcome" where
  "copy_failed A job result_vm x =
     (case error_description (error_of A x) of
        Some (d # ds) \<Rightarrow> Ret (Some (copy_ends A job result_vm Job_Exception 2 d x))
      | _ \<Rightarrow> Undefined)"

definition copy_made ::
    "('p, 'r) vsms_lib \<Rightarrow> ('x, 'r, 'z) create_api_scheme \<Rightarrow> 'r copy_context xen_job \<Rightarrow> string option \<Rightarrow> 'x \<Rightarrow> 'x option outcome" where
  "copy_made L A job result_vm x =
     (let vm = (case result_vm of None \<Rightarrow> null_vm A | Some h \<Rightarrow> h)
      in bind_outcome (vssd_modify A vm (cp_settings (callback job)) None x) (\<lambda>(_, x1).
           let x3 = (case vm_get_record (vm_calls A) vm x1 of
                 (None, x2) \<Rightarrow> x2
               | (Some rec, x2) \<Rightarrow>
                   (case xen_utils_CMPIObjectPath_to_WBEM_URI (printed L (vm_create_ref (vm_uuid rec))) of
                      None \<Rightarrow> x2
                    | Some uri \<Rightarrow> task_add_to_other_config A (task_handle job, ''ResultingSystem'', uri) x2))
           in Ret (Some (copy_ends A job result_vm Job_Completed 0 [] x3))))"

definition copy_vm_job ::
    "('p, 'r) vsms_lib \<Rightarrow> ('x, 'r, 'z) create_api_scheme \<Rightarrow> 'r copy_context xen_job \<Rightarrow> 'x \<Rightarrow> 'x option outcome" where
  "copy_vm_job L A job x =
     (let c = callback job;
          (tmpl, x1) = vm_get_is_a_template A (cp_from c) (job_change_state (task_calls A) job Job_Running 0 0 None x);
          (sr, x2) = (case cp_sr c of Some s \<Rightarrow> (Some s, x1) | None \<Rightarrow> sr_find_default A x1)
      in if tmpl = Some True
         then (case vm_clone A (cp_from c, cp_label c) x2 of
            (None, x3) \<Rightarrow> copy_made L A job None x3
          | (Some vm, x3) \<Rightarrow>
              (case vm_get_record (vm_calls A) vm x3 of
                 (None, x4) \<Rightarrow> Undefined
               | (Some rec, x4) \<Rightarrow>
                   bind_outcome (vm_provision_disks A vm (other_config rec) sr x4) (\<lambda>res. case res of
                     None \<Rightarrow> Ret None
                   | Some (False, _, _, x5) \<Rightarrow> copy_failed A job (Some vm) x5
                   | Some (True, _, _, x5) \<Rightarrow> copy_made L A job (Some vm) x5)))
         else (case vm_copy A (cp_from c, cp_label c, sr) x2 of
            (None, x3) \<Rightarrow> copy_failed A job None x3
          | (Some vm, x3) \<Rightarrow> copy_made L A job (Some vm) x3))"

section \<open>Templates and hosts\<close>

text \<open>The result is the path of the template.\<close>

definition ConvertToXenTemplate ::
    "('p, 'r) vsms_lib \<Rightarrow> ('x, 'r, 'z) create_api_scheme \<Rightarrow> ('p, 'r vssd) method_args \<Rightarrow> 'x \<Rightarrow>
     (int \<times> (cmpi_rc \<times> string) \<times> vm_path option \<times> 'x) outcome" where
  "ConvertToXenTemplate L A argsin x =
     (let ends = (\<lambda>rc st msg op y. Ret (rc, method_status (error_of A y) st msg, op, y));
          refuse = (\<lambda>msg. ends VSMS_Invalid_Parameter CMPI_RC_ERR_INVALID_PARAMETER msg None);
          convert = (\<lambda>u. case vm_get_by_uuid (vm_calls A) u x of
              (None, x1) \<Rightarrow> refuse unknown_error x1
            | (Some vm, x1) \<Rightarrow>
                (case vm_set_is_a_template A (vm, True) x1 of
                   (False, x2) \<Rightarrow> refuse unknown_error x2
                 | (True, x2) \<Rightarrow>
                     (case vm_get_record (vm_calls A) vm x2 of
                        (None, x3) \<Rightarrow> refuse unknown_error x3
                      | (Some rec, x3) \<Rightarrow>
                          ends VSMS_Completed CMPI_RC_OK unknown_error (Some (template_create_ref (vm_uuid rec))) x3)))
      in (case GetArgument argsin ''System'' CMPI_ref of
            (_, Some (A_ref (Some p))) \<Rightarrow>
              (case key_of L p ''Name'' of (_, Some (A_string u)) \<Rightarrow> convert u | _ \<Rightarrow> Undefined)
          | _ \<Rightarrow>
              (case GetArgument argsin ''System'' CMPI_string of
                 (_, Some (A_string u)) \<Rightarrow> convert u
               | _ \<Rightarrow> refuse (''ERROR: '' @ quoted ''System'' @ '' parameter was not specified'') x)))"

text \<open>The path of a host; none where its uuid cannot be had.\<close>

definition host_create_ref :: "('x, 'r, 'z) create_api_scheme \<Rightarrow> string \<Rightarrow> 'x \<Rightarrow> vm_path option \<times> 'x" where
  "host_create_ref A h x =
     (case xen_host_get_uuid A h x of
        (None, x1) \<Rightarrow> (None, x1)
      | (Some u, x1) \<Rightarrow> (Some (''Xen_HostComputerSystem'', [(''CreationClassName'', ''Xen_HostComputerSystem''), (''Name'', u)]), x1))"

text \<open>The hosts are asked twice: to size the array, and to fill it.\<close>

fun count_bootable :: "('x, 'r, 'z) create_api_scheme \<Rightarrow> string \<Rightarrow> string list \<Rightarrow> 'x \<Rightarrow> nat \<times> 'x" where
  "count_bootable A vm [] x = (0, x)"
| "count_bootable A vm (h # hs) x =
     (let (can, x1) = assert_can_boot_here A (vm, h) x;
          (n, x2) = count_bootable A vm hs (RESET_XEN_ERROR (vm_calls A) x1)
      in (if can then Suc n else n, x2))"

fun collect_bootable :: "('x, 'r, 'z) create_api_scheme \<Rightarrow> string \<Rightarrow> string list \<Rightarrow> 'x \<Rightarrow> vm_path option list \<times> 'x" where
  "collect_bootable A vm [] x = ([], x)"
| "collect_bootable A vm (h # hs) x =
     (case assert_can_boot_here A (vm, h) x of
        (False, x1) \<Rightarrow> collect_bootable A vm hs (RESET_XEN_ERROR (vm_calls A) x1)
      | (True, x1) \<Rightarrow>
          (case host_create_ref A h x1 of
             (op, x2) \<Rightarrow>
               (case collect_bootable A vm hs (RESET_XEN_ERROR (vm_calls A) x2) of (ops, x3) \<Rightarrow> (op # ops, x3))))"

text \<open>An element beyond the size of the array is not stored, and a place that is not filled is empty.\<close>

definition fill_array :: "nat \<Rightarrow> 'a option list \<Rightarrow> 'a option list" where
  "fill_array n es = take n es @ replicate (n - length es) None"

definition FindPossibleHostsToBootOn ::
    "('p, 'r) vsms_lib \<Rightarrow> ('x, 'r, 'z) create_api_scheme \<Rightarrow> ('p, 'r vssd) method_args \<Rightarrow> 'x \<Rightarrow>
     int \<times> (cmpi_rc \<times> string) \<times> vm_path option list option \<times> 'x" where
  "FindPossibleHostsToBootOn L A argsin x =
     (let ends = (\<lambda>rc st msg ops y. (rc, method_status (error_of A y) st msg, ops, y))
      in (case xen_utils_get_affectedsystem (vm_calls A) (key_of L) argsin x of
            (_, None, x1) \<Rightarrow>
              ends VSMS_Invalid_Parameter CMPI_RC_ERR_INVALID_PARAMETER
                (''ERROR: Missing '' @ quoted ''AffectedSystem'' @ '' parameter'') None x1
          | (_, Some (vm, vm_rec), x1) \<Rightarrow>
              (case host_get_all A x1 of
                 (None, x2) \<Rightarrow> ends VSMS_Failed CMPI_RC_ERR_FAILED [] None x2
               | (Some hs, x2) \<Rightarrow>
                   (case count_bootable A vm hs x2 of
                      (n, x3) \<Rightarrow>
                        (case collect_bootable A vm hs x3 of
                           (ops, x4) \<Rightarrow> ends VSMS_Completed CMPI_RC_OK [] (Some (fill_array n ops)) x4)))))"

text \<open>The methods of the service itself, successful whatever the daemon answers once the host is known.\<close>

definition StartService :: "('x, 'r, 'z) create_api_scheme \<Rightarrow> 'x \<Rightarrow> int \<times> 'x" where
  "StartService A x =
     (case session_get_this_host A x of
        (None, x1) \<Rightarrow> (1, x1)
      | (Some h, x1) \<Rightarrow> (0, snd (host_enable A h x1)))"

definition StopService :: "('x, 'r, 'z) create_api_scheme \<Rightarrow> 'x \<Rightarrow> int \<times> 'x" where
  "StopService A x =
     (case session_get_this_host A x of
        (None, x1) \<Rightarrow> (1, x1)
      | (Some h, x1) \<Rightarrow> (0, snd (host_disable A h x1)))"

section \<open>The methods of the service\<close>

text \<open>What a method returns beside its code: paths and jobs by the names of the output arguments. A method that
  is not known returns the code of its status, 16.\<close>

datatype 'r vsms_output =
    Nothing_out
  | Resource_job "add_context xen_job \<times> string \<times> string"
  | Copy_job "'r copy_context xen_job \<times> string \<times> string"
  | Resulting_system vm_path "(add_context xen_job \<times> string \<times> string) option"
  | Resulting_resource "vm_path option"
  | Resulting_template vm_path
  | Possible_hosts "vm_path option list"

definition output_with :: "('a \<Rightarrow> 'r vsms_output) \<Rightarrow> 'a option \<Rightarrow> 'r vsms_output" where
  "output_with f v = (case v of None \<Rightarrow> Nothing_out | Some a \<Rightarrow> f a)"

definition vsms_method ::
    "('p, 'r) vsms_lib \<Rightarrow> 'r vssd_lib \<Rightarrow> ('x, 'r, 'z) create_api_scheme \<Rightarrow> bool \<Rightarrow> string \<Rightarrow> ('p, 'r vssd) method_args \<Rightarrow> nat \<Rightarrow> 'x \<Rightarrow>
     (int \<times> (cmpi_rc \<times> string) \<times> 'r vsms_output \<times> 'x) outcome" where
  "vsms_method L V A mem methodname argsin n x =
     (let resources = (\<lambda>op. bind_outcome (AddDeleteOrModifyResourceSettings L A mem op argsin n x)
            (\<lambda>(rc, st, job, x1). Ret (rc, st, output_with Resource_job job, x1)));
          plain = (\<lambda>(rc, x1). Ret (rc, (CMPI_RC_OK, []), Nothing_out, x1))
      in if methodname = ''StartService'' then plain (StartService A x)
         else if methodname = ''StopService'' then plain (StopService A x)
         else if methodname = ''DefineSystem''
         then bind_outcome (DefineSystem L V A mem argsin x) (\<lambda>(rc, st, sys, job, x1).
           Ret (rc, st, (case sys of None \<Rightarrow> Nothing_out | Some s \<Rightarrow> Resulting_system s job), x1))
         else if methodname = ''AddResourceSetting''
         then bind_outcome (AddResourceSetting L A argsin n x) (\<lambda>(rc, st, ref, x1). Ret (rc, st, output_with Resulting_resource ref, x1))
         else if methodname = ''DestroySystem''
         then (case DestroySystem (dev A) (key_of L) argsin n x of (rc, st, x1) \<Rightarrow> Ret (rc, st, Nothing_out, x1))
         else if methodname = ''AddResourceSettings'' then resources resource_add
         else if methodname = ''ModifyResourceSettings'' then resources resource_modify
         else if methodname = ''RemoveResourceSettings'' then resources resource_delete
         else if methodname = ''ModifySystemSettings''
         then bind_outcome (ModifySystemSettings A (parse_setting L) argsin n x) (\<lambda>(rc, st, x1). Ret (rc, st, Nothing_out, x1))
         else if methodname = ''CopySystem''
         then bind_outcome (CopySystem L V A mem argsin x) (\<lambda>(rc, st, job, x1). Ret (rc, st, output_with Copy_job job, x1))
         else if methodname = ''ConvertToXenTemplate''
         then bind_outcome (ConvertToXenTemplate L A argsin x) (\<lambda>(rc, st, op, x1). Ret (rc, st, output_with Resulting_template op, x1))
         else if methodname = ''FindPossibleHostsToRunOn''
         then (case FindPossibleHostsToBootOn L A argsin x of (rc, st, ops, x1) \<Rightarrow> Ret (rc, st, output_with Possible_hosts ops, x1))
         else Ret (16, (CMPI_RC_ERR_METHOD_NOT_AVAILABLE, []), Nothing_out, x))"

text \<open>The method around its session. A failure before the method leaves the result at zero.\<close>

definition vsms_invoke_method ::
    "'x backend \<Rightarrow> ('p, 'r) vsms_lib \<Rightarrow> 'r vssd_lib \<Rightarrow> ('x, 'r, 'z) create_api_scheme \<Rightarrow> bool \<Rightarrow> cmpi_rc + string \<Rightarrow>
     cmpi_rc \<times> ('p, 'r vssd) arg_value option \<Rightarrow> string \<Rightarrow> ('p, 'r vssd) method_args \<Rightarrow> nat \<Rightarrow> 'x world \<Rightarrow>
     (int \<times> (cmpi_rc \<times> string) \<times> 'r vsms_output \<times> 'x world) outcome" where
  "vsms_invoke_method X L V A mem entry key methodname argsin n w =
     (case credentials entry of
        Inl rc \<Rightarrow> Ret (0, (rc, []), Nothing_out, w)
      | Inr ctx \<Rightarrow>
          bind_outcome (open_session X ctx w)
            (\<lambda>(sess, w1). case sess of
               None \<Rightarrow> Ret (0, (CMPI_RC_ERR_METHOD_NOT_AVAILABLE, ''Unable to connect to xen daemon''), Nothing_out, w1)
             | Some s \<Rightarrow>
                 if fst key \<noteq> CMPI_RC_OK \<or> snd key = None
                 then Ret (0, (CMPI_RC_ERR_NOT_FOUND, ''Couldnt find the Xen_VirtualSystemManagementService object to invoke the method on. Have you specified the '' @
                   quoted ''Name'' @ '' key ?''), Nothing_out, xen_utils_cleanup_session (daemon X) (Some s) w1)
                 else with_session_id s (\<lambda>xenref.
                   bind_outcome (vsms_method (L\<lparr>session_ref := xenref\<rparr>) V A mem methodname argsin n (env_state w1))
                     (\<lambda>(rc, st, out, e).
                        Ret (rc, st, out, xen_utils_cleanup_session (daemon X) (Some s) (w1\<lparr>env_state := e\<rparr>))))))"

section \<open>The hosts that are found\<close>

text \<open>
  What is expected of the daemon: fixed hosts, of which each can boot a VM or not, with their uuids. A host
  that cannot boot the VM is answered with an error.
\<close>

definition host_service ::
    "('x, 'r, 'z) create_api_scheme \<Rightarrow> string list \<Rightarrow> (string \<Rightarrow> string \<Rightarrow> bool) \<Rightarrow> (string \<Rightarrow> string option) \<Rightarrow> bool" where
  "host_service A known can uid \<longleftrightarrow>
     (let good = session_ok (vm_calls A)
      in (\<forall>x. good (clear_error (vm_calls A) x)) \<and>
         (\<forall>x. good x \<longrightarrow> (\<exists>x'. host_get_all A x = (Some known, x') \<and> good x')) \<and>
         (\<forall>x vm h. good x \<longrightarrow> (\<exists>x'. assert_can_boot_here A (vm, h) x = (can vm h, x') \<and> (can vm h \<longrightarrow> good x'))) \<and>
         (\<forall>x h. good x \<longrightarrow> (\<exists>x'. xen_host_get_uuid A h x = (uid h, x'))))"

lemma host_serviceD:
  assumes "host_service A known can uid"
  shows "session_ok (vm_calls A) (RESET_XEN_ERROR (vm_calls A) x)"
    and "session_ok (vm_calls A) x \<Longrightarrow> \<exists>x'. host_get_all A x = (Some known, x') \<and> session_ok (vm_calls A) x'"
    and "session_ok (vm_calls A) x \<Longrightarrow>
      \<exists>x'. assert_can_boot_here A (vm, h) x = (can vm h, x') \<and> (can vm h \<longrightarrow> session_ok (vm_calls A) x')"
    and "session_ok (vm_calls A) x \<Longrightarrow> \<exists>x'. xen_host_get_uuid A h x = (uid h, x')"
  using assms unfolding host_service_def Let_def RESET_XEN_ERROR_def by simp_all

definition host_path :: "string \<Rightarrow> vm_path" where
  "host_path u = (''Xen_HostComputerSystem'', [(''CreationClassName'', ''Xen_HostComputerSystem''), (''Name'', u)])"

lemma count_bootable_hosts:
  assumes S: "host_service A known can uid"
  shows "session_ok (vm_calls A) x \<Longrightarrow>
    \<exists>x'. count_bootable A vm hs x = (length (filter (can vm) hs), x') \<and> session_ok (vm_calls A) x'"
proof (induction hs arbitrary: x)
  case (Cons h hs)
  obtain x1 where x1: "assert_can_boot_here A (vm, h) x = (can vm h, x1)" using host_serviceD(3) [OF S Cons.prems] by blast
  from Cons.IH [OF host_serviceD(1) [OF S], of x1] x1 show ?case by auto
qed simp

lemma host_ref:
  "host_service A known can uid \<Longrightarrow> session_ok (vm_calls A) x \<Longrightarrow> \<exists>x'. host_create_ref A h x = (map_option host_path (uid h), x')"
  using host_serviceD(4) [of A known can uid x h] by (auto simp: host_create_ref_def host_path_def split: option.splits)

lemma collect_bootable_hosts:
  assumes S: "host_service A known can uid"
  shows "session_ok (vm_calls A) x \<Longrightarrow>
    \<exists>x'. collect_bootable A vm hs x = (map (\<lambda>h. map_option host_path (uid h)) (filter (can vm) hs), x')"
proof (induction hs arbitrary: x)
  case (Cons h hs)
  obtain x1 where x1: "assert_can_boot_here A (vm, h) x = (can vm h, x1)" "can vm h \<longrightarrow> session_ok (vm_calls A) x1"
    using host_serviceD(3) [OF S Cons.prems] by blast
  show ?case
  proof (cases "can vm h")
    case True
    then obtain x2 where x2: "host_create_ref A h x1 = (map_option host_path (uid h), x2)" using host_ref [OF S] x1(2) by blast
    from Cons.IH [OF host_serviceD(1) [OF S], of x2] x1 x2 True show ?thesis by auto
  next
    case False
    from Cons.IH [OF host_serviceD(1) [OF S], of x1] x1 False show ?thesis by auto
  qed
qed simp

text \<open>C18. The search for hosts lists exactly the hosts that can boot the VM, in the order of the daemon's list, although
  every host that cannot leaves an error in the session; the array has room for all of them.\<close>

theorem possible_hosts_listed:
  assumes S: "host_service A known can uid" and x: "session_ok (vm_calls A) x1"
    and arg: "xen_utils_get_affectedsystem (vm_calls A) (key_of L) argsin x = (st, Some (vm, rec), x1)"
  shows "\<exists>x'. FindPossibleHostsToBootOn L A argsin x =
    (VSMS_Completed, (CMPI_RC_OK, []), Some (map (\<lambda>h. map_option host_path (uid h)) (filter (can vm) known)), x')"
proof -
  obtain x2 where x2: "host_get_all A x1 = (Some known, x2)" "session_ok (vm_calls A) x2" using host_serviceD(2) [OF S x] by blast
  obtain x3 where x3: "count_bootable A vm known x2 = (length (filter (can vm) known), x3)" "session_ok (vm_calls A) x3"
    using count_bootable_hosts [OF S x2(2)] by blast
  obtain x4 where "collect_bootable A vm known x3 = (map (\<lambda>h. map_option host_path (uid h)) (filter (can vm) known), x4)"
    using collect_bootable_hosts [OF S x3(2)] by blast
  with arg x2 x3 show ?thesis
    by (simp add: FindPossibleHostsToBootOn_def fill_array_def method_status_def xen_utils_set_status_def)
qed


section \<open>What DefineSystem makes\<close>

text \<open>
  The daemon as far as its VMs and tasks go: it creates a VM with the hardware of the record, and tasks, which do
  not touch the hardware, as long as it has room for one.
\<close>

definition system_service ::
    "('x, 'r, 'z) create_api_scheme \<Rightarrow> ('x \<Rightarrow> string \<Rightarrow> vm_hardware option) \<Rightarrow> ('x \<Rightarrow> string \<Rightarrow> task_record option) \<Rightarrow>
     ('x \<Rightarrow> bool) \<Rightarrow> bool" where
  "system_service A view tasks room \<longleftrightarrow>
     hw_service A view \<and> task_service (task_calls A) tasks \<and> task_ok (task_calls A) = session_ok (vm_calls A) \<and>
     keeps_calls A room \<and> (\<forall>m. keeps room (xen_vm_create A m)) \<and>
     (\<forall>x m hw. session_ok (vm_calls A) x \<longrightarrow> (\<exists>vm x'. xen_vm_create A (m, hw) x = (Some vm, x') \<and>
        session_ok (vm_calls A) x' \<and> view x vm = None \<and> view x' = (view x)(vm \<mapsto> hw))) \<and>
     (\<forall>x l d. session_ok (vm_calls A) x \<and> room x \<longrightarrow> (\<exists>h x'. task_create (task_calls A) l d x = (Some h, x') \<and> view x' = view x)) \<and>
     (\<forall>x h m. view (task_set_other_config (task_calls A) h m x) = view x) \<and>
     (\<forall>x h. view (snd (task_get_uuid (task_calls A) h x)) = view x)"

lemma system_serviceD:
  assumes "system_service A view tasks room"
  shows "hw_service A view" "task_service (task_calls A) tasks" "task_ok (task_calls A) = session_ok (vm_calls A)"
    and "session_ok (vm_calls A) x \<Longrightarrow> \<exists>vm x'. xen_vm_create A (m, hw) x = (Some vm, x') \<and>
        session_ok (vm_calls A) x' \<and> view x vm = None \<and> view x' = (view x)(vm \<mapsto> hw)"
    and "session_ok (vm_calls A) x \<Longrightarrow> room x \<Longrightarrow> \<exists>h x'. task_create (task_calls A) l d x = (Some h, x') \<and> view x' = view x"
    and "view (task_set_other_config (task_calls A) h cfg x) = view x"
    and "view (snd (task_get_uuid (task_calls A) h x)) = view x"
    and "keeps_calls A room" and "keeps room (xen_vm_create A created)"
  using assms by (simp_all add: system_service_def del: split_paired_All)

lemma change_hardware_kept:
  assumes K: "keeps_calls A P" and x: "P x" and run: "change_hardware A vm hw x = Ret x'"
  shows "P x'"
proof -
  obtain rc x1 where x1: "proc_rasd_modify A vm hw x = Ret (rc, x1)" "x' = snd (memory_rasd_modify A vm hw x1)"
    using run by (auto simp: change_hardware_def bind_outcome_Ret_iff)
  have "P x1" by (rule proc_rasd_modify_kept [OF K x x1(1)])
  then show ?thesis unfolding x1(2) by (rule memory_rasd_modify_kept [OF K])
qed

lemma job_is_made:
  assumes S: "system_service A view tasks room" and x: "session_ok (vm_calls A) x" and r: "room x"
  shows "\<exists>j ident x'. job_create (task_calls A) True n l c x = Ret (Some (j, n, ident), x') \<and> callback j = c \<and>
    view x' = view x \<and> session_ok (vm_calls A) x'"
proof -
  obtain h x1 where c: "task_create (task_calls A) n l x = (Some h, x1)" "view x1 = view x"
    using system_serviceD(5) [OF S x r] by blast
  have "task_ok (task_calls A) x" using x by (simp add: system_serviceD(3) [OF S])
  from job_alloc_ok [OF system_serviceD(2) [OF S] this c(1), of c n "''root/cimv2''"]
  obtain j u x' where a: "job_alloc (task_calls A) True n l c n ''root/cimv2'' x = (Some j, x')" "job_uuid j = Some u" "callback j = c"
    "task_ok (task_calls A) x'" by (metis xen_job.simps(5,7))
  have "x' = snd (task_get_uuid (task_calls A) h (task_set_other_config (task_calls A) h
      (put_entry ''CIMJobState'' ''2'' (put_entry ''PercentComplete'' ''0'' None)) x1))"
    using a(1) c(1) by (auto simp: job_alloc_def Let_def split: prod.splits if_splits)
  then have "view x' = view x" using c(2) by (simp only: system_serviceD(6,7) [OF S])
  then show ?thesis using a by (simp add: job_create_def system_serviceD(3) [OF S])
qed

text \<open>The settings of a new VM give it a number of processors at its start if it has any.\<close>

definition starts :: "vm_hardware \<Rightarrow> bool" where
  "starts h \<longleftrightarrow> vcpus_max h = 0 \<or> vcpus_at_startup h \<noteq> 0"

lemma change_to_itself: "starts h \<Longrightarrow> merge_memory h (merge_vcpus h h) = h"
  unfolding starts_def by (cases h) (auto simp: merge_memory_def merge_vcpus_def merge_size_def)

lemma setting_starts:
  assumes s: "setting_hardware L resource_modify i h = Some h1" and h: "starts h"
  shows "starts h1"
proof (cases "setting_kind_of L i")
  case K_processor
  then have "proc_rasd_to_vm_rec i h resource_modify = Ret (True, h1)"
    using s by (auto simp: setting_hardware_def split: if_splits outcome.splits)
  then show ?thesis using h
    by (auto simp: proc_rasd_to_vm_rec_def apply_count_def starts_def Let_def bind_outcome_Ret_iff split: if_splits option.splits)
next
  case K_memory
  then have "memory_rasd_to_vm_rec i h resource_modify = Ret (True, h1)"
    using s by (auto simp: setting_hardware_def split: if_splits outcome.splits)
  then show ?thesis using h
    by (auto simp: memory_rasd_to_vm_rec_def apply_size_def starts_def Let_def bind_outcome_Ret_iff split: if_splits option.splits)
qed (use s in \<open>simp_all add: setting_hardware_def\<close>)

lemma settings_start: "settings_hardware L resource_modify is h = Some h1 \<Longrightarrow> starts h \<Longrightarrow> starts h1"
proof (induction "is" arbitrary: h)
  case (Cons i "is")
  then obtain h2 where h2: "setting_hardware L resource_modify i h = Some h2" "settings_hardware L resource_modify is h2 = Some h1"
    by (auto split: option.splits)
  show ?case by (rule Cons.IH [OF h2(2) setting_starts [OF h2(1) Cons.prems(2)]])
qed simp

lemma default_starts: "starts h \<Longrightarrow> starts (default_hardware h)"
  by (auto simp: default_hardware_def set_processor_defaults_def set_memory_defaults_def starts_def Let_def)

lemma parse_new_settings:
  assumes "settings_hardware L resource_modify is h = Some h'" and "p_rec ps = Some (rec, h)"
  shows "parse_new_each L A (map A_instance is) ps x = Ret (None, ps\<lparr>p_rec := Some (rec, h')\<rparr>, x)"
  using assms
proof (induction "is" arbitrary: h ps)
  case (Cons i "is")
  obtain h1 where h1: "setting_hardware L resource_modify i h = Some h1" "settings_hardware L resource_modify is h1 = Some h'"
    using Cons.prems(1) by (auto split: option.splits)
  have "rasd_parse L A resource_modify True (A_instance i) ps x = Ret (True, ps\<lparr>p_rec := Some (rec, h1)\<rparr>, x)"
    using Cons.prems(2) apply_hardware_setting [OF h1(1) Cons.prems(2), of A True x]
    by (simp add: rasd_parse_def xen_utils_get_cmpi_instance_def rasd_vm_def setting_kind_of_def)
  then show ?case using Cons.IH [OF h1(2), of "ps\<lparr>p_rec := Some (rec, h1)\<rparr>"] by simp
qed simp

lemma created_from_settings:
  assumes S: "system_service A view tasks room" and x: "session_ok (vm_calls A) x" and hw: "starts hw"
  shows "\<exists>vm rec x'. create_from_settings A m hw x = Ret (Some (vm, rec, default_hardware hw), x') \<and> view x vm = None \<and>
    view x' = (view x)(vm \<mapsto> default_hardware hw) \<and> session_ok (vm_calls A) x' \<and> (room x \<longrightarrow> room x')"
proof -
  let ?h = "default_hardware hw"
  note H = system_serviceD(1) [OF S]
  obtain vm x1 where x1: "xen_vm_create A (m, ?h) x = (Some vm, x1)" "session_ok (vm_calls A) x1" "view x vm = None"
    "view x1 = (view x)(vm \<mapsto> ?h)" using system_serviceD(4) [OF S x] by blast
  have v1: "view x1 vm = Some ?h" by (simp add: x1(4))
  obtain v x2 where v2: "vm_get_hardware A vm x1 = (Some v, x2)" "snd v = ?h" "view x2 = view x1"
    using getter_callE [OF hw_serviceD(3) [OF H] x1(2) v1] by metis
  obtain rec where x2: "vm_get_hardware A vm x1 = (Some (rec, ?h), x2)" using v2 by (cases v) auto
  have "view x2 vm = Some ?h" using v1 v2(3) by simp
  from change_hardware_sets [OF H this, of ?h] obtain x3 where x3: "change_hardware A vm ?h x2 = Ret x3"
    "session_ok (vm_calls A) x3" "view x3 = (view x2)(vm \<mapsto> merge_memory ?h (merge_vcpus ?h ?h))" by blast
  have "view x3 = (view x)(vm \<mapsto> ?h)" using x3(3) v2(3) x1(4) by (simp add: change_to_itself [OF default_starts [OF hw]])
  moreover have "room x3" if "room x"
  proof -
    note K = system_serviceD(8) [OF S]
    have "room x1" by (rule keepsD [OF system_serviceD(9) [OF S] that x1(1)])
    then have "room x2" by (rule keepsD [OF keeps_callsD(7) [OF K] _ x2])
    then show ?thesis by (rule change_hardware_kept [OF K _ x3(1)])
  qed
  ultimately show ?thesis using x1 x2 x3 by (simp add: create_from_settings_def)
qed

lemma defined_exit:
  "session_ok (vm_calls A) x \<Longrightarrow> con \<noteq> Some Con_freed \<Longrightarrow>
   define_exit A con vm rc CMPI_RC_OK msg sys job x = Ret (rc, (CMPI_RC_OK, []), sys, job, x)"
  by (simp add: define_exit_def method_status_def xen_utils_set_status_def)

lemma define_vm_completed:
  assumes "create_from_settings A m hw x = Ret (Some (vm, rec, h), x1)" and "session_ok (vm_calls A) x1" and "p_console ps \<noteq> Con_freed"
  shows "define_vm A mem None i m label hw ps False x = Ret (VSMS_Completed, (CMPI_RC_OK, []), Some (vm_create_ref (vm_uuid rec)), None, x1)"
  using assms by (simp add: define_vm_def defined_exit)

lemma define_vm_started:
  assumes "create_from_settings A m hw x = Ret (Some (vm, rec, h), x1)" and "session_ok (vm_calls A) x1"
    and "job_create (task_calls A) mem ''Xen_VirtualSystemModifyResourcesJob'' (vm_name_label rec)
      \<lparr>ctx_rec = (rec, h), ctx_disks = p_disks ps, ctx_ports = p_ports ps, ctx_console = p_console ps,
       remove_vm_on_error = True, provision_disks = False, memory_and_proc_need_updating = False\<rparr> x1 = Ret (Some job, x2)"
    and "session_ok (vm_calls A) x2"
  shows "define_vm A mem None i m label hw ps True x = Ret (VSMS_Job_Started, (CMPI_RC_OK, []), Some (vm_create_ref (vm_uuid rec)), Some job, x2)"
  using assms by (simp add: define_vm_def defined_exit)



section \<open>What becomes of a copy\<close>

text \<open>A condition that every call of the job keeps but the destruction of a VM.\<close>

definition keeps_copy :: "('x, 'r, 'z) create_api_scheme \<Rightarrow> ('x \<Rightarrow> bool) \<Rightarrow> bool" where
  "keeps_copy A P \<longleftrightarrow> keeps_calls A P \<and>
     (\<forall>vm. keeps P (vm_get_other_config A vm)) \<and> (\<forall>u. keeps P (host_get_by_uuid A u)) \<and> (\<forall>vm. keeps P (vm_get_is_a_template A vm)) \<and>
     (\<forall>r. keeps P (vm_clone A r)) \<and> (\<forall>r. keeps P (vm_copy A r)) \<and> (\<forall>vm. keeps P (vm_get_record (vm_calls A) vm)) \<and>
     (\<forall>r x. P x \<longrightarrow> P (task_add_to_other_config A r x)) \<and> (\<forall>x. P x \<longrightarrow> P (clear_task_error (task_calls A) x)) \<and>
     (\<forall>h. keeps P (task_get_record (task_calls A) h)) \<and> (\<forall>h m x. P x \<longrightarrow> P (task_set_other_config (task_calls A) h m x))"

lemma keeps_copyD:
  assumes "keeps_copy A P"
  shows "keeps_calls A P" "keeps P (vm_get_other_config A vm)" "keeps P (host_get_by_uuid A u)" "keeps P (vm_get_is_a_template A vm)"
    "keeps P (vm_clone A r)" "keeps P (vm_copy A r2)" "keeps P (vm_get_record (vm_calls A) vm)"
    "P x \<Longrightarrow> P (task_add_to_other_config A r3 x)" "P x \<Longrightarrow> P (clear_task_error (task_calls A) x)"
    "keeps P (task_get_record (task_calls A) h)" "P x \<Longrightarrow> P (task_set_other_config (task_calls A) h m x)"
  using assms by (simp_all add: keeps_copy_def del: split_paired_All)

lemma job_change_state_kept:
  assumes K: "keeps_copy A P" and x: "P x"
  shows "P (job_change_state (task_calls A) job st percent err descr x)"
proof -
  have x0: "P (reset_task_error (task_calls A) x)" using x keeps_copyD(9) [OF K] by (simp add: reset_task_error_def)
  obtain r x1 where r: "task_get_record (task_calls A) (task_handle job) (reset_task_error (task_calls A) x) = (r, x1)" by fastforce
  have "P x1" by (rule keepsD [OF keeps_copyD(10) [OF K] x0 r])
  then show ?thesis using keeps_copyD(11) [OF K] by (cases r) (simp_all add: job_change_state_def r Let_def)
qed

lemma modify_vm_setting_kept:
  assumes K: "keeps_copy A P" and x: "P x" and run: "modify_vm_setting A vm name data x = Ret (good, y)"
  shows "P y"
proof -
  note k = keeps_callsD(2) [OF keeps_copyD(1) [OF K]]
  obtain c x1 where c: "vm_get_other_config A vm x = (c, x1)" by fastforce
  have x1: "P x1" by (rule keepsD [OF keeps_copyD(2) [OF K] x c])
  have other: "P z" if s: "set_other_config A vm data x = Ret z" for z
  proof (cases data)
    case (D_array arr)
    then obtain mp where "xen_utils_convert_CMPIArray_to_string_string_map arr = Ret mp"
      using s by (auto simp: set_other_config_def bind_outcome_Ret_iff)
    then show ?thesis using s D_array x x1 k c
      by (cases mp; cases "fold (\<lambda>(k, v). put_entry k v) (the mp) c") (auto simp: set_other_config_def)
  qed (use s in \<open>simp_all add: set_other_config_def\<close>)
  have affinity: "P z" if "set_affinity A vm data x = Ret z" for z
    using that k keepsD [OF keeps_copyD(3) [OF K] x]
    by (auto simp: set_affinity_def split: setting_data.splits prod.splits option.splits)
  show ?thesis
    using run x k other affinity
    by (auto simp: modify_vm_setting_def bind_outcome_Ret_iff set_map_def set_action_def split: option.splits if_splits setting_data.splits)
qed

lemma modify_all_kept:
  "keeps_copy A P \<Longrightarrow> P x \<Longrightarrow> modify_all A vm i es x = Ret y \<Longrightarrow> P y"
proof (induction A vm i es x rule: modify_all.induct)
  case (2 A vm i e es x)
  have "P x1" if "modify_vm_setting A vm p data x = Ret (good, x1)" for p data good x1
    by (rule modify_vm_setting_kept [OF "2.prems"(1,2) that])
  then show ?case using "2.prems" "2.IH"
    by (fastforce simp: bind_outcome_Ret_iff split: prod.splits option.splits cmpi_rc.splits)
qed simp

lemma vssd_modify_kept:
  "keeps_copy A P \<Longrightarrow> P x \<Longrightarrow> vssd_modify A vm i None x = Ret (good, y) \<Longrightarrow> P y"
  using modify_all_kept [of A P x vm i "properties_at i" y] by (auto simp: vssd_modify_def bind_outcome_Ret_iff)

lemma copy_ends_changes_state:
  assumes T: "task_service (task_calls A) tasks" and flag: "task_ok (task_calls A) = session_ok (vm_calls A)"
    and r: "tasks x (task_handle job) = Some rec"
  shows "copy_ends A job v st code d x = job_change_state (task_calls A) job st 100 code (Some d) x"
  using change_state_ok [OF T r, of st 100 code "Some d"] flag by (simp add: copy_ends_def Let_def)

text \<open>How the job ends, and what it keeps up to its last change of state.\<close>

definition ended ::
    "('x, 'r, 'z) create_api_scheme \<Rightarrow> ('x \<Rightarrow> string \<Rightarrow> task_record option) \<Rightarrow> 'a xen_job \<Rightarrow> ('x \<Rightarrow> bool) \<Rightarrow> bool \<Rightarrow> 'x \<Rightarrow> bool" where
  "ended A tasks job P complete y \<longleftrightarrow> P y \<and> (\<exists>rec. tasks y (task_handle job) = Some rec \<and>
     (if complete then job_numbers rec Job_Completed 100 0 else job_numbers rec Job_Exception 100 2))"

lemma copy_ends_ended:
  assumes T: "task_service (task_calls A) tasks" and flag: "task_ok (task_calls A) = session_ok (vm_calls A)"
    and K: "keeps_copy A P" and there: "\<And>y. P y \<Longrightarrow> tasks y (task_handle job) \<noteq> None" and x: "P x"
  shows "ended A tasks job P True (copy_ends A job v Job_Completed 0 d x)"
    and "ended A tasks job P False (copy_ends A job v Job_Exception 2 d x)"
proof -
  obtain rec where r: "tasks x (task_handle job) = Some rec" using there [OF x] by blast
  have num: "\<exists>rec'. tasks (job_change_state (task_calls A) job st 100 code (Some d) x) (task_handle job) = Some rec' \<and> job_numbers rec' st 100 code"
    if "\<bar>code\<bar> < 2 ^ 31" for st code
    by (rule change_state_numbers [OF T r _ that, of 100 st "Some d"]) (simp, simp)
  show "ended A tasks job P True (copy_ends A job v Job_Completed 0 d x)" "ended A tasks job P False (copy_ends A job v Job_Exception 2 d x)"
    using num [of 0 Job_Completed] num [of 2 Job_Exception] job_change_state_kept [OF K x]
    by (simp_all add: copy_ends_changes_state [OF T flag r] ended_def)
qed

lemma copy_made_ended:
  assumes T: "task_service (task_calls A) tasks" and flag: "task_ok (task_calls A) = session_ok (vm_calls A)"
    and K: "keeps_copy A P" and there: "\<And>y. P y \<Longrightarrow> tasks y (task_handle job) \<noteq> None" and x: "P x"
    and run: "copy_made L A job v x = Ret (Some y)"
  shows "ended A tasks job P True y"
proof -
  let ?vm = "case v of None \<Rightarrow> null_vm A | Some h \<Rightarrow> h"
  obtain good x1 where m: "vssd_modify A ?vm (cp_settings (callback job)) None x = Ret (good, x1)"
    using run by (auto simp: copy_made_def Let_def bind_outcome_Ret_iff)
  have x1: "P x1" by (rule vssd_modify_kept [OF K x m])
  obtain rec x2 where r: "vm_get_record (vm_calls A) ?vm x1 = (rec, x2)" by fastforce
  have x2: "P x2" by (rule keepsD [OF keeps_copyD(7) [OF K] x1 r])
  have "\<exists>x3. P x3 \<and> y = copy_ends A job v Job_Completed 0 [] x3"
    using run m r x2 keeps_copyD(8) [OF K x2]
    by (auto simp: copy_made_def Let_def split: option.splits)
  then show ?thesis using copy_ends_ended(1) [OF T flag K there] by blast
qed

lemma copy_failed_ended:
  assumes "task_service (task_calls A) tasks" and "task_ok (task_calls A) = session_ok (vm_calls A)"
    and "keeps_copy A P" and "\<And>y. P y \<Longrightarrow> tasks y (task_handle job) \<noteq> None" and "P x"
    and run: "copy_failed A job v x = Ret (Some y)"
  shows "ended A tasks job P False y"
  using run copy_ends_ended(2) [OF assms(1-5)]
  by (auto simp: copy_failed_def split: option.splits list.splits)

text \<open>The part of the job before the copy is made.\<close>

definition copy_begins ::
    "('x, 'r, 'z) create_api_scheme \<Rightarrow> 'r copy_context xen_job \<Rightarrow> 'x \<Rightarrow> bool option \<times> string option \<times> 'x" where
  "copy_begins A job x =
     (let (tmpl, x1) = vm_get_is_a_template A (cp_from (callback job)) (job_change_state (task_calls A) job Job_Running 0 0 None x);
          (sr, x2) = (case cp_sr (callback job) of Some s \<Rightarrow> (Some s, x1) | None \<Rightarrow> sr_find_default A x1)
      in (tmpl, sr, x2))"

lemma copy_begins_kept:
  assumes K: "keeps_copy A P" and x: "P x" and run: "copy_begins A job x = (tmpl, sr, y)"
  shows "P y"
proof -
  obtain t x1 where t: "vm_get_is_a_template A (cp_from (callback job)) (job_change_state (task_calls A) job Job_Running 0 0 None x) = (t, x1)"
    by fastforce
  have x1: "P x1" by (rule keepsD [OF keeps_copyD(4) [OF K] job_change_state_kept [OF K x] t])
  have "P (snd (sr_find_default A x1))" by (rule keeps_snd [OF sr_find_default_kept [OF keeps_copyD(1) [OF K]] x1])
  then show ?thesis using run t x1 by (auto simp: copy_begins_def Let_def split: prod.splits option.splits)
qed

lemma copy_of_template:
  assumes "copy_begins A job x = (Some True, sr, x2)"
  shows "copy_vm_job L A job x =
    (case vm_clone A (cp_from (callback job), cp_label (callback job)) x2 of
       (None, x3) \<Rightarrow> copy_made L A job None x3
     | (Some vm, x3) \<Rightarrow>
         (case vm_get_record (vm_calls A) vm x3 of
            (None, x4) \<Rightarrow> Undefined
          | (Some rec, x4) \<Rightarrow>
              bind_outcome (vm_provision_disks A vm (other_config rec) sr x4) (\<lambda>res. case res of
                None \<Rightarrow> Ret None
              | Some (False, _, _, x5) \<Rightarrow> copy_failed A job (Some vm) x5
              | Some (True, _, _, x5) \<Rightarrow> copy_made L A job (Some vm) x5)))"
  using assms by (simp add: copy_vm_job_def copy_begins_def Let_def split: prod.splits)

text \<open>C17. A template that cannot be cloned is reported as copied: the job of CopySystem goes on with the null VM, and
  its record is left as completed with the error code zero.\<close>

theorem failed_clone_reported_complete:
  assumes T: "task_service (task_calls A) tasks" "task_ok (task_calls A) = session_ok (vm_calls A)"
    and K: "keeps_copy A (\<lambda>y. tasks y (task_handle job) \<noteq> None)" and job: "tasks x (task_handle job) \<noteq> None"
    and begins: "copy_begins A job x = (Some True, sr, x2)"
    and clone: "vm_clone A (cp_from (callback job), cp_label (callback job)) x2 = (None, x3)"
    and run: "copy_vm_job L A job x = Ret (Some y)"
  shows "\<exists>rec. tasks y (task_handle job) = Some rec \<and> job_numbers rec Job_Completed 100 0"
proof -
  let ?P = "\<lambda>y. tasks y (task_handle job) \<noteq> None"
  have "?P x3" by (rule keepsD [OF keeps_copyD(5) [OF K] copy_begins_kept [OF K job begins] clone])
  moreover have "copy_made L A job None x3 = Ret (Some y)" using run by (simp add: copy_of_template [OF begins] clone)
  ultimately have "ended A tasks job ?P True y" using copy_made_ended [OF T K] by blast
  then show ?thesis by (simp add: ended_def)
qed

text \<open>C16. The copy of a template is never removed, also when its disks could not be provisioned: writing the exception to
  the job resets the error of the session, which alone would make the job destroy the copy.\<close>

theorem failed_copy_stays:
  assumes T: "task_service (task_calls A) tasks" "task_ok (task_calls A) = session_ok (vm_calls A)"
    and K: "keeps_copy A (\<lambda>y. tasks y (task_handle job) \<noteq> None)"
      "keeps_copy A (\<lambda>y. tasks y (task_handle job) \<noteq> None \<and> vm \<in> vms y)"
    and job: "tasks x (task_handle job) \<noteq> None"
    and begins: "copy_begins A job x = (Some True, sr, x2)"
    and clone: "vm_clone A (cp_from (callback job), cp_label (callback job)) x2 = (Some vm, x3)" "vm \<in> vms x3"
      "vm_get_record (vm_calls A) vm x3 = (Some rec, x4)"
    and provision: "vm_provision_disks A vm (other_config rec) sr x4 = Ret (Some (False, st, cfg, x5))"
    and run: "copy_vm_job L A job x = Ret (Some y)"
  shows "vm \<in> vms y \<and> (\<exists>rec. tasks y (task_handle job) = Some rec \<and> job_numbers rec Job_Exception 100 2)"
proof -
  let ?P = "\<lambda>y. tasks y (task_handle job) \<noteq> None \<and> vm \<in> vms y"
  have "tasks x3 (task_handle job) \<noteq> None"
    by (rule keepsD [OF keeps_copyD(5) [OF K(1)] copy_begins_kept [OF K(1) job begins] clone(1)])
  with clone(2) have "?P x3" by simp
  then have x4: "?P x4" by (rule keepsD [OF keeps_copyD(7) [OF K(2)] _ clone(3)])
  have "?P x5" by (rule vm_provision_disks_kept [OF keeps_copyD(1) [OF K(2)] x4 provision])
  moreover have "copy_failed A job (Some vm) x5 = Ret (Some y)" using run by (simp add: copy_of_template [OF begins] clone(1,3) provision)
  ultimately have "ended A tasks job ?P False y" using copy_failed_ended [OF T K(2)] by blast
  then show ?thesis by (simp add: ended_def)
qed

section \<open>Witnesses\<close>

text \<open>
  A daemon with room for one task that creates VMs under fresh names, knows three hosts, of which the second cannot
  boot any VM, and refuses everything while its error flag is down.
\<close>

type_synonym factory = "(task_record option \<times> bool) \<times> (string \<times> vm_hardware) list"

definition up :: "factory \<Rightarrow> bool" where "up s = snd (fst s)"

definition down :: "factory \<Rightarrow> factory" where "down s = ((fst (fst s), False), snd s)"

definition stored :: "factory \<Rightarrow> string \<Rightarrow> vm_hardware option" where "stored s = map_of (snd s)"

definition factory_set :: "('v \<Rightarrow> vm_hardware \<Rightarrow> vm_hardware) \<Rightarrow> string \<Rightarrow> 'v \<Rightarrow> factory \<Rightarrow> bool \<times> factory" where
  "factory_set upd vm v s =
     (case stored s vm of
        None \<Rightarrow> (False, down s)
      | Some h \<Rightarrow> if up s then (True, (fst s, (vm, upd v h) # snd s)) else (False, s))"

definition factory_get :: "(vm_hardware \<Rightarrow> 'v) \<Rightarrow> string \<Rightarrow> factory \<Rightarrow> 'v option \<times> factory" where
  "factory_get f vm s = (if up s then (map_option f (stored s vm), s) else (None, s))"

definition factory_hw :: "(factory, unit) hw_api" where
  "factory_hw = \<lparr>task_calls = lift_tasks one_task,
     vm_calls = \<lparr>session_ok = up, clear_error = (\<lambda>s. ((fst (fst s), True), snd s)), vm_get_all = (\<lambda>s. (None, s)),
       vm_get_record = (\<lambda>vm s. if up s then (Some (plain_vm vm), s) else (None, s)),
       vm_get_by_uuid = (\<lambda>u s. if up s then (Some u, s) else (None, s)), host_get_address = no_answer\<rparr>,
     vm_get_power_state = no_answer, vm_do = (\<lambda>op vm s. s),
     error_of = (\<lambda>s. \<lparr>ok = up s, error_description = Some [''HANDLE_INVALID'']\<rparr>), vm_set = (\<lambda>f vm s. s),
     vm_get_other_config = no_answer, host_get_by_uuid = no_answer,
     vm_get_hardware = factory_get (\<lambda>h. (plain_vm ''new'', h)), set_memory_limits = (\<lambda>vm v s. (False, down s)),
     set_static_max = factory_set (\<lambda>v h. h\<lparr>static_max := v\<rparr>), set_static_min = factory_set (\<lambda>v h. h\<lparr>static_min := v\<rparr>),
     set_dynamic_max = factory_set (\<lambda>v h. h\<lparr>dynamic_max := v\<rparr>), set_dynamic_min = factory_set (\<lambda>v h. h\<lparr>dynamic_min := v\<rparr>),
     set_vcpus_max = factory_set (\<lambda>v h. h\<lparr>vcpus_max := v\<rparr>),
     set_vcpus_at_startup = factory_set (\<lambda>v h. h\<lparr>vcpus_at_startup := v\<rparr>),
     set_vcpus_params = factory_set (\<lambda>v h. h\<lparr>vcpus_params := v\<rparr>),
     get_vcpus_max = factory_get vcpus_max, get_vcpus_at_startup = factory_get vcpus_at_startup\<rparr>"

definition fresh_name :: "factory \<Rightarrow> string" where
  "fresh_name s = replicate (Suc (sum_list (map (\<lambda>e. length (fst e)) (snd s)))) (CHR ''v'')"

definition factory_make :: "unit new_vm \<times> vm_hardware \<Rightarrow> factory \<Rightarrow> string option \<times> factory" where
  "factory_make r s = (if up s then (Some (fresh_name s), (fst s, (fresh_name s, snd r) # snd s)) else (None, s))"

definition with_creation ::
    "('x, unit) resource_api \<Rightarrow> (string \<times> string \<Rightarrow> 'x \<Rightarrow> string option \<times> 'x) \<Rightarrow> (unit new_vm \<times> vm_hardware \<Rightarrow> 'x \<Rightarrow> string option \<times> 'x) \<Rightarrow>
     ('x \<Rightarrow> bool) \<Rightarrow> ('x \<Rightarrow> 'x) \<Rightarrow> ('x, unit) create_api" where
  "with_creation R clone mk good fail = resource_api.extend R
     (create_api.fields [] clone no_answer mk (\<lambda>vm x. (Some True, x)) refused
        (\<lambda>x. if good x then (Some [''h1'', ''h2'', ''h3''], x) else (None, x))
        (\<lambda>r x. if snd r = ''h2'' then (False, fail x) else (good x, x)) (\<lambda>h x. (Some h, x)) (\<lambda>x. (None, x)) refused refused)"

lemma with_creation_simps [simp]:
  "resource_api.truncate (with_creation R clone mk good fail) = R"
  "vm_calls (with_creation R clone mk good fail) = vm_calls R" "task_calls (with_creation R clone mk good fail) = task_calls R"
  "error_of (with_creation R clone mk good fail) = error_of R" "dev (with_creation R clone mk good fail) = dev R"
  "vm_set (with_creation R clone mk good fail) = vm_set R"
  "vm_clone (with_creation R clone mk good fail) = clone" "xen_vm_create (with_creation R clone mk good fail) = mk"
  "vm_get_is_a_template (with_creation R clone mk good fail) = (\<lambda>vm x. (Some True, x))"
  "null_vm (with_creation R clone mk good fail) = []"
  "host_get_all (with_creation R clone mk good fail) = (\<lambda>x. if good x then (Some [''h1'', ''h2'', ''h3''], x) else (None, x))"
  "assert_can_boot_here (with_creation R clone mk good fail) = (\<lambda>r x. if snd r = ''h2'' then (False, fail x) else (good x, x))"
  "xen_host_get_uuid (with_creation R clone mk good fail) = (\<lambda>h x. (Some h, x))"
  by (simp_all add: with_creation_def create_api.defs resource_api.defs)

lemma with_creation_services:
  "hw_service (with_creation R clone mk good fail) view = hw_service R view"
  "keeps_calls (with_creation R clone mk good fail) P = keeps_calls R P"
  by (simp_all add: with_creation_def create_api.defs resource_api.defs hw_service_def keeps_calls_def del: split_paired_All)

definition factory_api :: "(factory, unit) create_api" where
  "factory_api = with_creation (some_resources factory_hw (some_devices (idle_disks (vm_api.truncate factory_hw)) no_answer) no_answer)
     no_answer factory_make up down"

lemma factory_calls [simp]:
  "vm_calls factory_api = vm_calls factory_hw" "task_calls factory_api = lift_tasks one_task" "error_of factory_api = error_of factory_hw"
  "session_ok (vm_calls factory_hw) = up"
  by (simp_all add: factory_api_def) (simp_all add: factory_hw_def)

theorem possible_hosts_listed_witness:
  "\<exists>x'. FindPossibleHostsToBootOn (demo_lib []) factory_api (\<lambda>n. (CMPI_RC_OK, Some (A_string ''vm1''))) ((None, True), []) =
     (VSMS_Completed, (CMPI_RC_OK, []), Some [Some (host_path ''h1''), Some (host_path ''h3'')], x')"
proof -
  have S: "host_service factory_api [''h1'', ''h2'', ''h3''] (\<lambda>vm h. h \<noteq> ''h2'') Some"
    by (auto simp: host_service_def Let_def) (auto simp: factory_api_def factory_hw_def up_def down_def)
  have "xen_utils_get_affectedsystem (vm_calls factory_api) (key_of (demo_lib [])) (\<lambda>n. (CMPI_RC_OK, Some (A_string ''vm1''))) ((None, True), []) =
      (CMPI_RC_OK, Some (''vm1'', Some (plain_vm ''vm1'')), ((None, True), []))"
    by (simp add: xen_utils_get_affectedsystem_def GetArgument_def factory_hw_def up_def)
  from possible_hosts_listed [OF S _ this] show ?thesis by (simp add: up_def)
qed

lemma factory_hw_calls:
  "setter_call up stored (factory_set upd) upd" "(\<And>h. fits h (f h)) \<Longrightarrow> getter_call up stored (factory_get f) fits"
  by (auto simp: setter_call_def getter_call_def factory_set_def factory_get_def stored_def up_def)

lemma factory_hw_service: "hw_service factory_hw stored"
  by (simp add: hw_service_def factory_hw_def factory_hw_calls) (simp add: down_def up_def stored_def)

lemma fresh_name_new: "stored s (fresh_name s) = None"
proof (rule ccontr)
  let ?n = "sum_list (map (\<lambda>e. length (fst e)) (snd s))"
  assume "stored s (fresh_name s) \<noteq> None"
  then obtain h where "(fresh_name s, h) \<in> set (snd s)" by (auto simp: stored_def dest: map_of_SomeD)
  then have "length (fresh_name s) \<in> set (map (\<lambda>e. length (fst e)) (snd s))" by force
  then have "length (fresh_name s) \<le> ?n" by (rule member_le_sum_list) simp
  then show False by (simp add: fresh_name_def)
qed

definition vacant :: "factory \<Rightarrow> bool" where "vacant s \<longleftrightarrow> fst (fst s) = None"

lemma factory_keeps:
  "keeps vacant (factory_set upd vm v)" "keeps vacant (factory_get f vm)" "keeps vacant (factory_make r)"
  by (auto simp: keeps_def vacant_def factory_set_def factory_get_def factory_make_def down_def split: option.split)

lemma factory_service: "system_service factory_api stored (\<lambda>s. one_task_view (fst s)) vacant"
proof -
  have 1: "hw_service factory_api stored" by (simp add: factory_api_def with_creation_services some_resources_hw factory_hw_service)
  have 2: "task_service (task_calls factory_api) (\<lambda>s. one_task_view (fst s))"
    using lift_service [OF one_task_service] by simp
  have 3: "keeps_calls factory_api vacant"
    unfolding factory_api_def with_creation_services
    by (simp add: keeps_calls_def factory_hw_def factory_keeps del: split_paired_All) (simp add: keeps_def vacant_def down_def)
  have 4: "\<exists>vm x'. xen_vm_create factory_api (m, hw) x = (Some vm, x') \<and> up x' \<and> stored x vm = None \<and> stored x' = (stored x)(vm \<mapsto> hw)"
    if "up x" for x m hw
    using that fresh_name_new [of x] by (auto simp: factory_api_def factory_make_def up_def stored_def)
  let ?T = "lift_tasks one_task :: factory task_sdk"
  have 5: "task_ok ?T = up" by (auto simp: lift_tasks_def one_task_def up_def)
  have 6: "\<exists>h x'. task_create ?T l d x = (Some h, x') \<and> stored x' = stored x" if "up x" "vacant x" for x l d
    using that by (auto simp: lift_tasks_def one_task_def up_def vacant_def stored_def)
  have 7: "stored (task_set_other_config ?T h m x) = stored x" "stored (snd (task_get_uuid ?T h x)) = stored x" for h m x
    by (simp_all add: lift_tasks_def stored_def split: prod.split)
  have 8: "\<forall>m. keeps vacant (xen_vm_create factory_api m)" by (simp add: factory_api_def factory_keeps del: split_paired_All)
  show ?thesis
    unfolding system_service_def
    by (intro conjI 1 2 3 8) (simp_all add: 4 5 6 7 del: split_paired_All split_paired_Ex)
qed

definition web_settings :: "unit vssd" where
  "web_settings = as_instance [(''ElementName'', H_chars (Some ''web'')), (''VirtualSystemType'', H_chars (Some ''PV'')),
     (''PV_Bootloader'', H_chars (Some ''grub''))]"

definition demo_classes :: "unit vssd_lib" where
  "demo_classes = \<lparr>class_isa = (\<lambda>c d. True), INTEGER_mask = CMPI_null, REAL_mask = CMPI_null, real_one = ()\<rparr>"

lemma web_settings_parsed:
  "\<exists>m. vssd_to_vm_rec demo_classes A True c web_settings True x = Ret (CMPI_RC_OK, Some m, x) \<and> r_label m = Some ''web''"
proof -
  have "contains ''PV'' ''PV''" by code_simp
  then show ?thesis
    by (simp add: vssd_to_vm_rec_def demo_classes_def web_settings_def as_instance_def string_of_def uuid_of_def affinity_of_def
      map_of_property_def get_vm_platform_config_def basic_record_def type_record_def pv_record_def Let_def)
qed

definition web_request :: "(unit, unit vssd) method_args" where
  "web_request n =
     (if n = ''SystemSettings'' then (CMPI_RC_OK, Some (A_instance web_settings))
      else if n = ''ResourceSettings'' then (CMPI_RC_OK, Some (A_array (Some [A_instance (demo_processors ''u1'' 2)])))
      else (CMPI_RC_ERR_NOT_FOUND, None))"



text \<open>The job that copies a template, on the daemon above and on one that can clone.\<close>

definition demo_copy :: "unit copy_context xen_job" where
  "demo_copy = \<lparr>job_name = ''Xen_VirtualSystemCreateJob'', domain_name = ''web'', ref_cn = ''Xen_VirtualSystemCreateJob'',
     ref_ns = ''root/cimv2'', job_uuid = Some (replicate 36 CHR ''a''), task_handle = ''ref'',
     callback = \<lparr>cp_settings = web_settings, cp_label = ''web'', cp_from = ''template'', cp_sr = Some ''sr''\<rparr>\<rparr>"

definition cloning_api :: "(factory, unit) create_api" where
  "cloning_api = with_creation (some_resources factory_hw (some_devices (idle_disks (vm_api.truncate factory_hw)) no_answer) no_answer)
     (\<lambda>r. factory_make (blank_vm, blank_hardware)) factory_make up down"

lemma cloning_calls [simp]:
  "vm_calls cloning_api = vm_calls factory_hw" "task_calls cloning_api = lift_tasks one_task" "error_of cloning_api = error_of factory_hw"
  by (simp_all add: cloning_api_def) (simp_all add: factory_hw_def)

definition occupied :: "factory \<Rightarrow> bool" where "occupied s \<longleftrightarrow> one_task_view (fst s) ''ref'' \<noteq> None"

definition has_vm :: "string \<Rightarrow> factory \<Rightarrow> bool" where "has_vm vm s \<longleftrightarrow> vm \<in> fst ` set (snd s)"

lemma occupied_kept:
  "keeps occupied (factory_set upd vm v)" "keeps occupied (factory_get f vm)" "keeps occupied (factory_make r)"
  "keeps (\<lambda>s. occupied s \<and> has_vm u s) (factory_set upd vm v)" "keeps (\<lambda>s. occupied s \<and> has_vm u s) (factory_get f vm)"
  "keeps (\<lambda>s. occupied s \<and> has_vm u s) (factory_make r)"
  by (auto simp: keeps_def occupied_def one_task_view_def has_vm_def factory_set_def factory_get_def factory_make_def down_def split: option.split)

lemma some_resources_rest:
  "vm_get_other_config (some_resources H D m) = vm_get_other_config H" "host_get_by_uuid (some_resources H D m) = host_get_by_uuid H"
  "task_add_to_other_config (some_resources H D m) = (\<lambda>t x. x)"
  by (simp_all add: some_resources_def vsms_api.defs hw_api.defs resource_api.defs)

lemma factory_hw_rest:
  "vm_get_other_config factory_hw = no_answer" "host_get_by_uuid factory_hw = no_answer"
  "keeps P (vm_get_record (vm_calls factory_hw) vm)"
  by (simp_all add: factory_hw_def keeps_def)

lemma copy_kept:
  "keeps_copy factory_api occupied" "keeps_copy cloning_api occupied" "keeps_copy cloning_api (\<lambda>s. occupied s \<and> has_vm u s)"
proof -
  have t: "occupied (clear_task_error (lift_tasks one_task) s) = occupied s" "keeps occupied (task_get_record (lift_tasks one_task) h)"
    "occupied s \<Longrightarrow> occupied (task_set_other_config (lift_tasks one_task) h m s)"
    "has_vm u (clear_task_error (lift_tasks one_task) s) = has_vm u s" 
    "has_vm u (task_set_other_config (lift_tasks one_task) h m s) = has_vm u s" for s h m
    by (auto simp: occupied_def keeps_def one_task_view_def lift_tasks_def one_task_def has_vm_def)
  have "keeps (\<lambda>s. occupied s \<and> has_vm u s) (task_get_record (lift_tasks one_task) h)" for h
    by (auto simp: occupied_def keeps_def one_task_view_def lift_tasks_def one_task_def has_vm_def)
  note t = t this
  have c: "keeps_calls factory_api occupied" "keeps_calls cloning_api occupied" "keeps_calls cloning_api (\<lambda>s. occupied s \<and> has_vm u s)"
    unfolding factory_api_def cloning_api_def with_creation_services
    by (simp_all add: keeps_calls_def factory_hw_def occupied_kept del: split_paired_All)
      (simp_all add: keeps_def occupied_def one_task_view_def has_vm_def down_def)
  show "keeps_copy factory_api occupied" "keeps_copy cloning_api occupied" "keeps_copy cloning_api (\<lambda>s. occupied s \<and> has_vm u s)"
    unfolding keeps_copy_def by (simp_all add: c t del: split_paired_All)
      (simp_all add: factory_api_def cloning_api_def with_creation_def create_api.defs resource_api.defs some_resources_rest factory_hw_rest occupied_kept del: split_paired_All)
qed

lemma occupied_job: "one_task_view (fst y) (task_handle demo_copy) \<noteq> None \<longleftrightarrow> occupied y"
  by (simp add: occupied_def demo_copy_def)

lemma demo_copy_begins:
  assumes "A = factory_api \<or> A = cloning_api"
  shows "copy_begins A demo_copy x = (Some True, Some ''sr'', job_change_state (lift_tasks one_task) demo_copy Job_Running 0 0 None x)"
proof -
  have "vm_get_is_a_template A = (\<lambda>vm x. (Some True, x))" using assms by (auto simp: factory_api_def cloning_api_def)
  then show ?thesis using assms by (auto simp: copy_begins_def demo_copy_def)
qed

lemma demo_copy_made:
  assumes "A = factory_api \<or> A = cloning_api"
  obtains y where "copy_made (demo_lib []) A demo_copy v x = Ret (Some y)"
  using that by (simp add: copy_made_def vssd_modify_def demo_copy_def web_settings_def as_instance_def Let_def)

lemma copy_daemon:
  assumes "A = factory_api \<or> A = cloning_api"
  shows "task_service (task_calls A) (\<lambda>s. one_task_view (fst s))" "task_ok (task_calls A) = session_ok (vm_calls A)"
    "keeps_copy A (\<lambda>y. one_task_view (fst y) (task_handle demo_copy) \<noteq> None)"
proof -
  show "task_service (task_calls A) (\<lambda>s. one_task_view (fst s))" using assms lift_service [OF one_task_service] by auto
  show "task_ok (task_calls A) = session_ok (vm_calls A)" using assms by (auto simp: lift_tasks_def one_task_def up_def)
  show "keeps_copy A (\<lambda>y. one_task_view (fst y) (task_handle demo_copy) \<noteq> None)"
    unfolding occupied_job using assms copy_kept(1,2) by auto
qed

theorem failed_clone_reported_complete_witness:
  "\<exists>y rec. copy_vm_job (demo_lib []) factory_api demo_copy ((Some demo_task, True), []) = Ret (Some y) \<and>
     fst (fst y) = Some rec \<and> job_numbers rec Job_Completed 100 0"
proof -
  let ?x = "((Some demo_task, True), []) :: factory"
  let ?x2 = "job_change_state (lift_tasks one_task) demo_copy Job_Running 0 0 None ?x"
  have f: "factory_api = factory_api \<or> factory_api = cloning_api" by simp
  note b = demo_copy_begins [OF f, of ?x]
  have c: "vm_clone factory_api (cp_from (callback demo_copy), cp_label (callback demo_copy)) ?x2 = (None, ?x2)"
    by (simp add: factory_api_def no_answer_def)
  obtain y where "copy_made (demo_lib []) factory_api demo_copy None ?x2 = Ret (Some y)" by (rule demo_copy_made [OF f])
  then have y: "copy_vm_job (demo_lib []) factory_api demo_copy ?x = Ret (Some y)" by (simp add: copy_of_template [OF b] c)
  have x: "one_task_view (fst ?x) (task_handle demo_copy) \<noteq> None" by (simp add: one_task_view_def demo_copy_def)
  from failed_clone_reported_complete [OF copy_daemon [OF f] x b c y]
  obtain rec where "fst (fst y) = Some rec" "job_numbers rec Job_Completed 100 0" by (auto simp: one_task_view_def demo_copy_def)
  with y show ?thesis by blast
qed

theorem failed_copy_stays_witness:
  "\<exists>y rec. copy_vm_job (demo_lib []) cloning_api demo_copy ((Some demo_task, True), []) = Ret (Some y) \<and>
     has_vm ''v'' y \<and> fst (fst y) = Some rec \<and> job_numbers rec Job_Exception 100 2"
proof -
  let ?x = "((Some demo_task, True), []) :: factory"
  let ?x2 = "job_change_state (lift_tasks one_task) demo_copy Job_Running 0 0 None ?x"
  let ?x3 = "(fst ?x2, [(''v'', blank_hardware)])"
  have f: "cloning_api = factory_api \<or> cloning_api = cloning_api" by simp
  note b = demo_copy_begins [OF f, of ?x]
  have x2: "up ?x2" "snd ?x2 = []"
    by (auto simp: job_change_state_def reset_task_error_def lift_tasks_def one_task_def demo_copy_def up_def Let_def)
  have c: "vm_clone cloning_api (cp_from (callback demo_copy), cp_label (callback demo_copy)) ?x2 = (Some ''v'', ?x3)"
    using x2 by (simp add: cloning_api_def factory_make_def fresh_name_def)
  have u: "up ?x3" using x2(1) by (simp add: up_def)
  have g: "vm_get_record (vm_calls cloning_api) ''v'' ?x3 = (Some (plain_vm ''v''), ?x3)" using u by (simp add: factory_hw_def)
  have "vm_provision cloning_api = refused" by (simp add: cloning_api_def with_creation_def create_api.defs resource_api.defs)
  then obtain st where p: "vm_provision_disks cloning_api ''v'' (other_config (plain_vm ''v'')) (Some ''sr'') ?x3 = Ret (Some (False, st, None, ?x3))"
    by (simp add: vm_provision_disks_def refused_def xen_utils_get_from_string_string_map_def)
  have "copy_failed cloning_api demo_copy (Some ''v'') ?x3 = Ret (Some (copy_ends cloning_api demo_copy (Some ''v'') Job_Exception 2 ''HANDLE_INVALID'' ?x3))"
    by (simp add: copy_failed_def) (simp add: factory_hw_def)
  then obtain y where y: "copy_vm_job (demo_lib []) cloning_api demo_copy ?x = Ret (Some y)"
    by (simp only: copy_of_template [OF b] c g prod.case option.case p bind_outcome.simps bool.case)
  have x: "one_task_view (fst ?x) (task_handle demo_copy) \<noteq> None" by (simp add: one_task_view_def demo_copy_def)
  have k: "keeps_copy cloning_api (\<lambda>y. one_task_view (fst y) (task_handle demo_copy) \<noteq> None \<and> ''v'' \<in> {u. has_vm u y})"
    unfolding occupied_job mem_Collect_eq by (rule copy_kept(3))
  have "''v'' \<in> {u. has_vm u ?x3}" by (simp add: has_vm_def)
  from failed_copy_stays [OF copy_daemon [OF f] k x b c this g p y]
  obtain rec where "has_vm ''v'' y" "fst (fst y) = Some rec" "job_numbers rec Job_Exception 100 2"
    by (auto simp: one_task_view_def demo_copy_def)
  with y show ?thesis by blast
qed

end
