(* ===== verification/ImportSequence.thy ===== *)
theory ImportSequence
  imports Resources
begin

text \<open>
  The import of a snapshot tree by the snapshot service
  (\<^verbatim>\<open>src/Xen_VirtualSystemSnapshotService.c\<close>): an interpreter of a text of
  instructions, one to a line, that make disks and keep a map from the names of the exported disks
  to the new ones. Each call runs up to the next disk that the client has to fill; the rest of the text and the map
  go back to the client, as strings, and come with the next call.
\<close>

section \<open>The daemon\<close>

text \<open>A uuid that is null is sent as a text of its own, a parameter. The plug-in of the host is called by the name of its function.\<close>

record ('x, 'r) snapshot_api = "('x, 'r) resource_api" +
  null_text :: string
  import_disk_create :: "string \<times> string \<times> 64 word \<Rightarrow> 'x \<Rightarrow> string option \<times> 'x"
  xen_vdi_get_uuid :: "string \<Rightarrow> 'x \<Rightarrow> string option \<times> 'x"
  xen_vdi_clone :: "string \<Rightarrow> 'x \<Rightarrow> string option \<times> 'x"
  xen_vdi_get_sr :: "string \<Rightarrow> 'x \<Rightarrow> string option \<times> 'x"
  xen_vdi_snapshot :: "string \<Rightarrow> 'x \<Rightarrow> string option \<times> 'x"
  xen_vdi_set_label :: "string \<times> string \<Rightarrow> 'x \<Rightarrow> bool \<times> 'x"
  xen_sr_scan :: "string \<Rightarrow> 'x \<Rightarrow> bool \<times> 'x"
  call_plugin :: "string \<times> string_map option \<Rightarrow> 'x \<Rightarrow> (bool \<times> string option) \<times> 'x"
  xen_vm_snapshot :: "string \<times> string \<Rightarrow> 'x \<Rightarrow> string option \<times> 'x"
  xen_vm_revert :: "string \<Rightarrow> 'x \<Rightarrow> bool \<times> 'x"
  xen_vm_get_snapshots :: "string \<Rightarrow> 'x \<Rightarrow> string list option \<times> 'x"
  xen_vm_get_uuid :: "string \<Rightarrow> 'x \<Rightarrow> string option \<times> 'x"
  session_address :: "'x \<Rightarrow> string option \<times> 'x"
  session_certificate :: "'x \<Rightarrow> string option \<times> 'x"
  own_session :: "'x \<Rightarrow> string option \<times> 'x"
  end_session :: "string \<Rightarrow> 'x \<Rightarrow> 'x"

section \<open>The instructions\<close>

text \<open>
  What the instructions change: the map, and the new disk with the name of the old one, for the client. The results are a
  flag and the new state; a false flag ends the call.
\<close>

record import_state =
  vdi_map :: "string_map option"
  dest_vdi_uuid :: "string option"
  old_vdi_uuid :: "string option"

text \<open>A disk of the size that the text gives, as far as it fits the type.\<close>

definition exec_create ::
    "('x, 'r, 'z) snapshot_api_scheme \<Rightarrow> string list \<Rightarrow> string \<Rightarrow> import_state \<Rightarrow> 'x \<Rightarrow> (bool \<times> import_state \<times> 'x) outcome" where
  "exec_create A args sr_uuid st x =
     (if length args \<noteq> 3 then Ret (False, st, x)
      else (case sr_get_by_uuid (dev A) sr_uuid x of
         (None, x1) \<Rightarrow> Ret (False, st, x1)
       | (Some sr, x1) \<Rightarrow>
           let old = args ! 1; st1 = st\<lparr>old_vdi_uuid := Some old\<rparr>
           in bind_outcome (signed64 (atoi (args ! 2))) (\<lambda>size.
                case import_disk_create A (sr, old, size) x1 of
                  (None, x2) \<Rightarrow> Ret (False, st1, x2)
                | (Some vdi, x2) \<Rightarrow>
                    (case xen_vdi_get_uuid A vdi x2 of
                       (None, x3) \<Rightarrow> Ret (False, st1, x3)
                     | (Some u, x3) \<Rightarrow> Ret (True, st1\<lparr>dest_vdi_uuid := Some u, vdi_map := put_entry old u (vdi_map st1)\<rparr>, x3)))))"

text \<open>A parent that the daemon does not know is no failure of the instruction.\<close>

definition exec_clone ::
    "('x, 'r, 'z) snapshot_api_scheme \<Rightarrow> string list \<Rightarrow> import_state \<Rightarrow> 'x \<Rightarrow> (bool \<times> import_state \<times> 'x) outcome" where
  "exec_clone A args st x =
     (if length args \<noteq> 3 then Ret (False, st, x)
      else let child = args ! 1;
               parent = (case xen_utils_get_from_string_string_map (vdi_map st) (args ! 2) of None \<Rightarrow> null_text A | Some u \<Rightarrow> u)
           in (case vdi_get_by_uuid (dev A) parent x of
                 (None, x1) \<Rightarrow> Ret (True, st\<lparr>old_vdi_uuid := Some child\<rparr>, x1)
               | (Some vdi, x1) \<Rightarrow>
                   (case xen_vdi_clone A vdi x1 of
                      (None, x2) \<Rightarrow> Ret (False, st, x2)
                    | (Some new, x2) \<Rightarrow>
                        (case xen_vdi_get_uuid A new x2 of
                           (None, x3) \<Rightarrow> Ret (True, st\<lparr>old_vdi_uuid := Some child\<rparr>, x3)
                         | (Some u, x3) \<Rightarrow>
                             Ret (True, st\<lparr>old_vdi_uuid := Some child, dest_vdi_uuid := Some u,
                               vdi_map := put_entry child u (vdi_map st)\<rparr>, x3)))))"

definition exec_reuse :: "string list \<Rightarrow> import_state \<Rightarrow> bool \<times> import_state" where
  "exec_reuse args st =
     (if length args \<noteq> 3 then (False, st)
      else let old = args ! 1; st1 = st\<lparr>old_vdi_uuid := Some old\<rparr>
           in (case xen_utils_get_from_string_string_map (vdi_map st) (args ! 2) of
                 None \<Rightarrow> (False, st1)
               | Some u \<Rightarrow>
                   (True, st1\<lparr>dest_vdi_uuid := Some u,
                      vdi_map := put_entry old u (snd (xen_utils_remove_from_string_string_map (args ! 2) (vdi_map st)))\<rparr>)))"

text \<open>The disk is replaced by a snapshot of itself. A disk that the daemon does not know is no failure.\<close>

definition exec_snap ::
    "('x, 'r, 'z) snapshot_api_scheme \<Rightarrow> string list \<Rightarrow> import_state \<Rightarrow> 'x \<Rightarrow> bool \<times> import_state \<times> 'x" where
  "exec_snap A args st x =
     (if length args \<noteq> 2 then (False, st, x)
      else (case xen_utils_get_from_string_string_map (vdi_map st) (args ! 1) of
         None \<Rightarrow> (False, st, x)
       | Some u \<Rightarrow>
           (case vdi_get_by_uuid (dev A) u x of
              (None, x1) \<Rightarrow> (True, st, x1)
            | (Some vdi, x1) \<Rightarrow>
                (case xen_vdi_get_sr A vdi x1 of
                   (None, x2) \<Rightarrow> (False, st, x2)
                 | (Some sr, x2) \<Rightarrow>
                     (case xen_vdi_snapshot A vdi x2 of
                        (None, x3) \<Rightarrow> (False, st, x3)
                      | (Some new, x3) \<Rightarrow>
                          (case all_calls [xen_vdi_destroy (dev A) vdi, xen_vdi_set_label A (new, args ! 1), xen_sr_scan A sr] x3 of
                             (False, x4) \<Rightarrow> (False, st, x4)
                           | (True, x4) \<Rightarrow>
                               (case xen_vdi_get_uuid A new x4 of
                                  (None, x5) \<Rightarrow> (False, st, x5)
                                | (Some v, x5) \<Rightarrow> (True, st\<lparr>vdi_map := put_entry (args ! 1) v (vdi_map st)\<rparr>, x5))))))))"

definition exec_leaf ::
    "('x, 'r, 'z) snapshot_api_scheme \<Rightarrow> string list \<Rightarrow> import_state \<Rightarrow> 'x \<Rightarrow> bool \<times> import_state \<times> 'x" where
  "exec_leaf A args st x =
     (if length args \<noteq> 2 then (False, st, x)
      else let u = (case xen_utils_get_from_string_string_map (vdi_map st) (args ! 1) of None \<Rightarrow> null_text A | Some v \<Rightarrow> v)
           in (case vdi_get_by_uuid (dev A) u x of
                 (None, x1) \<Rightarrow> (True, st, x1)
               | (Some vdi, x1) \<Rightarrow> (True, st, snd (xen_vdi_set_label A (vdi, args ! 1) x1))))"

section \<open>The interpreter\<close>

definition exec_line ::
    "('x, 'r, 'z) snapshot_api_scheme \<Rightarrow> string \<Rightarrow> string \<Rightarrow> import_state \<Rightarrow> 'x \<Rightarrow> (bool \<times> import_state \<times> 'x) outcome" where
  "exec_line A sr_uuid line st x =
     (case xen_utils_copy_to_string_set line '' '' of
        None \<Rightarrow> Ret (True, st, x)
      | Some ws \<Rightarrow>
          let args = map the ws
          in (case args of
                [] \<Rightarrow> Ret (True, st, x)
              | command # _ \<Rightarrow>
                  if command = ''create'' then exec_create A args sr_uuid st x
                  else if command = ''clone'' then exec_clone A args st x
                  else if command = ''reuse'' then (case exec_reuse args st of (good, st1) \<Rightarrow> Ret (good, st1, x))
                  else if command = ''snap'' then Ret (exec_snap A args st x)
                  else if command = ''leaf'' then Ret (exec_leaf A args st x)
                  else if command = ''pass'' then Ret (True, st, x)
                  else Ret (False, st, x)))"

text \<open>The first line of a text, and what follows the end of it.\<close>

definition cut_line :: "string \<Rightarrow> string \<times> string option" where
  "cut_line tmp = (takeWhile (\<lambda>c. c \<noteq> CHR 0x0A) tmp, map_option tl (strchr tmp (CHR 0x0A)))"

lemma cut_line_shorter: "cut_line tmp = (line, Some rest) \<Longrightarrow> length rest < length tmp"
  by (auto simp: cut_line_def dest: strchr_Some)

text \<open>Line by line up to a new disk; the result is the rest of the text, or none where an instruction failed.\<close>

function (sequential) run_lines ::
    "('x, 'r, 'z) snapshot_api_scheme \<Rightarrow> string \<Rightarrow> string \<Rightarrow> import_state \<Rightarrow> 'x \<Rightarrow>
     (string option option \<times> import_state \<times> 'x) outcome" where
  "run_lines A sr_uuid tmp st x =
     (case cut_line tmp of
        (line, next_instruction) \<Rightarrow>
          bind_outcome (exec_line A sr_uuid line st x) (\<lambda>(good, st1, x1).
            if \<not> good then Ret (None, st1, x1)
            else if dest_vdi_uuid st1 \<noteq> None then Ret (Some next_instruction, st1, x1)
            else (case next_instruction of
               None \<Rightarrow> Ret (Some None, st1, x1)
             | Some rest \<Rightarrow> run_lines A sr_uuid rest st1 x1)))"
  by pat_completeness auto
termination
  by (relation "measure (\<lambda>(A, sr_uuid, tmp, st, x). length tmp)") (auto dest: cut_line_shorter [OF sym])

declare run_lines.simps [simp del]

section \<open>The method\<close>

abbreviation No_more_disks :: int where "No_more_disks \<equiv> 32768"

text \<open>
  The outputs: the path of the new disk with the name of the old one, the map, the rest of the text. The map is null while it
  is empty.
\<close>

record import_output =
  new_disk :: "(vm_path \<times> string) option"
  map_out :: "string option"
  context_out :: "string option"

definition no_output :: import_output where
  "no_output = \<lparr>new_disk = None, map_out = None, context_out = None\<rparr>"

text \<open>A name that is given by a path is copied to a buffer, which is not initialised where the copy fails.\<close>

definition name_given ::
    "('p, 'r) vsms_lib \<Rightarrow> ('p, 'r vssd) method_args \<Rightarrow> string \<Rightarrow> string \<Rightarrow> string option outcome" where
  "name_given L argsin n key =
     (case GetArgument argsin n CMPI_ref of
        (_, Some (A_ref (Some p))) \<Rightarrow>
          (case key_of L p key of
             (_, Some (A_string s)) \<Rightarrow> (case CMPIStrncpyDeviceNameFromID (Some s) 128 of None \<Rightarrow> Undefined | Some u \<Rightarrow> Ret (Some u))
           | _ \<Rightarrow> Undefined)
      | _ \<Rightarrow>
          (case GetArgument argsin n CMPI_string of
             (_, Some (A_string s)) \<Rightarrow> Ret (Some s)
           | _ \<Rightarrow> Ret None))"

definition string_arg :: "('p, 'i) method_args \<Rightarrow> string \<Rightarrow> string option" where
  "string_arg argsin n = (case GetArgument argsin n CMPI_string of (_, Some (A_string s)) \<Rightarrow> Some s | _ \<Rightarrow> None)"

definition missing :: "string \<Rightarrow> string" where
  "missing n = ''ERROR: '' @ quoted n @ '' parameter was not specified''"

text \<open>
  The text of the instructions is searched for carriage returns in a loop that does not move on, so a text with one is searched for
  ever: there is no result then.
\<close>

definition create_next_disk ::
    "('p, 'r) vsms_lib \<Rightarrow> ('x, 'r, 'z) snapshot_api_scheme \<Rightarrow> ('p, 'r vssd) method_args \<Rightarrow> 'x \<Rightarrow>
     (int \<times> (cmpi_rc \<times> string) \<times> import_output \<times> 'x) option outcome" where
  "create_next_disk L A argsin x =
     (let ends = (\<lambda>rc st msg out y. Ret (Some (rc, method_status (error_of A y) st msg, out, y)));
          refuse = (\<lambda>n. ends VSMS_Invalid_Parameter CMPI_RC_ERR_INVALID_PARAMETER (missing n) no_output x)
      in (case string_arg argsin ''ImportContext'' of
            None \<Rightarrow> refuse ''ImportContext''
          | Some import_sequence \<Rightarrow>
              (case string_arg argsin ''DiskImageMap'' of
                 None \<Rightarrow> refuse ''DiskImageMap''
               | Some map_text \<Rightarrow>
                   bind_outcome (name_given L argsin ''StoragePool'' ''InstanceID'') (\<lambda>sr. case sr of
                     None \<Rightarrow> refuse ''StoragePool''
                   | Some sr_uuid \<Rightarrow>
                       if import_sequence = [] \<or> hd import_sequence = CHR '' ''
                       then ends No_more_disks CMPI_RC_ERR_NOT_FOUND unknown_error no_output x
                       else if CHR 0x0D \<in> set import_sequence then Ret None
                       else bind_outcome
                         (run_lines A sr_uuid import_sequence
                            \<lparr>vdi_map = xen_utils_convert_string_to_string_map (Some map_text) '','', dest_vdi_uuid = None, old_vdi_uuid = None\<rparr> x)
                         (\<lambda>(run, st, x1). case run of
                            None \<Rightarrow> ends VSMS_Failed CMPI_RC_ERR_FAILED unknown_error no_output x1
                          | Some next_instruction \<Rightarrow>
                              if \<not> session_ok (vm_calls A) x1
                              then ends VSMS_Failed CMPI_RC_ERR_FAILED unknown_error no_output x1
                              else bind_outcome
                                (case dest_vdi_uuid st of
                                   None \<Rightarrow> Ret None
                                 | Some u \<Rightarrow>
                                     (case old_vdi_uuid st of
                                        None \<Rightarrow> Undefined | Some old \<Rightarrow> Ret (Some (disk_image_create_ref sr_uuid u, old))))
                                (\<lambda>disk. ends (if next_instruction = None then No_more_disks else VSMS_Completed) CMPI_RC_OK unknown_error
                                   \<lparr>new_disk = disk, map_out = xen_utils_flatten_string_string_map (vdi_map st),
                                    context_out = next_instruction\<rparr> x1))))))"

section \<open>The client\<close>

text \<open>
  The client of the import: it passes the storage pool with each call, fills the disk that it gets, and calls again with
  the text and the map that came back, until there are no more disks. The number bounds its calls.
\<close>

definition import_args :: "string \<Rightarrow> string \<Rightarrow> string \<Rightarrow> ('p, 'i) method_args" where
  "import_args pool text map_text n =
     (if n = ''ImportContext'' then (CMPI_RC_OK, Some (A_string text))
      else if n = ''DiskImageMap'' then (CMPI_RC_OK, Some (A_string map_text))
      else if n = ''StoragePool'' then (CMPI_RC_OK, Some (A_string pool))
      else (CMPI_RC_ERR_NOT_FOUND, None))"

primrec import_client ::
    "('p, 'r) vsms_lib \<Rightarrow> ('x, 'r, 'z) snapshot_api_scheme \<Rightarrow> string \<Rightarrow> nat \<Rightarrow> string \<Rightarrow> string \<Rightarrow> 'x \<Rightarrow>
     ((vm_path \<times> string) list \<times> string \<times> 'x) option outcome" where
  "import_client L A pool 0 map_text text x = Ret None"
| "import_client L A pool (Suc n) map_text text x =
     bind_outcome (create_next_disk L A (import_args pool text map_text) x) (\<lambda>r. case r of
       None \<Rightarrow> Ret None
     | Some (rc, _, out, x1) \<Rightarrow>
         let disks = (case new_disk out of None \<Rightarrow> [] | Some d \<Rightarrow> [d]);
             last_map = (case map_out out of None \<Rightarrow> map_text | Some m \<Rightarrow> m)
         in if rc = No_more_disks then Ret (Some (disks, last_map, x1))
            else if rc = VSMS_Completed then
              (case context_out out of
                 None \<Rightarrow> Ret None
               | Some rest \<Rightarrow> bind_outcome (import_client L A pool n last_map rest x1) (\<lambda>r1.
                   Ret (map_option (\<lambda>(ds, m, y). (disks @ ds, m, y)) r1)))
            else Ret None)"

section \<open>The import at once\<close>

text \<open>
  The reference: the lines one after the other over a map that is never turned into text, with the pairs of the new disks and the old ones; none where
  an instruction fails or the session does.
\<close>

definition made :: "import_state \<Rightarrow> (string \<times> string) list" where
  "made st = (case dest_vdi_uuid st of None \<Rightarrow> [] | Some u \<Rightarrow> [(u, the (old_vdi_uuid st))])"

primrec import_all ::
    "('x, 'r, 'z) snapshot_api_scheme \<Rightarrow> string \<Rightarrow> string list \<Rightarrow> string_map option \<Rightarrow> 'x \<Rightarrow>
     ((string \<times> string) list \<times> string_map option \<times> 'x) option outcome" where
  "import_all A pool [] mp x = Ret (Some ([], mp, x))"
| "import_all A pool (l # ls) mp x =
     bind_outcome (exec_line A pool l \<lparr>vdi_map = mp, dest_vdi_uuid = None, old_vdi_uuid = None\<rparr> x) (\<lambda>(good, st, x1).
       if good \<and> session_ok (vm_calls A) x1
       then bind_outcome (import_all A pool ls (vdi_map st) x1) (\<lambda>r. Ret (map_option (\<lambda>(ds, m, y). (made st @ ds, m, y)) r))
       else Ret None)"

section \<open>Maps that survive as text\<close>

definition plain_word :: "string \<Rightarrow> bool" where
  "plain_word s \<longleftrightarrow> s \<noteq> [] \<and> set s \<inter> {CHR '','', CHR ''='', CHR 0x22} = {}"

definition plain_map :: "string_map option \<Rightarrow> bool" where
  "plain_map mp \<longleftrightarrow>
     (\<exists>m. mp = Some m \<and> distinct (map fst m) \<and> (\<forall>e \<in> set m. plain_word (fst e) \<and> plain_word (snd e)))"

definition names_disks :: "('x, 'r, 'z) snapshot_api_scheme \<Rightarrow> bool" where
  "names_disks A \<longleftrightarrow> (\<forall>vdi x u x1. xen_vdi_get_uuid A vdi x = (Some u, x1) \<longrightarrow> plain_word u)"

definition plain_line :: "string \<Rightarrow> bool" where
  "plain_line l \<longleftrightarrow> set l \<inter> {CHR '','', CHR ''='', CHR 0x22, CHR 0x0A, CHR 0x0D} = {} \<and> (l \<noteq> [] \<longrightarrow> hd l \<noteq> CHR '' '')"

lemma names_disksD: "names_disks A \<Longrightarrow> xen_vdi_get_uuid A vdi x = (Some u, x1) \<Longrightarrow> plain_word u"
  by (auto simp: names_disks_def)

lemma plain_map_read:
  assumes "plain_map mp"
  shows "xen_utils_convert_string_to_string_map (Some (flatten_entries (entries mp))) '','' = mp"
proof -
  obtain m where m: "mp = Some m" "distinct (map fst m)" "\<forall>e \<in> set m. plain_word (fst e) \<and> plain_word (snd e)"
    using assms unfolding plain_map_def by blast
  have "\<forall>e \<in> set m. clean_entry e \<and> has_value e" using m(3)
    unfolding plain_word_def clean_entry_def by (auto dest: bspec dest!: hd_in_set)
  then show ?thesis using convert_flatten [of m] m by simp
qed

lemma replace_value_set: "replace_value k v m = Some m' \<Longrightarrow> set m' \<subseteq> insert (k, v) (set m)"
proof (induction m arbitrary: m')
  case (Cons e m)
  then show ?case
  proof (cases "fst e = k")
    case True
    with Cons(2) show ?thesis by (cases e) auto
  next
    case False
    with Cons(2) obtain m1 where "replace_value k v m = Some m1" "m' = e # m1" by (cases e) auto
    with Cons(1) show ?thesis by auto
  qed
qed simp

lemma plain_map_put: "plain_map mp \<Longrightarrow> plain_word k \<Longrightarrow> plain_word v \<Longrightarrow> plain_map (put_entry k v mp)"
proof -
  assume a: "plain_map mp" "plain_word k" "plain_word v"
  obtain m where m: "mp = Some m" "distinct (map fst m)" "\<forall>e \<in> set m. plain_word (fst e) \<and> plain_word (snd e)"
    using a(1) unfolding plain_map_def by blast
  show ?thesis
  proof (cases "replace_value k v m")
    case None
    then have "distinct (map fst (m @ [(k, v)]))" using m(2) by (simp add: replace_value_None)
    moreover have "put_entry k v mp = Some (m @ [(k, v)])"
      using None m(1) by (simp add: xen_utils_add_to_string_string_map_def)
    ultimately show ?thesis using m(3) a unfolding plain_map_def by force
  next
    case (Some m')
    then have "put_entry k v mp = Some m'" using m(1) by (simp add: xen_utils_add_to_string_string_map_def)
    moreover have "\<forall>e \<in> set m'. plain_word (fst e) \<and> plain_word (snd e)"
      using replace_value_set [OF Some] m(3) a by force
    ultimately show ?thesis using replace_value_keys [OF Some] m(2) unfolding plain_map_def by force
  qed
qed

lemma put_entry_filled: "entries (put_entry k v mp) \<noteq> []"
  using put_entry_map_of [of k v mp] by (auto dest: fun_cong [where x = k])


lemma set_strtok: "strtok_r d s = Some (u, r) \<Longrightarrow> set u \<union> set r \<subseteq> set s"
  unfolding strtok_r_def Let_def
  by (auto split: if_splits dest!: in_set_dropD dest: set_takeWhileD set_dropWhileD)

lemma set_tokens: "u \<in> set (tokens d s) \<Longrightarrow> set u \<subseteq> set s"
proof (induction d s rule: tokens.induct)
  case (1 d s)
  then show ?case
  proof (cases "strtok_r d s")
    case None
    with 1 show ?thesis by (subst (asm) (2) tokens.simps) simp
  next
    case (Some p)
    then obtain v r where p: "strtok_r d s = Some (v, r)" by (cases p) auto
    then have "u = v \<or> u \<in> set (tokens d r)" using 1(2) by (subst (asm) tokens.simps) simp
    then show ?thesis using 1(1) [OF p refl] set_strtok [OF p] by blast
  qed
qed

lemma plain_map_token:
  assumes mp: "plain_map mp" and tok: "set tok \<inter> {CHR '','', CHR 0x22} = {}"
  shows "plain_map (convert_token tok mp)"
proof (cases "strtok_r ''='' tok")
  case None
  then show ?thesis using mp by (simp add: convert_token_def)
next
  case (Some p)
  then obtain k r where k: "strtok_r ''='' tok = Some (k, r)" by (cases p) auto
  show ?thesis
  proof (cases "strtok_r ''='' r")
    case None
    then show ?thesis using mp k by (simp add: convert_token_def)
  next
    case (Some p)
    then obtain v s where v: "strtok_r ''='' r = Some (v, s)" by (cases p) auto
    have in_tok: "k \<in> set (tokens ''='' tok)" "v \<in> set (tokens ''='' tok)"
      using k v by (subst tokens.simps, simp add: tokens.simps [of _ r])+
    have word: "plain_word u" if "u \<in> set (tokens ''='' tok)" for u
      using tokens_clean [OF that] set_tokens [OF that] tok unfolding plain_word_def by auto
    then have w: "plain_word k" "plain_word v" using in_tok by blast+
    then have "strip_quotes v = v" by (intro strip_quotes_id) (auto simp: plain_word_def dest: hd_in_set)
    then show ?thesis using k v plain_map_put [OF mp w] by (simp add: convert_token_def)
  qed
qed

lemma plain_map_convert:
  assumes "set s \<inter> {CHR 0x22} = {}"
  shows "plain_map (xen_utils_convert_string_to_string_map (Some s) '','')"
proof -
  have start: "plain_map (Some [])" by (simp add: plain_map_def)
  have "plain_map (fold convert_token ts mp)"
    if "plain_map mp" "\<forall>u \<in> set ts. set u \<inter> {CHR '','', CHR 0x22} = {}" for ts mp
    using that by (induction ts arbitrary: mp) (simp_all add: plain_map_token)
  from this [OF start, of "tokens '','' s"] start show ?thesis
    using tokens_clean [of _ "'',''" s] set_tokens [of _ "'',''" s] assms
    by (fastforce simp: xen_utils_convert_string_to_string_map_def)
qed

section \<open>What an instruction keeps\<close>

text \<open>
  The map stays one that survives as text and is not emptied, and a new disk comes with the name of the old one. The name that an earlier
  instruction left is of no influence on the rest.
\<close>

definition import_moves :: "import_state \<Rightarrow> import_state \<Rightarrow> bool" where
  "import_moves st st1 \<longleftrightarrow> plain_map (vdi_map st1) \<and> (entries (vdi_map st) \<noteq> [] \<longrightarrow> entries (vdi_map st1) \<noteq> []) \<and>
     (dest_vdi_uuid st = None \<longrightarrow> dest_vdi_uuid st1 \<noteq> None \<longrightarrow> old_vdi_uuid st1 \<noteq> None \<and> entries (vdi_map st1) \<noteq> [])"

definition same_but_old :: "import_state \<Rightarrow> import_state \<Rightarrow> bool" where
  "same_but_old st st1 \<longleftrightarrow> vdi_map st = vdi_map st1 \<and> dest_vdi_uuid st = dest_vdi_uuid st1 \<and>
     (dest_vdi_uuid st1 \<noteq> None \<longrightarrow> old_vdi_uuid st = old_vdi_uuid st1)"

lemma set_flatten_entries: "set (flatten_entries m) \<subseteq> {CHR '','', CHR ''=''} \<union> (\<Union>e \<in> set m. set (fst e) \<union> set (snd e))"
  by (induction m rule: flatten_entries.induct) auto

lemma strchr_set: "strchr s c = Some t \<Longrightarrow> set t \<subseteq> set s"
  by (auto dest: strchr_Some)

lemma set_cut_key: "set (cut_key s i) \<subseteq> insert (CHR '','') (set s)"
  unfolding cut_key_def Let_def snprintf_def
  by (auto split: option.splits if_splits dest!: in_set_takeD in_set_dropD in_set_butlastD
      dest: strchr_set [THEN subsetD] in_set_takeD in_set_dropD)

lemma plain_map_remove:
  assumes mp: "plain_map mp"
  shows "plain_map (snd (xen_utils_remove_from_string_string_map k mp))"
proof -
  obtain m where m: "mp = Some m" "\<forall>e \<in> set m. plain_word (fst e) \<and> plain_word (snd e)"
    using mp unfolding plain_map_def by blast
  have "CHR 0x22 \<notin> set (flatten_entries m)"
    using set_flatten_entries [of m] m(2) unfolding plain_word_def by fastforce
  then have "set (cut_key (flatten_entries m) i) \<inter> {CHR 0x22} = {}" for i
    using set_cut_key [of "flatten_entries m" i] by auto
  from plain_map_convert [OF this] mp show ?thesis
    by (auto simp: xen_utils_remove_from_string_string_map_def xen_utils_flatten_string_string_map_def m(1) split: option.split)
qed

lemma words_plain: "w \<in> set (tokens '' '' l) \<Longrightarrow> plain_line l \<Longrightarrow> plain_word w"
  using tokens_clean [of w "'' ''" l] set_tokens [of w "'' ''" l] by (auto simp: plain_word_def plain_line_def)

lemma exec_create_moves:
  assumes "exec_create A args pool st x = Ret (g, st1, x1)" and "plain_map (vdi_map st)" and "names_disks A"
    and "\<forall>w \<in> set args. plain_word w"
  shows "import_moves st st1"
  using assms
  by (cases "signed64 (atoi (args ! 2))")
    (auto simp: exec_create_def Let_def import_moves_def put_entry_filled plain_map_put names_disksD
      split: if_splits option.splits prod.splits)

lemma exec_clone_moves:
  assumes "exec_clone A args st x = Ret (g, st1, x1)" and "plain_map (vdi_map st)" and "names_disks A"
    and "\<forall>w \<in> set args. plain_word w"
  shows "import_moves st st1"
  using assms
  by (auto simp: exec_clone_def Let_def import_moves_def put_entry_filled plain_map_put names_disksD
      split: if_splits option.splits prod.splits)

lemma exec_reuse_moves:
  assumes "exec_reuse args st = (g, st1)" and "plain_map (vdi_map st)" and "\<forall>w \<in> set args. plain_word w"
  shows "import_moves st st1"
proof (cases "length args = 3")
  case True
  show ?thesis
  proof (cases "xen_utils_get_from_string_string_map (vdi_map st) (args ! 2)")
    case None
    then show ?thesis using assms True by (auto simp: exec_reuse_def Let_def import_moves_def)
  next
    case (Some u)
    obtain m where m: "vdi_map st = Some m" "\<forall>e \<in> set m. plain_word (fst e) \<and> plain_word (snd e)"
      using assms(2) unfolding plain_map_def by blast
    have "(args ! 2, u) \<in> set m" using Some m(1) by (simp add: get_entries map_of_SomeD)
    then have "plain_word u" using m(2) by force
    then show ?thesis using assms True Some plain_map_remove [OF assms(2)]
      by (auto simp: exec_reuse_def Let_def import_moves_def put_entry_filled plain_map_put)
  qed
next
  case False
  then show ?thesis using assms by (auto simp: exec_reuse_def import_moves_def)
qed

lemma exec_snap_moves:
  assumes "exec_snap A args st x = (g, st1, x1)" and "plain_map (vdi_map st)" and "names_disks A"
    and "\<forall>w \<in> set args. plain_word w"
  shows "import_moves st st1"
  using assms
  by (auto simp: exec_snap_def Let_def import_moves_def put_entry_filled plain_map_put names_disksD
      simp del: all_calls.simps split: if_splits option.splits prod.splits bool.splits)

lemma exec_leaf_moves:
  assumes "exec_leaf A args st x = (g, st1, x1)" and "plain_map (vdi_map st)"
  shows "import_moves st st1"
  using assms by (auto simp: exec_leaf_def Let_def import_moves_def split: if_splits option.splits prod.splits)

abbreviation line_words :: "string \<Rightarrow> string list" where
  "line_words l \<equiv> filter (\<lambda>t. t \<noteq> []) (tokens '' '' l)"

lemma exec_line_words:
  "exec_line A pool l st x =
     (if line_words l = [] then Ret (True, st, x)
      else if hd (line_words l) = ''create'' then exec_create A (line_words l) pool st x
      else if hd (line_words l) = ''clone'' then exec_clone A (line_words l) st x
      else if hd (line_words l) = ''reuse'' then (case exec_reuse (line_words l) st of (good, st1) \<Rightarrow> Ret (good, st1, x))
      else if hd (line_words l) = ''snap'' then Ret (exec_snap A (line_words l) st x)
      else if hd (line_words l) = ''leaf'' then Ret (exec_leaf A (line_words l) st x)
      else if hd (line_words l) = ''pass'' then Ret (True, st, x)
      else Ret (False, st, x))"
proof (cases "l = []")
  case True
  then show ?thesis by (simp add: exec_line_def xen_utils_copy_to_string_set_def tokens_Nil)
next
  case False
  then have "xen_utils_copy_to_string_set l '' '' = Some (map Some (line_words l))"
    by (simp add: xen_utils_copy_to_string_set_def)
  then show ?thesis unfolding exec_line_def
    by (cases "line_words l") (simp_all only: option.simps list.simps list.map_comp comp_def Let_def option.sel list.sel map_ident
      if_True if_False simp_thms)
qed

lemma exec_line_moves:
  assumes run: "exec_line A pool l st x = Ret (g, st1, x1)" and mp: "plain_map (vdi_map st)" and A: "names_disks A"
    and l: "plain_line l"
  shows "import_moves st st1"
proof -
  have stays: "import_moves st st" using mp by (simp add: import_moves_def)
  have w: "\<forall>w \<in> set (line_words l). plain_word w" using words_plain l by auto
  show ?thesis using run unfolding exec_line_words
    using exec_create_moves [OF _ mp A w] exec_clone_moves [OF _ mp A w] exec_reuse_moves [OF _ mp w]
      exec_snap_moves [OF _ mp A w] exec_leaf_moves [OF _ mp] stays
    by (auto split: if_splits prod.splits)
qed

text \<open>The name that is left over has no influence.\<close>

lemma exec_create_old:
  "exec_create A args pool (st\<lparr>old_vdi_uuid := p\<rparr>) x = Ret (g, st1, x1) \<Longrightarrow> dest_vdi_uuid st = None \<Longrightarrow>
   \<exists>st2. exec_create A args pool (st\<lparr>old_vdi_uuid := q\<rparr>) x = Ret (g, st2, x1) \<and> same_but_old st1 st2"
  by (cases "signed64 (atoi (args ! 2))")
    (auto simp: exec_create_def Let_def same_but_old_def split: if_splits option.splits prod.splits)

lemma exec_clone_old:
  "exec_clone A args (st\<lparr>old_vdi_uuid := p\<rparr>) x = Ret (g, st1, x1) \<Longrightarrow> dest_vdi_uuid st = None \<Longrightarrow>
   \<exists>st2. exec_clone A args (st\<lparr>old_vdi_uuid := q\<rparr>) x = Ret (g, st2, x1) \<and> same_but_old st1 st2"
  by (auto simp: exec_clone_def Let_def same_but_old_def split: if_splits option.splits prod.splits)

lemma exec_reuse_old:
  "exec_reuse args (st\<lparr>old_vdi_uuid := p\<rparr>) = (g, st1) \<Longrightarrow> dest_vdi_uuid st = None \<Longrightarrow>
   \<exists>st2. exec_reuse args (st\<lparr>old_vdi_uuid := q\<rparr>) = (g, st2) \<and> same_but_old st1 st2"
  by (auto simp: exec_reuse_def Let_def same_but_old_def split: if_splits option.splits)

lemma exec_snap_old:
  "exec_snap A args (st\<lparr>old_vdi_uuid := p\<rparr>) x = (g, st1, x1) \<Longrightarrow> dest_vdi_uuid st = None \<Longrightarrow>
   \<exists>st2. exec_snap A args (st\<lparr>old_vdi_uuid := q\<rparr>) x = (g, st2, x1) \<and> same_but_old st1 st2"
  by (auto simp: exec_snap_def Let_def same_but_old_def simp del: all_calls.simps
      split: if_splits option.splits prod.splits bool.splits)

lemma exec_leaf_old:
  "exec_leaf A args (st\<lparr>old_vdi_uuid := p\<rparr>) x = (g, st1, x1) \<Longrightarrow> dest_vdi_uuid st = None \<Longrightarrow>
   \<exists>st2. exec_leaf A args (st\<lparr>old_vdi_uuid := q\<rparr>) x = (g, st2, x1) \<and> same_but_old st1 st2"
  by (auto simp: exec_leaf_def Let_def same_but_old_def split: if_splits option.splits prod.splits)

lemma exec_line_old:
  assumes run: "exec_line A pool l \<lparr>vdi_map = mp, dest_vdi_uuid = None, old_vdi_uuid = p\<rparr> x = Ret (g, st1, x1)"
  shows "\<exists>st2. exec_line A pool l \<lparr>vdi_map = mp, dest_vdi_uuid = None, old_vdi_uuid = q\<rparr> x = Ret (g, st2, x1) \<and>
    same_but_old st1 st2"
proof -
  let ?st = "\<lparr>vdi_map = mp, dest_vdi_uuid = None, old_vdi_uuid = None\<rparr>"
  let ?p = "?st\<lparr>old_vdi_uuid := p\<rparr>" and ?q = "?st\<lparr>old_vdi_uuid := q\<rparr>"
  have same: "same_but_old ?p ?q" by (simp add: same_but_old_def)
  have states: "\<lparr>vdi_map = mp, dest_vdi_uuid = None, old_vdi_uuid = r\<rparr> = ?st\<lparr>old_vdi_uuid := r\<rparr>" for r by simp
  have none: "dest_vdi_uuid ?st = None" by simp
  note old = exec_create_old [OF _ none, of _ _ _ p _ _ _ _ q] exec_clone_old [OF _ none, of _ _ p _ _ _ _ q]
    exec_reuse_old [OF _ none, of _ p _ _ q] exec_snap_old [OF _ none, of _ _ p _ _ _ _ q]
    exec_leaf_old [OF _ none, of _ _ p _ _ _ _ q]
  have r: "exec_line A pool l ?p x = Ret (g, st1, x1)" using run by simp
  have "\<exists>st2. exec_line A pool l ?q x = Ret (g, st2, x1) \<and> same_but_old st1 st2"
    using r same unfolding exec_line_words
    by (auto simp del: import_state.update_convs split: if_splits prod.splits dest!: old)
  then show ?thesis by simp
qed

section \<open>The calls add up to the import at once\<close>

abbreviation lines_text :: "string list \<Rightarrow> string" where
  "lines_text ls \<equiv> join [CHR 0x0A] ls"

lemma cut_line_text:
  assumes "plain_line l"
  shows "cut_line (lines_text (l # ls)) = (l, if ls = [] then None else Some (lines_text ls))"
proof -
  have l: "CHR 0x0A \<notin> set l" using assms by (auto simp: plain_line_def)
  show ?thesis
  proof (cases ls)
    case Nil
    then show ?thesis using l
      by (simp add: cut_line_def strchr_None takeWhile_eq_all_conv [THEN iffD2]) (metis l takeWhile_eq_all_conv)
  next
    case (Cons y ys)
    have "takeWhile (\<lambda>c. c \<noteq> CHR 0x0A) (l @ CHR 0x0A # lines_text (y # ys)) = l"
      using l by (intro takeWhile_append_stop) auto
    then show ?thesis using l Cons by (simp add: cut_line_def strchr_append)
  qed
qed

lemma import_all_step:
  assumes "import_all A pool (l # ls) mp x = Ret (Some (ds, m, x'))"
  shows "\<exists>st x1 ds'. exec_line A pool l \<lparr>vdi_map = mp, dest_vdi_uuid = None, old_vdi_uuid = p\<rparr> x = Ret (True, st, x1) \<and>
    session_ok (vm_calls A) x1 \<and> import_all A pool ls (vdi_map st) x1 = Ret (Some (ds', m, x')) \<and> ds = made st @ ds'"
proof -
  obtain g st0 x1 where run: "exec_line A pool l \<lparr>vdi_map = mp, dest_vdi_uuid = None, old_vdi_uuid = None\<rparr> x = Ret (g, st0, x1)"
    using assms by (cases "exec_line A pool l \<lparr>vdi_map = mp, dest_vdi_uuid = None, old_vdi_uuid = None\<rparr> x") auto
  then have good: "g" "session_ok (vm_calls A) x1" using assms by (auto split: if_splits)
  then obtain ds' where rest: "import_all A pool ls (vdi_map st0) x1 = Ret (Some (ds', m, x'))" "ds = made st0 @ ds'"
    using assms run by (auto simp: bind_outcome_Ret_iff)
  obtain st where st: "exec_line A pool l \<lparr>vdi_map = mp, dest_vdi_uuid = None, old_vdi_uuid = p\<rparr> x = Ret (g, st, x1)" "same_but_old st0 st"
    using exec_line_old [OF run] by blast
  have "made st0 = made st" "vdi_map st0 = vdi_map st" using st(2) by (auto simp: same_but_old_def made_def split: option.split)
  then show ?thesis using st good rest by auto
qed

text \<open>Up to the next disk, the calls and the import at once do the same.\<close>

lemma run_lines_all:
  assumes A: "names_disks A"
    and "import_all A pool (l # ls) mp x = Ret (Some (ds, m, x'))" and "\<forall>k \<in> set (l # ls). plain_line k" and "plain_map mp"
  shows "\<exists>st x1 rest ds'. run_lines A pool (lines_text (l # ls)) \<lparr>vdi_map = mp, dest_vdi_uuid = None, old_vdi_uuid = p\<rparr> x =
      Ret (Some (if rest = [] then None else Some (lines_text rest)), st, x1) \<and>
    session_ok (vm_calls A) x1 \<and> length rest \<le> length ls \<and> set rest \<subseteq> set ls \<and>
    import_moves \<lparr>vdi_map = mp, dest_vdi_uuid = None, old_vdi_uuid = p\<rparr> st \<and>
    ds = made st @ ds' \<and> import_all A pool rest (vdi_map st) x1 = Ret (Some (ds', m, x')) \<and>
    (dest_vdi_uuid st = None \<longrightarrow> rest = [])"
  using assms(2-)
proof (induction ls arbitrary: l mp x ds p)
  case Nil
  obtain st x1 ds' where run: "exec_line A pool l \<lparr>vdi_map = mp, dest_vdi_uuid = None, old_vdi_uuid = p\<rparr> x = Ret (True, st, x1)"
      "session_ok (vm_calls A) x1" "import_all A pool [] (vdi_map st) x1 = Ret (Some (ds', m, x'))" "ds = made st @ ds'"
    using import_all_step [OF Nil(1)] by blast
  have moves: "import_moves \<lparr>vdi_map = mp, dest_vdi_uuid = None, old_vdi_uuid = p\<rparr> st"
    using exec_line_moves [OF run(1) _ A] Nil by simp
  have "run_lines A pool (lines_text [l]) \<lparr>vdi_map = mp, dest_vdi_uuid = None, old_vdi_uuid = p\<rparr> x = Ret (Some None, st, x1)"
    using run(1) cut_line_text [of l "[]"] Nil(2) by (subst run_lines.simps) simp
  then show ?case using run(2-) moves by (intro exI [of _ st] exI [of _ x1] exI [of _ "[]"]) simp
next
  case (Cons k ks)
  let ?st = "\<lparr>vdi_map = mp, dest_vdi_uuid = None, old_vdi_uuid = p\<rparr>"
  obtain st x1 ds' where run: "exec_line A pool l ?st x = Ret (True, st, x1)" "session_ok (vm_calls A) x1"
      "import_all A pool (k # ks) (vdi_map st) x1 = Ret (Some (ds', m, x'))" "ds = made st @ ds'"
    using import_all_step [OF Cons(2)] by blast
  have moves: "import_moves ?st st" using exec_line_moves [OF run(1) _ A] Cons(3,4) by simp
  have cut: "cut_line (lines_text (l # k # ks)) = (l, Some (lines_text (k # ks)))"
    using cut_line_text [of l "k # ks"] Cons(3) by simp
  show ?case
  proof (cases "dest_vdi_uuid st")
    case None
    have st: "st = \<lparr>vdi_map = vdi_map st, dest_vdi_uuid = None, old_vdi_uuid = old_vdi_uuid st\<rparr>" using None by simp
    have same: "run_lines A pool (lines_text (l # k # ks)) ?st x = run_lines A pool (lines_text (k # ks)) st x1"
      using run(1) None by (subst run_lines.simps) (simp add: cut del: join.simps)
    have plain: "plain_map (vdi_map st)" "\<forall>j \<in> set (k # ks). plain_line j" using moves Cons(3) by (simp_all add: import_moves_def)
    have "made st = []" using None by (simp add: made_def)
    with run(4) have ds: "ds = ds'" by simp
    have more: "import_moves ?st st2" if "import_moves st st2" for st2
      using moves that None by (auto simp: import_moves_def)
    obtain st2 x2 rest ds2 where ih: "run_lines A pool (lines_text (k # ks)) st x1 =
        Ret (Some (if rest = [] then None else Some (lines_text rest)), st2, x2)"
      "session_ok (vm_calls A) x2" "length rest \<le> length ks" "set rest \<subseteq> set ks" "import_moves st st2"
      "ds' = made st2 @ ds2" "import_all A pool rest (vdi_map st2) x2 = Ret (Some (ds2, m, x'))"
      "dest_vdi_uuid st2 = None \<longrightarrow> rest = []"
      using Cons(1) [OF run(3) plain(2,1), of "old_vdi_uuid st"] st by auto
    show ?thesis unfolding same ds using ih(2-4,6-) more [OF ih(5)]
      by (intro exI [of _ st2] exI [of _ x2] exI [of _ rest] exI [of _ ds2] conjI ih(1)) auto
  next
    case (Some u)
    have "run_lines A pool (lines_text (l # k # ks)) ?st x = Ret (Some (Some (lines_text (k # ks))), st, x1)"
      using run(1) Some by (subst run_lines.simps) (simp add: cut del: join.simps)
    then show ?thesis using run(2-) moves Some
      by (intro exI [of _ st] exI [of _ x1] exI [of _ "k # ks"] exI [of _ ds']) (auto simp del: join.simps import_all.simps)
  qed
qed

lemma import_args_read [simp]:
  "string_arg (import_args pool text map_text) ''ImportContext'' = Some text"
  "string_arg (import_args pool text map_text) ''DiskImageMap'' = Some map_text"
  "name_given L (import_args pool text map_text) ''StoragePool'' key = Ret (Some pool)"
  by (simp_all add: string_arg_def name_given_def GetArgument_def import_args_def)

lemma blank_text:
  assumes "ls \<noteq> []" and "\<forall>l \<in> set ls. plain_line l"
  shows "lines_text ls = [] \<or> hd (lines_text ls) = CHR '' '' \<longleftrightarrow> ls = [[]]" and "CHR 0x0D \<notin> set (lines_text ls)"
proof -
  obtain l ks where ls: "ls = l # ks" using assms(1) by (cases ls) auto
  show "lines_text ls = [] \<or> hd (lines_text ls) = CHR '' '' \<longleftrightarrow> ls = [[]]"
    using assms(2) unfolding ls by (cases ks; cases l) (auto simp: plain_line_def)
  from set_join [of "[CHR 0x0A]" ls] show "CHR 0x0D \<notin> set (lines_text ls)" using assms(2)
    by (fastforce simp: plain_line_def)
qed

text \<open>One call and the import at once.\<close>

lemma import_call:
  assumes A: "names_disks A" and all: "import_all A pool ls mp x = Ret (Some (ds, m, x'))" and ls: "ls \<noteq> []"
    and plain: "\<forall>l \<in> set ls. plain_line l" and mp: "plain_map mp"
  shows "\<exists>rest ds1 ds2 mp1 st out x1.
    create_next_disk L A (import_args pool (lines_text ls) (flatten_entries (entries mp))) x =
      Ret (Some (if rest = [] then No_more_disks else VSMS_Completed, st, out, x1)) \<and>
    context_out out = (if rest = [] then None else Some (lines_text rest)) \<and>
    (case map_out out of None \<Rightarrow> flatten_entries (entries mp) | Some t \<Rightarrow> t) = flatten_entries (entries mp1) \<and>
    (case new_disk out of None \<Rightarrow> [] | Some d \<Rightarrow> [d]) = map (\<lambda>(u, old). (disk_image_create_ref pool u, old)) ds1 \<and>
    ds = ds1 @ ds2 \<and> plain_map mp1 \<and> set rest \<subseteq> set ls \<and> length rest < length ls \<and>
    import_all A pool rest mp1 x1 = Ret (Some (ds2, m, x'))"
proof (cases "ls = [[]]")
  case True
  then have e: "ds = []" "m = mp" "x' = x"
    using all by (auto simp: exec_line_def xen_utils_copy_to_string_set_def made_def split: if_splits)
  show ?thesis using e mp unfolding True
    by (intro exI [of _ "[]"] exI [of _ mp] exI [of _ "method_status (error_of A x) CMPI_RC_ERR_NOT_FOUND unknown_error"]
        exI [of _ no_output] exI [of _ x])
      (auto simp: create_next_disk_def no_output_def)
next
  case False
  obtain l ks where l: "ls = l # ks" using ls by (cases ls) auto
  let ?st = "\<lparr>vdi_map = mp, dest_vdi_uuid = None, old_vdi_uuid = None\<rparr>"
  obtain st x1 rest ds2 where run: "run_lines A pool (lines_text ls) ?st x =
      Ret (Some (if rest = [] then None else Some (lines_text rest)), st, x1)"
    and r0: "session_ok (vm_calls A) x1" "length rest \<le> length ks" "set rest \<subseteq> set ks" "import_moves ?st st"
      "ds = made st @ ds2" "import_all A pool rest (vdi_map st) x1 = Ret (Some (ds2, m, x'))"
    using run_lines_all [OF A all [unfolded l] plain [unfolded l] mp, of None, folded l] by blast
  then have r: "session_ok (vm_calls A) x1" "length rest < length ls" "set rest \<subseteq> set ls" "import_moves ?st st"
      "ds = made st @ ds2" "import_all A pool rest (vdi_map st) x1 = Ret (Some (ds2, m, x'))"
    unfolding l by auto
  let ?disk = "case dest_vdi_uuid st of None \<Rightarrow> None | Some u \<Rightarrow> Some (disk_image_create_ref pool u, the (old_vdi_uuid st))"
  let ?out = "\<lparr>new_disk = ?disk, map_out = xen_utils_flatten_string_string_map (vdi_map st),
    context_out = (if rest = [] then None else Some (lines_text rest))\<rparr>"
  have old: "dest_vdi_uuid st = Some u \<Longrightarrow> \<exists>old. old_vdi_uuid st = Some old" for u using r(4) by (auto simp: import_moves_def)
  have blank: "\<not> (lines_text ls = [] \<or> hd (lines_text ls) = CHR '' '')" "CHR 0x0D \<notin> set (lines_text ls)"
    using blank_text [OF ls plain] False by blast+
  have "create_next_disk L A (import_args pool (lines_text ls) (flatten_entries (entries mp))) x =
      Ret (Some (if rest = [] then No_more_disks else VSMS_Completed,
        method_status (error_of A x1) CMPI_RC_OK unknown_error, ?out, x1))"
    using run r(1) blank old
    by (cases "dest_vdi_uuid st"; cases "old_vdi_uuid st") (simp_all add: create_next_disk_def plain_map_read [OF mp])
  moreover have "(case map_out ?out of None \<Rightarrow> flatten_entries (entries mp) | Some t \<Rightarrow> t) = flatten_entries (entries (vdi_map st))"
    using r(4) by (auto simp: import_moves_def xen_utils_flatten_string_string_map_def split: option.split)
  moreover have "(case new_disk ?out of None \<Rightarrow> [] | Some d \<Rightarrow> [d]) = map (\<lambda>(u, old). (disk_image_create_ref pool u, old)) (made st)"
    by (simp add: made_def split: option.split)
  moreover have "plain_map (vdi_map st)" using r(4) by (simp add: import_moves_def)
  ultimately show ?thesis using r(2,3,5,6)
    by (intro exI [of _ rest] exI [of _ "made st"] exI [of _ ds2] exI [of _ "vdi_map st"]
        exI [of _ "method_status (error_of A x1) CMPI_RC_OK unknown_error"] exI [of _ ?out] exI [of _ x1] conjI) simp_all
qed

text \<open>C3. The import of a snapshot tree in calls is the import at once. The client passes the instructions with an empty map, and with
  each call it gets the next new disk to fill, the rest of the instructions and the map as text, which it passes
  back. Where the instructions, executed in one go over a map in memory, all succeed with the session in order, the calls
  end, after at most as many as there are lines, with the same disks in the same order, each with the name of the
  disk that it replaces, with the text of the same map, and with the daemon in the same state. It holds
  for instructions without the characters that the map's text gives a meaning to, where no line starts with a space, and
  for a daemon whose names of disks are free of those characters.\<close>

theorem import_in_steps:
  assumes "names_disks A" and "ls \<noteq> []" and "\<forall>l \<in> set ls. plain_line l" and "length ls \<le> n"
    and "import_all A pool ls (Some []) x = Ret (Some (ds, m, x'))"
  shows "import_client L A pool n [] (lines_text ls) x =
    Ret (Some (map (\<lambda>(u, old). (disk_image_create_ref pool u, old)) ds, flatten_entries (entries m), x'))"
proof -
  have "import_client L A pool n (flatten_entries (entries mp)) (lines_text ls) x =
      Ret (Some (map (\<lambda>(u, old). (disk_image_create_ref pool u, old)) ds, flatten_entries (entries m), x'))"
    if "import_all A pool ls mp x = Ret (Some (ds, m, x'))" "ls \<noteq> []" "\<forall>l \<in> set ls. plain_line l" "plain_map mp" "length ls \<le> n"
    for mp ls x ds n
    using that
  proof (induction n arbitrary: ls mp x ds)
    case (Suc n)
    obtain rest ds1 ds2 mp1 st out x1 where call:
      "create_next_disk L A (import_args pool (lines_text ls) (flatten_entries (entries mp))) x =
        Ret (Some (if rest = [] then No_more_disks else VSMS_Completed, st, out, x1))"
      "context_out out = (if rest = [] then None else Some (lines_text rest))"
      "(case map_out out of None \<Rightarrow> flatten_entries (entries mp) | Some t \<Rightarrow> t) = flatten_entries (entries mp1)"
      "(case new_disk out of None \<Rightarrow> [] | Some d \<Rightarrow> [d]) = map (\<lambda>(u, old). (disk_image_create_ref pool u, old)) ds1"
      "ds = ds1 @ ds2" "plain_map mp1" "set rest \<subseteq> set ls" "length rest < length ls"
      "import_all A pool rest mp1 x1 = Ret (Some (ds2, m, x'))"
      using import_call [OF assms(1) Suc(2-5), of L] by (elim exE conjE) (rule that)
    show ?case
    proof (cases "rest = []")
      case True
      then show ?thesis using call(5,9) by (simp add: call(1-4) Let_def)
    next
      case False
      then have "import_client L A pool n (flatten_entries (entries mp1)) (lines_text rest) x1 =
          Ret (Some (map (\<lambda>(u, old). (disk_image_create_ref pool u, old)) ds2, flatten_entries (entries m), x'))"
        using call(6-9) Suc(4,6) by (intro Suc(1)) auto
      then show ?thesis using False call(5) by (simp add: call(1-4) Let_def)
    qed
  qed simp
  from this [OF assms(5,2,3) _ assms(4)] show ?thesis by (simp add: plain_map_def)
qed

section \<open>An import\<close>

text \<open>A daemon that names a disk by its reference, and a clone or a snapshot by that of its origin.\<close>

definition import_api :: "(demo_disks, unit) snapshot_api" where
  "import_api = resource_api.extend
     (creating_api\<lparr>dev := (dev creating_api)\<lparr>sr_get_by_uuid := (\<lambda>u x. (Some u, x)), vdi_get_by_uuid := (\<lambda>u x. (Some u, x)),
        xen_vdi_destroy := (\<lambda>v x. (True, x))\<rparr>\<rparr>)
     (snapshot_api.fields ''null'' (\<lambda>(sr, old, n) x. (Some (''new'' @ old), x)) (\<lambda>v x. (if plain_word v then Some v else None, x))
        (\<lambda>v x. (Some (''clone'' @ v), x)) (\<lambda>v x. (Some ''sr1'', x)) (\<lambda>v x. (Some (''snapshot'' @ v), x)) (\<lambda>r x. (True, x)) (\<lambda>s x. (True, x))
        (\<lambda>r x. ((False, None), x)) no_answer refused (\<lambda>v x. (None, x)) no_answer (\<lambda>x. (None, x)) (\<lambda>x. (None, x)) (\<lambda>x. (None, x)) (\<lambda>s x. x))"

definition tree :: "string list" where
  "tree = [''create a 1024'', ''snap a'', ''clone b a'', ''pass'', ''reuse c b'', ''leaf c'', []]"

lemma import_api_names: "names_disks import_api"
  by (simp add: names_disks_def import_api_def snapshot_api.defs resource_api.defs)

lemma tree_plain: "\<forall>l \<in> set tree. plain_line l"
  by (simp add: tree_def plain_line_def)

lemma tree_imported:
  "import_all import_api ''sr1'' tree (Some []) new_world =
     Ret (Some ([(''newa'', ''a''), (''clonesnapshotnewa'', ''b''), (''clonesnapshotnewa'', ''c'')],
       Some [(''a'', ''snapshotnewa''), (''c'', ''clonesnapshotnewa'')], new_world))"
  by code_simp

theorem import_in_steps_witness:
  "import_client (demo_lib []) import_api ''sr1'' 7 [] (lines_text tree) new_world =
     Ret (Some ([(disk_image_create_ref ''sr1'' ''newa'', ''a''), (disk_image_create_ref ''sr1'' ''clonesnapshotnewa'', ''b''),
         (disk_image_create_ref ''sr1'' ''clonesnapshotnewa'', ''c'')],
       ''a=snapshotnewa,c=clonesnapshotnewa'', new_world))"
  using import_in_steps [OF import_api_names _ tree_plain _ tree_imported, of 7 "demo_lib []"]
  by (simp add: tree_def)

section \<open>Instructions that go wrong\<close>

text \<open>The search for carriage returns has no end.\<close>

lemma carriage_return_never_returns:
  assumes "string_arg argsin ''ImportContext'' = Some instrs" and "string_arg argsin ''DiskImageMap'' = Some mt"
    and "name_given L argsin ''StoragePool'' ''InstanceID'' = Ret (Some pool)"
    and "CHR 0x0D \<in> set instrs" and "hd instrs \<noteq> CHR '' ''"
  shows "create_next_disk L A argsin x = Ret None"
  using assms by (cases instrs) (simp_all add: create_next_disk_def)

text \<open>A clone of a disk that the map or the daemon does not have is passed over: no disk for the client to fill, and no error.\<close>

lemma unknown_parent_passed_over:
  assumes "vdi_get_by_uuid (dev A) (null_text A) x = (None, x1)" and "map_of (entries (vdi_map st)) parent = None"
  shows "\<exists>st1. exec_clone A [''clone'', child, parent] st x = Ret (True, st1, x1) \<and> dest_vdi_uuid st1 = dest_vdi_uuid st \<and> vdi_map st1 = vdi_map st"
  using assms by (simp add: exec_clone_def get_entries numeral_2_eq_2 Let_def)

end
