(* ===== verification/Snapshots.thy ===== *)
theory Snapshots
  imports ImportSequence VmView StateChange
begin

text \<open>
  The rest of the snapshot service (\<^verbatim>\<open>src/Xen_VirtualSystemSnapshotService.c\<close>):
  the creation and destruction of snapshots and the return to one, the export of a VM with its snapshots over transfer
  VMs, with the jobs that start and end it, the methods around the import, and the dispatch.
\<close>

section \<open>Snapshots\<close>

abbreviation couldnt :: "string \<Rightarrow> string" where
  "couldnt s \<equiv> ''ERROR: Couldn'' @ [CHR 0x27] @ ''t '' @ s"

text \<open>A new snapshot is there also when its record cannot be read, although the method fails then.\<close>

definition create_snapshot ::
    "('p, 'r) vsms_lib \<Rightarrow> 'r vssd_lib \<Rightarrow> ('x, 'r, 'z) snapshot_api_scheme \<Rightarrow> bool \<Rightarrow> ('p, 'r vssd) method_args \<Rightarrow> 'x \<Rightarrow>
     (int \<times> (cmpi_rc \<times> string) \<times> vm_path option \<times> 'x) outcome" where
  "create_snapshot L V A mem argsin x =
     (let ends = (\<lambda>rc st msg op y. Ret (rc, method_status (error_of A y) st msg, op, y));
          failed = (\<lambda>msg. ends VSMS_Failed CMPI_RC_ERR_FAILED msg None)
      in case xen_utils_get_affectedsystem (vm_calls A) (key_of L) argsin x of
           (_, None, x1) \<Rightarrow>
             ends VSMS_Invalid_Parameter CMPI_RC_ERR_INVALID_PARAMETER (couldnt ''find the '' @ quoted ''AffectedSystem'' @ '' parameter'') None x1
         | (_, Some (vm, _), x1) \<Rightarrow>
             (case xen_utils_get_vssd_param (parse_setting L) argsin ''SnapshotSettings'' of
                (_, None) \<Rightarrow>
                  ends VSMS_Invalid_Parameter CMPI_RC_ERR_INVALID_PARAMETER (couldnt ''find the '' @ quoted ''SnapshotSettings'' @ '' parameter'') None x1
              | (_, Some i) \<Rightarrow>
                  bind_outcome (vssd_to_vm_rec V A mem (class_of L (path_of L i)) i False x1) (\<lambda>(_, made, x2).
                    case made of
                      None \<Rightarrow> failed (couldnt ''parse the '' @ quoted ''SnapshotSettings'' @ '' parameter'') x2
                    | Some m \<Rightarrow>
                        (case xen_vm_snapshot A (vm, case r_label m of None \<Rightarrow> null_text A | Some l \<Rightarrow> l) x2 of
                           (None, x3) \<Rightarrow> failed ''ERROR: Unknown error'' x3
                         | (Some snapshot, x3) \<Rightarrow>
                             (case vm_get_record (vm_calls A) snapshot x3 of
                                (None, x4) \<Rightarrow> failed ''ERROR: Unknown error'' x4
                              | (Some rec, x4) \<Rightarrow>
                                  ends VSMS_Completed CMPI_RC_OK ''ERROR: Unknown error'' (Some (snapshot_create_ref (vm_uuid rec))) x4)))))"

text \<open>The snapshot that a path names: none where the argument is missing, and none inside where there is no such VM.\<close>

definition snapshot_given ::
    "('p, 'r) vsms_lib \<Rightarrow> 'x sdk \<Rightarrow> ('p, 'r vssd) method_args \<Rightarrow> string \<Rightarrow> 'x \<Rightarrow> (string option option \<times> 'x) outcome" where
  "snapshot_given L K argsin n x =
     (case GetArgument argsin n CMPI_ref of
        (_, Some (A_ref (Some p))) \<Rightarrow>
          bind_outcome
            (case key_of L p ''InstanceID'' of
               (_, None) \<Rightarrow> vssd_find_vm K None x
             | (_, Some (A_string s)) \<Rightarrow> vssd_find_vm K (Some s) x
             | _ \<Rightarrow> Undefined)
            (\<lambda>(_, found, x1). Ret (Some (map_option fst found), x1))
      | _ \<Rightarrow> Ret (None, x))"

text \<open>
  The disks of a snapshot: one with a single user is destroyed, without a look at whether it may be. The devices are left to the destruction of
  the snapshot.
\<close>

fun destroy_snapshot_disks :: "('x, 'z) disk_api_scheme \<Rightarrow> string list \<Rightarrow> 'x \<Rightarrow> 'x" where
  "destroy_snapshot_disks D [] x = x"
| "destroy_snapshot_disks D (b # bs) x =
     destroy_snapshot_disks D bs
       (case vbd_get_vdi D b (reset_disks D x) of
          (None, x1) \<Rightarrow> reset_disks D x1
        | (Some vdi, x1) \<Rightarrow>
            (case vdi_get_vbds D vdi x1 of
               (None, x2) \<Rightarrow> x2
             | (Some us, x2) \<Rightarrow> reset_disks D (if length us = 1 then snd (xen_vdi_destroy D vdi x2) else x2)))"

definition destroy_snapshot ::
    "('p, 'r) vsms_lib \<Rightarrow> ('x, 'r, 'z) snapshot_api_scheme \<Rightarrow> ('p, 'r vssd) method_args \<Rightarrow> 'x \<Rightarrow>
     (int \<times> (cmpi_rc \<times> string) \<times> 'x) outcome" where
  "destroy_snapshot L A argsin x =
     (let ends = (\<lambda>rc st msg y. Ret (rc, method_status (error_of A y) st msg, y));
          refuse = (\<lambda>msg. ends VSMS_Invalid_Parameter CMPI_RC_ERR_INVALID_PARAMETER msg)
      in bind_outcome (snapshot_given L (vm_calls A) argsin ''AffectedSnapshot'' x) (\<lambda>(given, x1). case given of
           None \<Rightarrow> refuse (couldnt ''find the '' @ quoted ''AffectedSnapshot'' @ '' parameter'') x1
         | Some None \<Rightarrow> refuse (couldnt ''find the system specified in the '' @ quoted ''AffectedSnapshot'' @ '' parameter'') x1
         | Some (Some vm) \<Rightarrow>
             (let x2 = (case vm_get_vbds (dev A) vm x1 of (None, y) \<Rightarrow> y | (Some bs, y) \<Rightarrow> destroy_snapshot_disks (dev A) bs y)
              in case xen_vm_destroy (dev A) vm (reset_disks (dev A) x2) of
                   (True, x3) \<Rightarrow> ends VSMS_Completed CMPI_RC_OK unknown_error x3
                 | (False, x3) \<Rightarrow> ends VSMS_Failed CMPI_RC_ERR_FAILED unknown_error x3)))"

definition revert_to_snapshot ::
    "('p, 'r) vsms_lib \<Rightarrow> ('x, 'r, 'z) snapshot_api_scheme \<Rightarrow> ('p, 'r vssd) method_args \<Rightarrow> 'x \<Rightarrow>
     (int \<times> (cmpi_rc \<times> string) \<times> 'x) outcome" where
  "revert_to_snapshot L A argsin x =
     (let ends = (\<lambda>rc st msg y. Ret (rc, method_status (error_of A y) st msg, y));
          refuse = (\<lambda>msg. ends VSMS_Invalid_Parameter CMPI_RC_ERR_INVALID_PARAMETER msg)
      in bind_outcome (snapshot_given L (vm_calls A) argsin ''Snapshot'' x) (\<lambda>(given, x1). case given of
           None \<Rightarrow> refuse (couldnt ''get '' @ quoted ''Snapshot'' @ '' parameter'') x1
         | Some None \<Rightarrow> refuse (couldnt ''find the snapshot specified in the '' @ quoted ''Snapshot'' @ '' parameter'') x1
         | Some (Some vm) \<Rightarrow>
             (case xen_vm_revert A vm x1 of
                (True, x2) \<Rightarrow> ends VSMS_Completed CMPI_RC_OK [] x2
              | (False, x2) \<Rightarrow> ends VSMS_Failed CMPI_RC_ERR_FAILED unknown_error x2)))"

section \<open>Starting an export\<close>

text \<open>
  The address of the metadata. The buffer is measured with the format, the host and twice the length of a reference, and the text is cut to
  what fits.
\<close>

definition metadata_text :: "bool \<Rightarrow> string \<Rightarrow> string \<Rightarrow> string \<Rightarrow> string" where
  "metadata_text ssl ip session vm =
     (if ssl then ''https://'' else ''http://'') @ ip @ (if ssl then '':443'' else '':80'') @ ''/export_metadata?session_id='' @ session @
     ''&amp;ref='' @ vm @ ''&amp;include_vhd_parents=true''"

definition metadata_url :: "bool \<Rightarrow> string \<Rightarrow> string \<Rightarrow> string \<Rightarrow> string" where
  "metadata_url ssl ip session vm =
     (let buflen = length (metadata_text ssl ''%s'' ''%s'' ''%s'') + length ip + (length ''OpaqueRef:'' + 36) * 2 + 1
      in snprintf (buflen - 1) (metadata_text ssl ip session vm))"

text \<open>
  A session of its own for the address, which is not closed here, with the credentials of the job; none where it cannot be had. The address
  of the host is used without a test. The result is the address, the certificate and the session.
\<close>

definition get_metadata_url_for_vm ::
    "('x, 'r, 'z) snapshot_api_scheme \<Rightarrow> string \<Rightarrow> bool \<Rightarrow> 'x \<Rightarrow> ((string \<times> string option \<times> string) option \<times> 'x) outcome" where
  "get_metadata_url_for_vm A vm ssl x =
     (case own_session A x of
        (None, x1) \<Rightarrow> Ret (None, x1)
      | (Some session, x1) \<Rightarrow>
          (case session_address A x1 of (ip, x2) \<Rightarrow>
           (case session_certificate A x2 of (cert, x3) \<Rightarrow>
              (case ip of
                 None \<Rightarrow> Undefined
               | Some a \<Rightarrow> Ret (Some (metadata_url ssl a session vm, cert, session), x3)))))"

text \<open>The addresses of the disks in a transfer record: the entries whose key contains the text, as differences.\<close>

definition get_disk_urls :: "string \<Rightarrow> string_set option \<Rightarrow> string_set option" where
  "get_disk_urls transfer_record urls =
     fold (\<lambda>(k, v) us. if contains k ''url_full_'' then snd (xen_utils_add_to_string_set True (v @ ''.vhd'') us) else us)
       (case xen_utils_convert_transfer_record_to_string_map transfer_record of None \<Rightarrow> [] | Some m \<Rightarrow> m) urls"

fun get_transfer_records ::
    "('x, 'r, 'z) snapshot_api_scheme \<Rightarrow> string list \<Rightarrow> string_set option \<Rightarrow> string_set option \<Rightarrow> 'x \<Rightarrow>
     string_set option \<times> string_set option \<times> 'x" where
  "get_transfer_records A [] urls certs x = (urls, certs, x)"
| "get_transfer_records A (h # hs) urls certs x =
     (case call_plugin A (''get_record'', put_entry ''record_handle'' h None) x of
        ((True, Some r), x1) \<Rightarrow>
          get_transfer_records A hs (get_disk_urls r urls)
            (case record_value r ''ssl_cert'' of None \<Rightarrow> certs | Some c \<Rightarrow> snd (xen_utils_add_to_string_set True c certs)) x1
      | (_, x1) \<Rightarrow> get_transfer_records A hs urls certs x1)"

record export_context =
  plugin_args :: "string_map option"
  export_ssl :: bool
  export_vm :: string

definition connection_handle :: "string \<Rightarrow> string \<Rightarrow> string" where
  "connection_handle session handles =
     snprintf (length handles + 1 + length session + 1) (session @ '','' @ handles)"

definition job_failed :: "('x, 'r, 'z) snapshot_api_scheme \<Rightarrow> 'a xen_job \<Rightarrow> 'x \<Rightarrow> 'x" where
  "job_failed A job x =
     job_change_state (task_calls A) job Job_Exception 100 2 (xen_utils_get_xen_error (Some (error_of A x))) x"

text \<open>A set of texts as one value of the task.\<close>

definition note_set ::
    "('x, 'r, 'z) snapshot_api_scheme \<Rightarrow> string \<Rightarrow> string \<Rightarrow> string_set option \<Rightarrow> 'x \<Rightarrow> 'x outcome" where
  "note_set A task key texts x =
     (case texts of
        None \<Rightarrow> Ret x
      | Some _ \<Rightarrow> bind_outcome (xen_utils_flatten_string_set texts '','') (\<lambda>t. case t of
            None \<Rightarrow> Ret x
          | Some s \<Rightarrow> Ret (task_add_to_other_config A (task, key, s) x)))"

text \<open>
  After the disks are exposed. The certificate and the session of the metadata are copied without a test that there are any.
\<close>

definition forest_exposed ::
    "('x, 'r, 'z) snapshot_api_scheme \<Rightarrow> export_context xen_job \<Rightarrow> (string \<times> string option \<times> string) option \<Rightarrow> string \<Rightarrow> 'x \<Rightarrow> 'x outcome" where
  "forest_exposed A job meta handles x =
     bind_outcome
       (if export_ssl (callback job)
        then (case meta of Some (_, Some cert, _) \<Rightarrow> Ret (Some [Some cert]) | _ \<Rightarrow> Undefined)
        else Ret None)
       (\<lambda>certs0.
          let (urls, certs, x1) = get_transfer_records A
                (case xen_utils_copy_to_string_set handles '','' of None \<Rightarrow> [] | Some hs \<Rightarrow> map the hs) None certs0 x
          in case urls of
               None \<Rightarrow> Ret (job_failed A job x1)
             | Some _ \<Rightarrow>
                 bind_outcome (note_set A (task_handle job) ''DiskImageURIs'' urls x1) (\<lambda>x2.
                 bind_outcome (note_set A (task_handle job) ''SSLCertificates'' certs x2) (\<lambda>x3.
                   case meta of
                     None \<Rightarrow> Undefined
                   | Some (_, _, session) \<Rightarrow>
                       Ret (job_change_state (task_calls A) job Job_Completed 100 0 None
                         (task_add_to_other_config A
                            (task_handle job, ''ExportConnectionHandle'', connection_handle session handles) x3)))))"

definition start_snapshot_forest_export_task ::
    "('x, 'r, 'z) snapshot_api_scheme \<Rightarrow> export_context xen_job \<Rightarrow> 'x \<Rightarrow> 'x outcome" where
  "start_snapshot_forest_export_task A job x =
     (let c = callback job
      in bind_outcome (get_metadata_url_for_vm A (export_vm c) (export_ssl c) (job_change_state (task_calls A) job Job_Running 0 0 None x))
           (\<lambda>(meta, x1).
              let x2 = (case meta of
                    None \<Rightarrow> x1
                  | Some (url, _) \<Rightarrow> task_add_to_other_config A (task_handle job, ''MetadataURI'', url) x1)
              in case plugin_args c of
                   None \<Rightarrow> Ret (job_failed A job x2)
                 | Some _ \<Rightarrow>
                     (case call_plugin A (''expose_forest'', plugin_args c) x2 of
                        ((_, Some (h # hs)), x3) \<Rightarrow> forest_exposed A job meta (h # hs) x3
                      | (_, x3) \<Rightarrow> Ret (job_failed A job x3))))"

section \<open>Ending an export\<close>

text \<open>One transfer that was closed is enough for the job to be complete; the text of an answer is compared without a test that there is one.\<close>

fun unexpose_each :: "('x, 'r, 'z) snapshot_api_scheme \<Rightarrow> string list \<Rightarrow> bool \<Rightarrow> 'x \<Rightarrow> (bool \<times> 'x) outcome" where
  "unexpose_each A [] completed x = Ret (completed, x)"
| "unexpose_each A (h # hs) completed x =
     (case call_plugin A (''unexpose'', put_entry ''record_handle'' h None) x of
        ((True, None), x1) \<Rightarrow> Undefined
      | ((True, Some r), x1) \<Rightarrow> unexpose_each A hs (completed \<or> r = ''OK'') x1
      | ((False, _), x1) \<Rightarrow> unexpose_each A hs completed x1)"

definition end_snapshot_forest_export_task ::
    "('x, 'r, 'z) snapshot_api_scheme \<Rightarrow> string xen_job \<Rightarrow> 'x \<Rightarrow> 'x outcome" where
  "end_snapshot_forest_export_task A job x =
     (let x1 = job_change_state (task_calls A) job Job_Running 0 0 None x
      in case xen_utils_copy_to_string_set (callback job) '','' of
           Some (Some session # hs) \<Rightarrow>
             bind_outcome (unexpose_each A (map the hs) False (end_session A session x1)) (\<lambda>(completed, x2).
               if completed then Ret (job_change_state (task_calls A) job Job_Completed 100 0 None x2)
               else Ret (job_failed A job x2))
         | _ \<Rightarrow> Ret (job_failed A job x1))"

section \<open>The methods of the export\<close>

text \<open>A VM or a network is given by the name in a path or by a string.\<close>

definition named_argument ::
    "('p, 'r) vsms_lib \<Rightarrow> ('p, 'r vssd) method_args \<Rightarrow> string \<Rightarrow> string option outcome" where
  "named_argument L argsin n =
     (case GetArgument argsin n CMPI_ref of
        (_, Some (A_ref (Some p))) \<Rightarrow> (case key_of L p ''Name'' of (_, Some (A_string s)) \<Rightarrow> Ret (Some s) | _ \<Rightarrow> Undefined)
      | _ \<Rightarrow> Ret (string_arg argsin n))"

text \<open>The range of addresses is an array of exactly four strings.\<close>

definition address_range :: "('p, 'i) method_args \<Rightarrow> (string \<times> string \<times> string \<times> string) option outcome" where
  "address_range argsin =
     (case GetArgument argsin ''NetworkConfiguration'' CMPI_ARRAY of
        (_, Some (A_array (Some es))) \<Rightarrow>
          if elements_of_type CMPI_string es \<and> length es = 4
          then (case es of [A_string a, A_string b, A_string c, A_string d] \<Rightarrow> Ret (Some (a, b, c, d)) | _ \<Rightarrow> Undefined)
          else Ret None
      | _ \<Rightarrow> Ret None)"

fun add_uuids :: "('x, 'r, 'z) snapshot_api_scheme \<Rightarrow> string list \<Rightarrow> string_set option \<Rightarrow> 'x \<Rightarrow> (string_set option \<times> 'x) outcome" where
  "add_uuids A [] uuids x = Ret (uuids, x)"
| "add_uuids A (s # ss) uuids x =
     (case xen_vm_get_uuid A s x of
        (None, x1) \<Rightarrow> Undefined
      | (Some u, x1) \<Rightarrow> add_uuids A ss (snd (xen_utils_add_to_string_set True u uuids)) x1)"

definition export_args ::
    "string \<Rightarrow> string \<Rightarrow> bool \<Rightarrow> (string \<times> string \<times> string \<times> string) option \<Rightarrow> 32 word \<Rightarrow> string_map option" where
  "export_args net uuids ssl addresses timeout =
     (let p1 = put_entry ''vm_uuids'' uuids (put_entry ''read_only'' ''true'' (put_entry ''network_uuid'' net None));
          p2 = (if ssl then put_entry ''use_ssl'' ''true'' p1 else p1);
          p3 = (case addresses of
                  None \<Rightarrow> p2
                | Some (from_ip, to_ip, netmask, gateway) \<Rightarrow>
                    put_entry ''network_gateway'' gateway (put_entry ''network_mask'' netmask (put_entry ''network_ip_end'' to_ip
                      (put_entry ''network_ip_start'' from_ip (put_entry ''network_mode'' ''manual_range'' p2)))))
      in if timeout \<noteq> 0 then put_entry ''timeout_minutes'' (snprintf 99 (show_nat (unat timeout))) p3 else p3)"

definition start_snapshot_forest_export ::
    "('p, 'r) vsms_lib \<Rightarrow> ('x, 'r, 'z) snapshot_api_scheme \<Rightarrow> bool \<Rightarrow> ('p, 'r vssd) method_args \<Rightarrow> 'x \<Rightarrow>
     (int \<times> (cmpi_rc \<times> string) \<times> (export_context xen_job \<times> string \<times> string) option \<times> 'x) outcome" where
  "start_snapshot_forest_export L A mem argsin x =
     (let ends = (\<lambda>rc st msg job y. Ret (rc, method_status (error_of A y) st msg, job, y));
          refuse = (\<lambda>msg. ends VSMS_Invalid_Parameter CMPI_RC_ERR_INVALID_PARAMETER msg None)
      in bind_outcome (named_argument L argsin ''System'') (\<lambda>system. case system of
           None \<Rightarrow> refuse (missing ''System'') x
         | Some uuid \<Rightarrow>
             let ssl = (case GetArgument argsin ''UseSSL'' CMPI_boolean of (_, Some (A_boolean b)) \<Rightarrow> b | _ \<Rightarrow> False);
                 timeout = (case GetArgument argsin ''TimeoutInMinutes'' CMPI_uint32 of (_, Some (A_uint32 n)) \<Rightarrow> n | _ \<Rightarrow> 24 * 60)
             in bind_outcome (named_argument L argsin ''VirtualSwitch'') (\<lambda>switch.
                bind_outcome (address_range argsin) (\<lambda>addresses.
                  case vm_get_by_uuid (vm_calls A) uuid x of
                    (None, x1) \<Rightarrow> refuse unknown_error x1
                  | (Some vm, x1) \<Rightarrow>
                      let (snapshots, x2) = xen_vm_get_snapshots A vm x1
                      in bind_outcome (add_uuids A (case snapshots of None \<Rightarrow> [] | Some ss \<Rightarrow> ss) (Some [Some uuid]) x2) (\<lambda>(uuids, x3).
                         bind_outcome (xen_utils_flatten_string_set uuids '','') (\<lambda>flat. case flat of
                           None \<Rightarrow> Undefined
                         | Some vm_uuids \<Rightarrow>
                             bind_outcome (job_create (task_calls A) mem ''Xen_StartSnapshotForestExportJob'' uuid
                                 \<lparr>plugin_args = export_args (case switch of None \<Rightarrow> ''management'' | Some n \<Rightarrow> n) vm_uuids ssl addresses timeout,
                                  export_ssl = ssl, export_vm = vm\<rparr> (RESET_XEN_ERROR (vm_calls A) x3))
                               (\<lambda>(job, x4). case job of
                                  None \<Rightarrow> refuse unknown_error x4
                                | Some j \<Rightarrow> ends VSMS_Job_Started CMPI_RC_OK unknown_error (Some j) x4)))))))"

text \<open>The handle, and with it the session, also becomes the description of the task.\<close>

definition end_snapshot_forest_export ::
    "('x, 'r, 'z) snapshot_api_scheme \<Rightarrow> bool \<Rightarrow> ('p, 'r vssd) method_args \<Rightarrow> 'x \<Rightarrow>
     (int \<times> (cmpi_rc \<times> string) \<times> (string xen_job \<times> string \<times> string) option \<times> 'x) outcome" where
  "end_snapshot_forest_export A mem argsin x =
     (let ends = (\<lambda>rc st msg job y. Ret (rc, method_status (error_of A y) st msg, job, y));
          refuse = (\<lambda>msg. ends VSMS_Invalid_Parameter CMPI_RC_ERR_INVALID_PARAMETER msg None)
      in case string_arg argsin ''ExportConnectionHandle'' of
           None \<Rightarrow> refuse (missing ''ExportConnectionHandle'') x
         | Some handles \<Rightarrow>
             bind_outcome (job_create (task_calls A) mem ''Xen_EndSnapshotForestExportJob'' handles handles x) (\<lambda>(job, x1). case job of
               None \<Rightarrow> refuse unknown_error x1
             | Some j \<Rightarrow> ends VSMS_Job_Started CMPI_RC_OK unknown_error (Some j) x1))"

section \<open>The methods around the import\<close>

definition prepare_snapshot_forest_import ::
    "('p, 'r) vsms_lib \<Rightarrow> ('x, 'r, 'z) snapshot_api_scheme \<Rightarrow> ('p, 'r vssd) method_args \<Rightarrow> 'x \<Rightarrow>
     (int \<times> (cmpi_rc \<times> string) \<times> string option \<times> 'x) outcome" where
  "prepare_snapshot_forest_import L A argsin x =
     (let ends = (\<lambda>rc st msg out y. Ret (rc, method_status (error_of A y) st msg, out, y))
      in bind_outcome (name_given L argsin ''MetadataDiskImage'' ''DeviceID'') (\<lambda>disk. case disk of
           None \<Rightarrow> ends VSMS_Invalid_Parameter CMPI_RC_ERR_INVALID_PARAMETER (missing ''MetadataDiskImage'') None x
         | Some u \<Rightarrow>
             (case call_plugin A (''get_import_instructions'', put_entry ''vm_metadata_vdi_uuid'' u None) x of
                ((True, Some (c # cs)), x1) \<Rightarrow> ends VSMS_Completed CMPI_RC_OK unknown_error (Some (c # cs)) x1
              | (_, x1) \<Rightarrow> ends VSMS_Failed CMPI_RC_ERR_FAILED unknown_error None x1)))"

text \<open>The disks to remove: the one of the metadata and those in the map. The code of the result stays that of an invalid parameter.\<close>

definition cleanup_snapshot_forest_import ::
    "('p, 'r) vsms_lib \<Rightarrow> ('x, 'r, 'z) snapshot_api_scheme \<Rightarrow> ('p, 'r vssd) method_args \<Rightarrow> 'x \<Rightarrow>
     (int \<times> (cmpi_rc \<times> string) \<times> 'x) outcome" where
  "cleanup_snapshot_forest_import L A argsin x =
     (let ends = (\<lambda>st msg y. Ret (VSMS_Invalid_Parameter, method_status (error_of A y) st msg, y));
          refuse = (\<lambda>msg. ends CMPI_RC_ERR_INVALID_PARAMETER msg)
      in bind_outcome (name_given L argsin ''MetadataDiskImage'' ''DeviceID'') (\<lambda>disk. case disk of
           None \<Rightarrow> refuse (missing ''MetadataDiskImage'') x
         | Some u \<Rightarrow>
             (case string_arg argsin ''DiskImageMap'' of
                None \<Rightarrow> refuse (missing ''DiskImageMap'') x
              | Some map_text \<Rightarrow>
                  (case xen_utils_convert_string_to_string_map (Some map_text) '','' of
                     Some (e # es) \<Rightarrow>
                       (case call_plugin A (''cleanup_import'', put_entry ''vdi_uuids'' (u @ '','' @ join '','' (map snd (e # es))) None) x of
                          ((_, None), x1) \<Rightarrow> refuse ''ERROR: Unkown Error'' x1
                        | ((_, Some _), x1) \<Rightarrow> ends CMPI_RC_OK ''ERROR: Unkown Error'' x1)
                   | _ \<Rightarrow> refuse ''ERROR: The DiskImageMap parameter is invalid.'' x))))"

definition finalize_snapshot_forest_import ::
    "('p, 'r) vsms_lib \<Rightarrow> ('x, 'r, 'z) snapshot_api_scheme \<Rightarrow> ('p, 'r vssd) method_args \<Rightarrow> 'x \<Rightarrow>
     (int \<times> (cmpi_rc \<times> string) \<times> vm_path option \<times> 'x) outcome" where
  "finalize_snapshot_forest_import L A argsin x =
     (let ends = (\<lambda>rc st msg out y. Ret (rc, method_status (error_of A y) st msg, out, y));
          refuse = (\<lambda>n. ends VSMS_Invalid_Parameter CMPI_RC_ERR_INVALID_PARAMETER (missing n) None x);
          failed = ends VSMS_Failed CMPI_RC_ERR_FAILED unknown_error None
      in bind_outcome (name_given L argsin ''MetadataDiskImage'' ''DeviceID'') (\<lambda>disk. case disk of
           None \<Rightarrow> refuse ''MetadataDiskImage''
         | Some u \<Rightarrow>
             (case string_arg argsin ''DiskImageMap'' of
                None \<Rightarrow> refuse ''DiskImageMap''
              | Some map_text \<Rightarrow>
                  bind_outcome (name_given L argsin ''StoragePool'' ''InstanceID'') (\<lambda>sr. case sr of
                    None \<Rightarrow> refuse ''StoragePool''
                  | Some sr_uuid \<Rightarrow>
                      (case call_plugin A (''remap_vm'', put_entry ''sr_uuid'' sr_uuid (put_entry ''vdi_map'' map_text
                              (put_entry ''vm_metadata_vdi_uuid'' u None))) x of
                         ((True, Some result), x1) \<Rightarrow>
                           (case vm_get_by_uuid (vm_calls A) result x1 of
                              (None, x2) \<Rightarrow> failed x2
                            | (Some vm, x2) \<Rightarrow>
                                (case vm_get_record (vm_calls A) vm x2 of
                                   (None, x3) \<Rightarrow> failed x3
                                 | (Some rec, x3) \<Rightarrow> ends VSMS_Completed CMPI_RC_OK unknown_error (Some (vm_create_ref (vm_uuid rec))) x3))
                       | (_, x1) \<Rightarrow> failed x1)))))"

section \<open>The methods of the service\<close>

datatype snapshot_output =
    No_result
  | Resulting_snapshot vm_path
  | Export_job "export_context xen_job \<times> string \<times> string"
  | End_job "string xen_job \<times> string \<times> string"
  | Import_instructions string
  | Next_disk import_output
  | Imported_system vm_path

definition result_with :: "('a \<Rightarrow> snapshot_output) \<Rightarrow> 'a option \<Rightarrow> snapshot_output" where
  "result_with f r = (case r of None \<Rightarrow> No_result | Some v \<Rightarrow> f v)"

text \<open>A method that is not known has the result zero with a failing status. The outer none is a call that does not return.\<close>

definition snapshot_method ::
    "('p, 'r) vsms_lib \<Rightarrow> 'r vssd_lib \<Rightarrow> ('x, 'r, 'z) snapshot_api_scheme \<Rightarrow> bool \<Rightarrow> string \<Rightarrow> ('p, 'r vssd) method_args \<Rightarrow> 'x \<Rightarrow>
     (int \<times> (cmpi_rc \<times> string) \<times> snapshot_output \<times> 'x) option outcome" where
  "snapshot_method L V A mem methodname argsin x =
     (let plain = (\<lambda>(rc, st, y). Ret (Some (rc, st, No_result, y)))
      in if methodname = ''ApplySnapshot'' then bind_outcome (revert_to_snapshot L A argsin x) plain
         else if methodname = ''DestroySnapshot'' then bind_outcome (destroy_snapshot L A argsin x) plain
         else if methodname = ''CreateSnapshot''
         then bind_outcome (create_snapshot L V A mem argsin x) (\<lambda>(rc, st, op, y). Ret (Some (rc, st, result_with Resulting_snapshot op, y)))
         else if methodname = ''StartSnapshotForestExport''
         then bind_outcome (start_snapshot_forest_export L A mem argsin x) (\<lambda>(rc, st, job, y). Ret (Some (rc, st, result_with Export_job job, y)))
         else if methodname = ''EndSnapshotForestExport''
         then bind_outcome (end_snapshot_forest_export A mem argsin x) (\<lambda>(rc, st, job, y). Ret (Some (rc, st, result_with End_job job, y)))
         else if methodname = ''PrepareSnapshotForestImport''
         then bind_outcome (prepare_snapshot_forest_import L A argsin x) (\<lambda>(rc, st, out, y). Ret (Some (rc, st, result_with Import_instructions out, y)))
         else if methodname = ''CreateNextDiskInImportSequence''
         then bind_outcome (create_next_disk L A argsin x) (\<lambda>r. Ret (map_option (\<lambda>(rc, st, out, y). (rc, st, Next_disk out, y)) r))
         else if methodname = ''CleanupSnapshotForestImport'' then bind_outcome (cleanup_snapshot_forest_import L A argsin x) plain
         else if methodname = ''FinalizeSnapshotForestImport''
         then bind_outcome (finalize_snapshot_forest_import L A argsin x) (\<lambda>(rc, st, op, y). Ret (Some (rc, st, result_with Imported_system op, y)))
         else Ret (Some (0, (CMPI_RC_ERR_METHOD_NOT_AVAILABLE, []), No_result, x)))"

definition snapshot_invoke_method ::
    "'x backend \<Rightarrow> ('p, 'r) vsms_lib \<Rightarrow> 'r vssd_lib \<Rightarrow> ('x, 'r, 'z) snapshot_api_scheme \<Rightarrow> bool \<Rightarrow> cmpi_rc + string \<Rightarrow>
     cmpi_rc \<times> ('p, 'r vssd) arg_value option \<Rightarrow> string \<Rightarrow> ('p, 'r vssd) method_args \<Rightarrow> 'x world \<Rightarrow>
     (int \<times> (cmpi_rc \<times> string) \<times> snapshot_output \<times> 'x world) option outcome" where
  "snapshot_invoke_method X L V A mem entry key methodname argsin w =
     (case credentials entry of
        Inl rc \<Rightarrow> Ret (Some (0, (rc, []), No_result, w))
      | Inr ctx \<Rightarrow>
          bind_outcome (open_session X ctx w)
            (\<lambda>(sess, w1). case sess of
               None \<Rightarrow> Ret (Some (0, (CMPI_RC_ERR_METHOD_NOT_AVAILABLE, ''Unable to connect to Xen''), No_result, w1))
             | Some s \<Rightarrow>
                 if fst key \<noteq> CMPI_RC_OK \<or> snd key = None
                 then Ret (Some (0, (CMPI_RC_ERR_NOT_FOUND, ''Couldnt find the Xen_VirtualSystemSnapshotService object to invoke the method on. Have you specified the '' @
                   quoted ''Name'' @ '' key ?''), No_result, xen_utils_cleanup_session (daemon X) (Some s) w1))
                 else with_session_id s (\<lambda>xenref.
                   bind_outcome (snapshot_method (L\<lparr>session_ref := xenref\<rparr>) V A mem methodname argsin (env_state w1))
                     (\<lambda>r. Ret (map_option (\<lambda>(rc, st, out, e).
                        (rc, st, out, xen_utils_cleanup_session (daemon X) (Some s) (w1\<lparr>env_state := e\<rparr>))) r)))))"

section \<open>The address of the metadata\<close>

lemma length_metadata_text:
  "length (metadata_text ssl a b c) = (if ssl then 78 else 76) + length a + length b + length c"
  by (simp add: metadata_text_def)

text \<open>C6. The address of the metadata is complete exactly as long as the references of the session and of the VM have at most 97
  characters together, whatever the host is called: the buffer is long enough for the 46 characters each that they have.\<close>

theorem metadata_url_bounds:
  "metadata_url ssl ip session vm = metadata_text ssl ip session vm \<longleftrightarrow> length session + length vm \<le> 97"
proof -
  have "take n s = s \<longleftrightarrow> length s \<le> n" for n and s :: string
    by (metis length_take min.cobounded2 min_def nat_le_linear take_all)
  then show ?thesis unfolding metadata_url_def Let_def snprintf_def
    by (simp add: length_metadata_text)
qed

section \<open>What the destruction of a snapshot destroys\<close>

text \<open>The disks with a single user, which is a device of the snapshot; the flags of the disk are not looked at.\<close>

definition single_disks :: "disk_store \<Rightarrow> string set \<Rightarrow> string set" where
  "single_disks S P = {d. \<exists>b \<in> P. users S d = {b}}"

definition destroyed_snapshot :: "disk_store \<Rightarrow> string \<Rightarrow> disk_store" where
  "destroyed_snapshot S vm = (without_vm S vm)\<lparr>vdi_of := vdi_of S |` (- single_disks S (devices S vm))\<rparr>"

definition without_disks :: "disk_store \<Rightarrow> string set \<Rightarrow> disk_store" where
  "without_disks S P = S\<lparr>vdi_of := vdi_of S |` (- single_disks S P)\<rparr>"

lemma without_disks_simps [simp]:
  "vm_of (without_disks S P) = vm_of S" "vbd_of (without_disks S P) = vbd_of S" "users (without_disks S P) = users S"
  "devices (without_disks S P) = devices S"
  by (simp_all add: without_disks_def users_def devices_def fun_eq_iff)

lemma same_user: "users S d = {b} \<Longrightarrow> users S e = {b} \<Longrightarrow> e = d"
proof -
  assume "users S d = {b}" "users S e = {b}"
  then have "b \<in> users S d" "b \<in> users S e" by simp_all
  then show "e = d" by (auto simp: users_def)
qed

lemma single_disk_freed:
  assumes "users S d = {b}"
  shows "(without_disks S P)\<lparr>vdi_of := (vdi_of (without_disks S P))(d := None)\<rparr> = without_disks S (insert b P)"
proof -
  have "single_disks S (insert b P) = insert d (single_disks S P)"
  proof -
    have "users S e = {b} \<longleftrightarrow> e = d" for e using same_user [OF assms] assms by blast
    then show ?thesis unfolding single_disks_def by blast
  qed
  then show ?thesis by (auto simp: without_disks_def restrict_map_def fun_eq_iff)
qed

lemma no_single_disk:
  assumes "\<And>d. users S d \<noteq> {b}"
  shows "without_disks S (insert b P) = without_disks S P"
  using assms by (auto simp: without_disks_def single_disks_def)

lemma snapshot_disk_destroyed:
  assumes D: "disk_service D view" and R: "reliable D view" and S: "closed S" "view x = without_disks S P"
    and b: "vbd_of S b \<noteq> None"  "b \<notin> P"
  shows "\<exists>x'. destroy_snapshot_disks D (b # bs) x = destroy_snapshot_disks D bs x' \<and> view x' = without_disks S (insert b P)"
proof -
  let ?x = "reset_disks D x"
  have x: "view ?x = without_disks S P" "session_ok (vm_calls D) ?x" by (simp_all add: reset_view [OF D] S(2) reset_good [OF R])
  obtain vm dd where v: "vbd_of S b = Some (vm, dd)" using b by auto
  show ?thesis
  proof (cases dd)
    case None
    then have none: "b \<notin> users S d" for d using v by (simp add: users_def)
    obtain r x1 where r: "vbd_get_vdi D b ?x = (r, x1)" by fastforce
    have "r = None"
      using query_callD(2) [OF disk_serviceD(3) [OF D], of b ?x _ x1] r none by (cases r) (auto simp: x(1))
    moreover have "view x1 = without_disks S P" using query_callD(1) [OF disk_serviceD(3) [OF D] r] x(1) by simp
    moreover have "without_disks S (insert b P) = without_disks S P" by (rule no_single_disk) (use none in blast)
    ultimately show ?thesis using r by (intro exI [of _ "reset_disks D x1"]) (simp add: reset_view [OF D])
  next
    case (Some d)
    obtain x1 where x1: "vbd_get_vdi D b ?x = (Some d, x1)" "session_ok (vm_calls D) x1"
      using reliableD(2) [OF R x(2), of b vm d] v Some by (auto simp: x(1))
    have v1: "view x1 = without_disks S P" using query_callD(1) [OF disk_serviceD(3) [OF D] x1(1)] x(1) by simp
    have u: "b \<in> users S d" using v Some by (simp add: users_def)
    have "d \<notin> single_disks S P"
    proof
      assume "d \<in> single_disks S P"
      then obtain c where "c \<in> P" "users S d = {c}" unfolding single_disks_def by blast
      then show False using u b(2) by simp
    qed
    moreover have "vdi_of S d \<noteq> None" using S(1) v Some by (simp add: closed_def)
    ultimately have there: "vdi_of (view x1) d \<noteq> None" by (simp add: v1 without_disks_def)
    obtain us x2 where x2: "vdi_get_vbds D d x1 = (Some us, x2)" "session_ok (vm_calls D) x2"
      using reliableD(3) [OF R x1(2) there] by blast
    have v2: "view x2 = without_disks S P" using query_callD(1) [OF disk_serviceD(4) [OF D] x2(1)] v1 by simp
    have us: "distinct us" "set us = users S d" using query_callD(2) [OF disk_serviceD(4) [OF D] x2(1)] by (simp_all add: v1)
    have one: "length us = 1 \<longleftrightarrow> users S d = {b}" by (rule one_user [OF us u])
    show ?thesis
    proof (cases "users S d = {b}")
      case True
      have "fst (xen_vdi_destroy D d x2)" using reliableD(6) [OF R x2(2)] there v1 v2 by simp
      then have "view (snd (xen_vdi_destroy D d x2)) = without_disks S (insert b P)"
        using change_call_snd [OF disk_serviceD(7) [OF D], of d x2] single_disk_freed [OF True, of P] by (simp add: v2)
      then show ?thesis using x1 x2 one True
        by (intro exI [of _ "reset_disks D (snd (xen_vdi_destroy D d x2))"]) (simp add: reset_view [OF D])
    next
      case False
      have "users S e \<noteq> {b}" for e
      proof
        assume e: "users S e = {b}"
        then have "b \<in> users S e" by simp
        then have "e = d" using v Some by (simp add: users_def)
        with e False show False by simp
      qed
      then have "without_disks S (insert b P) = without_disks S P" by (rule no_single_disk)
      then show ?thesis using x1 x2 one False v2
        by (intro exI [of _ "reset_disks D x2"]) (simp add: reset_view [OF D])
    qed
  qed
qed

lemma snapshot_disks_destroyed:
  assumes D: "disk_service D view" and R: "reliable D view" and S: "closed S"
  shows "view x = without_disks S P \<Longrightarrow> distinct bs \<Longrightarrow> \<forall>b \<in> set bs. vbd_of S b \<noteq> None \<and> b \<notin> P \<Longrightarrow>
    view (destroy_snapshot_disks D bs x) = without_disks S (P \<union> set bs)"
proof (induction bs arbitrary: x P)
  case (Cons b bs)
  obtain x' where x': "destroy_snapshot_disks D (b # bs) x = destroy_snapshot_disks D bs x'" "view x' = without_disks S (insert b P)"
    using snapshot_disk_destroyed [OF D R S Cons.prems(1), of b bs] Cons.prems(3) by auto
  have "view (destroy_snapshot_disks D bs x') = without_disks S (insert b P \<union> set bs)"
    using Cons.prems(2,3) by (intro Cons.IH [OF x'(2)]) auto
  then show ?case unfolding x'(1) by simp
qed simp

text \<open>C5. On a daemon whose calls succeed, DestroySnapshot removes the snapshot and its devices, and of the disks exactly those
  with a single user that is a device of the snapshot, also where the disk is shared or read-only. A disk of which the snapshot
  has two devices stays, although nothing uses it any more; the destruction of a VM removes it.\<close>

theorem snapshot_destroyed:
  assumes D: "disk_service (dev A) view" and R: "reliable (dev A) view" and ok: "session_ok (vm_calls (dev A)) x1"
    and given: "snapshot_given L (vm_calls A) argsin ''AffectedSnapshot'' x = Ret (Some (Some vm), x1)"
    and there: "vm_of (view x1) vm \<noteq> None" "closed (view x1)"
  shows "\<exists>x'. destroy_snapshot L A argsin x = Ret (VSMS_Completed, (CMPI_RC_OK, []), x') \<and>
    view x' = destroyed_snapshot (view x1) vm"
proof -
  let ?S = "view x1" and ?D = "dev A"
  obtain bs x2 where x2: "vm_get_vbds ?D vm x1 = (Some bs, x2)" using reliableD(1) [OF R ok there(1)] by blast
  have bs: "distinct bs" "set bs = devices ?S vm" using query_callD(2) [OF disk_serviceD(2) [OF D] x2] by simp_all
  have "view x2 = without_disks ?S {}"
    using query_callD(1) [OF disk_serviceD(2) [OF D] x2] by (simp add: without_disks_def single_disks_def restrict_map_def)
  moreover have "\<forall>b \<in> set bs. vbd_of ?S b \<noteq> None" using bs(2) by (auto simp: devices_def)
  ultimately have v: "view (destroy_snapshot_disks ?D bs x2) = without_disks ?S (devices ?S vm)"
    using snapshot_disks_destroyed [OF D R there(2), of x2 "{}" bs] bs by simp
  let ?y = "reset_disks ?D (destroy_snapshot_disks ?D bs x2)"
  have vy: "view ?y = without_disks ?S (devices ?S vm)" by (simp add: reset_view [OF D] v)
  have "fst (xen_vm_destroy ?D vm ?y)" by (rule reliableD(8) [OF R reset_good [OF R]]) (simp add: vy there(1))
  then obtain x' where x': "xen_vm_destroy ?D vm ?y = (True, x')" by (cases "xen_vm_destroy ?D vm ?y") auto
  have "view x' = destroyed_snapshot ?S vm"
    using change_callD [OF disk_serviceD(9) [OF D] x']
    by (simp add: vy destroyed_snapshot_def without_vm_def without_disks_def devices_def)
  then show ?thesis using given x2 x'
    by (simp add: destroy_snapshot_def method_status_def xen_utils_set_status_def)
qed

text \<open>Snapshots on top of a daemon, with a plug-in and sessions.\<close>

definition with_snapshots ::
    "('x, unit) resource_api \<Rightarrow> (string \<times> string_map option \<Rightarrow> 'x \<Rightarrow> (bool \<times> string option) \<times> 'x) \<Rightarrow> ('x \<Rightarrow> string option \<times> 'x) \<Rightarrow>
     (string \<Rightarrow> 'x \<Rightarrow> 'x) \<Rightarrow> (string \<times> string \<times> string \<Rightarrow> 'x \<Rightarrow> 'x) \<Rightarrow> ('x, unit) snapshot_api" where
  "with_snapshots R plug own close note =
     (resource_api.extend R (snapshot_api.fields [] no_answer no_answer no_answer no_answer no_answer refused refused plug no_answer refused
        (\<lambda>v x. (None, x)) no_answer (\<lambda>x. (Some ''host'', x)) (\<lambda>x. (Some ''cert'', x)) own close))\<lparr>task_add_to_other_config := note\<rparr>"

lemma with_snapshots_simps [simp]:
  "vm_calls (with_snapshots R plug own close note) = vm_calls R" "task_calls (with_snapshots R plug own close note) = task_calls R"
  "dev (with_snapshots R plug own close note) = dev R" "error_of (with_snapshots R plug own close note) = error_of R"
  "task_add_to_other_config (with_snapshots R plug own close note) = note"
  "call_plugin (with_snapshots R plug own close note) = plug" "own_session (with_snapshots R plug own close note) = own"
  "end_session (with_snapshots R plug own close note) = close"
  "session_address (with_snapshots R plug own close note) = (\<lambda>x. (Some ''host'', x))"
  "session_certificate (with_snapshots R plug own close note) = (\<lambda>x. (Some ''cert'', x))"
  by (simp_all add: with_snapshots_def snapshot_api.defs resource_api.defs)

definition demo_snapshots :: "(demo_disks, unit) snapshot_api" where
  "demo_snapshots = with_snapshots creating_api (\<lambda>r x. ((False, None), x)) (\<lambda>x. (None, x)) (\<lambda>s x. x) (\<lambda>t x. x)"

definition snapshot_lib :: "(unit, unit) vsms_lib" where
  "snapshot_lib = (demo_lib [])\<lparr>key_of := (\<lambda>p n. (CMPI_RC_OK, Some (A_string ''Xen:vm1'')))\<rparr>"

text \<open>The image of a disc that only the snapshot uses is destroyed although it is read-only, and the disk in two of its devices stays.\<close>

theorem snapshot_destroyed_witness:
  "\<exists>x'. destroy_snapshot snapshot_lib demo_snapshots (\<lambda>n. (CMPI_RC_OK, Some (A_ref (Some ())))) demo_store =
       Ret (VSMS_Completed, (CMPI_RC_OK, []), x') \<and>
     vm_of (demo_view x') ''vm1'' = None \<and> vdi_of (demo_view demo_store) ''iso'' = Some (True, False) \<and>
     vdi_of (demo_view x') ''iso'' = None \<and> vdi_of (demo_view x') ''root'' \<noteq> None \<and> vdi_of (demo_view x') ''data'' \<noteq> None"
proof -
  let ?args = "\<lambda>n. (CMPI_RC_OK, Some (A_ref (Some ())))" and ?A = demo_snapshots
  have calls: "vm_calls ?A = vm_calls demo_disk_api" "dev ?A = some_devices demo_disk_api find_vdi"
    by (simp_all add: demo_snapshots_def creating_api_def vm_api.defs)
  have D: "disk_service (dev ?A) demo_view" "reliable (dev ?A) demo_view"
    by (simp_all only: calls some_devices_services demo_disk_service demo_reliable)
  have id: "CMPIStrncpySystemNameFromID True ''Xen:vm1'' 128 = Some ''vm1''" by code_simp
  have given: "snapshot_given snapshot_lib (vm_calls ?A) ?args ''AffectedSnapshot'' demo_store = Ret (Some (Some ''vm1''), demo_store)"
    unfolding calls(1)
    by (simp add: snapshot_given_def GetArgument_def snapshot_lib_def vssd_find_vm_def id demo_disk_api_def answer_def demo_known_def demo_store_def)
  have ok: "session_ok (vm_calls (dev ?A)) demo_store" by (simp add: calls demo_disk_api_def demo_store_def)
  have there: "vm_of (demo_view demo_store) ''vm1'' \<noteq> None" "closed (demo_view demo_store)"
    using demo_closed by (simp_all add: demo_store_def)
  from snapshot_destroyed [OF D ok given there] obtain x' where x':
    "destroy_snapshot snapshot_lib ?A ?args demo_store = Ret (VSMS_Completed, (CMPI_RC_OK, []), x')"
    "demo_view x' = destroyed_snapshot (demo_view demo_store) ''vm1''" by blast
  let ?S = "demo_view demo_store"
  have iso: "users ?S ''iso'' = {''b2''}" unfolding users_def demo_vbds by auto
  have dev: "''b2'' \<in> devices ?S ''vm1''" unfolding devices_def demo_vbds by auto
  have "''iso'' \<in> single_disks ?S (devices ?S ''vm1'')" unfolding single_disks_def using iso dev by blast
  moreover have "''root'' \<notin> single_disks ?S (devices ?S ''vm1'')" "''data'' \<notin> single_disks ?S (devices ?S ''vm1'')"
    unfolding single_disks_def by (auto simp: demo_users simp del: demo_view_simps)
  ultimately have "vdi_of (destroyed_snapshot ?S ''vm1'') ''iso'' = None" "vdi_of (destroyed_snapshot ?S ''vm1'') ''root'' = vdi_of ?S ''root''"
    "vdi_of (destroyed_snapshot ?S ''vm1'') ''data'' = vdi_of ?S ''data''" "vm_of (destroyed_snapshot ?S ''vm1'') ''vm1'' = None"
    by (simp_all add: destroyed_snapshot_def without_vm_def del: demo_view_simps)
  then have "vdi_of (demo_view x') ''iso'' = None" "vdi_of (demo_view x') ''root'' = vdi_of ?S ''root''"
    "vdi_of (demo_view x') ''data'' = vdi_of ?S ''data''" "vm_of (demo_view x') ''vm1'' = None" by (simp_all only: x'(2))
  moreover have "vdi_of ?S ''iso'' = Some (True, False)" "vdi_of ?S ''root'' \<noteq> None" "vdi_of ?S ''data'' \<noteq> None"
    by (simp_all add: demo_store_def)
  ultimately show ?thesis using x'(1) by metis
qed

section \<open>An export that ends\<close>

text \<open>
  What is expected of the daemon and the plug-in: a session is open until it is ended, the disks of a forest are exposed under handles of their own until each is
  closed, and nothing else changes either.
\<close>

record transfers =
  open_sessions :: "string set"
  exposed :: "string set"

definition session_opens :: "transfers \<Rightarrow> string option \<Rightarrow> transfers \<Rightarrow> bool" where
  "session_opens S r S1 \<longleftrightarrow>
     (case r of
        None \<Rightarrow> S1 = S
      | Some s \<Rightarrow> s \<noteq> [] \<and> CHR '','' \<notin> set s \<and> s \<notin> open_sessions S \<and> S1 = S\<lparr>open_sessions := insert s (open_sessions S)\<rparr>)"

definition forest_opens :: "transfers \<Rightarrow> string option \<Rightarrow> transfers \<Rightarrow> bool" where
  "forest_opens S r S1 \<longleftrightarrow>
     (case r of
        None \<Rightarrow> S1 = S
      | Some hs \<Rightarrow> distinct (tokens '','' hs) \<and> set (tokens '','' hs) \<inter> exposed S = {} \<and>
          S1 = S\<lparr>exposed := exposed S \<union> set (tokens '','' hs)\<rparr>)"

definition transfer_service ::
    "('x, 'r, 'z) snapshot_api_scheme \<Rightarrow> ('x \<Rightarrow> string \<Rightarrow> task_record option) \<Rightarrow> ('x \<Rightarrow> transfers) \<Rightarrow> bool" where
  "transfer_service A tasks view \<longleftrightarrow>
     task_service (task_calls A) tasks \<and>
     (\<forall>x. view (clear_task_error (task_calls A) x) = view x) \<and>
     (\<forall>h m x. view (task_set_other_config (task_calls A) h m x) = view x) \<and>
     (\<forall>h x. view (snd (task_get_record (task_calls A) h x)) = view x) \<and>
     (\<forall>x. session_opens (view x) (fst (own_session A x)) (view (snd (own_session A x)))) \<and>
     (\<forall>x. view (snd (session_address A x)) = view x) \<and> (\<forall>x. view (snd (session_certificate A x)) = view x) \<and>
     (\<forall>r x. view (task_add_to_other_config A r x) = view x) \<and>
     (\<forall>r x. view (snd (call_plugin A (''get_record'', r) x)) = view x) \<and>
     (\<forall>r x. forest_opens (view x) (snd (fst (call_plugin A (''expose_forest'', r) x))) (view (snd (call_plugin A (''expose_forest'', r) x)))) \<and>
     (\<forall>s x. view (end_session A s x) = (view x)\<lparr>open_sessions := open_sessions (view x) - {s}\<rparr> \<and>
        tasks (end_session A s x) = tasks x \<and> task_ok (task_calls A) (end_session A s x) = task_ok (task_calls A) x) \<and>
     (\<forall>h x. task_ok (task_calls A) x \<and> h \<in> exposed (view x) \<longrightarrow>
        (\<exists>x1. call_plugin A (''unexpose'', Some [(''record_handle'', h)]) x = ((True, Some ''OK''), x1) \<and> task_ok (task_calls A) x1 \<and>
           tasks x1 = tasks x \<and> view x1 = (view x)\<lparr>exposed := exposed (view x) - {h}\<rparr>))"

lemma transfer_serviceD:
  assumes "transfer_service A tasks view"
  shows "task_service (task_calls A) tasks" "view (clear_task_error (task_calls A) x) = view x"
    "view (task_set_other_config (task_calls A) h m x) = view x" "view (snd (task_get_record (task_calls A) h x)) = view x"
    "session_opens (view x) (fst (own_session A x)) (view (snd (own_session A x)))"
    "view (snd (session_address A x)) = view x" "view (snd (session_certificate A x)) = view x"
    "view (task_add_to_other_config A t x) = view x" "view (snd (call_plugin A (''get_record'', r) x)) = view x"
    "forest_opens (view x) (snd (fst (call_plugin A (''expose_forest'', r) x))) (view (snd (call_plugin A (''expose_forest'', r) x)))"
    "view (end_session A s x) = (view x)\<lparr>open_sessions := open_sessions (view x) - {s}\<rparr>"
    "tasks (end_session A s x) = tasks x" "task_ok (task_calls A) (end_session A s x) = task_ok (task_calls A) x"
    "task_ok (task_calls A) x \<Longrightarrow> h \<in> exposed (view x) \<Longrightarrow>
      \<exists>x1. call_plugin A (''unexpose'', Some [(''record_handle'', h)]) x = ((True, Some ''OK''), x1) \<and> task_ok (task_calls A) x1 \<and>
        tasks x1 = tasks x \<and> view x1 = (view x)\<lparr>exposed := exposed (view x) - {h}\<rparr>"
  using assms by (simp_all add: transfer_service_def del: split_paired_All)

lemma change_state_transfers:
  assumes S: "transfer_service A tasks view"
  shows "view (job_change_state (task_calls A) job st p e d x) = view x"
proof -
  let ?x = "reset_task_error (task_calls A) x"
  have "view (snd (task_get_record (task_calls A) (task_handle job) ?x)) = view x"
    using transfer_serviceD(2,4) [OF S] by (simp add: reset_task_error_def)
  then show ?thesis using transfer_serviceD(3) [OF S]
    by (auto simp: job_change_state_def Let_def split: prod.splits option.splits)
qed

lemma connection_handle_text: "connection_handle s hs = s @ '','' @ hs"
  by (simp add: connection_handle_def snprintf_def)

lemma connection_handle_tokens:
  assumes "s \<noteq> []" and "CHR '','' \<notin> set s"
  shows "xen_utils_copy_to_string_set (connection_handle s hs) '','' = Some (map Some (s # tokens '','' hs))"
proof -
  have "strtok_r '','' (s @ CHR '','' # hs) = Some (s, hs)" by (rule strtok_r_clean) (use assms in auto)
  then have "tokens '','' (connection_handle s hs) = s # tokens '','' hs"
    unfolding connection_handle_text by (subst tokens.simps) simp
  moreover have "filter (\<lambda>t. t \<noteq> []) (tokens '','' hs) = tokens '','' hs"
    by (rule filter_True) (use tokens_clean [of _ "'',''" hs] in blast)
  moreover have "connection_handle s hs \<noteq> []" by (simp add: connection_handle_text)
  ultimately show ?thesis using assms(1) by (simp add: xen_utils_copy_to_string_set_def)
qed

lemma transfer_records_view:
  assumes S: "transfer_service A tasks view"
  shows "get_transfer_records A hs urls certs x = (urls', certs', x') \<Longrightarrow> view x' = view x \<and> (hs = [] \<longrightarrow> urls' = urls)"
proof (induction hs arbitrary: urls certs x)
  case (Cons h hs)
  obtain r x1 where r: "call_plugin A (''get_record'', put_entry ''record_handle'' h None) x = (r, x1)" by fastforce
  have "view x1 = view x" using transfer_serviceD(9) [OF S, of "put_entry ''record_handle'' h None" x] r by simp
  moreover obtain g t where "r = (g, t)" by fastforce
  ultimately show ?case using Cons r by (cases g; cases t) auto
qed simp

lemma note_set_view:
  "transfer_service A tasks view \<Longrightarrow> note_set A h k texts x = Ret y \<Longrightarrow> view y = view x"
  by (auto simp: note_set_def bind_outcome_Ret_iff transfer_serviceD(8) split: option.splits)

lemma unexposed_all:
  assumes S: "transfer_service A tasks view"
  shows "task_ok (task_calls A) x \<Longrightarrow> distinct hs \<Longrightarrow> set hs \<subseteq> exposed (view x) \<Longrightarrow>
    \<exists>x1. unexpose_each A hs c x = Ret (c \<or> hs \<noteq> [], x1) \<and> task_ok (task_calls A) x1 \<and> tasks x1 = tasks x \<and>
      view x1 = (view x)\<lparr>exposed := exposed (view x) - set hs\<rparr>"
proof (induction hs arbitrary: x c)
  case (Cons h hs)
  obtain x1 where x1: "call_plugin A (''unexpose'', Some [(''record_handle'', h)]) x = ((True, Some ''OK''), x1)"
    "task_ok (task_calls A) x1" "tasks x1 = tasks x" "view x1 = (view x)\<lparr>exposed := exposed (view x) - {h}\<rparr>"
    using transfer_serviceD(14) [OF S Cons.prems(1), of h] Cons.prems(3) by auto
  have "set hs \<subseteq> exposed (view x1)" using Cons.prems(2,3) x1(4) by auto
  moreover have "distinct hs" using Cons.prems(2) by simp
  ultimately obtain x2 where x2: "unexpose_each A hs True x1 = Ret (True \<or> hs \<noteq> [], x2)"
    "task_ok (task_calls A) x2" "tasks x2 = tasks x1" "view x2 = (view x1)\<lparr>exposed := exposed (view x1) - set hs\<rparr>"
    using Cons.IH [OF x1(2), of True] by blast
  have "put_entry ''record_handle'' h None = Some [(''record_handle'', h)]" by (simp add: xen_utils_add_to_string_string_map_def)
  then have "unexpose_each A (h # hs) c x = Ret (c \<or> h # hs \<noteq> [], x2)" using x1(1) x2(1) by simp
  moreover have "view x2 = (view x)\<lparr>exposed := exposed (view x) - set (h # hs)\<rparr>" by (simp add: x2(4) x1(4) Diff_insert2 [symmetric])
  moreover have "tasks x2 = tasks x" using x1(3) x2(3) by simp
  ultimately show ?case using x2(2) by blast
qed simp

lemma export_ended:
  assumes S: "transfer_service A tasks view" and s: "s \<noteq> []" "CHR '','' \<notin> set s" "s \<notin> open_sessions V"
    and hs: "distinct (tokens '','' hs)" "set (tokens '','' hs) \<inter> exposed V = {}" "tokens '','' hs \<noteq> []"
    and job: "callback job = connection_handle s hs" "tasks y (task_handle job) = Some rec"
    and y: "view y = V\<lparr>open_sessions := insert s (open_sessions V), exposed := exposed V \<union> set (tokens '','' hs)\<rparr>"
  shows "\<exists>x' rec'. end_snapshot_forest_export_task A job y = Ret x' \<and> view x' = V \<and> tasks x' (task_handle job) = Some rec' \<and>
    job_numbers rec' Job_Completed 100 0"
proof -
  let ?T = "task_calls A" and ?hs = "tokens '','' hs"
  note T = transfer_serviceD(1) [OF S]
  let ?y1 = "job_change_state ?T job Job_Running 0 0 None y"
  obtain m where m: "tasks ?y1 = (tasks y)(task_handle job \<mapsto> rec\<lparr>task_config := m\<rparr>)"
    by (rule change_state_numbers [OF T job(2), of 0 0 Job_Running None]) simp_all
  have y1: "task_ok ?T ?y1" "view ?y1 = view y" by (rule change_state_ok [OF T job(2)], rule change_state_transfers [OF S])
  let ?y2 = "end_session A s ?y1"
  have y2: "task_ok ?T ?y2" "tasks ?y2 = tasks ?y1" "view ?y2 = V\<lparr>exposed := exposed V \<union> set ?hs\<rparr>"
    using y1 s(3) transfer_serviceD(11-13) [OF S, of s ?y1] by (simp_all add: y)
  have "set ?hs \<subseteq> exposed (view ?y2)" by (simp add: y2(3))
  from unexposed_all [OF S y2(1) hs(1) this, of False] obtain y3 where y3: "unexpose_each A ?hs False ?y2 = Ret (?hs \<noteq> [], y3)"
    "tasks y3 = tasks ?y2" "view y3 = (view ?y2)\<lparr>exposed := exposed (view ?y2) - set ?hs\<rparr>" by auto
  have v3: "view y3 = V" using hs(2) by (simp add: y3(3) y2(3) Un_Diff Diff_triv Int_commute)
  have r3: "tasks y3 (task_handle job) = Some (rec\<lparr>task_config := m\<rparr>)" by (simp add: y3(2) y2(2) m)
  let ?x = "job_change_state ?T job Job_Completed 100 0 None y3"
  have run: "end_snapshot_forest_export_task A job y = Ret ?x"
    using y3(1) hs(3) by (simp add: end_snapshot_forest_export_task_def Let_def job(1) connection_handle_tokens [OF s(1,2)] comp_def)
  obtain m' where m': "tasks ?x = (tasks y3)(task_handle job \<mapsto> rec\<lparr>task_config := m\<rparr>\<lparr>task_config := m'\<rparr>)"
    "job_numbers (rec\<lparr>task_config := m\<rparr>\<lparr>task_config := m'\<rparr>) Job_Completed 100 0"
    by (rule change_state_numbers [OF T r3, of 100 0 Job_Completed None]) simp_all
  have "tasks ?x (task_handle job) = Some (rec\<lparr>task_config := m\<rparr>\<lparr>task_config := m'\<rparr>)" by (simp only: m'(1) fun_upd_same)
  moreover have "view ?x = V" by (simp only: change_state_transfers [OF S] v3)
  ultimately show ?thesis using run m'(2) by blast
qed

text \<open>How the job that starts an export ends.\<close>

lemma forest_exposed_ends:
  assumes S: "transfer_service A tasks view" and run: "forest_exposed A job meta hs x = Ret y"
  shows "(\<exists>d z. y = job_change_state (task_calls A) job Job_Exception 100 2 d z) \<or>
    (\<exists>u c s z. meta = Some (u, c, s) \<and> tokens '','' hs \<noteq> [] \<and> view y = view x \<and>
       y = job_change_state (task_calls A) job Job_Completed 100 0 None
         (task_add_to_other_config A (task_handle job, ''ExportConnectionHandle'', connection_handle s hs) z))"
proof -
  let ?hs = "case xen_utils_copy_to_string_set hs '','' of None \<Rightarrow> [] | Some hs \<Rightarrow> map the hs"
  obtain c0 where c0: "(if export_ssl (callback job)
        then (case meta of Some (_, Some cert, _) \<Rightarrow> Ret (Some [Some cert]) | _ \<Rightarrow> Undefined) else Ret None) = Ret c0"
    using run unfolding forest_exposed_def by (auto simp: bind_outcome_Ret_iff)
  obtain urls certs x1 where r: "get_transfer_records A ?hs None c0 x = (urls, certs, x1)" by (metis prod_cases3)
  note run1 = run [unfolded forest_exposed_def c0 bind_outcome.simps r Let_def prod.case]
  have x1: "view x1 = view x" "?hs = [] \<longrightarrow> urls = None" using transfer_records_view [OF S r] by simp_all
  show ?thesis
  proof (cases urls)
    case None
    then have "y = job_failed A job x1" using run1 by simp
    then show ?thesis by (auto simp: job_failed_def)
  next
    case (Some us)
    then have ne: "tokens '','' hs \<noteq> []" using x1(2) by (auto simp: xen_utils_copy_to_string_set_def tokens_Nil split: if_splits)
    obtain x2 where x2: "note_set A (task_handle job) ''DiskImageURIs'' urls x1 = Ret x2"
      using run1 Some by (auto simp: bind_outcome_Ret_iff)
    obtain x3 where x3: "note_set A (task_handle job) ''SSLCertificates'' certs x2 = Ret x3"
      using run1 Some x2 by (auto simp: bind_outcome_Ret_iff)
    obtain u c s where meta: "meta = Some (u, c, s)"
      using run1 Some x2 x3 by (cases meta) auto
    have y: "y = job_change_state (task_calls A) job Job_Completed 100 0 None
        (task_add_to_other_config A (task_handle job, ''ExportConnectionHandle'', connection_handle s hs) x3)"
      using run1 Some x2 x3 meta by simp
    have "view y = view x" unfolding y change_state_transfers [OF S] transfer_serviceD(8) [OF S]
      by (simp only: note_set_view [OF S x3] note_set_view [OF S x2] x1(1))
    then show ?thesis using meta ne y by blast
  qed
qed

lemma metadata_session:
  assumes S: "transfer_service A tasks view" and run: "get_metadata_url_for_vm A vm ssl x = Ret (meta, x1)"
  shows "session_opens (view x) (map_option (\<lambda>(u, c, s). s) meta) (view x1)"
proof (cases "fst (own_session A x)")
  case None
  then show ?thesis using run transfer_serviceD(5) [OF S, of x]
    by (cases "own_session A x") (simp add: get_metadata_url_for_vm_def)
next
  case (Some s)
  obtain y where y: "own_session A x = (Some s, y)" using Some by (cases "own_session A x") simp
  obtain ip y2 where y2: "session_address A y = (ip, y2)" by fastforce
  obtain c y3 where y3: "session_certificate A y2 = (c, y3)" by fastforce
  have "view y3 = view y" using transfer_serviceD(6) [OF S, of y] transfer_serviceD(7) [OF S, of y2] y2 y3 by simp
  then show ?thesis using run transfer_serviceD(5) [OF S, of x] y y2 y3
    by (cases ip) (auto simp: get_metadata_url_for_vm_def)
qed

text \<open>C4. An export that was started leaves nothing behind when it is ended. The job that starts it fails, or it is complete with a handle
  as its last note: its session is open then and at least one disk is exposed, and a job that ends the export with that handle, at any
  later moment at which nothing else was opened, is complete, with the session closed and every disk closed, so that the sessions
  and the exposed disks are those from before the start.\<close>

theorem export_undone:
  assumes S: "transfer_service A tasks view" and start: "start_snapshot_forest_export_task A job x = Ret y"
  shows "(\<exists>d z. y = job_change_state (task_calls A) job Job_Exception 100 2 d z) \<or>
    (\<exists>s hs z. y = job_change_state (task_calls A) job Job_Completed 100 0 None
          (task_add_to_other_config A (task_handle job, ''ExportConnectionHandle'', connection_handle s hs) z) \<and>
       s \<in> open_sessions (view y) \<and> tokens '','' hs \<noteq> [] \<and> set (tokens '','' hs) \<subseteq> exposed (view y) \<and>
       (\<forall>ejob y'. callback ejob = connection_handle s hs \<and> view y' = view y \<and> tasks y' (task_handle ejob) \<noteq> None \<longrightarrow>
          (\<exists>x' rec. end_snapshot_forest_export_task A ejob y' = Ret x' \<and> view x' = view x \<and>
             tasks x' (task_handle ejob) = Some rec \<and> job_numbers rec Job_Completed 100 0)))"
proof -
  let ?c = "callback job" and ?x0 = "job_change_state (task_calls A) job Job_Running 0 0 None x"
  obtain meta x1 where m: "get_metadata_url_for_vm A (export_vm ?c) (export_ssl ?c) ?x0 = Ret (meta, x1)"
    using start by (auto simp: start_snapshot_forest_export_task_def Let_def bind_outcome_Ret_iff)
  have v1: "session_opens (view x) (map_option (\<lambda>(u, c, s). s) meta) (view x1)"
    using metadata_session [OF S m] by (simp only: change_state_transfers [OF S])
  define x2 where "x2 = (case meta of None \<Rightarrow> x1 | Some (url, _) \<Rightarrow> task_add_to_other_config A (task_handle job, ''MetadataURI'', url) x1)"
  have v2: "view x2 = view x1" by (simp add: x2_def transfer_serviceD(8) [OF S] split: option.split)
  note run = start [unfolded start_snapshot_forest_export_task_def Let_def m bind_outcome.simps prod.case, folded x2_def]
  show ?thesis
  proof (cases "plugin_args ?c")
    case None
    then have "y = job_failed A job x2" using run by simp
    then show ?thesis unfolding job_failed_def by blast
  next
    case (Some args)
    obtain g r x3 where r: "call_plugin A (''expose_forest'', plugin_args ?c) x2 = ((g, r), x3)" by (metis prod.exhaust)
    have opened: "forest_opens (view x1) r (view x3)"
      using transfer_serviceD(10) [OF S, where r = "plugin_args ?c" and x = x2] by (simp add: r v2)
    show ?thesis
    proof (cases "r = None \<or> r = Some []")
      case True
      then have "y = job_failed A job x3" using run Some r by auto
      then show ?thesis unfolding job_failed_def by blast
    next
      case False
      then obtain hs where hs: "r = Some hs" "hs \<noteq> []" by auto
      then have fe: "forest_exposed A job meta hs x3 = Ret y" using run Some r by (cases hs) auto
      from forest_exposed_ends [OF S this] show ?thesis
      proof (elim disjE exE conjE)
        fix d z assume "y = job_change_state (task_calls A) job Job_Exception 100 2 d z"
        then show ?thesis by blast
      next
        fix u c s z
        assume meta: "meta = Some (u, c, s)" and ne: "tokens '','' hs \<noteq> []" and vy: "view y = view x3"
          and y: "y = job_change_state (task_calls A) job Job_Completed 100 0 None
            (task_add_to_other_config A (task_handle job, ''ExportConnectionHandle'', connection_handle s hs) z)"
        have s: "s \<noteq> []" "CHR '','' \<notin> set s" "s \<notin> open_sessions (view x)"
          "view x1 = (view x)\<lparr>open_sessions := insert s (open_sessions (view x))\<rparr>"
          using v1 by (simp_all add: meta session_opens_def)
        have h: "distinct (tokens '','' hs)" "set (tokens '','' hs) \<inter> exposed (view x) = {}"
          "view y = (view x)\<lparr>open_sessions := insert s (open_sessions (view x)), exposed := exposed (view x) \<union> set (tokens '','' hs)\<rparr>"
          using opened by (simp_all add: hs(1) forest_opens_def s(4) vy)
        have ends: "\<exists>x' rec'. end_snapshot_forest_export_task A ejob y' = Ret x' \<and> view x' = view x \<and>
             tasks x' (task_handle ejob) = Some rec' \<and> job_numbers rec' Job_Completed 100 0"
          if e: "callback ejob = connection_handle s hs" "view y' = view y" "tasks y' (task_handle ejob) \<noteq> None" for ejob y'
        proof -
          obtain rec where "tasks y' (task_handle ejob) = Some rec" using e(3) by blast
          from export_ended [OF S s(1-3) h(1,2) ne e(1) this e(2) [unfolded h(3)]] show ?thesis .
        qed
        have "s \<in> open_sessions (view y)" "set (tokens '','' hs) \<subseteq> exposed (view y)" by (simp_all add: h(3))
        then show ?thesis using y ne ends by blast
      qed
    qed
  qed
qed

section \<open>An export of two disks\<close>

type_synonym transfer_state = "(task_record option \<times> bool) \<times> transfers"

definition transfer_vms :: "transfer_state vm_api" where
  "transfer_vms = \<lparr>task_calls = lift_tasks one_task,
     vm_calls = \<lparr>session_ok = (\<lambda>s. snd (fst s)), clear_error = (\<lambda>s. ((fst (fst s), True), snd s)), vm_get_all = (\<lambda>s. (Some [], s)),
       vm_get_record = (\<lambda>h s. (None, s)), vm_get_by_uuid = (\<lambda>u s. (None, s)), host_get_address = (\<lambda>h s. (None, s))\<rparr>,
     vm_get_power_state = no_answer, vm_do = (\<lambda>op vm s. s), error_of = (\<lambda>s. \<lparr>ok = snd (fst s), error_description = None\<rparr>)\<rparr>"

definition transfer_plug :: "string \<times> string_map option \<Rightarrow> transfer_state \<Rightarrow> (bool \<times> string option) \<times> transfer_state" where
  "transfer_plug r s =
     (if fst r = ''expose_forest'' then
        (if ''h1'' \<notin> exposed (snd s) \<and> ''h2'' \<notin> exposed (snd s)
         then ((True, Some ''h1,h2''), (fst s, (snd s)\<lparr>exposed := exposed (snd s) \<union> {''h1'', ''h2''}\<rparr>)) else ((False, None), s))
      else if fst r = ''get_record'' then ((True, Some (''<transfer_record url_full_d='' @ [CHR 0x22] @ ''disk'' @ [CHR 0x22] @ ''></transfer_record>'')), s)
      else (case xen_utils_get_from_string_string_map (snd r) ''record_handle'' of
          None \<Rightarrow> ((False, None), s)
        | Some h \<Rightarrow> if h \<in> exposed (snd s) then ((True, Some ''OK''), (fst s, (snd s)\<lparr>exposed := exposed (snd s) - {h}\<rparr>)) else ((False, None), s)))"

definition transfer_login :: "transfer_state \<Rightarrow> string option \<times> transfer_state" where
  "transfer_login s =
     (if ''S1'' \<in> open_sessions (snd s) then (None, s)
      else (Some ''S1'', (fst s, (snd s)\<lparr>open_sessions := insert ''S1'' (open_sessions (snd s))\<rparr>)))"

definition transfer_note :: "string \<times> string \<times> string \<Rightarrow> transfer_state \<Rightarrow> transfer_state" where
  "transfer_note t s =
     ((map_option (\<lambda>r. r\<lparr>task_config := put_entry (fst (snd t)) (snd (snd t)) (task_config r)\<rparr>) (fst (fst s)), snd (fst s)), snd s)"

definition transfer_api :: "(transfer_state, unit) snapshot_api" where
  "transfer_api = with_snapshots (some_resources (idle_hw transfer_vms) (some_devices (idle_disks transfer_vms) no_answer) no_answer)
     transfer_plug transfer_login (\<lambda>k s. (fst s, (snd s)\<lparr>open_sessions := open_sessions (snd s) - {k}\<rparr>)) transfer_note"

definition export_job :: "'a \<Rightarrow> 'a xen_job" where
  "export_job c = \<lparr>job_name = ''Xen_StartSnapshotForestExportJob'', domain_name = ''u1'', ref_cn = ''Xen_StartSnapshotForestExportJob'',
     ref_ns = ''root/cimv2'', job_uuid = Some (replicate 36 CHR ''a''), task_handle = ''ref'', callback = c\<rparr>"

definition forest :: export_context where
  "forest = \<lparr>plugin_args = Some [], export_ssl = False, export_vm = ''vm''\<rparr>"

definition before_export :: transfer_state where
  "before_export = ((Some demo_task, True), \<lparr>open_sessions = {}, exposed = {}\<rparr>)"

definition in_export :: transfer_state where
  "in_export = ((Some (demo_task\<lparr>task_config := Some [(''PercentComplete'', ''100''), (''CIMJobState'', ''7''), (''ErrorCode'', ''0''),
       (''MetadataURI'', ''http://host:80/export_metadata?session_id=S1&amp;ref=vm&amp;include_vhd_parents=true''),
       (''DiskImageURIs'', ''disk.vhd,disk.vhd''), (''ExportConnectionHandle'', ''S1,h1,h2'')]\<rparr>), True),
     \<lparr>open_sessions = {''S1''}, exposed = {''h1'', ''h2''}\<rparr>)"

lemma export_starts: "start_snapshot_forest_export_task transfer_api (export_job forest) before_export = Ret in_export"
  by code_simp

lemma transfer_calls [simp]:
  "task_calls transfer_api = lift_tasks one_task" "call_plugin transfer_api = transfer_plug" "own_session transfer_api = transfer_login"
  "end_session transfer_api = (\<lambda>k s. (fst s, (snd s)\<lparr>open_sessions := open_sessions (snd s) - {k}\<rparr>))"
  "task_add_to_other_config transfer_api = transfer_note" "session_address transfer_api = (\<lambda>x. (Some ''host'', x))"
  "session_certificate transfer_api = (\<lambda>x. (Some ''cert'', x))"
  by (simp_all add: transfer_api_def transfer_vms_def)

lemma transfer_api_service: "transfer_service transfer_api (\<lambda>s. one_task_view (fst s)) snd"
proof -
  have "tokens '','' ''h1,h2'' = [''h1'', ''h2'']" by code_simp
  then have forest: "forest_opens (snd s) (snd (fst (transfer_plug (''expose_forest'', r) s))) (snd (snd (transfer_plug (''expose_forest'', r) s)))" for r s
    by (auto simp: forest_opens_def transfer_plug_def)
  have "session_opens (snd s) (fst (transfer_login s)) (snd (snd (transfer_login s)))" for s
    by (auto simp: session_opens_def transfer_login_def)
  moreover have "transfer_plug (''unexpose'', Some [(''record_handle'', h)]) s =
      ((True, Some ''OK''), (fst s, (snd s)\<lparr>exposed := exposed (snd s) - {h}\<rparr>))" if "h \<in> exposed (snd s)" for h s
    using that by (simp add: transfer_plug_def get_entries)
  moreover have "snd (snd (transfer_plug (''get_record'', r) s)) = snd s" for r s by (simp add: transfer_plug_def)
  moreover have "snd (transfer_note t s) = snd s" for t s by (simp add: transfer_note_def)
  moreover have "snd (clear_task_error (lift_tasks one_task) s) = snd s" "snd (task_set_other_config (lift_tasks one_task) h m s) = snd s"
    "snd (snd (task_get_record (lift_tasks one_task) h s)) = snd s" "task_ok (lift_tasks one_task) s = task_ok one_task (fst s)"
    for h m and s :: transfer_state by (simp_all add: lift_tasks_def split: prod.split)
  ultimately show ?thesis using forest lift_service [OF one_task_service]
    unfolding transfer_service_def by (simp del: split_paired_All split_paired_Ex)
qed

text \<open>The task after a change of state.\<close>

lemma changed_task:
  assumes z: "in_export = job_change_state (lift_tasks one_task) (export_job c) st 100 e d z" and e: "\<bar>e\<bar> < 2 ^ 31"
  shows "\<exists>rec. fst (fst z) = Some rec \<and>
    xen_utils_get_from_string_string_map (task_config (the (fst (fst in_export)))) =
      (xen_utils_get_from_string_string_map (task_config rec))(''PercentComplete'' \<mapsto> show_int 100,
        ''CIMJobState'' \<mapsto> show_int (job_state_code st), ''ErrorCode'' \<mapsto> show_int e) ++ map_of (rev (description_entries e d))"
proof (cases "fst (fst z)")
  case None
  then show ?thesis using z
    by (simp add: job_change_state_def reset_task_error_def lift_tasks_def one_task_def in_export_def split: if_splits)
next
  case (Some rec)
  then have r: "one_task_view (fst z) (task_handle (export_job c)) = Some rec" by (simp add: one_task_view_def export_job_def)
  let ?m = "fold (\<lambda>(k, v). put_entry k v) ([(''PercentComplete'', show_int 100), (''CIMJobState'', show_int (job_state_code st)),
    (''ErrorCode'', show_int e)] @ description_entries e d) (task_config rec)"
  have "one_task_view (fst in_export) = (one_task_view (fst z))(task_handle (export_job c) \<mapsto> rec\<lparr>task_config := ?m\<rparr>)"
    unfolding z by (rule change_state_record [OF lift_service [OF one_task_service] r _ e]) simp
  from fun_cong [OF this, of "''ref''"] have "fst (fst in_export) = Some (rec\<lparr>task_config := ?m\<rparr>)"
    by (simp add: one_task_view_def export_job_def)
  moreover have "task_config (rec\<lparr>task_config := m\<rparr>) = m" for m by simp
  ultimately have "task_config (the (fst (fst in_export))) = ?m" by (simp only: option.sel)
  then show ?thesis using Some changed_config [of "show_int 100" "show_int (job_state_code st)" "show_int e" "description_entries e d" "task_config rec"]
    by simp
qed

lemma exported_config:
  "xen_utils_get_from_string_string_map (task_config (the (fst (fst in_export)))) ''ErrorCode'' = Some ''0''"
  "xen_utils_get_from_string_string_map (task_config (the (fst (fst in_export)))) ''ExportConnectionHandle'' = Some ''S1,h1,h2''"
  by (simp_all add: in_export_def get_entries)

text \<open>Started and ended: the two disks were exposed and the session open in between, and nothing is left.\<close>

theorem export_undone_witness:
  "start_snapshot_forest_export_task transfer_api (export_job forest) before_export = Ret in_export \<and>
   exposed (snd in_export) = {''h1'', ''h2''} \<and>
   (\<exists>x'. end_snapshot_forest_export_task transfer_api (export_job ''S1,h1,h2'') in_export = Ret x' \<and> snd x' = snd before_export)"
proof -
  have "\<nexists>d z. in_export = job_change_state (task_calls transfer_api) (export_job forest) Job_Exception 100 2 d z"
  proof
    assume "\<exists>d z. in_export = job_change_state (task_calls transfer_api) (export_job forest) Job_Exception 100 2 d z"
    then obtain d z where z: "in_export = job_change_state (lift_tasks one_task) (export_job forest) Job_Exception 100 2 d z" by auto
    have "map_of (rev (description_entries 2 d)) ''ErrorCode'' = None" by (simp add: description_entries_def split: option.split)
    then have "xen_utils_get_from_string_string_map (task_config (the (fst (fst in_export)))) ''ErrorCode'' = Some (show_int 2)"
      using changed_task [OF z] by (auto simp: map_add_def)
    moreover have "show_int 2 = ''2''" by code_simp
    ultimately show False using exported_config(1) by simp
  qed
  with export_undone [OF transfer_api_service export_starts]
  obtain s hs z where e: "in_export = job_change_state (task_calls transfer_api) (export_job forest) Job_Completed 100 0 None
      (task_add_to_other_config transfer_api (task_handle (export_job forest), ''ExportConnectionHandle'', connection_handle s hs) z)"
    and ends: "\<forall>ejob y'. callback ejob = connection_handle s hs \<and> snd y' = snd in_export \<and> one_task_view (fst y') (task_handle ejob) \<noteq> None \<longrightarrow>
      (\<exists>x' rec. end_snapshot_forest_export_task transfer_api ejob y' = Ret x' \<and> snd x' = snd before_export \<and>
         one_task_view (fst x') (task_handle ejob) = Some rec \<and> job_numbers rec Job_Completed 100 0)"
    by blast
  have "connection_handle s hs = ''S1,h1,h2''"
    using changed_task [OF e [unfolded transfer_calls]] exported_config(2)
    by (auto simp: transfer_note_def description_entries_def smap.get_put export_job_def)
  then have "\<exists>x' rec. end_snapshot_forest_export_task transfer_api (export_job ''S1,h1,h2'') in_export = Ret x' \<and> snd x' = snd before_export"
    using ends [rule_format, of "export_job ''S1,h1,h2''" in_export] by (auto simp: export_job_def one_task_view_def in_export_def)
  then show ?thesis using export_starts by (simp add: in_export_def)
qed

end
