(* ===== verification/Spec2Isabelle.thy ===== *)
theory Spec2Isabelle
  imports JobQueue StringMap CmpiUtil XenText Session Domain Kvp KvpProvider JobProvider StateChange SettingData SystemDestroy VmView HardwareData DeviceData Provision Resources VmCreate Snapshots
begin

text \<open>
  A model of the core of xs-cim, the CIM provider of XenServer. A CIM client's request reaches one
  provider library; its generic half (\<^verbatim>\<open>src/ProxyProvider.c\<close>, \<^verbatim>\<open>src/ProxyHelper.c\<close>)
  authenticates the caller, opens a session with the Xen daemon, looks up the function table of
  the class, calls it and releases what was opened. The providers of the classes rest on the
  support library (\<^verbatim>\<open>src/xen_utils.c\<close>, \<^verbatim>\<open>src/cmpiutil.c\<close>), and slow methods run as jobs
  on one worker thread (\<^verbatim>\<open>src/Xen_Job_Helper.c\<close>). The services that define, change, copy,
  destroy, snapshot, export and import virtual machines take their arguments as embedded
  instances of setting data, and leave what is slow to jobs, whose records are tasks of the daemon.

  \<^bold>\<open>Theories: the base.\<close> \<open>Prelude\<close>: outcomes of C code (a value, or undefined behaviour), decimal numbers,
  list lemmas, the locale \<open>codec\<close> of text forms, and the shapes of the daemon's calls (\<open>query_call\<close>,
  \<open>change_call\<close>). \<open>CString\<close>: the string functions of the C library that the code calls. \<open>Iterator\<close>: the
  locale \<open>cursor\<close> of enumerations. \<open>StringMap\<close>: string maps and sets of \<^verbatim>\<open>xen_utils.c\<close>. \<open>CmpiUtil\<close>:
  \<^verbatim>\<open>cmpiutil.c\<close>, comparison and printing of CIM data, InstanceIDs. \<open>XenText\<close>: CIM arrays, XML
  escapes, WBEM URIs, transfer records, error messages. \<open>SettingData\<close>: the scanner and the grammar of
  embedded instances (\<^verbatim>\<open>Xen_SettingDataLexer.l\<close>, \<^verbatim>\<open>Xen_SettingDataParser.y\<close> and its actions).
  \<open>Arguments\<close>: the lookup of method arguments and of the system that a method affects.

  \<^bold>\<open>Theories: jobs, sessions and providers.\<close> \<open>JobQueue\<close>: the work list and the worker thread, one step per action
  between two operations on a mutex or condition variable. \<open>JobRecord\<close>: the creation of jobs, their
  states, and the provider of the job classes; \<open>JobProvider\<close>: what a client sees of them. \<open>Session\<close>: sessions
  with the daemon. \<open>ProxyHelper\<close> and \<open>ProxyProvider\<close>: the generic half, with the locale
  \<open>instance_provider\<close>, the contract that it expects of a function table. \<open>Kvp\<close>: key-value pairs, their
  HTTP requests and their provider (\<^verbatim>\<open>Xen_KVP.c\<close>); \<open>KvpProvider\<close>: its function table, an
  interpretation of that contract.

  \<^bold>\<open>Theories: virtual machines.\<close> \<open>Domain\<close>: the cursor over the VMs and their lookup. \<open>ComputerSystem\<close>: the state
  that is shown of a VM, the state changes that are advertised, and the method with its job that
  makes them (\<^verbatim>\<open>Xen_ComputerSystem.c\<close>); \<open>StateChange\<close>: the state machine it implements.
  \<open>VmSettings\<close>, \<open>VmRecord\<close> and \<open>VmView\<close>: the settings of a VM, changed, read into a record, and shown
  (\<^verbatim>\<open>Xen_VirtualSystemSettingData.c\<close>). \<open>HardwareData\<close>: memory and processors
  (\<^verbatim>\<open>Xen_MemorySettingData.c\<close>, \<^verbatim>\<open>Xen_ProcessorSettingData.c\<close>). \<open>DeviceData\<close>: disks, ports
  and consoles (\<^verbatim>\<open>Xen_DiskSettingData.c\<close>, \<^verbatim>\<open>Xen_NetworkPortSettingData.c\<close> and others).
  The service of \<^verbatim>\<open>Xen_VirtualSystemManagementService.c\<close>: \<open>SystemDestroy\<close> (VMs with their
  disks), \<open>Provision\<close> (disks of templates), \<open>Resources\<close> (adding, changing and removing resources),
  \<open>VmCreate\<close> (definition, copying, templates, hosts, dispatch). The service of
  \<^verbatim>\<open>Xen_VirtualSystemSnapshotService.c\<close>: \<open>ImportSequence\<close> (the interpreter of an import) and
  \<open>Snapshots\<close> (everything else).

  \<^bold>\<open>State and effects.\<close> Each function takes and returns the state it touches: a container, the session
  record, the world with its ledger of held objects, or the state \<open>'x\<close> of the daemon as the session sees it. What the
  repository does not contain is a parameter: the Xen SDK, a chain of records of functions on that
  state (\<open>sdk\<close>, \<open>task_sdk\<close>, \<open>vm_api\<close>, \<open>disk_api\<close>, \<open>dev_api\<close>, \<open>settings_api\<close>, \<open>hw_api\<close>, \<open>vsms_api\<close>,
  \<open>resource_api\<close>, \<open>create_api\<close>, \<open>snapshot_api\<close>; \<open>env\<close> for logins), curl and the HTTP server (\<open>http\<close>), the CMPI
  broker (\<open>broker\<close>, \<open>cmpi_lib\<close>, \<open>vsms_lib\<close>, \<open>vssd_lib\<close>), the allocator where failures matter. What a theorem
  needs to know of them is a named predicate, and its witness supplies a concrete instance. Of the
  daemon: \<open>answers\<close>, \<open>lists_stores\<close>, \<open>task_service\<close>, \<open>vm_service\<close>, \<open>obeys\<close>, \<open>disk_service\<close>, \<open>vm_lookups\<close>,
  \<open>reliable\<close>, \<open>settings_service\<close>, \<open>hw_service\<close>, \<open>system_service\<close>, \<open>host_service\<close>, \<open>transfer_service\<close>,
  \<open>names_disks\<close>, and \<open>keeps_calls\<close> and \<open>keeps_copy\<close> for conditions that its calls keep. Of the broker, the server and
  the allocator: \<open>obliging\<close>, \<open>serves\<close>, \<open>roomy\<close>, \<open>prints_paths\<close>. A null dereference, a write past a buffer and
  the use of an indeterminate or freed pointer are the value \<open>Undefined\<close>; a call that never returns is none where the
  code has an endless loop.

  \<^bold>\<open>What is shown.\<close> Jobs run once and in order under every interleaving, no wake-up is lost, work to
  do never deadlocks, and unloading can (\<open>JobQueue\<close>); a change of a job's state is what its client
  sees (\<open>JobRecord\<close>, \<open>JobProvider\<close>). Maps, sets, arrays, URIs, records, InstanceIDs and embedded instances survive
  their text forms, within the buffers given (\<open>StringMap\<close>, \<open>XenText\<close>, \<open>CmpiUtil\<close>, \<open>Kvp\<close>, \<open>SettingData\<close>). Sessions are accounted for on
  every path (\<open>Session\<close>, \<open>KvpProvider\<close>). Enumerations report every resource once and in order, and end
  (\<open>Domain\<close>, \<open>Kvp\<close>, \<open>KvpProvider\<close>). A request to change the state of a VM refines the state machine, and
  completes from the method to the record of its job (\<open>StateChange\<close>). The destruction of a system or a snapshot removes exactly
  the disks that it may, and spares the others (\<open>SystemDestroy\<close>, \<open>Snapshots\<close>). Settings that are written are
  those that are read back (\<open>VmSettings\<close>, \<open>VmView\<close>, \<open>HardwareData\<close>, \<open>DeviceData\<close>), and changes of the hardware take effect
  (\<open>HardwareData\<close>, \<open>Resources\<close>). A new system has the hardware that was asked for, a failed creation leaves nothing, and the hosts that
  can boot a VM are listed (\<open>VmCreate\<close>, \<open>Resources\<close>). The import of a snapshot tree in calls is the import at once
  (\<open>ImportSequence\<close>), and an export that is ended leaves nothing open (\<open>Snapshots\<close>). Each of these also
  names where the code falls short: removal of a key that is part of another, numbers and
  exponents cut by their buffers, a login refused behind a slave host, settings that go to another VM, errors
  reported as success, and pointers that are read while they are null or after they are freed.

  \<^bold>\<open>Bounds and fuel.\<close> Buffer sizes are the ones of the code (128 for an InstanceID, 64 for a name, 512
  for an error message, the computed sizes elsewhere). The loops over a provider's list take fuel,
  because a provider that never reports the end makes them endless; one more than the
  number of resources left is enough, by \<open>enum_loop_publishes\<close>. The client of an import takes a number of calls; as
  many as there are lines are enough, by \<open>import_in_steps\<close>. The loop over the disks of a template has a
  result exactly in the cases of \<open>provisioning_loop_ends\<close>. Other loops are structural or have a measure.

  \<^bold>\<open>What is not modelled.\<close> The services of storage pools (\<^verbatim>\<open>Xen_StoragePoolManagementService.c\<close>)
  and virtual switches, of migration and metrics; the providers of hosts, of the devices themselves, of pools,
  capabilities and associations, which read records of the daemon into properties through the same generic half;
  the indications; the older framework (\<^verbatim>\<open>cmpilify.c\<close>), the traces, and the freeing of memory, except
  where an object is read after it or its release is counted in the ledger. In the modelled services, what the daemon, its
  plug-ins and the broker do is a parameter.
\<close>

end
